(* ===== verification/Prelude.thy ===== *)
theory Prelude
  imports Main "HOL-Library.Sublist"
begin

text \<open>
  The Go fragment the repository is written in.

  A method of the controllers is a program of type \<open>('s, 'a) go\<close>: a function from the
  state to an optional result and the new state. The state is kept in every outcome,
  because a controller persists what it wrote into an object even when the method that
  wrote it failed. The result \<open>None\<close> is a panic (a nil dereference); a Go \<open>error\<close>
  is an ordinary value, as in the source, of type \<open>go_error option\<close> where a method
  returns an error alone and \<open>go_error + 'a\<close> where it returns a value and an error of
  which the callers look at one.

  The theory also holds the parts of Go's standard library the source calls: the errors
  package, the string functions and the formatting verbs.
\<close>

named_theorems exec \<open>symbolic execution of programs\<close>
named_theorems wp_simps \<open>weakest preconditions of the program constructors\<close>
named_theorems emits_intros \<open>which events a program can emit\<close>

section \<open>Programs\<close>

type_synonym ('s, 'a) go = "'s \<Rightarrow> 'a option \<times> 's"

definition ret :: "'a \<Rightarrow> ('s, 'a) go" where
  "ret x = (\<lambda>s. (Some x, s))"

definition panic :: "('s, 'a) go" where
  "panic = (\<lambda>s. (None, s))"

definition bnd :: "('s, 'a) go \<Rightarrow> ('a \<Rightarrow> ('s, 'b) go) \<Rightarrow> ('s, 'b) go" where
  "bnd m f = (\<lambda>s. case m s of (None, s') \<Rightarrow> (None, s') | (Some x, s') \<Rightarrow> f x s')"

text \<open>Dereferencing a Go pointer: nil panics.\<close>

definition deref :: "'a option \<Rightarrow> ('s, 'a) go" where
  "deref p = (case p of None \<Rightarrow> panic | Some x \<Rightarrow> ret x)"

lemma ret_apply [exec]: "ret x s = (Some x, s)"
  by (simp add: ret_def)

lemma panic_apply [exec]: "panic s = (None, s)"
  by (simp add: panic_def)

lemma bnd_apply [exec]:
  "bnd m f s = (case m s of (None, s') \<Rightarrow> (None, s') | (Some x, s') \<Rightarrow> f x s')"
  by (simp add: bnd_def)

lemma deref_apply [exec]: "deref p s = (p, s)"
  by (simp add: deref_def exec split: option.split)

lemma if_apply [exec]: "(if b then m else n) s = (if b then m s else n s)"
  by simp

lemma case_option_apply [exec]:
  "(case z of None \<Rightarrow> m | Some y \<Rightarrow> f y) s = (case z of None \<Rightarrow> m s | Some y \<Rightarrow> f y s)"
  by (simp split: option.split)

lemma case_sum_apply [exec]:
  "(case z of Inl e \<Rightarrow> m e | Inr y \<Rightarrow> f y) s = (case z of Inl e \<Rightarrow> m e s | Inr y \<Rightarrow> f y s)"
  by (simp split: sum.split)

lemma bnd_ret [simp]: "bnd (ret x) f = f x"
  by (rule ext) (simp add: exec)

lemma bnd_panic [simp]: "bnd panic f = panic"
  by (rule ext) (simp add: exec)

lemma bnd_assoc: "bnd (bnd m f) g = bnd m (\<lambda>x. bnd (f x) g)"
  by (rule ext) (simp add: exec split: prod.split option.split)

lemma deref_simps [simp]: "deref None = panic" "deref (Some x) = ret x"
  by (simp_all add: deref_def)

section \<open>Weakest preconditions\<close>

text \<open>
  \<open>wp m Q s\<close>: the run of \<open>m\<close> from \<open>s\<close> ends in an outcome (a result or a panic) and a
  state that satisfy \<open>Q\<close>. Programs are total functions, so this is total correctness.
\<close>

definition wp :: "('s, 'a) go \<Rightarrow> ('a option \<Rightarrow> 's \<Rightarrow> bool) \<Rightarrow> 's \<Rightarrow> bool" where
  "wp m Q s \<longleftrightarrow> Q (fst (m s)) (snd (m s))"

lemma wp_run: "wp m Q s \<longleftrightarrow> (\<forall>x s'. m s = (x, s') \<longrightarrow> Q x s')"
  by (cases "m s") (simp add: wp_def)

lemma wpD: "wp m Q s \<Longrightarrow> m s = (x, s') \<Longrightarrow> Q x s'"
  by (simp add: wp_def)

lemma wp_mono: "wp m Q s \<Longrightarrow> (\<And>x s'. Q x s' \<Longrightarrow> Q' x s') \<Longrightarrow> wp m Q' s"
  by (simp add: wp_def)

lemma wp_conj: "wp m Q s \<Longrightarrow> wp m Q' s \<Longrightarrow> wp m (\<lambda>x s'. Q x s' \<and> Q' x s') s"
  by (simp add: wp_def)

lemma wp_ret [wp_simps]: "wp (ret x) Q s = Q (Some x) s"
  by (simp add: wp_def exec)

lemma wp_panic [wp_simps]: "wp panic Q s = Q None s"
  by (simp add: wp_def exec)

lemma wp_bnd [wp_simps]:
  "wp (bnd m f) Q s =
     wp m (\<lambda>x s'. case x of None \<Rightarrow> Q None s' | Some y \<Rightarrow> wp (f y) Q s') s"
  by (simp add: wp_def exec split: prod.split option.split)

lemma wp_deref [wp_simps]: "wp (deref p) Q s = Q p s"
  by (simp add: wp_def exec)

lemma wp_if [wp_simps]: "wp (if b then m else n) Q s = (if b then wp m Q s else wp n Q s)"
  by simp

lemma wp_case_option [wp_simps]:
  "wp (case z of None \<Rightarrow> m | Some y \<Rightarrow> f y) Q s =
     (case z of None \<Rightarrow> wp m Q s | Some y \<Rightarrow> wp (f y) Q s)"
  by (simp split: option.split)

lemma wp_case_sum [wp_simps]:
  "wp (case z of Inl e \<Rightarrow> m e | Inr y \<Rightarrow> f y) Q s =
     (case z of Inl e \<Rightarrow> wp (m e) Q s | Inr y \<Rightarrow> wp (f y) Q s)"
  by (simp split: sum.split)

lemma wp_bndI:
  assumes "wp m (\<lambda>x s'. case x of None \<Rightarrow> Q None s' | Some y \<Rightarrow> wp (f y) Q s') s"
  shows "wp (bnd m f) Q s"
  using assms by (simp add: wp_bnd)

section \<open>The errors package\<close>

text \<open>
  An error is what it was made by: \<open>ErrNew\<close> for \<open>errors.New\<close> and \<open>fmt.Errorf\<close> without
  \<open>%w\<close>, \<open>ErrWrap p e\<close> for \<open>fmt.Errorf("p: %w", e)\<close>, \<open>ErrJoin\<close> for \<open>errors.Join\<close>,
  \<open>ErrVar\<close> for a package-level error variable (which \<open>errors.Is\<close> recognises by
  identity), and \<open>ErrExternal ty code text\<close> for an error value of a library: its dynamic
  type, the HTTP code its \<open>Code()\<close> method returns, and its text.
\<close>

datatype go_error =
    ErrNew string
  | ErrVar string string
  | ErrWrap string go_error
  | ErrJoin "go_error list"
  | ErrExternal string int string

fun join_lines :: "string list \<Rightarrow> string" where
  "join_lines [] = []"
| "join_lines [x] = x"
| "join_lines (x # y # xs) = x @ [CHR 0x0A] @ join_lines (y # xs)"

fun Error :: "go_error \<Rightarrow> string" where
  "Error (ErrNew t) = t"
| "Error (ErrVar _ t) = t"
| "Error (ErrWrap p e) = p @ '': '' @ Error e"
| "Error (ErrJoin es) = join_lines (map Error es)"
| "Error (ErrExternal _ _ t) = t"

text \<open>The errors \<open>errors.Is\<close> and \<open>errors.As\<close> look at: the tree, depth first.\<close>

fun unwrapped :: "go_error \<Rightarrow> go_error list" where
  "unwrapped (ErrWrap p e) = ErrWrap p e # unwrapped e"
| "unwrapped (ErrJoin es) = ErrJoin es # concat (map unwrapped es)"
| "unwrapped e = [e]"

definition errors_Is :: "go_error option \<Rightarrow> go_error \<Rightarrow> bool" where
  "errors_Is err t = (case err of None \<Rightarrow> False | Some e \<Rightarrow> t \<in> set (unwrapped e))"

text \<open>\<open>errors.As(err, &v)\<close> for a \<open>v\<close> of a library's type: the code of the first such error.\<close>

fun first_code :: "string \<Rightarrow> go_error list \<Rightarrow> int option" where
  "first_code ty [] = None"
| "first_code ty (ErrExternal ty' c t # es) = (if ty' = ty then Some c else first_code ty es)"
| "first_code ty (e # es) = first_code ty es"

definition errors_As :: "go_error option \<Rightarrow> string \<Rightarrow> int option" where
  "errors_As err ty = (case err of None \<Rightarrow> None | Some e \<Rightarrow> first_code ty (unwrapped e))"

text \<open>\<open>errors.Join\<close> drops nil errors and is nil when nothing is left.\<close>

definition errors_Join :: "go_error option list \<Rightarrow> go_error option" where
  "errors_Join es =
     (case List.map_filter (\<lambda>x. x) es of [] \<Rightarrow> None | xs \<Rightarrow> Some (ErrJoin xs))"

definition err_of :: "go_error + 'a \<Rightarrow> go_error option" where
  "err_of r = (case r of Inl e \<Rightarrow> Some e | Inr _ \<Rightarrow> None)"

lemma err_of_simps [simp]: "err_of (Inl e) = Some e" "err_of (Inr x) = None"
  by (simp_all add: err_of_def)

lemma errors_Is_None [simp]: "\<not> errors_Is None t"
  by (simp add: errors_Is_def)

lemma errors_As_None [simp]: "errors_As None ty = None"
  by (simp add: errors_As_def)

lemma errors_Is_self [simp]: "errors_Is (Some (ErrVar n t)) (ErrVar n t)"
  by (simp add: errors_Is_def)

lemma errors_Join_Nil [simp]: "errors_Join [] = None"
  by (simp add: errors_Join_def map_filter_def)

lemma errors_Join_Cons_Some [simp]: "errors_Join (Some e # es) \<noteq> None"
  by (simp add: errors_Join_def map_filter_def)

lemma errors_Join_None_iff: "errors_Join es = None \<longleftrightarrow> (\<forall>e \<in> set es. e = None)"
  by (induction es) (auto simp: errors_Join_def map_filter_def split: list.splits)

section \<open>The strings package\<close>

definition TrimPrefix :: "string \<Rightarrow> string \<Rightarrow> string" where
  "TrimPrefix s p = (if prefix p s then drop (length p) s else s)"

text \<open>\<open>strings.Cut(s, "/")\<close>: the text before the separator, the text after it, and whether
  it occurs; without one the whole text and the empty text.\<close>

definition Cut :: "string \<Rightarrow> char \<Rightarrow> string \<times> string \<times> bool" where
  "Cut s c = (if c \<in> set s
     then (takeWhile (\<lambda>x. x \<noteq> c) s, tl (dropWhile (\<lambda>x. x \<noteq> c) s), True)
     else (s, [], False))"

lemma TrimPrefix_append [simp]: "TrimPrefix (p @ s) p = s"
  by (simp add: TrimPrefix_def)

lemma Cut_append: "c \<notin> set p \<Longrightarrow> Cut (p @ c # r) c = (p, r, True)"
  by (auto simp: Cut_def takeWhile_append dropWhile_append)

text \<open>
  The verb \<open>%q\<close>: the text in double quotes, with quotes, backslashes and the control
  characters of ASCII escaped. A byte above 127 is taken to belong to a printable
  character and copied.
\<close>

definition hex_digit :: "nat \<Rightarrow> char" where
  "hex_digit n = ''0123456789abcdef'' ! n"

definition quote_char :: "char \<Rightarrow> string" where
  "quote_char c =
     (let n = of_char c :: nat in
      if c = CHR 0x22 \<or> c = CHR 0x5C then [CHR 0x5C, c]
      else if n = 7 then [CHR 0x5C, CHR ''a'']
      else if n = 8 then [CHR 0x5C, CHR ''b'']
      else if n = 12 then [CHR 0x5C, CHR ''f'']
      else if n = 10 then [CHR 0x5C, CHR ''n'']
      else if n = 13 then [CHR 0x5C, CHR ''r'']
      else if n = 9 then [CHR 0x5C, CHR ''t'']
      else if n = 11 then [CHR 0x5C, CHR ''v'']
      else if n < 32 \<or> n = 127 then [CHR 0x5C, CHR ''x'', hex_digit (n div 16), hex_digit (n mod 16)]
      else [c])"

definition quoted :: "string \<Rightarrow> string" where
  "quoted s = [CHR 0x22] @ concat (map quote_char s) @ [CHR 0x22]"

section \<open>net/http\<close>

definition StatusNotFound :: int where "StatusNotFound = 404"

end
