(* ===== verification/Types.thy ===== *)
theory Types
  imports Prelude
begin

text \<open>
  The API types of \<open>api/v1alpha1\<close> as records, one per Go struct, with the fields in the
  source's order (\<open>TypeMeta\<close> and the list types' metadata carry nothing the program
  reads and are left out). A pointer field is an \<open>option\<close>, a slice a list (the program
  never tells a nil slice from an empty one), a map a partial function, and a map field
  that the program tests for nil an optional one. Fields whose Go names repeat between
  structs carry the struct's initials.

  The structs of the libraries (Kubernetes' metadata, Cluster API's \<open>Cluster\<close> and
  \<open>Machine\<close>, metal-go's requests and responses, the firewall specification) are records
  of the fields the program reads or writes.
\<close>

section \<open>Kubernetes metadata\<close>

text \<open>Times are instants in nanoseconds from the zero time, durations nanoseconds.\<close>

type_synonym time = int
type_synonym duration = int

definition second :: duration where "second = 1000000000"
definition minute :: duration where "minute = 60 * second"

type_synonym labels = "string \<rightharpoonup> string"

record NamespacedName =
  nnNamespace :: string
  nnName :: string

record GroupVersion =
  gvGroup :: string
  gvVersion :: string

record OwnerReference =
  refAPIVersion :: string
  refKind :: string
  refName :: string
  refUID :: string
  refController :: "bool option"
  refBlockOwnerDeletion :: "bool option"

record ObjectMeta =
  Name :: string
  Namespace :: string
  UID :: string
  Labels :: "labels option"
  Annotations :: "labels option"
  OwnerReferences :: "OwnerReference list"
  Finalizers :: "string list"
  DeletionTimestamp :: "time option"

text \<open>\<open>metav1.ObjectMeta{Name: name, Namespace: namespace}\<close>.\<close>

definition object_meta :: "string \<Rightarrow> string \<Rightarrow> ObjectMeta" where
  "object_meta name namespace = \<lparr>Name = name, Namespace = namespace, UID = [], Labels = None,
     Annotations = None, OwnerReferences = [], Finalizers = [], DeletionTimestamp = None\<rparr>"

datatype ConditionStatus = ConditionTrue | ConditionFalse | ConditionUnknown

record Condition =
  condType :: string
  condStatus :: ConditionStatus
  condReason :: string
  condMessage :: string

definition find_condition :: "string \<Rightarrow> Condition list \<Rightarrow> Condition option" where
  "find_condition t cs = find (\<lambda>c. condType c = t) cs"

section \<open>Cluster API objects\<close>

record ContractVersionedObjectReference =
  irKind :: string
  irName :: string
  irAPIGroup :: string

record Cluster =
  cluster_ObjectMeta :: ObjectMeta
  cluster_Paused :: "bool option"
  cluster_InfrastructureRef :: ContractVersionedObjectReference

record Machine =
  machine_ObjectMeta :: ObjectMeta
  machine_DataSecretName :: "string option"

datatype MachineAddressType = MachineHostName | MachineInternalIP | MachineExternalIP

record MachineAddress =
  maType :: MachineAddressType
  maAddress :: string

section \<open>MetalStackCluster\<close>

definition GroupVersion_v1alpha1 :: GroupVersion where
  "GroupVersion_v1alpha1 =
     \<lparr>gvGroup = ''infrastructure.cluster.x-k8s.io'', gvVersion = ''v1alpha1''\<rparr>"

definition MetalStackClusterKind :: string where
  "MetalStackClusterKind = ''MetalStackCluster''"

definition ClusterFinalizer :: string where
  "ClusterFinalizer = ''metal-stack.infrastructure.cluster.x-k8s.io/cluster''"

definition TagInfraClusterResource :: string where
  "TagInfraClusterResource = ''metal-stack.infrastructure.cluster.x-k8s.io/cluster-resource''"

definition ClusterControlPlaneEndpointDefaultPort :: int where
  "ClusterControlPlaneEndpointDefaultPort = 443"

definition ClusterControlPlaneIPEnsured :: string where
  "ClusterControlPlaneIPEnsured = ''ClusterControlPlaneIPEnsured''"

definition ClusterNodeNetworkEnsured :: string where
  "ClusterNodeNetworkEnsured = ''ClusterNodeNetworkEnsured''"

record APIEndpoint =
  Host :: string
  Port :: int

record MetalStackFirewallDeploymentRef =
  fdrName :: string

record MetalStackClusterSpec =
  ControlPlaneEndpoint :: APIEndpoint
  ProjectID :: string
  NodeNetworkID :: "string option"
  ControlPlaneIP :: "string option"
  Partition :: string
  FirewallDeploymentRef :: "MetalStackFirewallDeploymentRef option"

record MetalStackClusterInitializationStatus =
  Provisioned :: "bool option"

record MetalStackClusterStatus =
  mscs_Ready :: bool
  mscs_Initialization :: MetalStackClusterInitializationStatus
  mscs_FailureReason :: "string option"
  mscs_FailureMessage :: "string option"
  mscs_Conditions :: "Condition list"

record MetalStackCluster =
  msc_ObjectMeta :: ObjectMeta
  msc_Spec :: MetalStackClusterSpec
  msc_Status :: MetalStackClusterStatus

definition MetalStackCluster_GetConditions :: "MetalStackCluster \<Rightarrow> Condition list" where
  "MetalStackCluster_GetConditions c = mscs_Conditions (msc_Status c)"

definition MetalStackCluster_SetConditions ::
    "MetalStackCluster \<Rightarrow> Condition list \<Rightarrow> MetalStackCluster" where
  "MetalStackCluster_SetConditions c conditions =
     c\<lparr>msc_Status := (msc_Status c)\<lparr>mscs_Conditions := conditions\<rparr>\<rparr>"

definition GetClusterName :: "MetalStackCluster \<Rightarrow> string" where
  "GetClusterName c = Namespace (msc_ObjectMeta c) @ ''.'' @ Name (msc_ObjectMeta c)"

section \<open>MetalStackMachine\<close>

definition MetalStackMachineKind :: string where
  "MetalStackMachineKind = ''MetalStackMachine''"

definition MachineFinalizer :: string where
  "MachineFinalizer = ''metal-stack.infrastructure.cluster.x-k8s.io/machine''"

definition TagInfraMachineResource :: string where
  "TagInfraMachineResource = ''metal-stack.infrastructure.cluster.x-k8s.io/machine-resource''"

definition ProviderMachineCreated :: string where
  "ProviderMachineCreated = ''MachineCreated''"

definition ProviderMachineReady :: string where
  "ProviderMachineReady = ''MachineReady''"

definition ProviderMachineHealthy :: string where
  "ProviderMachineHealthy = ''MachineHealthy''"

record MetalStackMachineSpec =
  ProviderID :: string
  Image :: string
  Size :: string

record MetalStackMachineInitializationStatus =
  msmi_Provisioned :: "bool option"

record MetalStackMachineStatus =
  msms_Ready :: bool
  msms_Initialization :: MetalStackMachineInitializationStatus
  msms_FailureReason :: "string option"
  msms_FailureMessage :: "string option"
  msms_Conditions :: "Condition list"
  msms_Addresses :: "MachineAddress list"

record MetalStackMachine =
  msm_ObjectMeta :: ObjectMeta
  msm_Spec :: MetalStackMachineSpec
  msm_Status :: MetalStackMachineStatus

definition MetalStackMachine_GetConditions :: "MetalStackMachine \<Rightarrow> Condition list" where
  "MetalStackMachine_GetConditions c = msms_Conditions (msm_Status c)"

definition MetalStackMachine_SetConditions ::
    "MetalStackMachine \<Rightarrow> Condition list \<Rightarrow> MetalStackMachine" where
  "MetalStackMachine_SetConditions c conditions =
     c\<lparr>msm_Status := (msm_Status c)\<lparr>msms_Conditions := conditions\<rparr>\<rparr>"

section \<open>MetalStackFirewallDeployment and MetalStackFirewallTemplate\<close>

definition MetalStackFirewallDeploymentKind :: string where
  "MetalStackFirewallDeploymentKind = ''MetalStackFirewallDeployment''"

definition FirewallDeploymentFinalizer :: string where
  "FirewallDeploymentFinalizer =
     ''metal-stack.infrastructure.cluster.x-k8s.io/firewall-deployment''"

definition TagFirewallDeploymentResource :: string where
  "TagFirewallDeploymentResource =
     ''metal-stack.infrastructure.cluster.x-k8s.io/firewall-deployment-resource''"

definition ClusterFirewallDeploymentEnsured :: string where
  "ClusterFirewallDeploymentEnsured = ''ClusterFirewallDeploymentEnsured''"

record MetalStackFirewallTemplateRef =
  ftrName :: string

record MetalStackManagedResourceRef =
  mrrName :: string

record MetalStackFirewallAutoUpdate =
  MachineImage :: bool

record MetalStackFirewallDeploymentSpec =
  FirewallTemplateRef :: MetalStackFirewallTemplateRef
  ManagedResourceRef :: "MetalStackManagedResourceRef option"
  AutoUpdate :: "MetalStackFirewallAutoUpdate option"

record MetalStackFirewallDeploymentStatus =
  msfds_Ready :: bool
  msfds_Initialization :: MetalStackClusterInitializationStatus
  msfds_Conditions :: "Condition list"

record MetalStackFirewallDeployment =
  msfd_ObjectMeta :: ObjectMeta
  msfd_Spec :: MetalStackFirewallDeploymentSpec
  msfd_Status :: MetalStackFirewallDeploymentStatus

definition MetalStackFirewallDeployment_GetConditions ::
    "MetalStackFirewallDeployment \<Rightarrow> Condition list" where
  "MetalStackFirewallDeployment_GetConditions c = msfds_Conditions (msfd_Status c)"

definition MetalStackFirewallDeployment_SetConditions ::
    "MetalStackFirewallDeployment \<Rightarrow> Condition list \<Rightarrow> MetalStackFirewallDeployment" where
  "MetalStackFirewallDeployment_SetConditions c conditions =
     c\<lparr>msfd_Status := (msfd_Status c)\<lparr>msfds_Conditions := conditions\<rparr>\<rparr>"

text \<open>The firewall specification of the firewall-controller-manager library.\<close>

record EgressRule =
  eComment :: string
  ePorts :: "int list"
  eProtocol :: string
  eTo :: "string list"

record IngressRule =
  iComment :: string
  iPorts :: "int list"
  iProtocol :: string
  iFrom :: "string list"
  iTo :: "string list"

record InitialRuleSet =
  Egress :: "EgressRule list"
  Ingress :: "IngressRule list"

record FirewallSpec =
  fwSize :: string
  fwImage :: string
  fwNetworks :: "string list"
  fwInitialRuleSet :: "InitialRuleSet option"

record MetalStackFirewallTemplate =
  msft_ObjectMeta :: ObjectMeta
  msft_Spec :: FirewallSpec

section \<open>metal-go requests and responses\<close>

record V1NetworkAllocateRequest =
  nar_Projectid :: string
  nar_Partitionid :: string
  nar_Name :: string
  nar_Description :: string
  nar_Labels :: labels

record V1NetworkFindRequest =
  nfr_Labels :: labels

record V1NetworkResponse =
  nw_ID :: "string option"

record V1IPAllocateRequest =
  iar_Description :: string
  iar_Name :: string
  iar_Networkid :: "string option"
  iar_Projectid :: "string option"
  iar_Tags :: "string list"
  iar_Type :: "string option"

record V1IPResponse =
  ip_Ipaddress :: "string option"
  ip_Type :: "string option"

record V1MachineAllocationNetwork =
  man_Autoacquire :: "bool option"
  man_Networkid :: "string option"

record V1MachineAllocateRequest =
  mar_Partitionid :: "string option"
  mar_Projectid :: "string option"
  mar_PlacementTags :: "string list"
  mar_Tags :: "string list"
  mar_Name :: string
  mar_Hostname :: string
  mar_Sizeid :: "string option"
  mar_Imageid :: "string option"
  mar_Description :: string
  mar_Networks :: "V1MachineAllocationNetwork list"
  mar_Ips :: "string list"
  mar_UserData :: string

record V1MachineProvisioningEvent =
  mpe_Event :: "string option"

record V1MachineRecentProvisioningEvents =
  mre_CrashLoop :: "bool option"
  mre_FailedMachineReclaim :: "bool option"
  mre_Log :: "V1MachineProvisioningEvent list"

record V1MachineNetwork =
  mnw_Networktype :: "string option"
  mnw_Ips :: "string list"

record V1MachineAllocation =
  mal_Hostname :: "string option"
  mal_Project :: "string option"
  mal_Networks :: "V1MachineNetwork list"

record V1PartitionResponse =
  pr_ID :: "string option"

record V1MachineResponse =
  mr_ID :: "string option"
  mr_Liveliness :: "string option"
  mr_Events :: "V1MachineRecentProvisioningEvents option"
  mr_Allocation :: "V1MachineAllocation option"
  mr_Partition :: "V1PartitionResponse option"
  mr_Rackid :: string
  mr_Tags :: "string list"

record V1FirewallEgressRule =
  ver_Comment :: string
  ver_Ports :: "int list"
  ver_Protocol :: string
  ver_To :: "string list"

record V1FirewallIngressRule =
  vir_Comment :: string
  vir_Ports :: "int list"
  vir_Protocol :: string
  vir_From :: "string list"

record V1FirewallRules =
  vfr_Egress :: "V1FirewallEgressRule list"
  vfr_Ingress :: "V1FirewallIngressRule list"

record V1FirewallCreateRequest =
  fcr_Hostname :: string
  fcr_Name :: string
  fcr_Description :: string
  fcr_Partitionid :: "string option"
  fcr_Projectid :: "string option"
  fcr_Tags :: "string list"
  fcr_SSHPubKeys :: "string list"
  fcr_Networks :: "V1MachineAllocationNetwork list"
  fcr_Imageid :: "string option"
  fcr_Sizeid :: "string option"
  fcr_FirewallRules :: "V1FirewallRules option"

record V1FirewallFindRequest =
  ffr_PartitionID :: string
  ffr_AllocationProject :: string
  ffr_Tags :: "string list"

record V1FirewallResponse =
  fw_ID :: "string option"

section \<open>controller-runtime\<close>

record Result =
  RequeueAfter :: duration

definition empty_Result :: Result where
  "empty_Result = \<lparr>RequeueAfter = 0\<rparr>"

record ListOptions =
  Limit :: "int option"
  lo_Namespace :: string
  LabelSelector :: labels

end
