(* ===== verification/External.thy ===== *)
theory External
  imports Types
begin

text \<open>
  Everything outside the repository the controllers rely on.

  A \<open>lib\<close> holds the pure library functions and constants: Cluster API's conditions,
  annotations and owner-reference helpers, controller-runtime's finalizer helpers,
  metal-lib's tags and pointer helpers. It is an argument of the definitions that use it;
  the documented behaviour a theorem relies on is a named predicate over it.

  An \<open>env\<close> holds the services: the Kubernetes API behind the client and the metal-stack
  API. A service is a function from the history of all calls made so far, with their
  answers, to the answer of the next one. Nothing is assumed about it, so it can be any
  server with any other actors; a theorem that needs more of it says so.

  The state of a program is that history and the receiver of the method, the
  reconciler struct with the objects it points to.
\<close>

section \<open>Library functions\<close>

record lib =
  SetCondition :: "Condition \<Rightarrow> Condition list \<Rightarrow> Condition list"
  ContainsFinalizer :: "string list \<Rightarrow> string \<Rightarrow> bool"
  AddFinalizer :: "string list \<Rightarrow> string \<Rightarrow> string list"
  RemoveFinalizer :: "string list \<Rightarrow> string \<Rightarrow> string list"
  HasOwnerRef :: "OwnerReference list \<Rightarrow> OwnerReference \<Rightarrow> bool"
  EnsureOwnerRef :: "OwnerReference list \<Rightarrow> OwnerReference \<Rightarrow> OwnerReference list"
  NewControllerRef :: "ObjectMeta \<Rightarrow> GroupVersion \<Rightarrow> string \<Rightarrow> OwnerReference"
  GroupVersionString :: "GroupVersion \<Rightarrow> string"
  ParseGroupVersion :: "string \<Rightarrow> go_error + GroupVersion"
  ObjectKeyFromObject :: "ObjectMeta \<Rightarrow> NamespacedName"
  IsZero :: "time option \<Rightarrow> bool"
  IsNotFound :: "go_error option \<Rightarrow> bool"
  WithStack :: "go_error \<Rightarrow> go_error"
  Wrapf :: "go_error \<Rightarrow> string \<Rightarrow> go_error"
  IsPaused :: "Cluster \<Rightarrow> ObjectMeta \<Rightarrow> bool"
  IsExternallyManaged :: "ObjectMeta \<Rightarrow> bool"
  IsControlPlaneMachine :: "Machine \<Rightarrow> bool"
  tag_New :: "string \<Rightarrow> string \<Rightarrow> string"
  TagMap_Value :: "string list \<Rightarrow> string \<Rightarrow> string option"
  ptr_Deref :: "string option \<Rightarrow> string \<Rightarrow> string"
  SafeDeref :: "string option \<Rightarrow> string"
  SafeDeref_Partition :: "V1PartitionResponse option \<Rightarrow> V1PartitionResponse"
  tag_ClusterID :: string
  tag_NetworkDefault :: string
  tag_MachineRack :: string
  tag_MachineNetworkPrimaryASN :: string
  tag_MachineChassis :: string
  ClusterNameLabel :: string
  MachineDeploymentNameLabel :: string
  MachineSetNameLabel :: string
  PausedCondition :: string
  PausedReason :: string
  NotPausedReason :: string
  FirewallControllerManagedByAnnotation :: string
  LabelHostname :: string
  LabelTopologyZone :: string
  V1IPBaseTypeEphemeral :: string
  V1IPBaseTypeStatic :: string
  UpdateMachineError :: string

text \<open>\<open>conditions.Set\<close>: the given condition replaces the one of its type, the others stay.\<close>

definition conditions_laws :: "lib \<Rightarrow> bool" where
  "conditions_laws L \<longleftrightarrow>
     (\<forall>c cs. find_condition (condType c) (SetCondition L c cs) = Some c) \<and>
     (\<forall>c cs t. t \<noteq> condType c \<longrightarrow>
        find_condition t (SetCondition L c cs) = find_condition t cs)"

text \<open>The finalizer helpers of controller-runtime.\<close>

definition finalizer_laws :: "lib \<Rightarrow> bool" where
  "finalizer_laws L \<longleftrightarrow>
     (\<forall>fs f. ContainsFinalizer L fs f \<longleftrightarrow> f \<in> set fs) \<and>
     (\<forall>fs f. set (AddFinalizer L fs f) = insert f (set fs)) \<and>
     (\<forall>fs f. set (RemoveFinalizer L fs f) = set fs - {f})"

text \<open>\<open>util.EnsureOwnerRef\<close> gives references among which \<open>util.HasOwnerRef\<close> finds the new one.\<close>

definition owner_laws :: "lib \<Rightarrow> bool" where
  "owner_laws L \<longleftrightarrow> (\<forall>rs r. HasOwnerRef L (EnsureOwnerRef L rs r) r)"

text \<open>The pointer helpers: the pointed-to value, or the default and the zero value.\<close>

definition pointer_laws :: "lib \<Rightarrow> bool" where
  "pointer_laws L \<longleftrightarrow>
     (\<forall>d. ptr_Deref L None d = d) \<and> (\<forall>x d. ptr_Deref L (Some x) d = x) \<and>
     SafeDeref L None = [] \<and> (\<forall>x. SafeDeref L (Some x) = x) \<and>
     SafeDeref_Partition L None = \<lparr>pr_ID = None\<rparr> \<and>
     (\<forall>p. SafeDeref_Partition L (Some p) = p)"

text \<open>\<open>apierrors.IsNotFound\<close> of a nil error.\<close>

definition not_found_laws :: "lib \<Rightarrow> bool" where
  "not_found_laws L \<longleftrightarrow> \<not> IsNotFound L None"

lemma find_condition_SetCondition [simp]:
  "conditions_laws L \<Longrightarrow>
     find_condition t (SetCondition L c cs) =
       (if t = condType c then Some c else find_condition t cs)"
  by (simp add: conditions_laws_def)

lemma finalizer_laws_simps [simp]:
  assumes "finalizer_laws L"
  shows "ContainsFinalizer L fs f \<longleftrightarrow> f \<in> set fs"
    and "set (AddFinalizer L fs f) = insert f (set fs)"
    and "set (RemoveFinalizer L fs f) = set fs - {f}"
  using assms by (simp_all add: finalizer_laws_def)

lemma owner_laws_simps [simp]: "owner_laws L \<Longrightarrow> HasOwnerRef L (EnsureOwnerRef L rs r) r"
  by (simp add: owner_laws_def)

lemma pointer_laws_simps [simp]:
  assumes "pointer_laws L"
  shows "ptr_Deref L None d = d" and "ptr_Deref L (Some x) d = x"
    and "SafeDeref L None = []" and "SafeDeref L (Some x) = x"
    and "SafeDeref_Partition L None = \<lparr>pr_ID = None\<rparr>"
    and "SafeDeref_Partition L (Some p) = p"
  using assms by (simp_all add: pointer_laws_def)

lemma not_found_laws_simps [simp]: "not_found_laws L \<Longrightarrow> \<not> IsNotFound L None"
  by (simp add: not_found_laws_def)

section \<open>Calls and their answers\<close>

text \<open>Calls of the metal-stack API.\<close>

datatype metal_call =
    AllocateNetwork V1NetworkAllocateRequest "go_error + V1NetworkResponse"
  | FreeNetwork string "go_error option"
  | FindNetworks V1NetworkFindRequest "go_error + V1NetworkResponse list"
  | AllocateIP V1IPAllocateRequest "go_error + V1IPResponse"
  | FindIP string "go_error + V1IPResponse"
  | FreeIP string "go_error option"
  | AllocateMachine V1MachineAllocateRequest "go_error + V1MachineResponse"
  | FindMachine string "go_error + V1MachineResponse"
  | FreeMachine string "go_error option"
  | AllocateFirewall V1FirewallCreateRequest "go_error + V1FirewallResponse"
  | FindFirewalls V1FirewallFindRequest "go_error + V1FirewallResponse list"

text \<open>
  Calls of the Kubernetes API, directly or through Cluster API's helpers. \<open>NewHelper\<close> is
  \<open>patch.NewHelper\<close> for one of the four kinds of objects.
\<close>

datatype kube_object =
    OCluster MetalStackCluster
  | OMachine MetalStackMachine
  | OFirewallDeployment MetalStackFirewallDeployment
  | OFirewallTemplate MetalStackFirewallTemplate

datatype kube_call =
    GetMetalStackCluster NamespacedName "go_error + MetalStackCluster"
  | GetMetalStackMachine NamespacedName "go_error + MetalStackMachine"
  | GetFirewallDeployment NamespacedName "go_error + MetalStackFirewallDeployment"
  | GetFirewallTemplate NamespacedName "go_error + MetalStackFirewallTemplate"
  | GetSecret NamespacedName "go_error + labels"
  | GetOwnerCluster ObjectMeta "go_error + Cluster option"
  | GetOwnerMachine ObjectMeta "go_error + Machine option"
  | GetClusterFromMetadata ObjectMeta "go_error + Cluster option"
  | ListMachines ListOptions "go_error + MetalStackMachine list"
  | ListFirewallDeployments string string "go_error + MetalStackFirewallDeployment list"
  | UpdateFirewallDeployment MetalStackFirewallDeployment "go_error option"
  | DeleteFirewallDeployment MetalStackFirewallDeployment "go_error option"
  | NewHelper kube_object "go_error option"
  | PatchObject kube_object kube_object "go_error option"

datatype event = Metal metal_call | Kube kube_call | Now time

type_synonym history = "event list"

section \<open>Services\<close>

record env =
  metal_AllocateNetwork :: "history \<Rightarrow> V1NetworkAllocateRequest \<Rightarrow> go_error + V1NetworkResponse"
  metal_FreeNetwork :: "history \<Rightarrow> string \<Rightarrow> go_error option"
  metal_FindNetworks :: "history \<Rightarrow> V1NetworkFindRequest \<Rightarrow> go_error + V1NetworkResponse list"
  metal_AllocateIP :: "history \<Rightarrow> V1IPAllocateRequest \<Rightarrow> go_error + V1IPResponse"
  metal_FindIP :: "history \<Rightarrow> string \<Rightarrow> go_error + V1IPResponse"
  metal_FreeIP :: "history \<Rightarrow> string \<Rightarrow> go_error option"
  metal_AllocateMachine :: "history \<Rightarrow> V1MachineAllocateRequest \<Rightarrow> go_error + V1MachineResponse"
  metal_FindMachine :: "history \<Rightarrow> string \<Rightarrow> go_error + V1MachineResponse"
  metal_FreeMachine :: "history \<Rightarrow> string \<Rightarrow> go_error option"
  metal_AllocateFirewall :: "history \<Rightarrow> V1FirewallCreateRequest \<Rightarrow> go_error + V1FirewallResponse"
  metal_FindFirewalls :: "history \<Rightarrow> V1FirewallFindRequest \<Rightarrow> go_error + V1FirewallResponse list"
  kube_GetMetalStackCluster :: "history \<Rightarrow> NamespacedName \<Rightarrow> go_error + MetalStackCluster"
  kube_GetMetalStackMachine :: "history \<Rightarrow> NamespacedName \<Rightarrow> go_error + MetalStackMachine"
  kube_GetFirewallDeployment ::
    "history \<Rightarrow> NamespacedName \<Rightarrow> go_error + MetalStackFirewallDeployment"
  kube_GetFirewallTemplate ::
    "history \<Rightarrow> NamespacedName \<Rightarrow> go_error + MetalStackFirewallTemplate"
  kube_GetSecret :: "history \<Rightarrow> NamespacedName \<Rightarrow> go_error + labels"
  kube_GetOwnerCluster :: "history \<Rightarrow> ObjectMeta \<Rightarrow> go_error + Cluster option"
  kube_GetOwnerMachine :: "history \<Rightarrow> ObjectMeta \<Rightarrow> go_error + Machine option"
  kube_GetClusterFromMetadata :: "history \<Rightarrow> ObjectMeta \<Rightarrow> go_error + Cluster option"
  kube_ListMachines :: "history \<Rightarrow> ListOptions \<Rightarrow> go_error + MetalStackMachine list"
  kube_ListFirewallDeployments ::
    "history \<Rightarrow> string \<Rightarrow> string \<Rightarrow> go_error + MetalStackFirewallDeployment list"
  kube_UpdateFirewallDeployment ::
    "history \<Rightarrow> MetalStackFirewallDeployment \<Rightarrow> go_error option"
  kube_DeleteFirewallDeployment ::
    "history \<Rightarrow> MetalStackFirewallDeployment \<Rightarrow> go_error option"
  kube_NewHelper :: "history \<Rightarrow> kube_object \<Rightarrow> go_error option"
  kube_PatchObject :: "history \<Rightarrow> kube_object \<Rightarrow> kube_object \<Rightarrow> go_error option"
  time_Now :: "history \<Rightarrow> time"

section \<open>The state of a program and its calls\<close>

record 'r st =
  hist :: history
  self :: 'r

definition get_self :: "('r st, 'r) go" where
  "get_self = (\<lambda>s. (Some (self s), s))"

definition mod_self :: "('r \<Rightarrow> 'r) \<Rightarrow> ('r st, unit) go" where
  "mod_self f = (\<lambda>s. (Some (), s\<lparr>self := f (self s)\<rparr>))"

definition call :: "(history \<Rightarrow> 'b) \<Rightarrow> ('b \<Rightarrow> event) \<Rightarrow> ('r st, 'b) go" where
  "call f ev = (\<lambda>s. let r = f (hist s) in (Some r, s\<lparr>hist := hist s @ [ev r]\<rparr>))"

text \<open>Run a method on a receiver of its own; its last value is returned beside the result.\<close>

definition with_self :: "'q \<Rightarrow> ('q st, 'a) go \<Rightarrow> ('r st, 'a \<times> 'q) go" where
  "with_self q m = (\<lambda>s. case m \<lparr>hist = hist s, self = q\<rparr> of
     (x, t) \<Rightarrow> (map_option (\<lambda>a. (a, self t)) x, s\<lparr>hist := hist t\<rparr>))"

lemma get_self_apply [exec]: "get_self s = (Some (self s), s)"
  by (simp add: get_self_def)

lemma mod_self_apply [exec]: "mod_self f s = (Some (), s\<lparr>self := f (self s)\<rparr>)"
  by (simp add: mod_self_def)

lemma call_apply [exec]:
  "call f ev s = (Some (f (hist s)), s\<lparr>hist := hist s @ [ev (f (hist s))]\<rparr>)"
  by (simp add: call_def Let_def)

lemma wp_get_self [wp_simps]: "wp get_self Q s = Q (Some (self s)) s"
  by (simp add: wp_def exec)

lemma wp_mod_self [wp_simps]: "wp (mod_self f) Q s = Q (Some ()) (s\<lparr>self := f (self s)\<rparr>)"
  by (simp add: wp_def exec)

lemma wp_call [wp_simps]:
  "wp (call f ev) Q s = Q (Some (f (hist s))) (s\<lparr>hist := hist s @ [ev (f (hist s))]\<rparr>)"
  by (simp add: wp_def exec)

lemma wp_with_self [wp_simps]:
  "wp (with_self q m) Q s =
     wp m (\<lambda>x t. Q (map_option (\<lambda>a. (a, self t)) x) (s\<lparr>hist := hist t\<rparr>))
       \<lparr>hist = hist s, self = q\<rparr>"
  by (simp add: wp_def with_self_def split: prod.split)

section \<open>The calls as programs\<close>

abbreviation do_AllocateNetwork :: "env \<Rightarrow> V1NetworkAllocateRequest \<Rightarrow> ('r st, go_error + V1NetworkResponse) go" where
  "do_AllocateNetwork E x \<equiv> call (\<lambda>h. metal_AllocateNetwork E h x) (\<lambda>y. Metal (AllocateNetwork x y))"

abbreviation do_FreeNetwork :: "env \<Rightarrow> string \<Rightarrow> ('r st, go_error option) go" where
  "do_FreeNetwork E x \<equiv> call (\<lambda>h. metal_FreeNetwork E h x) (\<lambda>y. Metal (FreeNetwork x y))"

abbreviation do_FindNetworks :: "env \<Rightarrow> V1NetworkFindRequest \<Rightarrow> ('r st, go_error + V1NetworkResponse list) go" where
  "do_FindNetworks E x \<equiv> call (\<lambda>h. metal_FindNetworks E h x) (\<lambda>y. Metal (FindNetworks x y))"

abbreviation do_AllocateIP :: "env \<Rightarrow> V1IPAllocateRequest \<Rightarrow> ('r st, go_error + V1IPResponse) go" where
  "do_AllocateIP E x \<equiv> call (\<lambda>h. metal_AllocateIP E h x) (\<lambda>y. Metal (AllocateIP x y))"

abbreviation do_FindIP :: "env \<Rightarrow> string \<Rightarrow> ('r st, go_error + V1IPResponse) go" where
  "do_FindIP E x \<equiv> call (\<lambda>h. metal_FindIP E h x) (\<lambda>y. Metal (FindIP x y))"

abbreviation do_FreeIP :: "env \<Rightarrow> string \<Rightarrow> ('r st, go_error option) go" where
  "do_FreeIP E x \<equiv> call (\<lambda>h. metal_FreeIP E h x) (\<lambda>y. Metal (FreeIP x y))"

abbreviation do_AllocateMachine :: "env \<Rightarrow> V1MachineAllocateRequest \<Rightarrow> ('r st, go_error + V1MachineResponse) go" where
  "do_AllocateMachine E x \<equiv> call (\<lambda>h. metal_AllocateMachine E h x) (\<lambda>y. Metal (AllocateMachine x y))"

abbreviation do_FindMachine :: "env \<Rightarrow> string \<Rightarrow> ('r st, go_error + V1MachineResponse) go" where
  "do_FindMachine E x \<equiv> call (\<lambda>h. metal_FindMachine E h x) (\<lambda>y. Metal (FindMachine x y))"

abbreviation do_FreeMachine :: "env \<Rightarrow> string \<Rightarrow> ('r st, go_error option) go" where
  "do_FreeMachine E x \<equiv> call (\<lambda>h. metal_FreeMachine E h x) (\<lambda>y. Metal (FreeMachine x y))"

abbreviation do_AllocateFirewall :: "env \<Rightarrow> V1FirewallCreateRequest \<Rightarrow> ('r st, go_error + V1FirewallResponse) go" where
  "do_AllocateFirewall E x \<equiv> call (\<lambda>h. metal_AllocateFirewall E h x) (\<lambda>y. Metal (AllocateFirewall x y))"

abbreviation do_FindFirewalls :: "env \<Rightarrow> V1FirewallFindRequest \<Rightarrow> ('r st, go_error + V1FirewallResponse list) go" where
  "do_FindFirewalls E x \<equiv> call (\<lambda>h. metal_FindFirewalls E h x) (\<lambda>y. Metal (FindFirewalls x y))"

abbreviation do_GetMetalStackCluster :: "env \<Rightarrow> NamespacedName \<Rightarrow> ('r st, go_error + MetalStackCluster) go" where
  "do_GetMetalStackCluster E x \<equiv> call (\<lambda>h. kube_GetMetalStackCluster E h x) (\<lambda>y. Kube (GetMetalStackCluster x y))"

abbreviation do_GetMetalStackMachine :: "env \<Rightarrow> NamespacedName \<Rightarrow> ('r st, go_error + MetalStackMachine) go" where
  "do_GetMetalStackMachine E x \<equiv> call (\<lambda>h. kube_GetMetalStackMachine E h x) (\<lambda>y. Kube (GetMetalStackMachine x y))"

abbreviation do_GetFirewallDeployment :: "env \<Rightarrow> NamespacedName \<Rightarrow> ('r st, go_error + MetalStackFirewallDeployment) go" where
  "do_GetFirewallDeployment E x \<equiv> call (\<lambda>h. kube_GetFirewallDeployment E h x) (\<lambda>y. Kube (GetFirewallDeployment x y))"

abbreviation do_GetFirewallTemplate :: "env \<Rightarrow> NamespacedName \<Rightarrow> ('r st, go_error + MetalStackFirewallTemplate) go" where
  "do_GetFirewallTemplate E x \<equiv> call (\<lambda>h. kube_GetFirewallTemplate E h x) (\<lambda>y. Kube (GetFirewallTemplate x y))"

abbreviation do_GetSecret :: "env \<Rightarrow> NamespacedName \<Rightarrow> ('r st, go_error + labels) go" where
  "do_GetSecret E x \<equiv> call (\<lambda>h. kube_GetSecret E h x) (\<lambda>y. Kube (GetSecret x y))"

abbreviation do_GetOwnerCluster :: "env \<Rightarrow> ObjectMeta \<Rightarrow> ('r st, go_error + Cluster option) go" where
  "do_GetOwnerCluster E x \<equiv> call (\<lambda>h. kube_GetOwnerCluster E h x) (\<lambda>y. Kube (GetOwnerCluster x y))"

abbreviation do_GetOwnerMachine :: "env \<Rightarrow> ObjectMeta \<Rightarrow> ('r st, go_error + Machine option) go" where
  "do_GetOwnerMachine E x \<equiv> call (\<lambda>h. kube_GetOwnerMachine E h x) (\<lambda>y. Kube (GetOwnerMachine x y))"

abbreviation do_GetClusterFromMetadata :: "env \<Rightarrow> ObjectMeta \<Rightarrow> ('r st, go_error + Cluster option) go" where
  "do_GetClusterFromMetadata E x \<equiv> call (\<lambda>h. kube_GetClusterFromMetadata E h x) (\<lambda>y. Kube (GetClusterFromMetadata x y))"

abbreviation do_ListMachines :: "env \<Rightarrow> ListOptions \<Rightarrow> ('r st, go_error + MetalStackMachine list) go" where
  "do_ListMachines E x \<equiv> call (\<lambda>h. kube_ListMachines E h x) (\<lambda>y. Kube (ListMachines x y))"

abbreviation do_UpdateFirewallDeployment :: "env \<Rightarrow> MetalStackFirewallDeployment \<Rightarrow> ('r st, go_error option) go" where
  "do_UpdateFirewallDeployment E x \<equiv> call (\<lambda>h. kube_UpdateFirewallDeployment E h x) (\<lambda>y. Kube (UpdateFirewallDeployment x y))"

abbreviation do_DeleteFirewallDeployment :: "env \<Rightarrow> MetalStackFirewallDeployment \<Rightarrow> ('r st, go_error option) go" where
  "do_DeleteFirewallDeployment E x \<equiv> call (\<lambda>h. kube_DeleteFirewallDeployment E h x) (\<lambda>y. Kube (DeleteFirewallDeployment x y))"

abbreviation do_NewHelper :: "env \<Rightarrow> kube_object \<Rightarrow> ('r st, go_error option) go" where
  "do_NewHelper E x \<equiv> call (\<lambda>h. kube_NewHelper E h x) (\<lambda>y. Kube (NewHelper x y))"

abbreviation do_ListFirewallDeployments ::
    "env \<Rightarrow> string \<Rightarrow> string \<Rightarrow> ('r st, go_error + MetalStackFirewallDeployment list) go" where
  "do_ListFirewallDeployments E ns tmpl \<equiv>
     call (\<lambda>h. kube_ListFirewallDeployments E h ns tmpl)
       (\<lambda>y. Kube (ListFirewallDeployments ns tmpl y))"

abbreviation do_Patch ::
    "env \<Rightarrow> kube_object \<Rightarrow> kube_object \<Rightarrow> ('r st, go_error option) go" where
  "do_Patch E before after \<equiv>
     call (\<lambda>h. kube_PatchObject E h before after) (\<lambda>y. Kube (PatchObject before after y))"

abbreviation do_Now :: "env \<Rightarrow> ('r st, time) go" where
  "do_Now E \<equiv> call (\<lambda>h. time_Now E h) (\<lambda>t. Now t)"

section \<open>Which events a program emits\<close>

text \<open>\<open>emits P m\<close>: a run of \<open>m\<close> only appends to the history, and only events in \<open>P\<close>.\<close>

definition emits :: "(event \<Rightarrow> bool) \<Rightarrow> ('r st, 'a) go \<Rightarrow> bool" where
  "emits P m \<longleftrightarrow>
     (\<forall>s. \<exists>tr. hist (snd (m s)) = hist s @ tr \<and> list_all P tr)"

lemma emitsD:
  assumes "emits P m" and "m s = (x, s')"
  obtains tr where "hist s' = hist s @ tr" and "list_all P tr"
  using assms unfolding emits_def by (metis snd_conv)

lemma emits_mono: "emits P m \<Longrightarrow> (\<And>e. P e \<Longrightarrow> Q e) \<Longrightarrow> emits Q m"
  unfolding emits_def by (metis list.pred_mono_strong)

lemma emits_ret [emits_intros]: "emits P (ret x)"
  by (simp add: emits_def exec)

lemma emits_panic [emits_intros]: "emits P panic"
  by (simp add: emits_def exec)

lemma emits_deref [emits_intros]: "emits P (deref p)"
  by (simp add: emits_def exec)

lemma emits_get_self [emits_intros]: "emits P get_self"
  by (simp add: emits_def exec)

lemma emits_mod_self [emits_intros]: "emits P (mod_self f)"
  by (simp add: emits_def exec)

lemma emits_call [emits_intros]: "(\<And>r. P (ev r)) \<Longrightarrow> emits P (call f ev)"
  by (simp add: emits_def exec)

lemma emits_bnd [emits_intros]:
  assumes "emits P m" and "\<And>x. emits P (f x)"
  shows "emits P (bnd m f)"
  unfolding emits_def
proof (intro allI)
  fix s
  obtain x t where m: "m s = (x, t)" by fastforce
  obtain tr where tr: "hist t = hist s @ tr" "list_all P tr"
    using assms(1) m by (rule emitsD)
  show "\<exists>tr. hist (snd (bnd m f s)) = hist s @ tr \<and> list_all P tr"
  proof (cases x)
    case None
    with m tr show ?thesis by (simp add: exec)
  next
    case (Some y)
    obtain z u where f: "f y t = (z, u)" by fastforce
    obtain tr' where "hist u = hist t @ tr'" "list_all P tr'"
      using assms(2) f by (rule emitsD)
    with m f tr Some show ?thesis by (simp add: exec)
  qed
qed

lemma emits_if [emits_intros]: "(b \<Longrightarrow> emits P m) \<Longrightarrow> (\<not> b \<Longrightarrow> emits P n) \<Longrightarrow> emits P (if b then m else n)"
  by simp

lemma emits_case_option [emits_intros]:
  "(z = None \<Longrightarrow> emits P m) \<Longrightarrow> (\<And>y. z = Some y \<Longrightarrow> emits P (f y)) \<Longrightarrow>
     emits P (case z of None \<Rightarrow> m | Some y \<Rightarrow> f y)"
  by (simp split: option.split)

lemma emits_case_sum [emits_intros]:
  "(\<And>e. z = Inl e \<Longrightarrow> emits P (m e)) \<Longrightarrow> (\<And>y. z = Inr y \<Longrightarrow> emits P (f y)) \<Longrightarrow>
     emits P (case z of Inl e \<Rightarrow> m e | Inr y \<Rightarrow> f y)"
  by (simp split: sum.split)

lemma emits_case_prod [emits_intros]:
  "(\<And>a b. emits P (f a b)) \<Longrightarrow> emits P (case z of (a, b) \<Rightarrow> f a b)"
  by (simp split: prod.split)

lemma emits_with_self [emits_intros]: "emits P m \<Longrightarrow> emits P (with_self q m)"
  unfolding emits_def with_self_def by (simp split: prod.split) (metis select_convs(1) snd_conv)

lemma emits_wp: "emits P m \<Longrightarrow> wp m (\<lambda>x s'. \<exists>tr. hist s' = hist s @ tr \<and> list_all P tr) s"
  by (simp add: emits_def wp_def)

lemma emits_nothing: "emits (\<lambda>_. False) m \<Longrightarrow> hist (snd (m s)) = hist s"
  unfolding emits_def by (metis append_Nil2 list.exhaust list.pred_inject(2))

text \<open>\<open>emits_at_most n P m\<close>: a run of \<open>m\<close> appends at most \<open>n\<close> events in \<open>P\<close>.\<close>

definition emits_at_most :: "nat \<Rightarrow> (event \<Rightarrow> bool) \<Rightarrow> ('r st, 'a) go \<Rightarrow> bool" where
  "emits_at_most n P m \<longleftrightarrow>
     (\<forall>s. \<exists>tr. hist (snd (m s)) = hist s @ tr \<and> length (filter P tr) \<le> n)"

lemma emits_at_mostD:
  assumes "emits_at_most n P m" and "m s = (x, s')" and "hist s' = hist s @ tr"
  shows "length (filter P tr) \<le> n"
  using assms unfolding emits_at_most_def by (metis same_append_eq snd_conv)

lemma emits_none: "emits (\<lambda>e. \<not> P e) m \<Longrightarrow> emits_at_most n P m"
  unfolding emits_at_most_def emits_def list_all_iff
  by (metis filter_False le0 list.size(3))

lemma emits_at_most_call: "emits_at_most 1 P (call f ev)"
  by (simp add: emits_at_most_def exec)

lemma emits_at_most_add:
  assumes "emits_at_most n P m" and "\<And>x. emits_at_most k P (f x)"
  shows "emits_at_most (n + k) P (bnd m f)"
  unfolding emits_at_most_def
proof
  fix s
  obtain x t where m: "m s = (x, t)" by fastforce
  with assms(1) obtain tr where tr: "hist t = hist s @ tr" "length (filter P tr) \<le> n"
    unfolding emits_at_most_def by (metis snd_conv)
  show "\<exists>tr. hist (snd (bnd m f s)) = hist s @ tr \<and> length (filter P tr) \<le> n + k"
  proof (cases x)
    case None
    with m tr show ?thesis by (simp add: exec)
  next
    case (Some y)
    obtain z u where f: "f y t = (z, u)" by fastforce
    with assms(2) [of y] obtain tr' where "hist u = hist t @ tr'" "length (filter P tr') \<le> k"
      unfolding emits_at_most_def by (metis snd_conv)
    with m f tr Some show ?thesis by (simp add: exec)
  qed
qed

lemma emits_at_most_last:
  "emits (\<lambda>e. \<not> P e) m \<Longrightarrow> (\<And>x. emits_at_most n P (f x)) \<Longrightarrow> emits_at_most n P (bnd m f)"
  using emits_at_most_add [OF emits_none, of P m n f 0] by simp

lemma emits_at_most_first:
  "emits_at_most n P m \<Longrightarrow> (\<And>x. emits (\<lambda>e. \<not> P e) (f x)) \<Longrightarrow> emits_at_most n P (bnd m f)"
  using emits_at_most_add [OF _ emits_none, of n P m f 0] by simp

lemma emits_at_most_branches:
  "(b \<Longrightarrow> emits_at_most n P m) \<Longrightarrow> (\<not> b \<Longrightarrow> emits_at_most n P m') \<Longrightarrow>
     emits_at_most n P (if b then m else m')"
  "emits_at_most n P m \<Longrightarrow> (\<And>y. emits_at_most n P (f y)) \<Longrightarrow>
     emits_at_most n P (case z of None \<Rightarrow> m | Some y \<Rightarrow> f y)"
  "(\<And>e. emits_at_most n P (g e)) \<Longrightarrow> (\<And>y. emits_at_most n P (h y)) \<Longrightarrow>
     emits_at_most n P (case v of Inl e \<Rightarrow> g e | Inr y \<Rightarrow> h y)"
  by (simp_all split: option.split sum.split)

fun is_metal :: "event \<Rightarrow> bool" where
  "is_metal (Metal c) = True"
| "is_metal _ = False"

text \<open>Metal calls that change something, and those of them that create something.\<close>

fun is_allocation :: "event \<Rightarrow> bool" where
  "is_allocation (Metal (AllocateNetwork _ _)) = True"
| "is_allocation (Metal (AllocateIP _ _)) = True"
| "is_allocation (Metal (AllocateMachine _ _)) = True"
| "is_allocation (Metal (AllocateFirewall _ _)) = True"
| "is_allocation _ = False"

fun is_release :: "event \<Rightarrow> bool" where
  "is_release (Metal (FreeNetwork _ _)) = True"
| "is_release (Metal (FreeIP _ _)) = True"
| "is_release (Metal (FreeMachine _ _)) = True"
| "is_release _ = False"

fun is_patch :: "event \<Rightarrow> bool" where
  "is_patch (Kube (PatchObject a b r)) = True"
| "is_patch _ = False"

end
