(* ===== verification/Owners.thy ===== *)
theory Owners
  imports External
begin

text \<open>
  \<open>util/owners.go\<close>: the MetalStackCluster that owns a resource. The loop over the owner
  references is a recursion with its early returns.
\<close>

definition GetInfraClusterByName ::
    "lib \<Rightarrow> env \<Rightarrow> string \<Rightarrow> string \<Rightarrow> ('r st, go_error + MetalStackCluster) go" where
  "GetInfraClusterByName L E namespace name =
     (let key = \<lparr>nnNamespace = namespace, nnName = name\<rparr> in
      bnd (do_GetMetalStackCluster E key) (\<lambda>r.
      case r of
        Inl err \<Rightarrow> ret (Inl (Wrapf L err (''failed to get Cluster/'' @ name)))
      | Inr infraCluster \<Rightarrow> ret (Inr infraCluster)))"

fun owner_loop ::
    "lib \<Rightarrow> env \<Rightarrow> string \<Rightarrow> OwnerReference list \<Rightarrow>
       ('r st, go_error + MetalStackCluster option) go" where
  "owner_loop L E namespace [] = ret (Inr None)"
| "owner_loop L E namespace (ref # refs) =
     (if refKind ref \<noteq> MetalStackClusterKind then owner_loop L E namespace refs
      else case ParseGroupVersion L (refAPIVersion ref) of
        Inl err \<Rightarrow> ret (Inl (WithStack L err))
      | Inr gv \<Rightarrow>
          if gvGroup gv = gvGroup GroupVersion_v1alpha1
          then bnd (GetInfraClusterByName L E namespace (refName ref)) (\<lambda>r.
               case r of Inl err \<Rightarrow> ret (Inl err) | Inr c \<Rightarrow> ret (Inr (Some c)))
          else owner_loop L E namespace refs)"

definition GetOwnerMetalStackCluster ::
    "lib \<Rightarrow> env \<Rightarrow> ObjectMeta \<Rightarrow> ('r st, go_error + MetalStackCluster option) go" where
  "GetOwnerMetalStackCluster L E obj =
     owner_loop L E (Namespace obj) (OwnerReferences obj)"

text \<open>The references the loop passes over, and the one it stops at.\<close>

definition skipped_ref :: "lib \<Rightarrow> OwnerReference \<Rightarrow> bool" where
  "skipped_ref L ref \<longleftrightarrow> refKind ref \<noteq> MetalStackClusterKind \<or>
     (\<exists>gv. ParseGroupVersion L (refAPIVersion ref) = Inr gv \<and>
           gvGroup gv \<noteq> gvGroup GroupVersion_v1alpha1)"

lemma owner_loop_skip:
  "list_all (skipped_ref L) pre \<Longrightarrow>
     owner_loop L E ns (pre @ refs) = owner_loop L E ns refs"
  by (induction pre) (auto simp: skipped_ref_def)

lemma owner_loop_none: "list_all (skipped_ref L) refs \<Longrightarrow> owner_loop L E ns refs s = (Some (Inr None), s)"
  by (induction refs) (auto simp: skipped_ref_def exec)

lemma owner_loop_hit:
  assumes "refKind ref = MetalStackClusterKind"
    and "ParseGroupVersion L (refAPIVersion ref) = Inr gv"
    and "gvGroup gv = gvGroup GroupVersion_v1alpha1"
  shows "owner_loop L E ns (ref # refs) =
     bnd (GetInfraClusterByName L E ns (refName ref)) (\<lambda>r.
       case r of Inl err \<Rightarrow> ret (Inl err) | Inr c \<Rightarrow> ret (Inr (Some c)))"
  using assms by simp

lemma emits_GetInfraClusterByName [emits_intros]:
  "(\<And>k r. P (Kube (GetMetalStackCluster k r))) \<Longrightarrow> emits P (GetInfraClusterByName L E ns n)"
  unfolding GetInfraClusterByName_def Let_def by (intro emits_intros)

lemma emits_owner_loop:
  "(\<And>k r. P (Kube (GetMetalStackCluster k r))) \<Longrightarrow> emits P (owner_loop L E ns refs)"
proof (induction refs)
  case Nil
  show ?case by (simp add: emits_ret)
next
  case (Cons ref refs)
  then show ?case by (auto intro!: emits_intros split: sum.split)
qed

lemma emits_GetOwnerMetalStackCluster [emits_intros]:
  "(\<And>k r. P (Kube (GetMetalStackCluster k r))) \<Longrightarrow> emits P (GetOwnerMetalStackCluster L E m)"
  unfolding GetOwnerMetalStackCluster_def by (rule emits_owner_loop)

text \<open>A found owner is one the loop did read: its namespace is the resource's own.\<close>

lemma owner_loop_found:
  assumes "owner_loop L E ns refs s = (Some (Inr (Some c)), s')"
  shows "\<exists>pre ref post. refs = pre @ ref # post \<and> list_all (skipped_ref L) pre \<and>
     refKind ref = MetalStackClusterKind \<and>
     kube_GetMetalStackCluster E (hist s) \<lparr>nnNamespace = ns, nnName = refName ref\<rparr> = Inr c \<and>
     hist s' = hist s @ [Kube (GetMetalStackCluster \<lparr>nnNamespace = ns, nnName = refName ref\<rparr> (Inr c))]"
  using assms
proof (induction refs)
  case Nil
  then show ?case by (simp add: exec)
next
  case (Cons ref refs)
  show ?case
  proof (cases "skipped_ref L ref")
    case True
    then have "owner_loop L E ns (ref # refs) s = owner_loop L E ns refs s"
      by (auto simp: skipped_ref_def)
    with Cons.prems have "owner_loop L E ns refs s = (Some (Inr (Some c)), s')" by simp
    from Cons.IH [OF this] obtain pre r post where
      "refs = pre @ r # post" "list_all (skipped_ref L) pre" "refKind r = MetalStackClusterKind"
      "kube_GetMetalStackCluster E (hist s) \<lparr>nnNamespace = ns, nnName = refName r\<rparr> = Inr c"
      "hist s' = hist s @ [Kube (GetMetalStackCluster \<lparr>nnNamespace = ns, nnName = refName r\<rparr> (Inr c))]"
      by blast
    with True show ?thesis by (intro exI [of _ "ref # pre"]) auto
  next
    case False
    then show ?thesis using Cons.prems
      by (intro exI [of _ "[]"])
        (auto simp: skipped_ref_def exec GetInfraClusterByName_def Let_def
           split: sum.splits if_splits)
  qed
qed

end
