(* ===== verification/Reconciler.thy ===== *)
theory Reconciler
  imports External
begin

text \<open>
  What the three \<open>Reconcile\<close> functions share: they build a patch helper, write the
  \<open>Paused\<close> condition, switch between doing nothing (paused), deleting, adding the finalizer
  and reconciling, and patch the object. Each controller's own definitions are in its own
  theory; here are the constants of \<open>internal/controller/constants.go\<close> and the contract as
  two locales, with the safety of the whole reconciliation derived from it once.
\<close>

definition conditionMessageReconciliationPaused :: string where
  "conditionMessageReconciliationPaused = ''Reconciliation is paused''"

definition conditionMessageReconciliationNotPaused :: string where
  "conditionMessageReconciliationNotPaused = ''Reconciliation is not paused''"

definition conditionMessageInternalError :: string where
  "conditionMessageInternalError = ''InternalError''"

definition TagControlPlanePurpose :: "lib \<Rightarrow> string" where
  "TagControlPlanePurpose L =
     tag_New L ''metal-stack.infrastructure.cluster.x-k8s.io/purpose'' ''control-plane''"

text \<open>\<open>conditions.Set\<close> on the cluster object, through its accessors.\<close>

definition set_cluster_condition :: "lib \<Rightarrow> Condition \<Rightarrow> MetalStackCluster \<Rightarrow> MetalStackCluster" where
  "set_cluster_condition L c ic =
     MetalStackCluster_SetConditions ic (SetCondition L c (MetalStackCluster_GetConditions ic))"

text \<open>The list call both controllers make before a teardown: one machine of the cluster is
  enough to wait.\<close>

definition machines_of_cluster :: "lib \<Rightarrow> Cluster \<Rightarrow> ListOptions" where
  "machines_of_cluster L cluster =
     \<lparr>Limit = Some 1,
      lo_Namespace = Namespace (cluster_ObjectMeta cluster),
      LabelSelector = [ClusterNameLabel L \<mapsto> Name (cluster_ObjectMeta cluster)]\<rparr>"

text \<open>
  The teardown gate: it lets the deletion go on exactly when the list call succeeds and finds
  no machine.
\<close>

locale machines_gate =
  fixes L :: lib
    and E :: env
    and gate :: "('r st, go_error option) go"
    and cluster :: "'r \<Rightarrow> Cluster"
  assumes gate_law: "gate s =
     (let q = machines_of_cluster L (cluster (self s)); resp = kube_ListMachines E (hist s) q in
      (Some (case resp of
          Inl err \<Rightarrow> Some (ErrWrap ''failed to fetch machines'' err)
        | Inr items \<Rightarrow> if length items > 0
            then Some (ErrNew ''waiting for all infra machines to be gone'') else None),
       s\<lparr>hist := hist s @ [Kube (ListMachines q resp)]\<rparr>))"
begin

abbreviation gate_request :: "'r st \<Rightarrow> ListOptions" where
  "gate_request s \<equiv> machines_of_cluster L (cluster (self s))"

lemma gate_asks:
  "wp gate (\<lambda>x s'. self s' = self s \<and> x \<noteq> None \<and>
     (\<exists>resp. hist s' = hist s @ [Kube (ListMachines (gate_request s) resp)] \<and>
     (x = Some None \<longleftrightarrow> resp = Inr []))) s"
  by (auto simp: wp_def gate_law Let_def split: sum.splits)

lemma gate_opens:
  assumes "gate s = (Some None, s')"
  shows "self s' = self s" and
    "hist s' = hist s @ [Kube (ListMachines (gate_request s) (Inr []))]"
  using assms by (auto simp: gate_law Let_def split: sum.splits if_splits)

end

text \<open>The switch of a \<open>Reconcile\<close>, with the deletion handler's own guard.\<close>

locale switch =
  fixes body :: "('r st, 'b) go"
    and delete :: "('r st, 'b) go"
    and reconcile :: "('r st, 'b) go"
    and skip :: 'b
    and paused :: "'r \<Rightarrow> bool"
    and deleting :: "'r \<Rightarrow> bool"
    and has_finalizer :: "'r \<Rightarrow> bool"
    and add_finalizer :: "'r \<Rightarrow> 'r"
  assumes body_paused: "paused (self s) \<Longrightarrow> body s = (Some skip, s)"
    and body_delete: "\<not> paused (self s) \<Longrightarrow> deleting (self s) \<Longrightarrow> body s = delete s"
    and body_finalizer:
      "\<not> paused (self s) \<Longrightarrow> \<not> deleting (self s) \<Longrightarrow> \<not> has_finalizer (self s) \<Longrightarrow>
         body s = (Some skip, s\<lparr>self := add_finalizer (self s)\<rparr>)"
    and body_reconcile:
      "\<not> paused (self s) \<Longrightarrow> \<not> deleting (self s) \<Longrightarrow> has_finalizer (self s) \<Longrightarrow>
         body s = reconcile s"
    and delete_guard: "\<not> has_finalizer (self s) \<Longrightarrow> delete s = (Some skip, s)"
begin

lemma body_silent:
  assumes "paused (self s) \<or> \<not> has_finalizer (self s)"
  shows "fst (body s) = Some skip \<and> hist (snd (body s)) = hist s"
proof (cases "paused (self s)")
  case True
  then show ?thesis by (simp add: body_paused)
next
  case False
  with assms show ?thesis
    by (cases "deleting (self s)") (simp_all add: body_delete delete_guard body_finalizer)
qed

end

text \<open>
  The whole \<open>Reconcile\<close> after its lookups: nothing but the switch talks to the metal-stack
  API, and writing the \<open>Paused\<close> condition does not change what the switch decides on.
\<close>

locale reconciler = switch body delete reconcile skip paused deleting has_finalizer add_finalizer
  for body delete reconcile :: "('r st, 'b) go"
    and skip :: 'b
    and paused deleting has_finalizer :: "'r \<Rightarrow> bool"
    and add_finalizer :: "'r \<Rightarrow> 'r" +
  fixes dispatch :: "('r st, 'b) go"
    and prepare :: "'r \<Rightarrow> ('r st, go_error option) go"
    and fail :: "go_error \<Rightarrow> 'b"
    and mark :: "'r \<Rightarrow> 'r"
    and finish :: "'r \<Rightarrow> 'b \<Rightarrow> ('r st, 'b) go"
  assumes dispatch_law:
      "dispatch = bnd get_self (\<lambda>r. bnd (prepare r) (\<lambda>err.
         case err of Some e \<Rightarrow> ret (fail e)
         | None \<Rightarrow> bnd (mod_self mark) (\<lambda>_. bnd body (finish r))))"
    and prepare_self: "wp (prepare r) (\<lambda>_ s'. self s' = self s) s"
    and prepare_silent: "emits (\<lambda>e. \<not> is_metal e) (prepare r)"
    and finish_silent: "emits (\<lambda>e. \<not> is_metal e) (finish r b)"
    and mark_paused: "paused (mark r) = paused r"
    and mark_finalizer: "has_finalizer (mark r) = has_finalizer r"
begin

lemma dispatch_appends:
  assumes "emits P (prepare (self s))" and "\<And>b. emits P (finish (self s) b)"
    and "\<And>t. self t = mark (self s) \<Longrightarrow> \<exists>tr. hist (snd (body t)) = hist t @ tr \<and> list_all P tr"
  shows "\<exists>tr. hist (snd (dispatch s)) = hist s @ tr \<and> list_all P tr"
proof -
  obtain x t where p: "prepare (self s) s = (x, t)" by fastforce
  obtain tr where tr: "hist t = hist s @ tr" "list_all P tr"
    using assms(1) p by (rule emitsD)
  have st: "self t = self s" using wpD [OF prepare_self p] .
  show ?thesis
  proof (cases "x = Some None")
    case False
    with p tr show ?thesis
      by (auto simp: dispatch_law exec split: option.split)
  next
    case True
    define u where "u = t\<lparr>self := mark (self t)\<rparr>"
    obtain y v where b: "body u = (y, v)" by fastforce
    have u: "self u = mark (self s)" "hist u = hist t" by (simp_all add: u_def st)
    from assms(3) [OF u(1)] b u(2) obtain tr1 where tr1: "hist v = hist t @ tr1" "list_all P tr1" by auto
    show ?thesis
    proof (cases y)
      case None
      with p b True tr tr1 show ?thesis by (simp add: dispatch_law exec u_def [symmetric])
    next
      case (Some r)
      obtain z w where f: "finish (self s) r v = (z, w)" by fastforce
      obtain tr2 where "hist w = hist v @ tr2" "list_all P tr2"
        using assms(2) f by (rule emitsD)
      with p b f Some True tr tr1 show ?thesis by (simp add: dispatch_law exec u_def [symmetric])
    qed
  qed
qed

lemma dispatch_silent:
  assumes "paused (self s) \<or> \<not> has_finalizer (self s)"
  shows "\<exists>tr. hist (snd (dispatch s)) = hist s @ tr \<and> list_all (\<lambda>e. \<not> is_metal e) tr"
proof (rule dispatch_appends [OF prepare_silent finish_silent])
  fix t :: "'r st"
  assume "self t = mark (self s)"
  with assms have "paused (self t) \<or> \<not> has_finalizer (self t)"
    by (simp add: mark_paused mark_finalizer)
  from body_silent [OF this]
  show "\<exists>tr. hist (snd (body t)) = hist t @ tr \<and> list_all (\<lambda>e. \<not> is_metal e) tr" by simp
qed

lemma dispatch_runs:
  assumes "dispatch s = (Some x, s')"
  shows "(\<exists>e. prepare (self s) s = (Some (Some e), s') \<and> x = fail e) \<or>
    (\<exists>t y u. prepare (self s) s = (Some None, t) \<and> body (t\<lparr>self := mark (self s)\<rparr>) = (Some y, u) \<and>
       finish (self s) y u = (Some x, s'))"
proof -
  obtain z t where p: "prepare (self s) s = (z, t)" by fastforce
  have "self t = self s" using wpD [OF prepare_self p] .
  with assms p show ?thesis
    by (auto simp: dispatch_law exec split: option.splits prod.splits)
qed

lemma metal_event_guarded:
  assumes "dispatch s = (x, s')" and "hist s' = hist s @ tr" and "e \<in> set tr" and "is_metal e"
  shows "\<not> paused (self s) \<and> has_finalizer (self s)"
  using dispatch_silent [of s] assms by (fastforce simp: list_all_iff)

end

end
