(* ===== verification/ClusterController.thy ===== *)
theory ClusterController
  imports Owners Reconciler
begin

text \<open>
  \<open>internal/controller/metalstackcluster_controller.go\<close>: the reconciliation of a
  MetalStackCluster. The receiver \<open>clusterReconciler\<close> is the state of its methods; the
  metal-stack client and the Kubernetes client are the argument \<open>E\<close>, the library functions
  \<open>L\<close>. First the methods in the order of the calls, then what each of them does, then the
  properties of the component.
\<close>

section \<open>The methods\<close>

record clusterReconciler =
  cr_cluster :: Cluster
  cr_infraCluster :: MetalStackCluster

type_synonym 'a cluster_prog = "(clusterReconciler st, 'a) go"

abbreviation modify_cluster :: "(MetalStackCluster \<Rightarrow> MetalStackCluster) \<Rightarrow> unit cluster_prog" where
  "modify_cluster f \<equiv> mod_self (cr_infraCluster_update f)"

abbreviation modify_cluster_spec ::
    "(MetalStackClusterSpec \<Rightarrow> MetalStackClusterSpec) \<Rightarrow> unit cluster_prog" where
  "modify_cluster_spec f \<equiv> modify_cluster (msc_Spec_update f)"

definition node_network_request :: "lib \<Rightarrow> MetalStackCluster \<Rightarrow> V1NetworkAllocateRequest" where
  "node_network_request L ic =
     \<lparr>nar_Projectid = ProjectID (msc_Spec ic),
      nar_Partitionid = Partition (msc_Spec ic),
      nar_Name = Name (msc_ObjectMeta ic),
      nar_Description = Namespace (msc_ObjectMeta ic) @ ''/'' @ Name (msc_ObjectMeta ic),
      nar_Labels = [tag_ClusterID L \<mapsto> GetClusterName ic]\<rparr>"

definition ensureNodeNetwork :: "lib \<Rightarrow> env \<Rightarrow> (go_error + string) cluster_prog" where
  "ensureNodeNetwork L E =
     bnd get_self (\<lambda>r. let ic = cr_infraCluster r in
     case NodeNetworkID (msc_Spec ic) of
       Some nodeNetworkID \<Rightarrow> ret (Inr nodeNetworkID)
     | None \<Rightarrow>
         bnd (do_AllocateNetwork E (node_network_request L ic)) (\<lambda>resp.
         case resp of
           Inl err \<Rightarrow> ret (Inl (ErrWrap ''error creating node network'' err))
         | Inr payload \<Rightarrow> bnd (deref (nw_ID payload)) (\<lambda>i. ret (Inr i))))"

definition deleteNodeNetwork :: "env \<Rightarrow> go_error option cluster_prog" where
  "deleteNodeNetwork E =
     bnd get_self (\<lambda>r.
     case NodeNetworkID (msc_Spec (cr_infraCluster r)) of
       None \<Rightarrow> ret None
     | Some nodeNetworkID \<Rightarrow>
         bnd (do_FreeNetwork E nodeNetworkID) (\<lambda>err.
         case err of Some e \<Rightarrow> ret (Some e) | None \<Rightarrow> ret None))"

text \<open>The name of the firewall deployment in the spec; a nil reference panics.\<close>

definition firewall_deployment_key :: "clusterReconciler \<Rightarrow> NamespacedName cluster_prog" where
  "firewall_deployment_key r =
     bnd (deref (FirewallDeploymentRef (msc_Spec (cr_infraCluster r)))) (\<lambda>ref.
     ret \<lparr>nnNamespace = Namespace (cluster_ObjectMeta (cr_cluster r)), nnName = fdrName ref\<rparr>)"

definition own_firewall_deployment ::
    "lib \<Rightarrow> clusterReconciler \<Rightarrow> OwnerReference \<Rightarrow>
       MetalStackFirewallDeployment \<Rightarrow> MetalStackFirewallDeployment" where
  "own_firewall_deployment L r ownerRef fwdeploy =
     (let m = msfd_ObjectMeta fwdeploy;
          labels = (case Labels m of None \<Rightarrow> Map.empty | Some ls \<Rightarrow> ls)
      in fwdeploy\<lparr>msfd_ObjectMeta := m\<lparr>
           OwnerReferences := OwnerReferences m @ [ownerRef],
           Labels := Some (labels(ClusterNameLabel L \<mapsto> Name (cluster_ObjectMeta (cr_cluster r))))\<rparr>\<rparr>)"

definition cluster_ensureFirewallDeployment :: "lib \<Rightarrow> env \<Rightarrow> go_error option cluster_prog" where
  "cluster_ensureFirewallDeployment L E =
     bnd get_self (\<lambda>r.
     bnd (firewall_deployment_key r) (\<lambda>key.
     bnd (do_GetFirewallDeployment E key) (\<lambda>resp.
     case resp of
       Inl err \<Rightarrow> ret (Some (ErrWrap ''failed to fetch firewall deployment'' err))
     | Inr fwdeploy \<Rightarrow>
         let ownerRef = NewControllerRef L (msc_ObjectMeta (cr_infraCluster r))
               GroupVersion_v1alpha1 MetalStackClusterKind in
         if HasOwnerRef L (OwnerReferences (msfd_ObjectMeta fwdeploy)) ownerRef then ret None
         else
           bnd (do_UpdateFirewallDeployment E (own_firewall_deployment L r ownerRef fwdeploy)) (\<lambda>err.
           case err of
             Some e \<Rightarrow>
               ret (Some (ErrWrap ''failed to set owner reference on firewall deployment'' e))
           | None \<Rightarrow> ret None))))"

definition default_network_request :: "lib \<Rightarrow> V1NetworkFindRequest" where
  "default_network_request L = \<lparr>nfr_Labels = [tag_NetworkDefault L \<mapsto> []]\<rparr>"

definition control_plane_ip_request ::
    "lib \<Rightarrow> MetalStackCluster \<Rightarrow> V1NetworkResponse \<Rightarrow> V1IPAllocateRequest" where
  "control_plane_ip_request L ic defaultNetwork =
     \<lparr>iar_Description = GetClusterName ic @ '' control plane ip'',
      iar_Name = Name (msc_ObjectMeta ic) @ ''-control-plane'',
      iar_Networkid = nw_ID defaultNetwork,
      iar_Projectid = Some (ProjectID (msc_Spec ic)),
      iar_Tags = [tag_New L (tag_ClusterID L) (GetClusterName ic), TagControlPlanePurpose L],
      iar_Type = Some (V1IPBaseTypeEphemeral L)\<rparr>"

definition ensureControlPlaneIP :: "lib \<Rightarrow> env \<Rightarrow> (go_error + string) cluster_prog" where
  "ensureControlPlaneIP L E =
     bnd get_self (\<lambda>r. let ic = cr_infraCluster r in
     case ControlPlaneIP (msc_Spec ic) of
       Some ip \<Rightarrow> ret (Inr ip)
     | None \<Rightarrow>
         bnd (do_FindNetworks E (default_network_request L)) (\<lambda>nwResp.
         case nwResp of
           Inl err \<Rightarrow> ret (Inl (ErrWrap ''error finding default network'' err))
         | Inr payload \<Rightarrow>
             (case payload of
               [defaultNetwork] \<Rightarrow>
                 bnd (do_AllocateIP E (control_plane_ip_request L ic defaultNetwork)) (\<lambda>resp.
                 case resp of
                   Inl err \<Rightarrow> ret (Inl (ErrWrap ''error creating ip'' err))
                 | Inr ip \<Rightarrow>
                     (case ip_Ipaddress ip of
                       None \<Rightarrow> ret (Inl (ErrNew ''error creating ip address''))
                     | Some addr \<Rightarrow> ret (Inr addr)))
             | _ \<Rightarrow> ret (Inl (ErrNew ''no distinct default network configured in the metal-api'')))))"

definition cluster_ensureAllMetalStackMachinesAreGone ::
    "lib \<Rightarrow> env \<Rightarrow> go_error option cluster_prog" where
  "cluster_ensureAllMetalStackMachinesAreGone L E =
     bnd get_self (\<lambda>r.
     bnd (do_ListMachines E (machines_of_cluster L (cr_cluster r))) (\<lambda>resp.
     case resp of
       Inl err \<Rightarrow> ret (Some (ErrWrap ''failed to fetch machines'' err))
     | Inr items \<Rightarrow>
         if length items > 0 then ret (Some (ErrNew ''waiting for all infra machines to be gone''))
         else ret None))"

definition ensureFirewallDeploymentIsGone :: "lib \<Rightarrow> env \<Rightarrow> go_error option cluster_prog" where
  "ensureFirewallDeploymentIsGone L E =
     bnd get_self (\<lambda>r.
     bnd (firewall_deployment_key r) (\<lambda>key.
     bnd (do_GetFirewallDeployment E key) (\<lambda>resp.
     if IsNotFound L (err_of resp) then ret None
     else case resp of
       Inl err \<Rightarrow> ret (Some (ErrWrap ''failed to fetch firewall deployment'' err))
     | Inr fwdeploy \<Rightarrow>
         if \<not> IsZero L (DeletionTimestamp (msfd_ObjectMeta fwdeploy))
         then ret (Some (ErrNew ''waiting for firewall deployment to be gone''))
         else
           bnd (do_DeleteFirewallDeployment E fwdeploy) (\<lambda>err.
           case err of
             Some e \<Rightarrow> ret (Some (ErrWrap ''failed to delete firewall deployment'' e))
           | None \<Rightarrow> ret (Some (ErrNew ''waiting for firewall deployment to be gone''))))))"

definition deleteControlPlaneIP :: "lib \<Rightarrow> env \<Rightarrow> go_error option cluster_prog" where
  "deleteControlPlaneIP L E =
     bnd get_self (\<lambda>r.
     case ControlPlaneIP (msc_Spec (cr_infraCluster r)) of
       None \<Rightarrow> ret None
     | Some addr \<Rightarrow>
         bnd (do_FindIP E addr) (\<lambda>resp.
         case resp of
           Inl err \<Rightarrow>
             if errors_As (Some err) ''FindIPDefault'' = Some StatusNotFound then ret None
             else ret (Some err)
         | Inr ip \<Rightarrow>
             if ip_Type ip = Some (V1IPBaseTypeStatic L) then ret None
             else
               (case ip_Ipaddress ip of
                 None \<Rightarrow> ret (Some (ErrNew ''control plane ip address not set''))
               | Some i \<Rightarrow>
                   bnd (do_FreeIP E i) (\<lambda>err.
                   case err of Some e \<Rightarrow> ret (Some e) | None \<Rightarrow> ret None))))"

text \<open>\<open>clusterReconciler.reconcile\<close>: three steps, each of which records a condition.\<close>

definition internal_error_condition :: "string \<Rightarrow> go_error \<Rightarrow> Condition" where
  "internal_error_condition t err =
     \<lparr>condType = t, condStatus = ConditionFalse, condReason = conditionMessageInternalError,
      condMessage = Error err\<rparr>"

definition reconcile_node_network :: "lib \<Rightarrow> env \<Rightarrow> go_error option cluster_prog" where
  "reconcile_node_network L E =
     bnd (ensureNodeNetwork L E) (\<lambda>resp.
     case resp of
       Inl err \<Rightarrow>
         bnd (modify_cluster (set_cluster_condition L
           (internal_error_condition ClusterNodeNetworkEnsured err))) (\<lambda>_.
         ret (Some (ErrWrap ''unable to ensure node network'' err)))
     | Inr nodeNetworkID \<Rightarrow>
         bnd (modify_cluster (set_cluster_condition L
           \<lparr>condType = ClusterNodeNetworkEnsured, condStatus = ConditionTrue,
            condReason = ''ClusterNodeNetworkEnsured'',
            condMessage = ''Node network ensured''\<rparr>)) (\<lambda>_.
         bnd (modify_cluster_spec (\<lambda>sp. sp\<lparr>NodeNetworkID := Some nodeNetworkID\<rparr>)) (\<lambda>_.
         ret None)))"

definition reconcile_firewall_deployment :: "lib \<Rightarrow> env \<Rightarrow> go_error option cluster_prog" where
  "reconcile_firewall_deployment L E =
     bnd get_self (\<lambda>r.
     if FirewallDeploymentRef (msc_Spec (cr_infraCluster r)) \<noteq> None then
       bnd (cluster_ensureFirewallDeployment L E) (\<lambda>resp.
       case resp of
         Some err \<Rightarrow>
           bnd (modify_cluster (set_cluster_condition L
             (internal_error_condition ClusterFirewallDeploymentEnsured err))) (\<lambda>_.
           ret (Some (ErrWrap ''unable to ensure firewall deployment'' err)))
       | None \<Rightarrow>
           bnd (modify_cluster (set_cluster_condition L
             \<lparr>condType = ClusterFirewallDeploymentEnsured, condStatus = ConditionTrue,
              condReason = ''FirewallDeploymentEnsured'',
              condMessage = ''Firewall deployment ensured''\<rparr>)) (\<lambda>_.
           ret None))
     else ret None)"

definition reconcile_control_plane :: "lib \<Rightarrow> env \<Rightarrow> go_error option cluster_prog" where
  "reconcile_control_plane L E =
     bnd get_self (\<lambda>r.
     if Host (ControlPlaneEndpoint (msc_Spec (cr_infraCluster r))) = [] then
       bnd (ensureControlPlaneIP L E) (\<lambda>resp.
       case resp of
         Inl err \<Rightarrow>
           bnd (modify_cluster (set_cluster_condition L
             (internal_error_condition ClusterControlPlaneIPEnsured err))) (\<lambda>_.
           ret (Some (ErrWrap ''unable to ensure control plane ip'' err)))
       | Inr ip \<Rightarrow>
           bnd (modify_cluster (set_cluster_condition L
             \<lparr>condType = ClusterControlPlaneIPEnsured, condStatus = ConditionTrue,
              condReason = ''ControlPlaneIPEnsured'',
              condMessage = ''Control plane IP '' @ ip @ '' ensured''\<rparr>)) (\<lambda>_.
           bnd (modify_cluster_spec (\<lambda>sp. sp\<lparr>ControlPlaneEndpoint :=
             \<lparr>Host = ip, Port = ClusterControlPlaneEndpointDefaultPort\<rparr>\<rparr>)) (\<lambda>_.
           ret None)))
     else ret None)"

definition mark_cluster_ready :: "MetalStackCluster \<Rightarrow> MetalStackCluster" where
  "mark_cluster_ready ic = ic\<lparr>msc_Status := (msc_Status ic)\<lparr>mscs_Ready := True,
     mscs_Initialization := \<lparr>Provisioned = Some True\<rparr>\<rparr>\<rparr>"

definition cluster_reconcile :: "lib \<Rightarrow> env \<Rightarrow> go_error option cluster_prog" where
  "cluster_reconcile L E =
     bnd (reconcile_node_network L E) (\<lambda>err. case err of Some e \<Rightarrow> ret (Some e) | None \<Rightarrow>
     bnd (reconcile_firewall_deployment L E) (\<lambda>err. case err of Some e \<Rightarrow> ret (Some e) | None \<Rightarrow>
     bnd (reconcile_control_plane L E) (\<lambda>err. case err of Some e \<Rightarrow> ret (Some e) | None \<Rightarrow>
     bnd (modify_cluster mark_cluster_ready) (\<lambda>_.
     ret None))))"

definition remove_cluster_finalizer :: "lib \<Rightarrow> MetalStackCluster \<Rightarrow> MetalStackCluster" where
  "remove_cluster_finalizer L ic = ic\<lparr>msc_ObjectMeta := (msc_ObjectMeta ic)\<lparr>
     Finalizers := RemoveFinalizer L (Finalizers (msc_ObjectMeta ic)) ClusterFinalizer\<rparr>\<rparr>"

text \<open>\<open>clusterReconciler.delete\<close>; its second half releases what the cluster holds.\<close>

definition cluster_release :: "lib \<Rightarrow> env \<Rightarrow> go_error option cluster_prog" where
  "cluster_release L E =
     bnd (deleteControlPlaneIP L E) (\<lambda>err.
     case err of Some e \<Rightarrow> ret (Some (ErrWrap ''unable to delete control plane ip'' e)) | None \<Rightarrow>
     bnd (modify_cluster_spec (\<lambda>sp. sp\<lparr>ControlPlaneIP := None\<rparr>)) (\<lambda>_.
     bnd (deleteNodeNetwork E) (\<lambda>err.
     case err of Some e \<Rightarrow> ret (Some (ErrWrap ''unable to delete node network'' e)) | None \<Rightarrow>
     bnd (modify_cluster_spec (\<lambda>sp. sp\<lparr>NodeNetworkID := None\<rparr>)) (\<lambda>_.
     bnd (modify_cluster (remove_cluster_finalizer L)) (\<lambda>_.
     ret None)))))"

definition cluster_delete :: "lib \<Rightarrow> env \<Rightarrow> go_error option cluster_prog" where
  "cluster_delete L E =
     bnd get_self (\<lambda>r.
     if \<not> ContainsFinalizer L (Finalizers (msc_ObjectMeta (cr_infraCluster r))) ClusterFinalizer
     then ret None
     else
       bnd (cluster_ensureAllMetalStackMachinesAreGone L E) (\<lambda>err.
       case err of Some e \<Rightarrow> ret (Some e) | None \<Rightarrow>
       bnd (ensureFirewallDeploymentIsGone L E) (\<lambda>err.
       case err of Some e \<Rightarrow> ret None | None \<Rightarrow>
       cluster_release L E)))"

section \<open>Reconcile\<close>

definition cluster_paused :: "lib \<Rightarrow> clusterReconciler \<Rightarrow> bool" where
  "cluster_paused L r = IsPaused L (cr_cluster r) (msc_ObjectMeta (cr_infraCluster r))"

definition paused_condition :: "lib \<Rightarrow> bool \<Rightarrow> Condition" where
  "paused_condition L p =
     (if p then \<lparr>condType = PausedCondition L, condStatus = ConditionTrue,
                 condReason = PausedReason L,
                 condMessage = conditionMessageReconciliationPaused\<rparr>
      else \<lparr>condType = PausedCondition L, condStatus = ConditionFalse,
            condReason = NotPausedReason L,
            condMessage = conditionMessageReconciliationNotPaused\<rparr>)"

definition mark_cluster_paused :: "lib \<Rightarrow> clusterReconciler \<Rightarrow> clusterReconciler" where
  "mark_cluster_paused L r =
     cr_infraCluster_update (set_cluster_condition L (paused_condition L (cluster_paused L r))) r"

definition cluster_deleting :: "lib \<Rightarrow> clusterReconciler \<Rightarrow> bool" where
  "cluster_deleting L r \<longleftrightarrow> \<not> IsZero L (DeletionTimestamp (msc_ObjectMeta (cr_infraCluster r)))"

definition cluster_has_finalizer :: "lib \<Rightarrow> clusterReconciler \<Rightarrow> bool" where
  "cluster_has_finalizer L r =
     ContainsFinalizer L (Finalizers (msc_ObjectMeta (cr_infraCluster r))) ClusterFinalizer"

definition add_cluster_finalizer :: "lib \<Rightarrow> clusterReconciler \<Rightarrow> clusterReconciler" where
  "add_cluster_finalizer L r = cr_infraCluster_update (\<lambda>ic. ic\<lparr>msc_ObjectMeta :=
     (msc_ObjectMeta ic)\<lparr>Finalizers :=
       AddFinalizer L (Finalizers (msc_ObjectMeta ic)) ClusterFinalizer\<rparr>\<rparr>) r"

definition cluster_switch :: "lib \<Rightarrow> env \<Rightarrow> go_error option cluster_prog" where
  "cluster_switch L E =
     bnd get_self (\<lambda>r.
     if cluster_paused L r then ret None
     else if cluster_deleting L r then cluster_delete L E
     else if \<not> cluster_has_finalizer L r then
       bnd (mod_self (add_cluster_finalizer L)) (\<lambda>_. ret None)
     else cluster_reconcile L E)"

definition cluster_patch ::
    "env \<Rightarrow> clusterReconciler \<Rightarrow> go_error option \<Rightarrow> go_error option cluster_prog" where
  "cluster_patch E before err =
     bnd get_self (\<lambda>r.
     bnd (do_Patch E (OCluster (cr_infraCluster before)) (OCluster (cr_infraCluster r))) (\<lambda>updateErr.
     case updateErr of
       None \<Rightarrow> ret err
     | Some u \<Rightarrow> ret (errors_Join [err, Some (ErrWrap ''failed to update infra cluster'' u)])))"

definition cluster_dispatch :: "lib \<Rightarrow> env \<Rightarrow> go_error option cluster_prog" where
  "cluster_dispatch L E =
     bnd get_self (\<lambda>r.
     bnd (do_NewHelper E (OCluster (cr_infraCluster r))) (\<lambda>err.
     case err of
       Some e \<Rightarrow> ret (Some e)
     | None \<Rightarrow>
         bnd (mod_self (mark_cluster_paused L)) (\<lambda>_.
         bnd (cluster_switch L E) (\<lambda>err.
         cluster_patch E r err))))"

definition MetalStackClusterReconciler_Reconcile ::
    "lib \<Rightarrow> env \<Rightarrow> NamespacedName \<Rightarrow> ('r st, Result \<times> go_error option) go" where
  "MetalStackClusterReconciler_Reconcile L E req =
     bnd (do_GetMetalStackCluster E req) (\<lambda>resp.
     case resp of
       Inl err \<Rightarrow>
         if IsNotFound L (Some err) then ret (empty_Result, None)
         else ret (empty_Result, Some err)
     | Inr infraCluster \<Rightarrow>
         bnd (do_GetOwnerCluster E (msc_ObjectMeta infraCluster)) (\<lambda>resp.
         case resp of
           Inl err \<Rightarrow> ret (empty_Result, Some err)
         | Inr None \<Rightarrow> ret (empty_Result, None)
         | Inr (Some cluster) \<Rightarrow>
             bnd (with_self \<lparr>cr_cluster = cluster, cr_infraCluster = infraCluster\<rparr>
                (cluster_dispatch L E)) (\<lambda>(err, _).
             ret (empty_Result, err))))"

section \<open>Which calls the methods make\<close>

lemma emits_ensureNodeNetwork [emits_intros]:
  "(\<And>q r. P (Metal (AllocateNetwork q r))) \<Longrightarrow> emits P (ensureNodeNetwork L E)"
  unfolding ensureNodeNetwork_def Let_def by (intro emits_intros)

lemma emits_deleteNodeNetwork [emits_intros]:
  "(\<And>q r. P (Metal (FreeNetwork q r))) \<Longrightarrow> emits P (deleteNodeNetwork E)"
  unfolding deleteNodeNetwork_def by (intro emits_intros)

lemma emits_cluster_ensureFirewallDeployment [emits_intros]:
  "(\<And>q r. P (Kube (GetFirewallDeployment q r))) \<Longrightarrow>
   (\<And>q r. P (Kube (UpdateFirewallDeployment q r))) \<Longrightarrow>
     emits P (cluster_ensureFirewallDeployment L E)"
  unfolding cluster_ensureFirewallDeployment_def firewall_deployment_key_def Let_def
  by (intro emits_intros)

lemma emits_ensureControlPlaneIP [emits_intros]:
  "(\<And>q r. P (Metal (FindNetworks q r))) \<Longrightarrow> (\<And>q r. P (Metal (AllocateIP q r))) \<Longrightarrow>
     emits P (ensureControlPlaneIP L E)"
  unfolding ensureControlPlaneIP_def Let_def
  by (intro emits_intros) (auto split: list.split intro!: emits_intros)

lemma emits_cluster_ensureAllMetalStackMachinesAreGone [emits_intros]:
  "(\<And>q r. P (Kube (ListMachines q r))) \<Longrightarrow>
     emits P (cluster_ensureAllMetalStackMachinesAreGone L E)"
  unfolding cluster_ensureAllMetalStackMachinesAreGone_def by (intro emits_intros)

lemma emits_ensureFirewallDeploymentIsGone [emits_intros]:
  "(\<And>q r. P (Kube (GetFirewallDeployment q r))) \<Longrightarrow>
   (\<And>q r. P (Kube (DeleteFirewallDeployment q r))) \<Longrightarrow>
     emits P (ensureFirewallDeploymentIsGone L E)"
  unfolding ensureFirewallDeploymentIsGone_def firewall_deployment_key_def
  by (intro emits_intros)

lemma emits_deleteControlPlaneIP [emits_intros]:
  "(\<And>q r. P (Metal (FindIP q r))) \<Longrightarrow> (\<And>q r. P (Metal (FreeIP q r))) \<Longrightarrow>
     emits P (deleteControlPlaneIP L E)"
  unfolding deleteControlPlaneIP_def by (intro emits_intros)

lemma emits_cluster_patch [emits_intros]:
  "(\<And>b a r. P (Kube (PatchObject b a r))) \<Longrightarrow> emits P (cluster_patch E before err)"
  unfolding cluster_patch_def by (intro emits_intros)

section \<open>The contracts\<close>

interpretation cluster_gate:
  machines_gate L E "cluster_ensureAllMetalStackMachinesAreGone L E" cr_cluster for L E
  by unfold_locales
    (simp add: cluster_ensureAllMetalStackMachinesAreGone_def exec Let_def split: sum.split)

lemma mark_cluster_paused_simps [simp]:
  "cr_cluster (mark_cluster_paused L r) = cr_cluster r"
  "msc_ObjectMeta (cr_infraCluster (mark_cluster_paused L r)) = msc_ObjectMeta (cr_infraCluster r)"
  "msc_Spec (cr_infraCluster (mark_cluster_paused L r)) = msc_Spec (cr_infraCluster r)"
  by (simp_all add: mark_cluster_paused_def set_cluster_condition_def
      MetalStackCluster_SetConditions_def)

interpretation cluster_rec:
  reconciler "cluster_switch L E" "cluster_delete L E" "cluster_reconcile L E" None
    "cluster_paused L" "cluster_deleting L" "cluster_has_finalizer L" "add_cluster_finalizer L"
    "cluster_dispatch L E" "\<lambda>r. do_NewHelper E (OCluster (cr_infraCluster r))" Some
    "mark_cluster_paused L" "cluster_patch E"
  for L E
proof unfold_locales
  show "cluster_dispatch L E = bnd get_self (\<lambda>r.
      bnd (do_NewHelper E (OCluster (cr_infraCluster r))) (\<lambda>err.
      case err of Some e \<Rightarrow> ret (Some e)
      | None \<Rightarrow> bnd (mod_self (mark_cluster_paused L)) (\<lambda>_.
          bnd (cluster_switch L E) (cluster_patch E r))))"
    by (simp add: cluster_dispatch_def)
  show "emits (\<lambda>e. \<not> is_metal e) (cluster_patch E r b)" for r b
    by (intro emits_intros) simp
  show "emits (\<lambda>e. \<not> is_metal e) (do_NewHelper E (OCluster (cr_infraCluster r)))" for r
    by (intro emits_intros) simp
qed (auto simp: cluster_switch_def cluster_delete_def cluster_has_finalizer_def cluster_paused_def
    exec wp_simps)

end
