(* ===== verification/Examples.thy ===== *)
theory Examples
  imports External
begin

text \<open>
  Concrete services and objects for the witnesses: a library with the documented behaviour
  of the functions the program calls, and an API that answers every call with success. The
  witnesses vary it one answer at a time. Nothing in the theorems depends on it.
\<close>


definition lib0 :: lib where
  "lib0 = \<lparr>
     SetCondition = (\<lambda>c cs. c # filter (\<lambda>d. condType d \<noteq> condType c) cs),
     ContainsFinalizer = (\<lambda>fs f. f \<in> set fs),
     AddFinalizer = (\<lambda>fs f. if f \<in> set fs then fs else fs @ [f]),
     RemoveFinalizer = (\<lambda>fs f. filter (\<lambda>g. g \<noteq> f) fs),
     HasOwnerRef = (\<lambda>rs r. \<exists>r' \<in> set rs. refKind r' = refKind r \<and> refName r' = refName r),
     EnsureOwnerRef = (\<lambda>rs r. rs @ [r]),
     NewControllerRef = (\<lambda>m gv k. \<lparr>refAPIVersion = gvGroup gv @ ''/'' @ gvVersion gv, refKind = k,
        refName = Name m, refUID = UID m, refController = Some True,
        refBlockOwnerDeletion = Some True\<rparr>),
     GroupVersionString = (\<lambda>gv. gvGroup gv @ ''/'' @ gvVersion gv),
     ParseGroupVersion = (\<lambda>a. let (g, v, _) = Cut a (CHR ''/'') in Inr \<lparr>gvGroup = g, gvVersion = v\<rparr>),
     ObjectKeyFromObject = (\<lambda>m. \<lparr>nnNamespace = Namespace m, nnName = Name m\<rparr>),
     IsZero = (\<lambda>t. t = None \<or> t = Some 0),
     IsNotFound = (\<lambda>e. errors_As e ''StatusError'' = Some 404),
     WithStack = (\<lambda>e. e),
     Wrapf = (\<lambda>e t. ErrWrap t e),
     IsPaused = (\<lambda>c m. cluster_Paused c = Some True),
     IsExternallyManaged = (\<lambda>m. False),
     IsControlPlaneMachine = (\<lambda>m. case Labels (machine_ObjectMeta m) of None \<Rightarrow> False
        | Some ls \<Rightarrow> ls ''control-plane'' \<noteq> None),
     tag_New = (\<lambda>k v. k @ ''='' @ v),
     TagMap_Value = (\<lambda>ts k. map_option (\<lambda>t. drop (length k + 1) t)
        (find (\<lambda>t. prefix (k @ ''='') t) ts)),
     ptr_Deref = (\<lambda>p d. case p of None \<Rightarrow> d | Some x \<Rightarrow> x),
     SafeDeref = (\<lambda>p. case p of None \<Rightarrow> [] | Some x \<Rightarrow> x),
     SafeDeref_Partition = (\<lambda>p. case p of None \<Rightarrow> \<lparr>pr_ID = None\<rparr> | Some x \<Rightarrow> x),
     tag_ClusterID = ''cluster.metal-stack.io/id'',
     tag_NetworkDefault = ''network.metal-stack.io/default'',
     tag_MachineRack = ''machine.metal-stack.io/rack'',
     tag_MachineNetworkPrimaryASN = ''machine.metal-stack.io/network.primary.asn'',
     tag_MachineChassis = ''machine.metal-stack.io/chassis'',
     ClusterNameLabel = ''cluster.x-k8s.io/cluster-name'',
     MachineDeploymentNameLabel = ''cluster.x-k8s.io/deployment-name'',
     MachineSetNameLabel = ''cluster.x-k8s.io/set-name'',
     PausedCondition = ''Paused'', PausedReason = ''Paused'', NotPausedReason = ''NotPaused'',
     FirewallControllerManagedByAnnotation = ''firewall.metal-stack.io/managed-by'',
     LabelHostname = ''kubernetes.io/hostname'',
     LabelTopologyZone = ''topology.kubernetes.io/zone'',
     V1IPBaseTypeEphemeral = ''ephemeral'', V1IPBaseTypeStatic = ''static'',
     UpdateMachineError = ''UpdateError''\<rparr>"

lemma lib0_simps [simp]:
  "SetCondition lib0 = (\<lambda>c cs. c # filter (\<lambda>d. condType d \<noteq> condType c) cs)"
  "ContainsFinalizer lib0 = (\<lambda>fs f. f \<in> set fs)"
  "AddFinalizer lib0 = (\<lambda>fs f. if f \<in> set fs then fs else fs @ [f])"
  "RemoveFinalizer lib0 = (\<lambda>fs f. filter (\<lambda>g. g \<noteq> f) fs)"
  "HasOwnerRef lib0 = (\<lambda>rs r. \<exists>r' \<in> set rs. refKind r' = refKind r \<and> refName r' = refName r)"
  "EnsureOwnerRef lib0 = (\<lambda>rs r. rs @ [r])"
  "NewControllerRef lib0 = (\<lambda>m gv k. \<lparr>refAPIVersion = gvGroup gv @ ''/'' @ gvVersion gv, refKind = k,
        refName = Name m, refUID = UID m, refController = Some True,
        refBlockOwnerDeletion = Some True\<rparr>)"
  "GroupVersionString lib0 = (\<lambda>gv. gvGroup gv @ ''/'' @ gvVersion gv)"
  "ParseGroupVersion lib0 = (\<lambda>a. let (g, v, _) = Cut a (CHR ''/'') in Inr \<lparr>gvGroup = g, gvVersion = v\<rparr>)"
  "ObjectKeyFromObject lib0 = (\<lambda>m. \<lparr>nnNamespace = Namespace m, nnName = Name m\<rparr>)"
  "IsZero lib0 = (\<lambda>t. t = None \<or> t = Some 0)"
  "IsNotFound lib0 = (\<lambda>e. errors_As e ''StatusError'' = Some 404)"
  "WithStack lib0 = (\<lambda>e. e)"
  "Wrapf lib0 = (\<lambda>e t. ErrWrap t e)"
  "IsPaused lib0 = (\<lambda>c m. cluster_Paused c = Some True)"
  "IsExternallyManaged lib0 = (\<lambda>m. False)"
  "IsControlPlaneMachine lib0 = (\<lambda>m. case Labels (machine_ObjectMeta m) of None \<Rightarrow> False
        | Some ls \<Rightarrow> ls ''control-plane'' \<noteq> None)"
  "tag_New lib0 = (\<lambda>k v. k @ ''='' @ v)"
  "TagMap_Value lib0 = (\<lambda>ts k. map_option (\<lambda>t. drop (length k + 1) t)
        (find (\<lambda>t. prefix (k @ ''='') t) ts))"
  "ptr_Deref lib0 = (\<lambda>p d. case p of None \<Rightarrow> d | Some x \<Rightarrow> x)"
  "SafeDeref lib0 = (\<lambda>p. case p of None \<Rightarrow> [] | Some x \<Rightarrow> x)"
  "SafeDeref_Partition lib0 = (\<lambda>p. case p of None \<Rightarrow> \<lparr>pr_ID = None\<rparr> | Some x \<Rightarrow> x)"
  "tag_ClusterID lib0 = ''cluster.metal-stack.io/id''"
  "tag_NetworkDefault lib0 = ''network.metal-stack.io/default''"
  "tag_MachineRack lib0 = ''machine.metal-stack.io/rack''"
  "tag_MachineNetworkPrimaryASN lib0 = ''machine.metal-stack.io/network.primary.asn''"
  "tag_MachineChassis lib0 = ''machine.metal-stack.io/chassis''"
  "ClusterNameLabel lib0 = ''cluster.x-k8s.io/cluster-name''"
  "MachineDeploymentNameLabel lib0 = ''cluster.x-k8s.io/deployment-name''"
  "MachineSetNameLabel lib0 = ''cluster.x-k8s.io/set-name''"
  "PausedCondition lib0 = ''Paused''"
  "PausedReason lib0 = ''Paused''"
  "NotPausedReason lib0 = ''NotPaused''"
  "FirewallControllerManagedByAnnotation lib0 = ''firewall.metal-stack.io/managed-by''"
  "LabelHostname lib0 = ''kubernetes.io/hostname''"
  "LabelTopologyZone lib0 = ''topology.kubernetes.io/zone''"
  "V1IPBaseTypeEphemeral lib0 = ''ephemeral''"
  "V1IPBaseTypeStatic lib0 = ''static''"
  "UpdateMachineError lib0 = ''UpdateError''"
  by (simp_all add: lib0_def)

lemma lib0_laws [simp]:
  "conditions_laws lib0" "finalizer_laws lib0" "pointer_laws lib0" "not_found_laws lib0"
  "owner_laws lib0"
proof -
  have "find_condition t (c # filter (\<lambda>d. condType d \<noteq> condType c) cs) = find_condition t cs"
    if "t \<noteq> condType c" for t c cs
    unfolding find_condition_def using that by (induction cs) auto
  then show "conditions_laws lib0"
    by (auto simp: conditions_laws_def) (simp add: find_condition_def)
qed (auto simp: finalizer_laws_def pointer_laws_def not_found_laws_def owner_laws_def)

definition not_found :: go_error where
  "not_found = ErrExternal ''StatusError'' 404 ''not found''"

definition meta0 :: ObjectMeta where
  "meta0 = \<lparr>Name = ''c1'', Namespace = ''ns'', UID = ''u1'', Labels = None, Annotations = None,
     OwnerReferences = [], Finalizers = [], DeletionTimestamp = None\<rparr>"

definition cluster0 :: Cluster where
  "cluster0 = \<lparr>cluster_ObjectMeta = meta0, cluster_Paused = None,
     cluster_InfrastructureRef = \<lparr>irKind = MetalStackClusterKind, irName = ''c1'',
       irAPIGroup = ''infrastructure.cluster.x-k8s.io''\<rparr>\<rparr>"

definition machine0 :: Machine where
  "machine0 = \<lparr>machine_ObjectMeta = meta0, machine_DataSecretName = Some ''boot''\<rparr>"

definition msc0 :: MetalStackCluster where
  "msc0 = \<lparr>msc_ObjectMeta = meta0,
     msc_Spec = \<lparr>ControlPlaneEndpoint = \<lparr>Host = [], Port = 0\<rparr>, ProjectID = ''p1'',
       NodeNetworkID = None, ControlPlaneIP = None, Partition = ''part'',
       FirewallDeploymentRef = None\<rparr>,
     msc_Status = \<lparr>mscs_Ready = False, mscs_Initialization = \<lparr>Provisioned = None\<rparr>,
       mscs_FailureReason = None, mscs_FailureMessage = None, mscs_Conditions = []\<rparr>\<rparr>"

definition msm0 :: MetalStackMachine where
  "msm0 = \<lparr>msm_ObjectMeta = meta0,
     msm_Spec = \<lparr>ProviderID = [], Image = ''img'', Size = ''small''\<rparr>,
     msm_Status = \<lparr>msms_Ready = False, msms_Initialization = \<lparr>msmi_Provisioned = None\<rparr>,
       msms_FailureReason = None, msms_FailureMessage = None, msms_Conditions = [],
       msms_Addresses = []\<rparr>\<rparr>"

definition msfd0 :: MetalStackFirewallDeployment where
  "msfd0 = \<lparr>msfd_ObjectMeta = meta0,
     msfd_Spec = \<lparr>FirewallTemplateRef = \<lparr>ftrName = ''t1''\<rparr>, ManagedResourceRef = None,
       AutoUpdate = None\<rparr>,
     msfd_Status = \<lparr>msfds_Ready = False, msfds_Initialization = \<lparr>Provisioned = None\<rparr>,
       msfds_Conditions = []\<rparr>\<rparr>"

definition msft0 :: MetalStackFirewallTemplate where
  "msft0 = \<lparr>msft_ObjectMeta = meta0\<lparr>Name := ''t1''\<rparr>,
     msft_Spec = \<lparr>fwSize = ''fw-size'', fwImage = ''fw-img'', fwNetworks = [''internet''],
       fwInitialRuleSet = Some \<lparr>Egress = [], Ingress = []\<rparr>\<rparr>\<rparr>"

definition response0 :: V1MachineResponse where
  "response0 = \<lparr>mr_ID = Some ''m1'', mr_Liveliness = Some ''Alive'',
     mr_Events = Some \<lparr>mre_CrashLoop = Some False, mre_FailedMachineReclaim = None,
       mre_Log = [\<lparr>mpe_Event = Some ''Phoned Home''\<rparr>]\<rparr>,
     mr_Allocation = Some \<lparr>mal_Hostname = Some ''c1'', mal_Project = Some ''p1'',
       mal_Networks = [\<lparr>mnw_Networktype = Some ''external'', mnw_Ips = [''1.2.3.4'']\<rparr>]\<rparr>,
     mr_Partition = Some \<lparr>pr_ID = Some ''part''\<rparr>, mr_Rackid = ''rack'', mr_Tags = []\<rparr>"

definition env0 :: env where
  "env0 = \<lparr>
     metal_AllocateNetwork = (\<lambda>h q. Inr \<lparr>nw_ID = Some ''net1''\<rparr>),
     metal_FreeNetwork = (\<lambda>h q. None),
     metal_FindNetworks = (\<lambda>h q. Inr [\<lparr>nw_ID = Some ''internet''\<rparr>]),
     metal_AllocateIP = (\<lambda>h q. Inr \<lparr>ip_Ipaddress = Some ''10.0.0.1'', ip_Type = Some ''ephemeral''\<rparr>),
     metal_FindIP = (\<lambda>h q. Inr \<lparr>ip_Ipaddress = Some q, ip_Type = Some ''ephemeral''\<rparr>),
     metal_FreeIP = (\<lambda>h q. None),
     metal_AllocateMachine = (\<lambda>h q. Inr response0),
     metal_FindMachine = (\<lambda>h q. Inr response0),
     metal_FreeMachine = (\<lambda>h q. None),
     metal_AllocateFirewall = (\<lambda>h q. Inr \<lparr>fw_ID = Some ''fw1''\<rparr>),
     metal_FindFirewalls = (\<lambda>h q. Inr [\<lparr>fw_ID = Some ''fw1''\<rparr>]),
     kube_GetMetalStackCluster = (\<lambda>h q. Inr msc0),
     kube_GetMetalStackMachine = (\<lambda>h q. Inr msm0),
     kube_GetFirewallDeployment = (\<lambda>h q. Inr msfd0),
     kube_GetFirewallTemplate = (\<lambda>h q. Inr msft0),
     kube_GetSecret = (\<lambda>h q. Inr [''value'' \<mapsto> ''ignition'']),
     kube_GetOwnerCluster = (\<lambda>h q. Inr (Some cluster0)),
     kube_GetOwnerMachine = (\<lambda>h q. Inr (Some machine0)),
     kube_GetClusterFromMetadata = (\<lambda>h q. Inr (Some cluster0)),
     kube_ListMachines = (\<lambda>h q. Inr []),
     kube_ListFirewallDeployments = (\<lambda>h q t. Inr [msfd0]),
     kube_UpdateFirewallDeployment = (\<lambda>h q. None),
     kube_DeleteFirewallDeployment = (\<lambda>h q. None),
     kube_NewHelper = (\<lambda>h q. None),
     kube_PatchObject = (\<lambda>h a b. None),
     time_Now = (\<lambda>h. 0)\<rparr>"

lemma env0_simps [simp]:
  "metal_AllocateNetwork env0 = (\<lambda>h q. Inr \<lparr>nw_ID = Some ''net1''\<rparr>)"
  "metal_FreeNetwork env0 = (\<lambda>h q. None)"
  "metal_FindNetworks env0 = (\<lambda>h q. Inr [\<lparr>nw_ID = Some ''internet''\<rparr>])"
  "metal_AllocateIP env0 = (\<lambda>h q. Inr \<lparr>ip_Ipaddress = Some ''10.0.0.1'', ip_Type = Some ''ephemeral''\<rparr>)"
  "metal_FindIP env0 = (\<lambda>h q. Inr \<lparr>ip_Ipaddress = Some q, ip_Type = Some ''ephemeral''\<rparr>)"
  "metal_FreeIP env0 = (\<lambda>h q. None)"
  "metal_AllocateMachine env0 = (\<lambda>h q. Inr response0)"
  "metal_FindMachine env0 = (\<lambda>h q. Inr response0)"
  "metal_FreeMachine env0 = (\<lambda>h q. None)"
  "metal_AllocateFirewall env0 = (\<lambda>h q. Inr \<lparr>fw_ID = Some ''fw1''\<rparr>)"
  "metal_FindFirewalls env0 = (\<lambda>h q. Inr [\<lparr>fw_ID = Some ''fw1''\<rparr>])"
  "kube_GetMetalStackCluster env0 = (\<lambda>h q. Inr msc0)"
  "kube_GetMetalStackMachine env0 = (\<lambda>h q. Inr msm0)"
  "kube_GetFirewallDeployment env0 = (\<lambda>h q. Inr msfd0)"
  "kube_GetFirewallTemplate env0 = (\<lambda>h q. Inr msft0)"
  "kube_GetSecret env0 = (\<lambda>h q. Inr [''value'' \<mapsto> ''ignition''])"
  "kube_GetOwnerCluster env0 = (\<lambda>h q. Inr (Some cluster0))"
  "kube_GetOwnerMachine env0 = (\<lambda>h q. Inr (Some machine0))"
  "kube_GetClusterFromMetadata env0 = (\<lambda>h q. Inr (Some cluster0))"
  "kube_ListMachines env0 = (\<lambda>h q. Inr [])"
  "kube_ListFirewallDeployments env0 = (\<lambda>h q t. Inr [msfd0])"
  "kube_UpdateFirewallDeployment env0 = (\<lambda>h q. None)"
  "kube_DeleteFirewallDeployment env0 = (\<lambda>h q. None)"
  "kube_NewHelper env0 = (\<lambda>h q. None)"
  "kube_PatchObject env0 = (\<lambda>h a b. None)"
  "time_Now env0 = (\<lambda>h. 0)"
  by (simp_all add: env0_def)

lemmas objects0 =
  meta0_def cluster0_def machine0_def msc0_def msm0_def msfd0_def msft0_def response0_def
  not_found_def

end
