(* ===== verification/ClusterProperties.thy ===== *)
theory ClusterProperties
  imports ClusterController Examples
begin

text \<open>
  What the methods of the cluster controller do, and the properties of the component:
  the first lemmas describe one step of \<open>reconcile\<close> or \<open>delete\<close> each, the properties
  combine them.
\<close>

section \<open>The steps of reconcile\<close>

text \<open>The spec, the metadata and the conditions of the cluster object in a state.\<close>

abbreviation infra :: "clusterReconciler st \<Rightarrow> MetalStackCluster" where
  "infra s \<equiv> cr_infraCluster (self s)"

abbreviation spec :: "clusterReconciler st \<Rightarrow> MetalStackClusterSpec" where
  "spec s \<equiv> msc_Spec (infra s)"

abbreviation condition_of :: "string \<Rightarrow> clusterReconciler st \<Rightarrow> Condition option" where
  "condition_of t s \<equiv> find_condition t (mscs_Conditions (msc_Status (infra s)))"

text \<open>What no step of \<open>reconcile\<close> touches before the last one.\<close>

definition same_frame :: "clusterReconciler st \<Rightarrow> clusterReconciler st \<Rightarrow> bool" where
  "same_frame s s' \<longleftrightarrow>
     cr_cluster (self s') = cr_cluster (self s) \<and>
     msc_ObjectMeta (infra s') = msc_ObjectMeta (infra s) \<and>
     ControlPlaneIP (spec s') = ControlPlaneIP (spec s) \<and>
     ProjectID (spec s') = ProjectID (spec s) \<and> Partition (spec s') = Partition (spec s) \<and>
     FirewallDeploymentRef (spec s') = FirewallDeploymentRef (spec s)"

definition same_readiness :: "clusterReconciler st \<Rightarrow> clusterReconciler st \<Rightarrow> bool" where
  "same_readiness s s' \<longleftrightarrow>
     mscs_Ready (msc_Status (infra s')) = mscs_Ready (msc_Status (infra s)) \<and>
     mscs_Initialization (msc_Status (infra s')) = mscs_Initialization (msc_Status (infra s))"

lemmas step_defs =
  same_frame_def same_readiness_def set_cluster_condition_def
  MetalStackCluster_SetConditions_def MetalStackCluster_GetConditions_def
  internal_error_condition_def

definition condition_True :: "string \<Rightarrow> clusterReconciler st \<Rightarrow> bool" where
  "condition_True t s \<longleftrightarrow> (\<exists>c. condition_of t s = Some c \<and> condStatus c = ConditionTrue)"

definition condition_reports :: "string \<Rightarrow> go_error \<Rightarrow> clusterReconciler st \<Rightarrow> bool" where
  "condition_reports t e s \<longleftrightarrow>
     (\<exists>c. condition_of t s = Some c \<and> condStatus c = ConditionFalse \<and> condMessage c = Error e)"

lemma node_network_step:
  assumes "conditions_laws L"
  shows "wp (reconcile_node_network L E) (\<lambda>x s'. same_frame s s' \<and> same_readiness s s' \<and>
    ControlPlaneEndpoint (spec s') = ControlPlaneEndpoint (spec s) \<and>
    (x = Some None \<longrightarrow> NodeNetworkID (spec s') \<noteq> None \<and>
       condition_True ClusterNodeNetworkEnsured s' \<and>
       (NodeNetworkID (spec s) \<noteq> None \<longrightarrow> spec s' = spec s \<and> hist s' = hist s)) \<and>
    (\<forall>e. x = Some (Some e) \<longrightarrow> spec s' = spec s \<and>
       (\<exists>e'. e = ErrWrap ''unable to ensure node network'' e' \<and>
         condition_reports ClusterNodeNetworkEnsured e' s'))) s"
  unfolding reconcile_node_network_def ensureNodeNetwork_def Let_def
  by (auto simp: wp_simps step_defs condition_True_def condition_reports_def assms
      split: option.split sum.split)

lemma firewall_deployment_step:
  assumes "conditions_laws L"
  shows "wp (reconcile_firewall_deployment L E) (\<lambda>x s'. same_frame s s' \<and> same_readiness s s' \<and>
    spec s' = spec s \<and>
    (\<forall>t. t \<noteq> ClusterFirewallDeploymentEnsured \<longrightarrow> condition_of t s' = condition_of t s) \<and>
    (x = Some None \<longrightarrow> FirewallDeploymentRef (spec s) \<noteq> None \<longrightarrow>
       condition_True ClusterFirewallDeploymentEnsured s') \<and>
    (\<forall>e. x = Some (Some e) \<longrightarrow>
       (\<exists>e'. e = ErrWrap ''unable to ensure firewall deployment'' e' \<and>
         condition_reports ClusterFirewallDeploymentEnsured e' s')) \<and>
    x \<noteq> None) s"
  unfolding reconcile_firewall_deployment_def cluster_ensureFirewallDeployment_def
    firewall_deployment_key_def Let_def
  by (auto simp: wp_simps step_defs condition_True_def condition_reports_def assms
      split: option.split sum.split)

lemma control_plane_step:
  assumes "conditions_laws L"
  shows "wp (reconcile_control_plane L E) (\<lambda>x s'. same_frame s s' \<and> same_readiness s s' \<and>
    NodeNetworkID (spec s') = NodeNetworkID (spec s) \<and>
    (\<forall>t. t \<noteq> ClusterControlPlaneIPEnsured \<longrightarrow> condition_of t s' = condition_of t s) \<and>
    (Host (ControlPlaneEndpoint (spec s)) \<noteq> [] \<longrightarrow> x = Some None \<and> s' = s) \<and>
    (x = Some None \<longrightarrow> Host (ControlPlaneEndpoint (spec s)) = [] \<longrightarrow>
       Port (ControlPlaneEndpoint (spec s')) = 443 \<and>
       condition_True ClusterControlPlaneIPEnsured s' \<and>
       (\<forall>ip. ControlPlaneIP (spec s) = Some ip \<longrightarrow>
          Host (ControlPlaneEndpoint (spec s')) = ip \<and> hist s' = hist s)) \<and>
    (\<forall>e. x = Some (Some e) \<longrightarrow> spec s' = spec s \<and>
       (\<exists>e'. e = ErrWrap ''unable to ensure control plane ip'' e' \<and>
         condition_reports ClusterControlPlaneIPEnsured e' s')) \<and>
    x \<noteq> None) s"
  unfolding reconcile_control_plane_def ensureControlPlaneIP_def Let_def
  by (auto simp: wp_simps step_defs condition_True_def condition_reports_def assms
      ClusterControlPlaneEndpointDefaultPort_def
      split: option.split sum.split list.split)

section \<open>The whole of reconcile\<close>

lemma cluster_reconcile_ok_iff:
  "cluster_reconcile L E s = (Some None, s') \<longleftrightarrow>
     (\<exists>s1 s2 s3. reconcile_node_network L E s = (Some None, s1) \<and>
        reconcile_firewall_deployment L E s1 = (Some None, s2) \<and>
        reconcile_control_plane L E s2 = (Some None, s3) \<and>
        s' = s3\<lparr>self := cr_infraCluster_update mark_cluster_ready (self s3)\<rparr>)"
  unfolding cluster_reconcile_def by (auto simp: exec split: prod.splits option.splits)

lemma cluster_reconcile_err_iff:
  "cluster_reconcile L E s = (Some (Some e), s') \<longleftrightarrow>
     reconcile_node_network L E s = (Some (Some e), s') \<or>
     (\<exists>s1. reconcile_node_network L E s = (Some None, s1) \<and>
        (reconcile_firewall_deployment L E s1 = (Some (Some e), s') \<or>
         (\<exists>s2. reconcile_firewall_deployment L E s1 = (Some None, s2) \<and>
            reconcile_control_plane L E s2 = (Some (Some e), s'))))"
  unfolding cluster_reconcile_def by (auto simp: exec split: prod.splits option.splits)

lemma condition_types_distinct [simp]:
  "ClusterNodeNetworkEnsured \<noteq> ClusterFirewallDeploymentEnsured"
  "ClusterNodeNetworkEnsured \<noteq> ClusterControlPlaneIPEnsured"
  "ClusterFirewallDeploymentEnsured \<noteq> ClusterControlPlaneIPEnsured"
  by (simp_all add: ClusterNodeNetworkEnsured_def ClusterFirewallDeploymentEnsured_def
      ClusterControlPlaneIPEnsured_def)

lemma mark_cluster_ready_simps [simp]:
  "msc_ObjectMeta (mark_cluster_ready ic) = msc_ObjectMeta ic"
  "msc_Spec (mark_cluster_ready ic) = msc_Spec ic"
  "mscs_Conditions (msc_Status (mark_cluster_ready ic)) = mscs_Conditions (msc_Status ic)"
  "mscs_Ready (msc_Status (mark_cluster_ready ic))"
  "Provisioned (mscs_Initialization (msc_Status (mark_cluster_ready ic))) = Some True"
  by (simp_all add: mark_cluster_ready_def)

section \<open>Properties of reconcile\<close>

text \<open>Where the node network and the endpoint of a successful run come from: the object, or the answer
  to an allocation of this run, for the project and partition of the cluster.\<close>

definition network_from :: "clusterReconciler st \<Rightarrow> history \<Rightarrow> string \<Rightarrow> bool" where
  "network_from s tr n \<longleftrightarrow> (case NodeNetworkID (spec s) of
     Some given \<Rightarrow> n = given
   | None \<Rightarrow> \<exists>q nw. Metal (AllocateNetwork q (Inr nw)) \<in> set tr \<and> nw_ID nw = Some n \<and>
       nar_Projectid q = ProjectID (spec s) \<and> nar_Partitionid q = Partition (spec s))"

definition host_from :: "clusterReconciler st \<Rightarrow> history \<Rightarrow> string \<Rightarrow> bool" where
  "host_from s tr h \<longleftrightarrow> (case ControlPlaneIP (spec s) of
     Some given \<Rightarrow> h = given
   | None \<Rightarrow> \<exists>f net q ip. Metal (FindNetworks f (Inr [net])) \<in> set tr \<and>
       Metal (AllocateIP q (Inr ip)) \<in> set tr \<and> ip_Ipaddress ip = Some h \<and>
       iar_Networkid q = nw_ID net \<and> iar_Projectid q = Some (ProjectID (spec s)))"

lemma network_origin:
  "wp (reconcile_node_network L E) (\<lambda>x s'. x = Some None \<longrightarrow>
     (\<exists>tr n. hist s' = hist s @ tr \<and> NodeNetworkID (spec s') = Some n \<and> network_from s tr n)) s"
  unfolding reconcile_node_network_def ensureNodeNetwork_def Let_def
  by (auto simp: wp_simps step_defs network_from_def node_network_request_def
      split: option.split sum.split)

lemma host_origin:
  "wp (reconcile_control_plane L E) (\<lambda>x s'. x = Some None \<longrightarrow> Host (ControlPlaneEndpoint (spec s)) = [] \<longrightarrow>
     (\<exists>tr. hist s' = hist s @ tr \<and> host_from s tr (Host (ControlPlaneEndpoint (spec s'))))) s"
  unfolding reconcile_control_plane_def ensureControlPlaneIP_def Let_def
  by (auto simp: wp_simps step_defs host_from_def control_plane_ip_request_def
      split: option.split sum.split list.split)

text \<open>C14. A reconcile that returns no error leaves the cluster object complete: the node network is the
  one the object named, or else the one this run has allocated in the cluster's project and
  partition; every required step has its condition at True; an empty control plane endpoint has
  been filled with the default port and, as host, the configured control plane IP, or else the
  address this run has allocated in the one default network for the cluster's project; a given
  endpoint is kept; and the object is marked ready and provisioned.\<close>

theorem cluster_reconcile_success:
  assumes "conditions_laws L" and "cluster_reconcile L E s = (Some None, s')"
  shows "\<exists>tr n. hist s' = hist s @ tr \<and>
    NodeNetworkID (spec s') = Some n \<and> network_from s tr n \<and>
    condition_True ClusterNodeNetworkEnsured s' \<and>
    (FirewallDeploymentRef (spec s) \<noteq> None \<longrightarrow>
       condition_True ClusterFirewallDeploymentEnsured s') \<and>
    (if Host (ControlPlaneEndpoint (spec s)) = []
     then Port (ControlPlaneEndpoint (spec s')) = 443 \<and>
       condition_True ClusterControlPlaneIPEnsured s' \<and>
       host_from s tr (Host (ControlPlaneEndpoint (spec s')))
     else ControlPlaneEndpoint (spec s') = ControlPlaneEndpoint (spec s)) \<and>
    mscs_Ready (msc_Status (infra s')) \<and>
    Provisioned (mscs_Initialization (msc_Status (infra s'))) = Some True"
proof -
  from assms(2) obtain s1 s2 s3 where
    n: "reconcile_node_network L E s = (Some None, s1)" and
    f: "reconcile_firewall_deployment L E s1 = (Some None, s2)" and
    c: "reconcile_control_plane L E s2 = (Some None, s3)" and
    s': "s' = s3\<lparr>self := cr_infraCluster_update mark_cluster_ready (self s3)\<rparr>"
    by (auto simp: cluster_reconcile_ok_iff)
  note N = wpD [OF node_network_step [OF assms(1)] n]
    and F = wpD [OF firewall_deployment_step [OF assms(1)] f]
    and C = wpD [OF control_plane_step [OF assms(1)] c]
  from wpD [OF network_origin n] obtain tr1 k where
    T1: "hist s1 = hist s @ tr1" "NodeNetworkID (spec s1) = Some k" "network_from s tr1 k" by auto
  have "emits (\<lambda>_. True) (reconcile_firewall_deployment L E)"
    unfolding reconcile_firewall_deployment_def by (intro emits_intros) simp_all
  then obtain tr2 where T2: "hist s2 = hist s1 @ tr2" using f by (rule emitsD)
  have host: "host_from s (tr1 @ tr2 @ tr3) h" if "host_from s2 tr3 h" for tr3 h
    using that N F by (auto simp: host_from_def same_frame_def split: option.splits)
  have from1: "network_from s (tr1 @ tr) k" for tr
    using T1(3) by (auto simp: network_from_def split: option.splits)
  have ep: "ControlPlaneEndpoint (spec s2) = ControlPlaneEndpoint (spec s)" using N F by simp
  have "\<exists>tr3. hist s3 = hist s2 @ tr3 \<and> (Host (ControlPlaneEndpoint (spec s)) = [] \<longrightarrow>
      host_from s2 tr3 (Host (ControlPlaneEndpoint (spec s3))))"
    using wpD [OF host_origin c] C ep by (cases "Host (ControlPlaneEndpoint (spec s)) = []") auto
  then obtain tr3 where T3: "hist s3 = hist s2 @ tr3" "Host (ControlPlaneEndpoint (spec s)) = [] \<longrightarrow>
      host_from s2 tr3 (Host (ControlPlaneEndpoint (spec s3)))" by blast
  show ?thesis using N F C T1 T2 T3 host from1
    by (intro exI [of _ "tr1 @ tr2 @ tr3"] exI [of _ k]) (auto simp: s' same_frame_def condition_True_def)
qed

definition state0 :: "MetalStackCluster \<Rightarrow> clusterReconciler st" where
  "state0 ic = \<lparr>hist = [], self = \<lparr>cr_cluster = cluster0, cr_infraCluster = ic\<rparr>\<rparr>"

lemmas run_reconcile_defs =
  cluster_reconcile_def reconcile_node_network_def reconcile_firewall_deployment_def
  reconcile_control_plane_def ensureNodeNetwork_def cluster_ensureFirewallDeployment_def
  ensureControlPlaneIP_def firewall_deployment_key_def Let_def step_defs

theorem cluster_reconcile_success_witness:
  "\<exists>s'. cluster_reconcile lib0 env0 (state0 msc0) = (Some None, s') \<and>
     NodeNetworkID (spec s') \<noteq> None \<and> host_from (state0 msc0) (hist s') (Host (ControlPlaneEndpoint (spec s'))) \<and>
     mscs_Ready (msc_Status (infra s'))"
proof -
  obtain x s' where run: "cluster_reconcile lib0 env0 (state0 msc0) = (x, s')" by fastforce
  then have x: "x = Some None"
    by (auto simp: run_reconcile_defs exec state0_def objects0)
  have "Host (ControlPlaneEndpoint (spec (state0 msc0))) = []" "hist (state0 msc0) = []"
    by (simp_all add: state0_def objects0)
  with cluster_reconcile_success [OF lib0_laws(1) run [unfolded x]] run x show ?thesis by auto
qed

text \<open>C35. A reconcile that returns an error has stopped at one of the three steps: the error
  names the step and wraps its cause, the step's condition is False with the cause as message,
  the readiness of the object is as before, and so is the control plane endpoint.\<close>

theorem cluster_reconcile_error:
  assumes "conditions_laws L" and "cluster_reconcile L E s = (Some (Some e), s')"
  shows "(\<exists>t p cause. e = ErrWrap p cause \<and> condition_reports t cause s' \<and>
     (t, p) \<in> {(ClusterNodeNetworkEnsured, ''unable to ensure node network''),
                (ClusterFirewallDeploymentEnsured, ''unable to ensure firewall deployment''),
                (ClusterControlPlaneIPEnsured, ''unable to ensure control plane ip'')}) \<and>
     same_readiness s s' \<and> ControlPlaneEndpoint (spec s') = ControlPlaneEndpoint (spec s)"
  using assms(2) unfolding cluster_reconcile_err_iff
proof (elim disjE exE conjE)
  assume n: "reconcile_node_network L E s = (Some (Some e), s')"
  show ?thesis using wpD [OF node_network_step [OF assms(1)] n] by auto
next
  fix s1 assume n: "reconcile_node_network L E s = (Some None, s1)"
    and f: "reconcile_firewall_deployment L E s1 = (Some (Some e), s')"
  show ?thesis using wpD [OF node_network_step [OF assms(1)] n]
      wpD [OF firewall_deployment_step [OF assms(1)] f] by (auto simp: same_readiness_def)
next
  fix s1 s2 assume n: "reconcile_node_network L E s = (Some None, s1)"
    and f: "reconcile_firewall_deployment L E s1 = (Some None, s2)"
    and c: "reconcile_control_plane L E s2 = (Some (Some e), s')"
  show ?thesis using wpD [OF node_network_step [OF assms(1)] n]
      wpD [OF firewall_deployment_step [OF assms(1)] f]
      wpD [OF control_plane_step [OF assms(1)] c] by (auto simp: same_readiness_def)
qed

theorem cluster_reconcile_error_witness:
  "\<exists>e s'. cluster_reconcile lib0 (env0\<lparr>metal_AllocateNetwork := \<lambda>h q. Inl (ErrNew ''x'')\<rparr>)
      (state0 msc0) = (Some (Some e), s') \<and> same_readiness (state0 msc0) s'"
proof -
  let ?E = "env0\<lparr>metal_AllocateNetwork := \<lambda>h q. Inl (ErrNew ''x'')\<rparr>"
  obtain x s' where run: "cluster_reconcile lib0 ?E (state0 msc0) = (x, s')" by fastforce
  then have x: "x = Some (Some (ErrWrap ''unable to ensure node network''
      (ErrWrap ''error creating node network'' (ErrNew ''x''))))"
    by (auto simp: run_reconcile_defs exec state0_def objects0)
  show ?thesis using cluster_reconcile_error [OF lib0_laws(1) run [unfolded x]] run x by blast
qed

text \<open>Once the node network and the endpoint are known, reconciling allocates nothing more:
  no call of the metal-stack API is made, and the spec is left as it is, whatever the outcome.\<close>

theorem cluster_reconcile_steady:
  assumes "conditions_laws L" and "NodeNetworkID (spec s) \<noteq> None"
    and "Host (ControlPlaneEndpoint (spec s)) \<noteq> []"
    and "cluster_reconcile L E s = (x, s')"
  shows "x \<noteq> None \<and> spec s' = spec s \<and>
    (\<exists>tr. hist s' = hist s @ tr \<and> list_all (\<lambda>e. \<not> is_metal e) tr)"
proof -
  obtain y s1 where n: "reconcile_node_network L E s = (y, s1)" by fastforce
  have y: "y = Some None"
    using n assms(2) by (auto simp: reconcile_node_network_def ensureNodeNetwork_def exec)
  have N: "spec s1 = spec s" "hist s1 = hist s"
    using wpD [OF node_network_step [OF assms(1)] n] assms(2) y by auto
  obtain z s2 where f: "reconcile_firewall_deployment L E s1 = (z, s2)" by fastforce
  have F: "spec s2 = spec s1" "z \<noteq> None"
    using wpD [OF firewall_deployment_step [OF assms(1)] f] by auto
  have "emits (\<lambda>e. \<not> is_metal e) (reconcile_firewall_deployment L E)"
    unfolding reconcile_firewall_deployment_def by (intro emits_intros) simp_all
  then obtain tr where tr: "hist s2 = hist s1 @ tr" "list_all (\<lambda>e. \<not> is_metal e) tr"
    using f by (rule emitsD)
  have c: "reconcile_control_plane L E s2 = (Some None, s2)"
    using assms(3) by (simp add: reconcile_control_plane_def exec F(1) N(1))
  show ?thesis using assms(4) n y f c F N tr
    by (auto simp: cluster_reconcile_def exec split: option.splits)
qed

definition msc_steady :: MetalStackCluster where
  "msc_steady = msc0\<lparr>msc_Spec := (msc_Spec msc0)\<lparr>NodeNetworkID := Some ''net1'',
     ControlPlaneEndpoint := \<lparr>Host = ''10.0.0.1'', Port = 443\<rparr>,
     FirewallDeploymentRef := Some \<lparr>fdrName = ''fw''\<rparr>\<rparr>\<rparr>"

theorem cluster_reconcile_steady_witness:
  "\<exists>x s'. cluster_reconcile lib0 env0 (state0 msc_steady) = (x, s') \<and>
     spec s' = msc_Spec msc_steady"
proof -
  obtain x s' where run: "cluster_reconcile lib0 env0 (state0 msc_steady) = (x, s')" by fastforce
  have "NodeNetworkID (spec (state0 msc_steady)) \<noteq> None"
    and "Host (ControlPlaneEndpoint (spec (state0 msc_steady))) \<noteq> []"
    by (simp_all add: msc_steady_def state0_def)
  from cluster_reconcile_steady [OF lib0_laws(1) this run] run show ?thesis
    by (auto simp: state0_def)
qed

text \<open>A firewall deployment is taken into possession once: when the reconcile step for it
  returns no error, either the fetched object already carried the owner reference and nothing
  was written, or it was updated to carry the reference last and the cluster-name label.\<close>

theorem cluster_owns_firewall_deployment:
  assumes "cluster_ensureFirewallDeployment L E s = (Some None, s')"
  defines "ref \<equiv> NewControllerRef L (msc_ObjectMeta (infra s)) GroupVersion_v1alpha1
      MetalStackClusterKind"
  shows "self s' = self s \<and>
    (\<exists>key fd. hist s' = hist s @ [Kube (GetFirewallDeployment key (Inr fd))] \<and>
        HasOwnerRef L (OwnerReferences (msfd_ObjectMeta fd)) ref) \<or>
    (\<exists>key fd fd' m'. hist s' = hist s @
         [Kube (GetFirewallDeployment key (Inr fd)), Kube (UpdateFirewallDeployment fd' None)] \<and>
        msfd_Spec fd' = msfd_Spec fd \<and> m' = msfd_ObjectMeta fd' \<and>
        OwnerReferences m' = OwnerReferences (msfd_ObjectMeta fd) @ [ref] \<and>
        (\<exists>ls. Labels m' = Some ls \<and>
          ls (ClusterNameLabel L) = Some (Name (cluster_ObjectMeta (cr_cluster (self s))))))"
  using assms(1) unfolding ref_def
  by (auto simp: cluster_ensureFirewallDeployment_def firewall_deployment_key_def Let_def exec
      own_firewall_deployment_def split: option.splits sum.splits if_splits)

theorem cluster_owns_firewall_deployment_witness:
  "\<exists>s' key fd fd'. cluster_ensureFirewallDeployment lib0 env0 (state0 msc_steady) = (Some None, s') \<and>
     hist s' = [Kube (GetFirewallDeployment key (Inr fd)), Kube (UpdateFirewallDeployment fd' None)]"
proof -
  obtain x s' where run: "cluster_ensureFirewallDeployment lib0 env0 (state0 msc_steady) = (x, s')"
    by fastforce
  then have x: "x = Some None"
    by (auto simp: run_reconcile_defs exec state0_def objects0 msc_steady_def)
  have "hist s' \<noteq> hist (state0 msc_steady) @ [Kube (GetFirewallDeployment key (Inr fd))]" for key fd
    using run by (auto simp: run_reconcile_defs exec state0_def objects0 msc_steady_def)
  then show ?thesis
    using cluster_owns_firewall_deployment [OF run [unfolded x]] run x
    by (auto simp: state0_def)
qed

section \<open>Deletion\<close>

text \<open>The calls that release the control plane IP recorded in the spec.\<close>

definition ip_released :: "lib \<Rightarrow> string option \<Rightarrow> history \<Rightarrow> bool" where
  "ip_released L addr tr \<longleftrightarrow> (case addr of
       None \<Rightarrow> tr = []
     | Some a \<Rightarrow>
         (\<exists>err. tr = [Metal (FindIP a (Inl err))] \<and>
            errors_As (Some err) ''FindIPDefault'' = Some 404) \<or>
         (\<exists>ip. tr = [Metal (FindIP a (Inr ip))] \<and> ip_Type ip = Some (V1IPBaseTypeStatic L)) \<or>
         (\<exists>ip i. tr = [Metal (FindIP a (Inr ip)), Metal (FreeIP i None)] \<and>
            ip_Ipaddress ip = Some i \<and> ip_Type ip \<noteq> Some (V1IPBaseTypeStatic L)))"

definition network_released :: "string option \<Rightarrow> history" where
  "network_released n = (case n of None \<Rightarrow> [] | Some i \<Rightarrow> [Metal (FreeNetwork i None)])"

lemma deleteControlPlaneIP_step:
  "wp (deleteControlPlaneIP L E) (\<lambda>x s'. self s' = self s \<and> x \<noteq> None \<and>
     (x = Some None \<longrightarrow> (\<exists>tr. hist s' = hist s @ tr \<and> ip_released L (ControlPlaneIP (spec s)) tr))) s"
  unfolding deleteControlPlaneIP_def
  by (auto simp: wp_simps ip_released_def StatusNotFound_def split: option.split sum.split)

lemma deleteNodeNetwork_step:
  "wp (deleteNodeNetwork E) (\<lambda>x s'. self s' = self s \<and> x \<noteq> None \<and>
     (x = Some None \<longrightarrow> hist s' = hist s @ network_released (NodeNetworkID (spec s)))) s"
  unfolding deleteNodeNetwork_def
  by (auto simp: wp_simps network_released_def split: option.split)

lemma machines_gone_step:
  "wp (cluster_ensureAllMetalStackMachinesAreGone L E) (\<lambda>x s'. self s' = self s \<and> x \<noteq> None \<and>
     (\<exists>resp. hist s' = hist s @
        [Kube (ListMachines (machines_of_cluster L (cr_cluster (self s))) resp)] \<and>
        (x = Some None \<longleftrightarrow> resp = Inr []))) s"
  by (rule cluster_gate.gate_asks)

lemma firewall_gone_step:
  "wp (ensureFirewallDeploymentIsGone L E) (\<lambda>x s'. self s' = self s \<and>
     (x = None \<longleftrightarrow> FirewallDeploymentRef (spec s) = None) \<and>
     (\<exists>tr. hist s' = hist s @ tr \<and> list_all (\<lambda>e. \<not> is_metal e) tr \<and>
       (x = Some None \<longrightarrow> (\<exists>ref resp. FirewallDeploymentRef (spec s) = Some ref \<and>
          tr = [Kube (GetFirewallDeployment
            \<lparr>nnNamespace = Namespace (cluster_ObjectMeta (cr_cluster (self s))),
             nnName = fdrName ref\<rparr> resp)] \<and> IsNotFound L (err_of resp))))) s"
  unfolding ensureFirewallDeploymentIsGone_def firewall_deployment_key_def
  by (auto simp: wp_simps split: sum.split option.split)

text \<open>The order of the deletion: an earlier step that fails ends it.\<close>

definition gone_prefix :: "lib \<Rightarrow> clusterReconciler \<Rightarrow> history \<Rightarrow> bool" where
  "gone_prefix L r tr \<longleftrightarrow> (\<exists>ref resp.
     FirewallDeploymentRef (msc_Spec (cr_infraCluster r)) = Some ref \<and> IsNotFound L (err_of resp) \<and>
     tr = [Kube (ListMachines (machines_of_cluster L (cr_cluster r)) (Inr [])),
           Kube (GetFirewallDeployment
             \<lparr>nnNamespace = Namespace (cluster_ObjectMeta (cr_cluster r)), nnName = fdrName ref\<rparr>
             resp)])"

lemma cluster_delete_gate:
  assumes "cluster_has_finalizer L (self s)" and "cluster_delete L E s = (x, s')"
  shows "(self s' = self s \<and>
       (\<exists>tr. hist s' = hist s @ tr \<and> list_all (\<lambda>e. \<not> is_metal e) tr)) \<or>
     (\<exists>s2 pre. self s2 = self s \<and> hist s2 = hist s @ pre \<and> gone_prefix L (self s) pre \<and>
       cluster_release L E s2 = (x, s'))"
proof -
  obtain y s1 where m: "cluster_ensureAllMetalStackMachinesAreGone L E s = (y, s1)" by fastforce
  obtain z s2 where f: "ensureFirewallDeploymentIsGone L E s1 = (z, s2)" by fastforce
  obtain resp where M: "self s1 = self s" "y \<noteq> None" "y = Some None \<longleftrightarrow> resp = Inr []"
    "hist s1 = hist s @ [Kube (ListMachines (machines_of_cluster L (cr_cluster (self s))) resp)]"
    using wpD [OF machines_gone_step m] by auto
  note F = wpD [OF firewall_gone_step f]
  show ?thesis
  proof (cases "y = Some None \<and> z = Some None")
    case True
    then have "cluster_release L E s2 = (x, s')"
      using assms m f by (simp add: cluster_delete_def cluster_has_finalizer_def exec)
    moreover have "gone_prefix L (self s) (drop (length (hist s)) (hist s2))"
      "hist s2 = hist s @ drop (length (hist s)) (hist s2)" "self s2 = self s"
      using F M True by (auto simp: gone_prefix_def)
    ultimately show ?thesis by blast
  next
    case False
    have "(self s' = self s1 \<and> hist s' = hist s1) \<or> (self s' = self s2 \<and> hist s' = hist s2)"
      using assms m f False M(2)
      by (auto simp: cluster_delete_def cluster_has_finalizer_def exec split: option.splits)
    then show ?thesis using F M by auto
  qed
qed

lemma cluster_release_step:
  "wp (cluster_release L E) (\<lambda>x s'. x \<noteq> None \<and>
     (\<exists>tr. hist s' = hist s @ tr) \<and>
     (Finalizers (msc_ObjectMeta (infra s')) \<noteq> Finalizers (msc_ObjectMeta (infra s)) \<longrightarrow> x = Some None) \<and>
     (x = Some None \<longrightarrow> NodeNetworkID (spec s') = None \<and> ControlPlaneIP (spec s') = None \<and>
        Finalizers (msc_ObjectMeta (infra s')) =
          RemoveFinalizer L (Finalizers (msc_ObjectMeta (infra s))) ClusterFinalizer \<and>
        (\<exists>ips. ip_released L (ControlPlaneIP (spec s)) ips \<and>
           hist s' = hist s @ ips @ network_released (NodeNetworkID (spec s))))) s"
proof -
  have "emits (\<lambda>e. True) (cluster_release L E)"
    unfolding cluster_release_def by (intro emits_intros) simp_all
  then have ext: "wp (cluster_release L E) (\<lambda>x s'. \<exists>tr. hist s' = hist s @ tr) s"
    by (rule wp_mono [OF emits_wp]) auto
  obtain x1 s1 where d: "deleteControlPlaneIP L E s = (x1, s1)" by fastforce
  let ?s1 = "s1\<lparr>self := cr_infraCluster_update (msc_Spec_update (\<lambda>sp. sp\<lparr>ControlPlaneIP := None\<rparr>)) (self s1)\<rparr>"
  obtain x2 s2 where n: "deleteNodeNetwork E ?s1 = (x2, s2)" by fastforce
  note D = wpD [OF deleteControlPlaneIP_step d] and N = wpD [OF deleteNodeNetwork_step n]
  obtain x s' where run: "cluster_release L E s = (x, s')" by fastforce
  then have "x \<noteq> None \<and> (Finalizers (msc_ObjectMeta (infra s')) \<noteq> Finalizers (msc_ObjectMeta (infra s)) \<longrightarrow> x = Some None) \<and>
     (x = Some None \<longrightarrow> NodeNetworkID (spec s') = None \<and> ControlPlaneIP (spec s') = None \<and>
        Finalizers (msc_ObjectMeta (infra s')) =
          RemoveFinalizer L (Finalizers (msc_ObjectMeta (infra s))) ClusterFinalizer \<and>
        (\<exists>ips. ip_released L (ControlPlaneIP (spec s)) ips \<and>
           hist s' = hist s @ ips @ network_released (NodeNetworkID (spec s))))"
    using d n D N
    by (auto simp: cluster_release_def exec remove_cluster_finalizer_def split: option.splits)
  with ext run show ?thesis by (auto simp: wp_def)
qed

text \<open>C11. Nothing is released while something still uses it: a deletion calls the metal-stack
  API only after listing the machines of the cluster gave none and fetching the firewall
  deployment gave NotFound, in this run and in this order.\<close>

theorem cluster_delete_gated:
  assumes "cluster_delete L E s = (x, s')" and "hist s' = hist s @ tr"
    and "e \<in> set tr" and "is_metal e"
  shows "cluster_has_finalizer L (self s) \<and> gone_prefix L (self s) (take 2 tr)"
proof -
  have fin: "cluster_has_finalizer L (self s)"
    using assms cluster_rec.delete_guard [of L s E] by fastforce
  from cluster_delete_gate [OF fin assms(1)] show ?thesis
  proof (elim disjE exE conjE)
    fix tr' assume "hist s' = hist s @ tr'" "list_all (\<lambda>e. \<not> is_metal e) tr'"
    with assms show ?thesis by (auto simp: list_all_iff)
  next
    fix s2 pre assume p: "hist s2 = hist s @ pre" "gone_prefix L (self s) pre"
      and r: "cluster_release L E s2 = (x, s')"
    from wpD [OF cluster_release_step r] obtain tr' where "hist s' = hist s2 @ tr'" by auto
    with p assms(2) have "take 2 tr = pre"
      by (auto simp: gone_prefix_def)
    with p fin show ?thesis by simp
  qed
qed

definition msc_old :: MetalStackCluster where
  "msc_old = msc_steady\<lparr>msc_ObjectMeta := (msc_ObjectMeta msc0)\<lparr>Finalizers := [ClusterFinalizer],
     DeletionTimestamp := Some 5\<rparr>,
     msc_Spec := (msc_Spec msc_steady)\<lparr>ControlPlaneIP := Some ''10.0.0.1''\<rparr>\<rparr>"

abbreviation env_gone :: env where
  "env_gone \<equiv> env0\<lparr>kube_GetFirewallDeployment := \<lambda>h q. Inl not_found\<rparr>"

lemmas run_delete_defs =
  cluster_delete_def cluster_release_def cluster_ensureAllMetalStackMachinesAreGone_def
  ensureFirewallDeploymentIsGone_def firewall_deployment_key_def deleteControlPlaneIP_def
  deleteNodeNetwork_def errors_As_def StatusNotFound_def remove_cluster_finalizer_def

theorem cluster_delete_gated_witness:
  "\<exists>s' tr. cluster_delete lib0 env_gone (state0 msc_old) = (Some None, s') \<and>
     hist s' = tr \<and> Metal (FreeNetwork ''net1'' None) \<in> set tr \<and>
     gone_prefix lib0 (self (state0 msc_old)) (take 2 tr)"
proof -
  obtain x s' where run: "cluster_delete lib0 env_gone (state0 msc_old) = (x, s')" by fastforce
  then have x: "x = Some None" and ev: "Metal (FreeNetwork ''net1'' None) \<in> set (hist s')"
    by (auto simp: run_delete_defs exec state0_def objects0 msc_old_def msc_steady_def)
  have h: "hist s' = hist (state0 msc_old) @ hist s'" by (simp add: state0_def)
  show ?thesis
    using cluster_delete_gated [OF run h ev] run x ev by auto
qed

text \<open>C12. The finalizer goes last: a deletion that takes the finalizer off the object has returned
  no error, has found no machine and no firewall deployment left, has released the recorded
  control plane IP (unless it was gone or static) and then freed the node network, and made no
  other call.\<close>

theorem cluster_delete_complete:
  assumes "cluster_delete L E s = (x, s')"
    and "Finalizers (msc_ObjectMeta (infra s')) \<noteq> Finalizers (msc_ObjectMeta (infra s))"
  shows "x = Some None \<and> NodeNetworkID (spec s') = None \<and> ControlPlaneIP (spec s') = None \<and>
    (\<exists>pre ips. hist s' = hist s @ pre @ ips @ network_released (NodeNetworkID (spec s)) \<and>
       gone_prefix L (self s) pre \<and> ip_released L (ControlPlaneIP (spec s)) ips)"
proof -
  have fin: "cluster_has_finalizer L (self s)"
    using assms cluster_rec.delete_guard [of L s E] by fastforce
  from cluster_delete_gate [OF fin assms(1)] assms(2) obtain s2 pre where
    p: "self s2 = self s" "hist s2 = hist s @ pre" "gone_prefix L (self s) pre" and
    r: "cluster_release L E s2 = (x, s')"
    by auto
  from wpD [OF cluster_release_step r] p assms(2) show ?thesis by auto
qed

theorem cluster_delete_complete_witness:
  "\<exists>s' pre ips. cluster_delete lib0 env_gone (state0 msc_old) = (Some None, s') \<and>
     hist s' = pre @ ips @ [Metal (FreeNetwork ''net1'' None)]"
proof -
  obtain x s' where run: "cluster_delete lib0 env_gone (state0 msc_old) = (x, s')" by fastforce
  then have "Finalizers (msc_ObjectMeta (infra s')) \<noteq>
      Finalizers (msc_ObjectMeta (infra (state0 msc_old)))"
    by (auto simp: run_delete_defs exec state0_def objects0 msc_old_def msc_steady_def)
  from cluster_delete_complete [OF run this] run show ?thesis
    by (fastforce simp: state0_def msc_old_def msc_steady_def network_released_def)
qed

text \<open>What the calls about an IP say of the IP recorded in the spec.\<close>

definition ip_calls_ok :: "lib \<Rightarrow> string option \<Rightarrow> history \<Rightarrow> bool" where
  "ip_calls_ok L addr tr \<longleftrightarrow>
     (\<forall>a r. Metal (FindIP a r) \<in> set tr \<longrightarrow> addr = Some a) \<and>
     (\<forall>i r. Metal (FreeIP i r) \<in> set tr \<longrightarrow>
        (\<exists>a ip. addr = Some a \<and> Metal (FindIP a (Inr ip)) \<in> set tr \<and>
           ip_Ipaddress ip = Some i \<and> ip_Type ip \<noteq> Some (V1IPBaseTypeStatic L)))"

lemma deleteControlPlaneIP_calls:
  "wp (deleteControlPlaneIP L E) (\<lambda>x s'. \<exists>tr. hist s' = hist s @ tr \<and>
     ip_calls_ok L (ControlPlaneIP (spec s)) tr) s"
  unfolding deleteControlPlaneIP_def ip_calls_ok_def
  by (auto simp: wp_simps split: option.split sum.split)

lemma cluster_release_refused:
  assumes "NodeNetworkID (spec s) = Some n"
    and "\<And>tr. metal_FreeNetwork E (hist s @ tr) n \<noteq> None"
  shows "wp (cluster_release L E) (\<lambda>x s'. NodeNetworkID (spec s') = Some n \<and>
     Finalizers (msc_ObjectMeta (infra s')) = Finalizers (msc_ObjectMeta (infra s))) s"
proof -
  obtain x t where d: "deleteControlPlaneIP L E s = (x, t)" by fastforce
  from wpD [OF deleteControlPlaneIP_step d] wpD [OF deleteControlPlaneIP_calls d] obtain tr where
    t: "self t = self s" "hist t = hist s @ tr" by auto
  moreover obtain e where "metal_FreeNetwork E (hist s @ tr) n = Some e" using assms(2) by blast
  ultimately show ?thesis using assms(1) d
    by (auto simp: cluster_release_def deleteNodeNetwork_def wp_def exec split: option.split)
qed

text \<open>C25. The deletion is not repeatable: when a run has freed the node network and the object
  could not be patched, the object still names the network. With an API that refuses to free a
  network a second time no later deletion run takes the finalizer off, as the error is not
  looked at (the release of the IP, before it, does look for a missing IP).\<close>

theorem cluster_delete_not_repeatable:
  assumes "\<forall>h i. Metal (FreeNetwork i None) \<in> set h \<longrightarrow> metal_FreeNetwork E h i \<noteq> None"
    and "NodeNetworkID (spec s) = Some n" and "Metal (FreeNetwork n None) \<in> set (hist s)"
    and "cluster_delete L E s = (x, s')"
  shows "NodeNetworkID (spec s') = Some n \<and>
    Finalizers (msc_ObjectMeta (infra s')) = Finalizers (msc_ObjectMeta (infra s))"
proof (cases "cluster_has_finalizer L (self s)")
  case False
  with assms(2,4) show ?thesis by (simp add: cluster_rec.delete_guard)
next
  case True
  from cluster_delete_gate [OF True assms(4)] show ?thesis
  proof (elim disjE exE conjE)
    fix s2 pre assume s2: "self s2 = self s" "hist s2 = hist s @ pre"
      and r: "cluster_release L E s2 = (x, s')"
    have "metal_FreeNetwork E (hist s2 @ tr) n \<noteq> None" for tr
      using assms(1,3) s2(2) by simp
    from wpD [OF cluster_release_refused [OF _ this] r] s2(1) assms(2) show ?thesis by simp
  qed (use assms(2) in simp)
qed

text \<open>Such a life: the patch of the first run fails, the second run finds the network freed.\<close>

definition env_unstored :: env where
  "env_unstored = env_gone\<lparr>kube_PatchObject := \<lambda>h a b. Some (ErrNew ''conflict''),
     metal_FreeNetwork := \<lambda>h i. if Metal (FreeNetwork i None) \<in> set h
       then Some (ErrNew ''network not found'') else None\<rparr>"

lemma env_unstored_run:
  obtains y s1 where
    "cluster_dispatch lib0 env_unstored (state0 msc_old) = (Some (Some y), s1)"
    "Metal (FreeNetwork ''net1'' None) \<in> set (hist s1)"
proof -
  obtain z s1 where run: "cluster_dispatch lib0 env_unstored (state0 msc_old) = (z, s1)" by fastforce
  have "Metal (FreeNetwork ''net1'' None) \<in> set (hist s1) \<and> (\<exists>y. z = Some (Some y))"
    using run by (auto simp: env_unstored_def cluster_dispatch_def cluster_switch_def cluster_patch_def
        cluster_paused_def cluster_deleting_def cluster_has_finalizer_def run_delete_defs exec
        state0_def objects0 msc_old_def msc_steady_def mark_cluster_paused_def errors_Join_def
        set_cluster_condition_def MetalStackCluster_SetConditions_def
        map_filter_def)
  with that run show ?thesis by blast
qed

theorem cluster_delete_not_repeatable_witness:
  "\<exists>y s1 x (s2 :: clusterReconciler st).
     cluster_dispatch lib0 env_unstored (state0 msc_old) = (Some (Some y), s1) \<and>
     cluster_delete lib0 env_unstored ((state0 msc_old)\<lparr>hist := hist s1\<rparr>) = (x, s2) \<and>
     NodeNetworkID (spec s2) = Some ''net1'' \<and> Finalizers (msc_ObjectMeta (infra s2)) = [ClusterFinalizer]"
proof -
  obtain y s1 where run: "cluster_dispatch lib0 env_unstored (state0 msc_old) = (Some (Some y), s1)"
    and r: "Metal (FreeNetwork ''net1'' None) \<in> set (hist s1)" by (rule env_unstored_run)
  let ?s = "(state0 msc_old)\<lparr>hist := hist s1\<rparr>"
  obtain x s2 where d: "cluster_delete lib0 env_unstored ?s = (x, s2)" by fastforce
  have "\<forall>h i. Metal (FreeNetwork i None) \<in> set h \<longrightarrow> metal_FreeNetwork env_unstored h i \<noteq> None"
    by (simp add: env_unstored_def)
  moreover have "NodeNetworkID (spec ?s) = Some ''net1''"
    by (simp add: state0_def msc_old_def msc_steady_def)
  ultimately have "NodeNetworkID (spec s2) = Some ''net1'' \<and>
      Finalizers (msc_ObjectMeta (infra s2)) = Finalizers (msc_ObjectMeta (infra ?s))"
    by (rule cluster_delete_not_repeatable [OF _ _ _ d]) (simp add: r)
  with run r d show ?thesis by (auto simp: state0_def msc_old_def msc_steady_def)
qed

lemma cluster_release_calls:
  "wp (cluster_release L E) (\<lambda>x s'. \<exists>tr. hist s' = hist s @ tr \<and>
     ip_calls_ok L (ControlPlaneIP (spec s)) tr) s"
  unfolding cluster_release_def deleteNodeNetwork_def
  by (rule wp_bndI, rule wp_mono [OF deleteControlPlaneIP_calls])
    (fastforce simp: wp_simps ip_calls_ok_def split: option.split)

lemma cluster_delete_calls:
  assumes "cluster_delete L E s = (x, s')" and "hist s' = hist s @ tr"
  shows "ip_calls_ok L (ControlPlaneIP (spec s)) tr"
proof (cases "cluster_has_finalizer L (self s)")
  case False
  with assms cluster_rec.delete_guard [of L s E] show ?thesis by (auto simp: ip_calls_ok_def)
next
  case True
  from cluster_delete_gate [OF True assms(1)] show ?thesis
  proof (elim disjE exE conjE)
    fix tr' assume "hist s' = hist s @ tr'" "list_all (\<lambda>e. \<not> is_metal e) tr'"
    with assms(2) show ?thesis by (auto simp: list_all_iff ip_calls_ok_def)
  next
    fix s2 pre assume p: "self s2 = self s" "hist s2 = hist s @ pre" "gone_prefix L (self s) pre"
      and r: "cluster_release L E s2 = (x, s')"
    from wpD [OF cluster_release_calls r] p assms(2) show ?thesis
      by (fastforce simp: gone_prefix_def ip_calls_ok_def)
  qed
qed

lemma same_frame_trans: "same_frame s t \<Longrightarrow> same_frame t u \<Longrightarrow> same_frame s u"
  by (simp add: same_frame_def)

lemma cluster_reconcile_frame:
  assumes "conditions_laws L" and "cluster_reconcile L E s = (Some err, s')"
  shows "same_frame s s'"
proof -
  have n: "same_frame s t" if "reconcile_node_network L E s = (x, t)" for x t
    using wpD [OF node_network_step [OF assms(1)] that] by simp
  have f: "same_frame t u" if "reconcile_firewall_deployment L E t = (x, u)" for x t u
    using wpD [OF firewall_deployment_step [OF assms(1)] that] by simp
  have c: "same_frame t u" if "reconcile_control_plane L E t = (x, u)" for x t u
    using wpD [OF control_plane_step [OF assms(1)] that] by simp
  have ready: "same_frame t (t\<lparr>self := cr_infraCluster_update mark_cluster_ready (self t)\<rparr>)" for t
    by (simp add: same_frame_def)
  show ?thesis
  proof (cases err)
    case None
    with assms(2) obtain s1 s2 s3 where
      "reconcile_node_network L E s = (Some None, s1)"
      "reconcile_firewall_deployment L E s1 = (Some None, s2)"
      "reconcile_control_plane L E s2 = (Some None, s3)" and
      s': "s' = s3\<lparr>self := cr_infraCluster_update mark_cluster_ready (self s3)\<rparr>"
      by (auto simp: cluster_reconcile_ok_iff)
    then have "same_frame s s1" "same_frame s1 s2" "same_frame s2 s3" using n f c by blast+
    with ready [of s3] show ?thesis unfolding s' by (simp add: same_frame_def)
  next
    case (Some e)
    with assms(2) have "cluster_reconcile L E s = (Some (Some e), s')" by simp
    then show ?thesis unfolding cluster_reconcile_err_iff
      by (elim disjE exE conjE) (auto dest!: n f c intro: same_frame_trans)
  qed
qed

text \<open>Only the control plane IP recorded in the spec is ever freed, by the address the API
  gave for it, and never one the API calls static.\<close>

theorem cluster_delete_spares_static_ip:
  assumes "cluster_delete L E s = (x, s')" and "hist s' = hist s @ tr"
    and "Metal (FreeIP i r) \<in> set tr"
  shows "\<exists>a ip. ControlPlaneIP (spec s) = Some a \<and> Metal (FindIP a (Inr ip)) \<in> set tr \<and>
    ip_Ipaddress ip = Some i \<and> ip_Type ip \<noteq> Some (V1IPBaseTypeStatic L)"
  using cluster_delete_calls [OF assms(1,2)] assms(3) by (auto simp: ip_calls_ok_def)

theorem cluster_delete_spares_static_ip_witness:
  "\<exists>s'. cluster_delete lib0 env_gone (state0 msc_old) = (Some None, s') \<and>
     (\<exists>a ip. ControlPlaneIP (msc_Spec msc_old) = Some a \<and> Metal (FindIP a (Inr ip)) \<in> set (hist s'))"
proof -
  obtain x s' where run: "cluster_delete lib0 env_gone (state0 msc_old) = (x, s')" by fastforce
  then have x: "x = Some None" and ev: "Metal (FreeIP ''10.0.0.1'' None) \<in> set (hist s')"
    by (auto simp: run_delete_defs exec state0_def objects0 msc_old_def msc_steady_def)
  have h: "hist s' = hist (state0 msc_old) @ hist s'" by (simp add: state0_def)
  show ?thesis
    using cluster_delete_spares_static_ip [OF run h ev] run x by (auto simp: state0_def)
qed

text \<open>C24. The control plane IP the controller acquires itself is not recorded: no outcome of a
  reconcile changes the spec's control plane IP, and while that field is empty a deletion
  makes no call about any IP, even when it completes. An acquired ephemeral IP is therefore
  never released.\<close>

theorem cluster_acquired_ip_not_released:
  assumes "conditions_laws L" and "ControlPlaneIP (spec s) = None"
    and "cluster_reconcile L E s = (Some err, s1)" and "spec t = spec s1"
    and "cluster_delete L E' t = (x, t')" and "hist t' = hist t @ tr"
  shows "Metal (FindIP a r) \<notin> set tr \<and> Metal (FreeIP a r') \<notin> set tr"
proof -
  have "ControlPlaneIP (spec t) = None"
    using cluster_reconcile_frame [OF assms(1,3)] assms(2,4) by (simp add: same_frame_def)
  with cluster_delete_calls [OF assms(5,6)] show ?thesis by (auto simp: ip_calls_ok_def)
qed

definition msc_auto :: MetalStackCluster where
  "msc_auto = msc0\<lparr>msc_ObjectMeta := meta0\<lparr>Finalizers := [ClusterFinalizer]\<rparr>,
     msc_Spec := (msc_Spec msc0)\<lparr>FirewallDeploymentRef := Some \<lparr>fdrName = ''fw''\<rparr>\<rparr>\<rparr>"

text \<open>In the witness the reconcile did allocate the IP, and the deletion that follows completes.\<close>

theorem cluster_acquired_ip_not_released_witness:
  "\<exists>s1 q ip t'. cluster_reconcile lib0 env0 (state0 msc_auto) = (Some None, s1) \<and>
     Metal (AllocateIP q (Inr ip)) \<in> set (hist s1) \<and>
     cluster_delete lib0 env_gone (state0 (infra s1)) = (Some None, t') \<and>
     Finalizers (msc_ObjectMeta (infra t')) = [] \<and> Metal (FreeIP ''10.0.0.1'' None) \<notin> set (hist t')"
proof -
  obtain y s1 where run: "cluster_reconcile lib0 env0 (state0 msc_auto) = (y, s1)" by fastforce
  then have y: "y = Some None" and ev: "\<exists>q ip. Metal (AllocateIP q (Inr ip)) \<in> set (hist s1)"
    and sp: "msc_ObjectMeta (infra s1) = msc_ObjectMeta msc_auto" "ControlPlaneIP (spec s1) = None"
      "FirewallDeploymentRef (spec s1) = Some \<lparr>fdrName = ''fw''\<rparr>"
      "NodeNetworkID (spec s1) = Some ''net1''"
    by (auto simp: run_reconcile_defs exec state0_def objects0 msc_auto_def own_firewall_deployment_def
        mark_cluster_ready_def)
  obtain x t' where del: "cluster_delete lib0 env_gone (state0 (infra s1)) = (x, t')" by fastforce
  then have x: "x = Some None" "Finalizers (msc_ObjectMeta (infra t')) = []"
    by (auto simp: run_delete_defs exec state0_def not_found_def sp msc_auto_def)
  have cp: "ControlPlaneIP (spec (state0 msc_auto)) = None"
    by (simp add: state0_def msc_auto_def msc0_def)
  have t: "spec (state0 (infra s1)) = spec s1" and h: "hist t' = hist (state0 (infra s1)) @ hist t'"
    by (simp_all add: state0_def)
  show ?thesis
    using cluster_acquired_ip_not_released [OF lib0_laws(1) cp run [unfolded y] t del h]
      run y ev del x by blast
qed

text \<open>Deleting a cluster that has no firewall deployment reference panics as soon as its
  machines are gone: the reference is dereferenced without a nil check, though the field is
  optional. The object is left with its finalizer, its network and its IP.\<close>

theorem cluster_delete_panics_without_firewall:
  assumes "cluster_has_finalizer L (self s)" and "FirewallDeploymentRef (spec s) = None"
    and "kube_ListMachines E (hist s) (machines_of_cluster L (cr_cluster (self s))) = Inr []"
  shows "fst (cluster_delete L E s) = None \<and> self (snd (cluster_delete L E s)) = self s"
  using assms
  by (simp add: cluster_delete_def cluster_has_finalizer_def firewall_deployment_key_def exec
      cluster_ensureAllMetalStackMachinesAreGone_def ensureFirewallDeploymentIsGone_def)

definition msc_nofw :: MetalStackCluster where
  "msc_nofw = msc_old\<lparr>msc_Spec := (msc_Spec msc_old)\<lparr>FirewallDeploymentRef := None\<rparr>\<rparr>"

theorem cluster_delete_panics_without_firewall_witness:
  "fst (cluster_delete lib0 env0 (state0 msc_nofw)) = None \<and>
     ClusterFinalizer \<in> set (Finalizers (msc_ObjectMeta msc_nofw))"
  using cluster_delete_panics_without_firewall [of lib0 "state0 msc_nofw" env0]
  by (simp add: cluster_has_finalizer_def state0_def msc_nofw_def msc_old_def)

text \<open>While the firewall deployment still exists the deletion reports success without going
  on: once the machines are gone and the fetch answers with an object, or fails for another
  reason than NotFound, the error of that step is dropped, the result is nil, nothing on the
  object changes, and the metal-stack API is not called.\<close>

theorem cluster_delete_waits_silently:
  assumes "cluster_has_finalizer L (self s)" and "FirewallDeploymentRef (spec s) = Some ref"
    and "kube_ListMachines E (hist s) (machines_of_cluster L (cr_cluster (self s))) = Inr []"
    and "\<forall>h key. \<not> IsNotFound L (err_of (kube_GetFirewallDeployment E h key))"
    and "cluster_delete L E s = (x, s')"
  shows "x = Some None \<and> self s' = self s \<and>
    (\<exists>tr. hist s' = hist s @ tr \<and> list_all (\<lambda>e. \<not> is_metal e) tr)"
  using assms
  by (auto simp: cluster_delete_def cluster_has_finalizer_def firewall_deployment_key_def exec
      cluster_ensureAllMetalStackMachinesAreGone_def ensureFirewallDeploymentIsGone_def
      split: sum.splits option.splits if_splits)

theorem cluster_delete_waits_silently_witness:
  "\<exists>s'. cluster_delete lib0 (env0\<lparr>kube_GetFirewallDeployment := \<lambda>h q. Inl (ErrNew ''timeout'')\<rparr>)
      (state0 msc_old) = (Some None, s') \<and> self s' = self (state0 msc_old)"
proof -
  let ?E = "env0\<lparr>kube_GetFirewallDeployment := \<lambda>h q. Inl (ErrNew ''timeout'')\<rparr>"
  obtain x s' where run: "cluster_delete lib0 ?E (state0 msc_old) = (x, s')" by fastforce
  have "cluster_has_finalizer lib0 (self (state0 msc_old))"
    "FirewallDeploymentRef (spec (state0 msc_old)) = Some \<lparr>fdrName = ''fw''\<rparr>"
    "kube_ListMachines ?E (hist (state0 msc_old))
       (machines_of_cluster lib0 (cr_cluster (self (state0 msc_old)))) = Inr []"
    "\<forall>h key. \<not> IsNotFound lib0 (err_of (kube_GetFirewallDeployment ?E h key))"
    by (simp_all add: cluster_has_finalizer_def state0_def msc_old_def msc_steady_def errors_As_def)
  from cluster_delete_waits_silently [OF this run] run show ?thesis by blast
qed

section \<open>The whole Reconcile\<close>

text \<open>C20. Every call of the metal-stack API a Reconcile of a cluster makes is guarded: in the same
  run the object was read from the Kubernetes API with the finalizer already on it, its owner
  was found, and neither of them is paused.\<close>

theorem cluster_Reconcile_guarded:
  assumes "MetalStackClusterReconciler_Reconcile L E req s = (x, s')"
    and "hist s' = hist s @ tr" and "e \<in> set tr" and "is_metal e"
  shows "\<exists>ic c. Kube (GetMetalStackCluster req (Inr ic)) \<in> set tr \<and>
    Kube (GetOwnerCluster (msc_ObjectMeta ic) (Inr (Some c))) \<in> set tr \<and>
    ContainsFinalizer L (Finalizers (msc_ObjectMeta ic)) ClusterFinalizer \<and>
    \<not> IsPaused L c (msc_ObjectMeta ic)"
proof -
  let ?get = "kube_GetMetalStackCluster E (hist s) req"
  let ?h1 = "hist s @ [Kube (GetMetalStackCluster req ?get)]"
  obtain ic where ic: "?get = Inr ic"
    using assms by (cases ?get)
      (auto simp: MetalStackClusterReconciler_Reconcile_def exec split: if_splits)
  let ?own = "kube_GetOwnerCluster E ?h1 (msc_ObjectMeta ic)"
  obtain c where c: "?own = Inr (Some c)"
    using assms ic by (auto simp: MetalStackClusterReconciler_Reconcile_def exec
        split: sum.splits option.splits)
  define t where "t = \<lparr>hist = ?h1 @ [Kube (GetOwnerCluster (msc_ObjectMeta ic) ?own)],
      self = \<lparr>cr_cluster = c, cr_infraCluster = ic\<rparr>\<rparr>"
  obtain y t' where d: "cluster_dispatch L E t = (y, t')" by fastforce
  have h: "hist s' = hist t'"
    using assms(1) ic c d
    by (auto simp: MetalStackClusterReconciler_Reconcile_def exec with_self_def t_def
        split: option.splits)
  have "emits (\<lambda>_. True) (cluster_dispatch L E)"
    unfolding cluster_dispatch_def cluster_switch_def cluster_delete_def cluster_release_def
      cluster_reconcile_def reconcile_node_network_def reconcile_firewall_deployment_def
      reconcile_control_plane_def
    by (intro emits_intros) simp_all
  then obtain tr' where tr': "hist t' = hist t @ tr'" using d by (rule emitsD)
  with h assms(2) have tr: "tr = [Kube (GetMetalStackCluster req ?get),
      Kube (GetOwnerCluster (msc_ObjectMeta ic) ?own)] @ tr'"
    by (simp add: t_def)
  with assms(3,4) have "e \<in> set tr'" by auto
  from cluster_rec.metal_event_guarded [OF d tr' this assms(4)] tr ic c show ?thesis
    by (auto simp: t_def cluster_paused_def cluster_has_finalizer_def)
qed

theorem cluster_Reconcile_guarded_witness:
  "\<exists>x s' ic. MetalStackClusterReconciler_Reconcile lib0
      (env0\<lparr>kube_GetMetalStackCluster := \<lambda>h q. Inr msc_auto\<rparr>) \<lparr>nnNamespace = ''ns'', nnName = ''c1''\<rparr>
      \<lparr>hist = [], self = ()\<rparr> = (x, s') \<and>
     Kube (GetMetalStackCluster \<lparr>nnNamespace = ''ns'', nnName = ''c1''\<rparr> (Inr ic)) \<in> set (hist s')"
proof -
  let ?E = "env0\<lparr>kube_GetMetalStackCluster := \<lambda>h q. Inr msc_auto\<rparr>"
  let ?req = "\<lparr>nnNamespace = ''ns'', nnName = ''c1''\<rparr>"
  let ?s = "\<lparr>hist = [], self = ()\<rparr>"
  obtain x s' where run: "MetalStackClusterReconciler_Reconcile lib0 ?E ?req ?s = (x, s')"
    by fastforce
  have h: "hist s' = hist ?s @ hist s'" by simp
  have e: "Metal (AllocateNetwork (node_network_request lib0
      (cr_infraCluster (mark_cluster_paused lib0 \<lparr>cr_cluster = cluster0, cr_infraCluster = msc_auto\<rparr>)))
      (Inr \<lparr>nw_ID = Some ''net1''\<rparr>)) \<in> set (hist s')"
    using run by (auto simp: MetalStackClusterReconciler_Reconcile_def cluster_dispatch_def
        cluster_switch_def cluster_patch_def cluster_paused_def cluster_deleting_def
        cluster_has_finalizer_def run_reconcile_defs exec with_self_def objects0 msc_auto_def
        own_firewall_deployment_def mark_cluster_paused_def)
  show ?thesis
    using cluster_Reconcile_guarded [OF run h e] run by auto
qed

end
