(* ===== verification/ProviderID.thy ===== *)
theory ProviderID
  imports External
begin

text \<open>
  Provider IDs: \<open>encodeProviderID\<close> and \<open>decodeProviderID\<close> of the machine controller. The
  locale is the contract the machine controller and the firewall controller share: an
  identifier \<open>metal://<partition>/<id>\<close> that gives the id back.
\<close>

definition encodeProviderID :: "lib \<Rightarrow> V1MachineResponse \<Rightarrow> string" where
  "encodeProviderID L m =
     ''metal://'' @ SafeDeref L (pr_ID (SafeDeref_Partition L (mr_Partition m))) @ ''/''
       @ SafeDeref L (mr_ID m)"

definition decodeProviderID :: "string \<Rightarrow> string" where
  "decodeProviderID i =
     (let withPartition = TrimPrefix i ''metal://'';
          (before, res, found) = Cut withPartition (CHR ''/'')
      in res)"

lemma decode_metal:
  "CHR ''/'' \<notin> set p \<Longrightarrow> decodeProviderID (''metal://'' @ p @ ''/'' @ i) = i"
  unfolding decodeProviderID_def Let_def TrimPrefix_append
  using Cut_append [of "CHR ''/''" p i] by simp

locale provider_id =
  fixes encode :: "'m \<Rightarrow> string"
    and partition :: "'m \<Rightarrow> string"
    and ident :: "'m \<Rightarrow> string"
    and decode :: "string \<Rightarrow> string"
  assumes encode_nonempty: "encode m \<noteq> []"
    and decode_encode: "CHR ''/'' \<notin> set (partition m) \<Longrightarrow> decode (encode m) = ident m"
begin

lemma encode_inj:
  assumes "encode m = encode m'" and "CHR ''/'' \<notin> set (partition m)"
    and "CHR ''/'' \<notin> set (partition m')"
  shows "ident m = ident m'"
  using assms decode_encode [of m] decode_encode [of m'] by simp

lemma distinct_ids:
  assumes "\<forall>m \<in> set ms. CHR ''/'' \<notin> set (partition m)" and "distinct (map ident ms)"
  shows "distinct (map encode ms)"
  using assms by (induction ms) (auto dest: encode_inj)

end

definition machine_partition :: "lib \<Rightarrow> V1MachineResponse \<Rightarrow> string" where
  "machine_partition L m = SafeDeref L (pr_ID (SafeDeref_Partition L (mr_Partition m)))"

definition machine_ident :: "lib \<Rightarrow> V1MachineResponse \<Rightarrow> string" where
  "machine_ident L m = SafeDeref L (mr_ID m)"

interpretation machine_id:
  provider_id "encodeProviderID L" "machine_partition L" "machine_ident L" decodeProviderID for L
proof unfold_locales
  fix m :: V1MachineResponse
  show "encodeProviderID L m \<noteq> []" by (simp add: encodeProviderID_def)
  show "decodeProviderID (encodeProviderID L m) = machine_ident L m"
    if "CHR ''/'' \<notin> set (machine_partition L m)"
    unfolding encodeProviderID_def machine_ident_def
    by (rule decode_metal) (use that in \<open>simp add: machine_partition_def\<close>)
qed

end
