(* ===== verification/MachineController.thy ===== *)
theory MachineController
  imports ProviderID Reconciler
begin

text \<open>
  \<open>internal/controller/metalstackmachine_controller.go\<close>: the reconciliation of a
  MetalStackMachine, with the receiver \<open>machineReconciler\<close> as the state of its methods.
\<close>

section \<open>The methods\<close>

record machineReconciler =
  mc_infraCluster :: MetalStackCluster
  mc_clusterMachine :: Machine
  mc_infraMachine :: MetalStackMachine

type_synonym 'a machine_prog = "(machineReconciler st, 'a) go"

definition defaultProviderMachineRequeueTime :: duration where
  "defaultProviderMachineRequeueTime = second * 30"

definition defaultControlPlaneMachineFreeRequeueTime :: duration where
  "defaultControlPlaneMachineFreeRequeueTime = second * 30"

definition errProviderMachineNotFound :: go_error where
  "errProviderMachineNotFound =
     ErrVar ''errProviderMachineNotFound'' ''provider machine not found''"

definition set_machine_condition :: "lib \<Rightarrow> Condition \<Rightarrow> MetalStackMachine \<Rightarrow> MetalStackMachine" where
  "set_machine_condition L c im =
     MetalStackMachine_SetConditions im (SetCondition L c (MetalStackMachine_GetConditions im))"

abbreviation modify_machine :: "(MetalStackMachine \<Rightarrow> MetalStackMachine) \<Rightarrow> unit machine_prog" where
  "modify_machine f \<equiv> mod_self (mc_infraMachine_update f)"

abbreviation modify_machine_status ::
    "(MetalStackMachineStatus \<Rightarrow> MetalStackMachineStatus) \<Rightarrow> unit machine_prog" where
  "modify_machine_status f \<equiv> modify_machine (msm_Status_update f)"

definition created_failed :: "go_error \<Rightarrow> Condition" where
  "created_failed err =
     \<lparr>condType = ProviderMachineCreated, condStatus = ConditionFalse,
      condReason = conditionMessageInternalError, condMessage = Error err\<rparr>"

definition machineTags :: "lib \<Rightarrow> string list machine_prog" where
  "machineTags L =
     bnd get_self (\<lambda>r.
     let ic = msc_ObjectMeta (mc_infraCluster r); im = msm_ObjectMeta (mc_infraMachine r) in
     bnd (deref (NodeNetworkID (msc_Spec (mc_infraCluster r)))) (\<lambda>nodeNetworkID.
     let tags = [tag_New L (tag_ClusterID L) nodeNetworkID,
                 tag_New L TagInfraClusterResource (Namespace ic @ ''.'' @ Name ic),
                 tag_New L TagInfraMachineResource (Namespace im @ ''.'' @ Name im)] in
     if IsControlPlaneMachine L (mc_clusterMachine r)
     then ret (tags @ [TagControlPlanePurpose L])
     else ret tags))"

definition additionalMachineTags :: "lib \<Rightarrow> machineReconciler \<Rightarrow> string list" where
  "additionalMachineTags L r =
     [tag_New L (LabelTopologyZone L) (Partition (msc_Spec (mc_infraCluster r))),
      tag_New L (LabelHostname L) (Name (msm_ObjectMeta (mc_infraMachine r)))]"

definition machine_request ::
    "lib \<Rightarrow> machineReconciler \<Rightarrow> string list \<Rightarrow> string \<Rightarrow> V1MachineAllocateRequest" where
  "machine_request L r tags userData =
     (let ic = mc_infraCluster r; im = mc_infraMachine r in
     \<lparr>mar_Partitionid = Some (Partition (msc_Spec ic)),
      mar_Projectid = Some (ProjectID (msc_Spec ic)),
      mar_PlacementTags = [tag_New L (tag_ClusterID L) (GetClusterName ic)],
      mar_Tags = tags,
      mar_Name = Name (msm_ObjectMeta im),
      mar_Hostname = Name (msm_ObjectMeta im),
      mar_Sizeid = Some (Size (msm_Spec im)),
      mar_Imageid = Some (Image (msm_Spec im)),
      mar_Description = Namespace (msm_ObjectMeta im) @ ''/'' @ Name (msm_ObjectMeta im)
        @ '' for cluster '' @ Namespace (msc_ObjectMeta ic) @ ''/'' @ Name (msc_ObjectMeta ic),
      mar_Networks = [\<lparr>man_Autoacquire = Some True, man_Networkid = NodeNetworkID (msc_Spec ic)\<rparr>],
      mar_Ips = [],
      mar_UserData = userData\<rparr>)"

definition create :: "lib \<Rightarrow> env \<Rightarrow> (go_error + V1MachineResponse) machine_prog" where
  "create L E =
     bnd get_self (\<lambda>r.
     bnd (deref (machine_DataSecretName (mc_clusterMachine r))) (\<lambda>secretName.
     let bootstrapSecret = object_meta secretName (Namespace (msm_ObjectMeta (mc_infraMachine r))) in
     bnd (do_GetSecret E (ObjectKeyFromObject L bootstrapSecret)) (\<lambda>resp.
     case resp of
       Inl err \<Rightarrow> ret (Inl (ErrWrap ''unable to fetch bootstrap secret'' err))
     | Inr data \<Rightarrow>
         bnd (machineTags L) (\<lambda>tags.
         bnd (do_AllocateMachine E (machine_request L r (tags @ additionalMachineTags L r)
            (case data ''value'' of None \<Rightarrow> [] | Some v \<Rightarrow> v))) (\<lambda>resp.
         case resp of
           Inl err \<Rightarrow> ret (Inl (ErrWrap ''failed to allocate machine'' err))
         | Inr payload \<Rightarrow> ret (Inr payload))))))"

definition findProviderMachine :: "lib \<Rightarrow> env \<Rightarrow> (go_error + V1MachineResponse) machine_prog" where
  "findProviderMachine L E =
     bnd get_self (\<lambda>r.
     let providerID = ProviderID (msm_Spec (mc_infraMachine r)) in
     if providerID = [] then ret (Inl errProviderMachineNotFound)
     else
       bnd (do_FindMachine E (decodeProviderID providerID)) (\<lambda>resp.
       if errors_As (err_of resp) ''FindMachineDefault'' = Some StatusNotFound
       then ret (Inl errProviderMachineNotFound)
       else case resp of
         Inl err \<Rightarrow>
           bnd (modify_machine (set_machine_condition L (created_failed err))) (\<lambda>_.
           ret (Inl err))
       | Inr payload \<Rightarrow>
           (case mr_Allocation payload of
             None \<Rightarrow> ret (Inl errProviderMachineNotFound)
           | Some allocation \<Rightarrow>
               if mal_Project allocation \<noteq> Some (ProjectID (msc_Spec (mc_infraCluster r)))
               then ret (Inl errProviderMachineNotFound)
               else ret (Inr payload))))"

definition getMachineStatus :: "lib \<Rightarrow> V1MachineResponse \<Rightarrow> bool \<times> go_error option" where
  "getMachineStatus L mr =
     (let l = ptr_Deref L (mr_Liveliness mr) [];
          errs1 = (if l = ''Alive'' then []
                   else [Some (ErrNew (''machine is not alive but '' @ quoted l))]);
          errs2 = (case mr_Events mr of
             None \<Rightarrow> []
           | Some ev \<Rightarrow>
               (if mre_CrashLoop ev = Some True
                then [Some (ErrNew ''machine is in a crash loop'')] else []) @
               (if mre_FailedMachineReclaim ev = Some True
                then [Some (ErrNew ''machine reclaim is failing'')] else []));
          isReady = (case mr_Events mr of
             None \<Rightarrow> False
           | Some ev \<Rightarrow> (case mre_Log ev of
               [] \<Rightarrow> False
             | e # _ \<Rightarrow> ptr_Deref L (mpe_Event e) [] = ''Phoned Home''))
      in (isReady, errors_Join (errs1 @ errs2)))"

definition network_addresses :: "lib \<Rightarrow> V1MachineNetwork \<Rightarrow> MachineAddress list" where
  "network_addresses L nw =
     (let t = ptr_Deref L (mnw_Networktype nw) [] in
      if t = ''privateprimaryunshared''
      then map (\<lambda>ip. \<lparr>maType = MachineInternalIP, maAddress = ip\<rparr>) (mnw_Ips nw)
      else if t = ''external''
      then map (\<lambda>ip. \<lparr>maType = MachineExternalIP, maAddress = ip\<rparr>) (mnw_Ips nw)
      else [])"

fun networks_loop ::
    "lib \<Rightarrow> MachineAddress list \<Rightarrow> V1MachineNetwork list \<Rightarrow> MachineAddress list" where
  "networks_loop L maddrs [] = maddrs"
| "networks_loop L maddrs (nw # nws) = networks_loop L (maddrs @ network_addresses L nw) nws"

text \<open>The allocation is dereferenced without a check.\<close>

definition getMachineAddresses :: "lib \<Rightarrow> V1MachineResponse \<Rightarrow> MachineAddress list machine_prog" where
  "getMachineAddresses L m =
     bnd (deref (mr_Allocation m)) (\<lambda>allocation.
     let maddrs = (case mal_Hostname allocation of
           None \<Rightarrow> []
         | Some h \<Rightarrow> [\<lparr>maType = MachineHostName, maAddress = h\<rparr>])
     in ret (networks_loop L maddrs (mal_Networks allocation)))"

definition set_label :: "string \<Rightarrow> string option \<Rightarrow> labels \<Rightarrow> labels" where
  "set_label k v ls = (case v of None \<Rightarrow> ls | Some x \<Rightarrow> ls(k \<mapsto> x))"

definition patchMachineLabels :: "lib \<Rightarrow> V1MachineResponse \<Rightarrow> MetalStackMachine \<Rightarrow> MetalStackMachine" where
  "patchMachineLabels L m im =
     (let ls0 = (case Labels (msm_ObjectMeta im) of None \<Rightarrow> Map.empty | Some ls \<Rightarrow> ls);
          ls1 = set_label (LabelHostname L) (Option.bind (mr_Allocation m) mal_Hostname) ls0;
          ls2 = set_label (LabelTopologyZone L) (Option.bind (mr_Partition m) pr_ID) ls1;
          ls3 = (if mr_Rackid m \<noteq> [] then ls2(tag_MachineRack L \<mapsto> mr_Rackid m) else ls2);
          ls4 = set_label (tag_MachineNetworkPrimaryASN L)
                  (TagMap_Value L (mr_Tags m) (tag_MachineNetworkPrimaryASN L)) ls3;
          ls5 = set_label (tag_MachineChassis L)
                  (TagMap_Value L (mr_Tags m) (tag_MachineChassis L)) ls4
      in im\<lparr>msm_ObjectMeta := (msm_ObjectMeta im)\<lparr>Labels := Some ls5\<rparr>\<rparr>)"

text \<open>The provider machine of \<open>reconcile\<close>: looked up where the object names one, created
  otherwise.\<close>

definition machine_deleted_externally :: "lib \<Rightarrow> MetalStackMachineStatus \<Rightarrow> MetalStackMachineStatus" where
  "machine_deleted_externally L st = st\<lparr>msms_FailureReason := Some (UpdateMachineError L),
     msms_FailureMessage := Some ''machine has been deleted externally''\<rparr>"

definition provider_machine :: "lib \<Rightarrow> env \<Rightarrow> (go_error + V1MachineResponse) machine_prog" where
  "provider_machine L E =
     bnd get_self (\<lambda>r.
     if ProviderID (msm_Spec (mc_infraMachine r)) \<noteq> [] then
       bnd (findProviderMachine L E) (\<lambda>resp.
       if errors_Is (err_of resp) errProviderMachineNotFound then
         bnd (modify_machine_status (machine_deleted_externally L)) (\<lambda>_.
         ret (Inl (ErrNew ''machine has been deleted externally'')))
       else case resp of
         Inl err \<Rightarrow>
           bnd (modify_machine (set_machine_condition L (created_failed err))) (\<lambda>_.
           ret (Inl err))
       | Inr m \<Rightarrow> ret (Inr m))
     else
       bnd (create L E) (\<lambda>resp.
       case resp of
         Inl err \<Rightarrow>
           bnd (modify_machine (set_machine_condition L (created_failed err))) (\<lambda>_.
           ret (Inl (ErrWrap ''unable to create machine at provider'' err)))
       | Inr m \<Rightarrow> ret (Inr m)))"

definition health_condition :: "go_error option \<Rightarrow> Condition" where
  "health_condition err = (case err of
       Some e \<Rightarrow> \<lparr>condType = ProviderMachineHealthy, condStatus = ConditionFalse,
                   condReason = ''NotHealthy'', condMessage = Error e\<rparr>
     | None \<Rightarrow> \<lparr>condType = ProviderMachineHealthy, condStatus = ConditionTrue,
                 condReason = ''Healthy'', condMessage = ''machine is healthy at provider''\<rparr>)"

definition ready_condition :: "bool \<Rightarrow> Condition" where
  "ready_condition isReady =
     (if isReady
      then \<lparr>condType = ProviderMachineReady, condStatus = ConditionTrue, condReason = ''Ready'',
            condMessage = ''machine is in phoned home state''\<rparr>
      else \<lparr>condType = ProviderMachineReady, condStatus = ConditionFalse, condReason = ''NotReady'',
            condMessage = ''machine is not in phoned home state''\<rparr>)"

text \<open>The second half of \<open>reconcile\<close>: the object is brought in line with the machine.\<close>

definition apply_machine ::
    "lib \<Rightarrow> V1MachineResponse \<Rightarrow> (Result \<times> go_error option) machine_prog" where
  "apply_machine L m =
     bnd (modify_machine (set_machine_condition L
       \<lparr>condType = ProviderMachineCreated, condStatus = ConditionTrue,
        condReason = ''MachineCreated'',
        condMessage = ''machine successfully created at provider''\<rparr>)) (\<lambda>_.
     if mr_ID m = None
     then ret (empty_Result, Some (ErrNew ''machine allocated but got no provider ID''))
     else
       bnd (modify_machine (msm_Spec_update (\<lambda>sp. sp\<lparr>ProviderID := encodeProviderID L m\<rparr>))) (\<lambda>_.
       bnd (modify_machine (patchMachineLabels L m)) (\<lambda>_.
       let (isReady, err) = getMachineStatus L m;
           result1 = (if err \<noteq> None
             then empty_Result\<lparr>RequeueAfter := defaultProviderMachineRequeueTime\<rparr>
             else empty_Result);
           result2 = (if isReady then result1
             else result1\<lparr>RequeueAfter := defaultProviderMachineRequeueTime\<rparr>)
       in
       bnd (modify_machine (set_machine_condition L (health_condition err))) (\<lambda>_.
       bnd (modify_machine (set_machine_condition L (ready_condition isReady))) (\<lambda>_.
       bnd (if isReady
            then modify_machine_status (\<lambda>st. st\<lparr>msms_Ready := isReady,
                   msms_Initialization := \<lparr>msmi_Provisioned = Some isReady\<rparr>\<rparr>)
            else ret ()) (\<lambda>_.
       bnd (getMachineAddresses L m) (\<lambda>addresses.
       bnd (modify_machine_status (\<lambda>st. st\<lparr>msms_Addresses := addresses\<rparr>)) (\<lambda>_.
       ret (result2, None)))))))))"

definition machine_reconcile :: "lib \<Rightarrow> env \<Rightarrow> (Result \<times> go_error option) machine_prog" where
  "machine_reconcile L E =
     bnd get_self (\<lambda>r.
     let sp = msc_Spec (mc_infraCluster r) in
     if NodeNetworkID sp = None then
       ret (empty_Result, Some (ErrNew
         ''waiting until node network id was set to infrastructure cluster status''))
     else if Host (ControlPlaneEndpoint sp) = [] then
       ret (empty_Result, Some (ErrNew
         ''waiting until control plane ip was set to infrastructure cluster spec''))
     else if machine_DataSecretName (mc_clusterMachine r) = None then
       ret (empty_Result, Some (ErrNew ''waiting until bootstrap data secret was created''))
     else
       bnd (provider_machine L E) (\<lambda>resp.
       case resp of
         Inl err \<Rightarrow> ret (empty_Result, Some err)
       | Inr m \<Rightarrow> apply_machine L m))"

definition remove_machine_finalizer :: "lib \<Rightarrow> MetalStackMachine \<Rightarrow> MetalStackMachine" where
  "remove_machine_finalizer L im = im\<lparr>msm_ObjectMeta := (msm_ObjectMeta im)\<lparr>
     Finalizers := RemoveFinalizer L (Finalizers (msm_ObjectMeta im)) MachineFinalizer\<rparr>\<rparr>"

definition machine_delete :: "lib \<Rightarrow> env \<Rightarrow> (Result \<times> go_error option) machine_prog" where
  "machine_delete L E =
     bnd get_self (\<lambda>r.
     let im = msm_ObjectMeta (mc_infraMachine r) in
     if \<not> ContainsFinalizer L (Finalizers im) MachineFinalizer then ret (empty_Result, None)
     else
       bnd (findProviderMachine L E) (\<lambda>resp.
       if errors_Is (err_of resp) errProviderMachineNotFound then
         (if \<not> IsControlPlaneMachine L (mc_clusterMachine r) then
            bnd (modify_machine (remove_machine_finalizer L)) (\<lambda>_.
            ret (empty_Result, None))
          else
            bnd (deref (DeletionTimestamp im)) (\<lambda>deleted.
            bnd (do_Now E) (\<lambda>now.
            if deleted + defaultControlPlaneMachineFreeRequeueTime < now then
              bnd (modify_machine (remove_machine_finalizer L)) (\<lambda>_.
              ret (empty_Result, None))
            else
              ret (\<lparr>RequeueAfter = defaultControlPlaneMachineFreeRequeueTime div 2\<rparr>, None))))
       else case resp of
         Inl err \<Rightarrow> ret (empty_Result, Some (ErrWrap ''failed to find provider machine'' err))
       | Inr m \<Rightarrow>
           bnd (deref (mr_ID m)) (\<lambda>i.
           bnd (do_FreeMachine E i) (\<lambda>err.
           case err of
             Some e \<Rightarrow> ret (empty_Result, Some (ErrWrap ''failed to delete provider machine'' e))
           | None \<Rightarrow>
               if \<not> IsControlPlaneMachine L (mc_clusterMachine r) then
                 bnd (modify_machine (remove_machine_finalizer L)) (\<lambda>_.
                 ret (empty_Result, None))
               else ret (\<lparr>RequeueAfter = minute\<rparr>, None)))))"

section \<open>Reconcile\<close>

definition machine_paused :: "lib \<Rightarrow> Cluster \<Rightarrow> machineReconciler \<Rightarrow> bool" where
  "machine_paused L cluster r = IsPaused L cluster (msm_ObjectMeta (mc_infraMachine r))"

definition mark_machine_paused :: "lib \<Rightarrow> Cluster \<Rightarrow> machineReconciler \<Rightarrow> machineReconciler" where
  "mark_machine_paused L cluster r =
     mc_infraMachine_update (set_machine_condition L
       (if machine_paused L cluster r
        then \<lparr>condType = PausedCondition L, condStatus = ConditionTrue,
              condReason = PausedReason L,
              condMessage = conditionMessageReconciliationPaused\<rparr>
        else \<lparr>condType = PausedCondition L, condStatus = ConditionFalse,
              condReason = NotPausedReason L,
              condMessage = conditionMessageReconciliationNotPaused\<rparr>)) r"

definition machine_deleting :: "lib \<Rightarrow> machineReconciler \<Rightarrow> bool" where
  "machine_deleting L r \<longleftrightarrow> \<not> IsZero L (DeletionTimestamp (msm_ObjectMeta (mc_infraMachine r)))"

definition machine_has_finalizer :: "lib \<Rightarrow> machineReconciler \<Rightarrow> bool" where
  "machine_has_finalizer L r =
     ContainsFinalizer L (Finalizers (msm_ObjectMeta (mc_infraMachine r))) MachineFinalizer"

definition add_machine_finalizer :: "lib \<Rightarrow> machineReconciler \<Rightarrow> machineReconciler" where
  "add_machine_finalizer L r = mc_infraMachine_update (\<lambda>im. im\<lparr>msm_ObjectMeta :=
     (msm_ObjectMeta im)\<lparr>Finalizers :=
       AddFinalizer L (Finalizers (msm_ObjectMeta im)) MachineFinalizer\<rparr>\<rparr>) r"

definition machine_switch ::
    "lib \<Rightarrow> env \<Rightarrow> Cluster \<Rightarrow> (Result \<times> go_error option) machine_prog" where
  "machine_switch L E cluster =
     bnd get_self (\<lambda>r.
     if machine_paused L cluster r then ret (empty_Result, None)
     else if machine_deleting L r then machine_delete L E
     else if \<not> machine_has_finalizer L r then
       bnd (mod_self (add_machine_finalizer L)) (\<lambda>_. ret (empty_Result, None))
     else machine_reconcile L E)"

definition machine_patch ::
    "env \<Rightarrow> machineReconciler \<Rightarrow> Result \<times> go_error option \<Rightarrow>
       (Result \<times> go_error option) machine_prog" where
  "machine_patch E before res =
     bnd get_self (\<lambda>r.
     bnd (do_Patch E (OMachine (mc_infraMachine before)) (OMachine (mc_infraMachine r))) (\<lambda>updateErr.
     case updateErr of
       None \<Rightarrow> ret res
     | Some u \<Rightarrow> ret (fst res,
         errors_Join [snd res, Some (ErrWrap ''failed to update infra machine'' u)])))"

definition machine_dispatch ::
    "lib \<Rightarrow> env \<Rightarrow> Cluster \<Rightarrow> (Result \<times> go_error option) machine_prog" where
  "machine_dispatch L E cluster =
     bnd get_self (\<lambda>r.
     bnd (do_NewHelper E (OMachine (mc_infraMachine r))) (\<lambda>err.
     case err of
       Some e \<Rightarrow> ret (empty_Result, Some e)
     | None \<Rightarrow>
         bnd (mod_self (mark_machine_paused L cluster)) (\<lambda>_.
         bnd (machine_switch L E cluster) (\<lambda>res.
         machine_patch E r res))))"

definition MetalStackMachineReconciler_Reconcile ::
    "lib \<Rightarrow> env \<Rightarrow> NamespacedName \<Rightarrow> ('r st, Result \<times> go_error option) go" where
  "MetalStackMachineReconciler_Reconcile L E req =
     bnd (do_GetMetalStackMachine E req) (\<lambda>resp.
     case resp of
       Inl err \<Rightarrow>
         if IsNotFound L (Some err) then ret (empty_Result, None)
         else ret (empty_Result, None)
     | Inr infraMachine \<Rightarrow>
     bnd (do_GetOwnerMachine E (msm_ObjectMeta infraMachine)) (\<lambda>resp.
     case resp of
       Inl err \<Rightarrow> ret (empty_Result, Some err)
     | Inr None \<Rightarrow> ret (empty_Result, None)
     | Inr (Some machine) \<Rightarrow>
     bnd (do_GetClusterFromMetadata E (machine_ObjectMeta machine)) (\<lambda>resp.
     case resp of
       Inl err \<Rightarrow> ret (empty_Result, Some err)
     | Inr None \<Rightarrow> ret (empty_Result, None)
     | Inr (Some cluster) \<Rightarrow>
     bnd (do_GetMetalStackCluster E (ObjectKeyFromObject L
            (object_meta (irName (cluster_InfrastructureRef cluster))
               (Namespace (cluster_ObjectMeta cluster))))) (\<lambda>resp.
     if IsNotFound L (err_of resp) then ret (empty_Result, None)
     else case resp of
       Inl err \<Rightarrow> ret (empty_Result, Some err)
     | Inr infraCluster \<Rightarrow>
         bnd (with_self \<lparr>mc_infraCluster = infraCluster, mc_clusterMachine = machine,
                mc_infraMachine = infraMachine\<rparr> (machine_dispatch L E cluster)) (\<lambda>(res, _).
         ret res)))))"

section \<open>Which calls the methods make\<close>

lemma emits_machineTags [emits_intros]: "emits P (machineTags L)"
  unfolding machineTags_def Let_def by (intro emits_intros)

lemma emits_create [emits_intros]:
  "(\<And>q r. P (Kube (GetSecret q r))) \<Longrightarrow> (\<And>q r. P (Metal (AllocateMachine q r))) \<Longrightarrow>
     emits P (create L E)"
  unfolding create_def Let_def by (intro emits_intros)

lemma emits_findProviderMachine [emits_intros]:
  "(\<And>q r. P (Metal (FindMachine q r))) \<Longrightarrow> emits P (findProviderMachine L E)"
  unfolding findProviderMachine_def Let_def by (intro emits_intros)

lemma emits_getMachineAddresses [emits_intros]: "emits P (getMachineAddresses L m)"
  unfolding getMachineAddresses_def Let_def by (intro emits_intros)

lemma emits_apply_machine [emits_intros]: "emits P (apply_machine L m)"
  unfolding apply_machine_def Let_def by (intro emits_intros)

lemma emits_provider_machine [emits_intros]:
  "(\<And>q r. P (Kube (GetSecret q r))) \<Longrightarrow> (\<And>q r. P (Metal (AllocateMachine q r))) \<Longrightarrow>
   (\<And>q r. P (Metal (FindMachine q r))) \<Longrightarrow> emits P (provider_machine L E)"
  unfolding provider_machine_def by (intro emits_intros)

lemma emits_machine_patch [emits_intros]:
  "(\<And>b a r. P (Kube (PatchObject b a r))) \<Longrightarrow> emits P (machine_patch E before res)"
  unfolding machine_patch_def by (intro emits_intros)

section \<open>The contract of a reconciler\<close>

lemma mark_machine_paused_simps [simp]:
  "mc_infraCluster (mark_machine_paused L c r) = mc_infraCluster r"
  "mc_clusterMachine (mark_machine_paused L c r) = mc_clusterMachine r"
  "msm_ObjectMeta (mc_infraMachine (mark_machine_paused L c r)) = msm_ObjectMeta (mc_infraMachine r)"
  "msm_Spec (mc_infraMachine (mark_machine_paused L c r)) = msm_Spec (mc_infraMachine r)"
  by (simp_all add: mark_machine_paused_def set_machine_condition_def
      MetalStackMachine_SetConditions_def)

interpretation machine_rec:
  reconciler "machine_switch L E c" "machine_delete L E" "machine_reconcile L E"
    "(empty_Result, None)" "machine_paused L c" "machine_deleting L" "machine_has_finalizer L"
    "add_machine_finalizer L" "machine_dispatch L E c"
    "\<lambda>r. do_NewHelper E (OMachine (mc_infraMachine r))" "\<lambda>e. (empty_Result, Some e)"
    "mark_machine_paused L c" "machine_patch E"
  for L E c
proof unfold_locales
  show "machine_dispatch L E c = bnd get_self (\<lambda>r.
      bnd (do_NewHelper E (OMachine (mc_infraMachine r))) (\<lambda>err.
      case err of Some e \<Rightarrow> ret (empty_Result, Some e)
      | None \<Rightarrow> bnd (mod_self (mark_machine_paused L c)) (\<lambda>_.
          bnd (machine_switch L E c) (machine_patch E r))))"
    by (simp add: machine_dispatch_def)
  show "emits (\<lambda>e. \<not> is_metal e) (machine_patch E r b)" for r b
    by (intro emits_intros) simp
  show "emits (\<lambda>e. \<not> is_metal e) (do_NewHelper E (OMachine (mc_infraMachine r)))" for r
    by (intro emits_intros) simp
qed (auto simp: machine_switch_def machine_delete_def machine_has_finalizer_def machine_paused_def
    exec wp_simps)

end
