(* ===== verification/MachineProperties.thy ===== *)
theory MachineProperties
  imports MachineController Examples
begin

text \<open>
  What the methods of the machine controller do, and the properties of the component.
\<close>

section \<open>Looking at a machine\<close>

text \<open>The health of a machine is nil exactly when it is alive and neither crash-looping nor
  failing its reclaim; it is ready exactly when the latest provisioning event is the phone
  home.\<close>

theorem getMachineStatus_spec:
  assumes "pointer_laws L"
  shows "(snd (getMachineStatus L m) = None \<longleftrightarrow>
      mr_Liveliness m = Some ''Alive'' \<and>
      (\<forall>ev. mr_Events m = Some ev \<longrightarrow>
         mre_CrashLoop ev \<noteq> Some True \<and> mre_FailedMachineReclaim ev \<noteq> Some True)) \<and>
    (fst (getMachineStatus L m) \<longleftrightarrow>
      (\<exists>ev e es. mr_Events m = Some ev \<and> mre_Log ev = e # es \<and>
         mpe_Event e = Some ''Phoned Home''))"
proof (intro conjI)
  have alive: "ptr_Deref L (mr_Liveliness m) [] = ''Alive'' \<longleftrightarrow> mr_Liveliness m = Some ''Alive''"
    using assms by (cases "mr_Liveliness m") simp_all
  show "snd (getMachineStatus L m) = None \<longleftrightarrow> mr_Liveliness m = Some ''Alive'' \<and>
      (\<forall>ev. mr_Events m = Some ev \<longrightarrow>
         mre_CrashLoop ev \<noteq> Some True \<and> mre_FailedMachineReclaim ev \<noteq> Some True)"
    unfolding getMachineStatus_def Let_def snd_conv alive errors_Join_None_iff
    by (cases "mr_Events m") (simp_all, blast)
  have home: "ptr_Deref L (mpe_Event e) [] = ''Phoned Home'' \<longleftrightarrow> mpe_Event e = Some ''Phoned Home''"
    for e using assms by (cases "mpe_Event e") simp_all
  show "fst (getMachineStatus L m) \<longleftrightarrow> (\<exists>ev e es. mr_Events m = Some ev \<and> mre_Log ev = e # es \<and>
         mpe_Event e = Some ''Phoned Home'')"
    unfolding getMachineStatus_def Let_def fst_conv home
    by (cases "mr_Events m") (simp_all split: list.split)
qed

theorem getMachineStatus_spec_witness:
  "snd (getMachineStatus lib0 response0) = None \<and> fst (getMachineStatus lib0 response0)"
  using getMachineStatus_spec [OF lib0_laws(3), of response0] by (simp add: response0_def)

lemma networks_loop_concat:
  "networks_loop L maddrs nws = maddrs @ concat (map (network_addresses L) nws)"
  by (induction nws arbitrary: maddrs) auto

definition addresses_of_type :: "lib \<Rightarrow> string \<Rightarrow> V1MachineAllocation \<Rightarrow> string list" where
  "addresses_of_type L t a =
     concat (map mnw_Ips (filter (\<lambda>nw. ptr_Deref L (mnw_Networktype nw) [] = t) (mal_Networks a)))"

lemma network_addresses_of:
  "map maAddress (filter (\<lambda>x. maType x = MachineInternalIP) (concat (map (network_addresses L) nws))) =
     concat (map mnw_Ips (filter (\<lambda>nw. ptr_Deref L (mnw_Networktype nw) [] = ''privateprimaryunshared'') nws))"
  "map maAddress (filter (\<lambda>x. maType x = MachineExternalIP) (concat (map (network_addresses L) nws))) =
     concat (map mnw_Ips (filter (\<lambda>nw. ptr_Deref L (mnw_Networktype nw) [] = ''external'') nws))"
  "filter (\<lambda>x. maType x = MachineHostName) (concat (map (network_addresses L) nws)) = []"
  by (induction nws) (auto simp: network_addresses_def Let_def filter_map o_def)

text \<open>The addresses of a machine: its host name, when it has one, then for every network the
  IPs of the primary private networks as internal and of the external networks as external
  addresses, each in the order of the allocation; a machine without an allocation panics.\<close>

theorem getMachineAddresses_spec:
  "(case mr_Allocation m of
      None \<Rightarrow> getMachineAddresses L m s = (None, s)
    | Some a \<Rightarrow> (\<exists>addrs. getMachineAddresses L m s = (Some addrs, s) \<and>
        map maAddress (filter (\<lambda>x. maType x = MachineHostName) addrs) =
          (case mal_Hostname a of None \<Rightarrow> [] | Some h \<Rightarrow> [h]) \<and>
        map maAddress (filter (\<lambda>x. maType x = MachineInternalIP) addrs) =
          addresses_of_type L ''privateprimaryunshared'' a \<and>
        map maAddress (filter (\<lambda>x. maType x = MachineExternalIP) addrs) =
          addresses_of_type L ''external'' a))"
  by (auto simp: getMachineAddresses_def exec Let_def networks_loop_concat network_addresses_of
      addresses_of_type_def split: option.split)

section \<open>Finding and creating\<close>

abbreviation infraMachine :: "machineReconciler st \<Rightarrow> MetalStackMachine" where
  "infraMachine s \<equiv> mc_infraMachine (self s)"

abbreviation providerID :: "machineReconciler st \<Rightarrow> string" where
  "providerID s \<equiv> ProviderID (msm_Spec (infraMachine s))"

abbreviation project :: "machineReconciler st \<Rightarrow> string" where
  "project s \<equiv> ProjectID (msc_Spec (mc_infraCluster (self s)))"

text \<open>The machines a cluster may touch: those the API gives as allocated to its project.\<close>

definition in_project :: "string \<Rightarrow> V1MachineResponse \<Rightarrow> bool" where
  "in_project p m \<longleftrightarrow> (\<exists>a. mr_Allocation m = Some a \<and> mal_Project a = Some p)"

definition same_objects :: "machineReconciler st \<Rightarrow> machineReconciler st \<Rightarrow> bool" where
  "same_objects s s' \<longleftrightarrow>
     mc_infraCluster (self s') = mc_infraCluster (self s) \<and>
     mc_clusterMachine (self s') = mc_clusterMachine (self s) \<and>
     msm_ObjectMeta (infraMachine s') = msm_ObjectMeta (infraMachine s) \<and>
     msm_Spec (infraMachine s') = msm_Spec (infraMachine s) \<and>
     msms_Ready (msm_Status (infraMachine s')) = msms_Ready (msm_Status (infraMachine s)) \<and>
     msms_Initialization (msm_Status (infraMachine s')) =
       msms_Initialization (msm_Status (infraMachine s))"

lemmas machine_object_defs =
  same_objects_def set_machine_condition_def MetalStackMachine_SetConditions_def
  MetalStackMachine_GetConditions_def

lemma find_step:
  "wp (findProviderMachine L E) (\<lambda>x s'. same_objects s s' \<and> x \<noteq> None \<and>
     (\<exists>tr. hist s' = hist s @ tr \<and>
       (if providerID s = [] then tr = [] \<and> x = Some (Inl errProviderMachineNotFound) \<and> s' = s
        else \<exists>resp. tr = [Metal (FindMachine (decodeProviderID (providerID s)) resp)] \<and>
          (\<forall>m. x = Some (Inr m) \<longrightarrow> resp = Inr m \<and> in_project (project s) m)))) s"
  unfolding findProviderMachine_def Let_def in_project_def
  by (auto simp: wp_simps machine_object_defs split: sum.split option.split)

lemma create_step:
  "wp (create L E) (\<lambda>x s'. self s' = self s \<and>
     (\<exists>tr. hist s' = hist s @ tr \<and>
        (\<forall>m. x = Some (Inr m) \<longrightarrow> (\<exists>k d q. tr =
           [Kube (GetSecret k (Inr d)), Metal (AllocateMachine q (Inr m))])) \<and>
        length (filter is_allocation tr) \<le> 1 \<and>
        list_all (\<lambda>e. \<not> is_release e) tr)) s"
  unfolding create_def machineTags_def Let_def
  by (auto simp: wp_simps split: sum.split option.split)

lemma provider_machine_step:
  "wp (provider_machine L E) (\<lambda>x s'. same_objects s s' \<and>
     (\<exists>tr. hist s' = hist s @ tr \<and> length (filter is_allocation tr) \<le> 1 \<and>
        (providerID s \<noteq> [] \<longrightarrow> list_all (\<lambda>e. \<not> is_allocation e) tr) \<and>
        list_all (\<lambda>e. \<not> is_release e) tr)) s"
proof (cases "providerID s = []")
  case True
  show ?thesis unfolding provider_machine_def
    by (simp add: wp_simps True, rule wp_mono [OF create_step])
      (auto simp: wp_simps machine_object_defs split: sum.split option.split)
next
  case False
  show ?thesis unfolding provider_machine_def
    by (simp add: wp_simps False, rule wp_mono [OF find_step])
      (auto simp: wp_simps machine_object_defs machine_deleted_externally_def False
        split: sum.split option.split)
qed

text \<open>A machine is allocated at most once per reconcile, and only where the object names no
  provider machine yet; a reconcile releases nothing.\<close>

theorem machine_reconcile_allocates_once:
  "\<exists>tr. hist (snd (machine_reconcile L E s)) = hist s @ tr \<and>
     length (filter is_allocation tr) \<le> 1 \<and>
     (providerID s = [] \<or> filter is_allocation tr = []) \<and> filter is_release tr = []"
proof -
  define good where "good t \<longleftrightarrow> (\<exists>tr. hist t = hist s @ tr \<and>
      length (filter is_allocation tr) \<le> 1 \<and>
      (providerID s \<noteq> [] \<longrightarrow> list_all (\<lambda>e. \<not> is_allocation e) tr) \<and>
      list_all (\<lambda>e. \<not> is_release e) tr)" for t :: "machineReconciler st"
  have "wp (machine_reconcile L E) (\<lambda>x s'. good s') s"
  proof -
    have quiet: "hist (snd (apply_machine L m t)) = hist t" for m t
      by (rule emits_nothing [OF emits_apply_machine])
    have after: "wp (apply_machine L m) (\<lambda>x s'. good s') t" if "good t" for m t
      using that by (simp add: wp_def quiet good_def)
    have find: "wp (provider_machine L E) (\<lambda>x s'. good s') s"
      by (rule wp_mono [OF provider_machine_step]) (auto simp: good_def)
    have "wp (provider_machine L E) (\<lambda>x s'. case x of None \<Rightarrow> good s' | Some y \<Rightarrow>
        wp (case y of Inl err \<Rightarrow> ret (empty_Result, Some err) | Inr m \<Rightarrow> apply_machine L m)
          (\<lambda>x s'. good s') s') s"
      by (rule wp_mono [OF find]) (simp add: wp_simps after split: option.split sum.split)
    moreover have "good s" by (simp add: good_def)
    ultimately show ?thesis unfolding machine_reconcile_def Let_def
      by (simp add: wp_simps)
  qed
  then show ?thesis by (auto simp: wp_def good_def list_all_iff filter_empty_conv)
qed

text \<open>The three gates of a reconcile: without the node network, the control plane endpoint or
  the bootstrap secret's name nothing is called, nothing on the object changes, and the result
  is an error.\<close>

theorem machine_reconcile_waits:
  assumes "NodeNetworkID (msc_Spec (mc_infraCluster (self s))) = None \<or>
    Host (ControlPlaneEndpoint (msc_Spec (mc_infraCluster (self s)))) = [] \<or>
    machine_DataSecretName (mc_clusterMachine (self s)) = None"
  shows "\<exists>msg. machine_reconcile L E s = (Some (empty_Result, Some (ErrNew msg)), s)"
  using assms by (auto simp: machine_reconcile_def Let_def exec)

definition mstate0 :: "MetalStackCluster \<Rightarrow> MetalStackMachine \<Rightarrow> machineReconciler st" where
  "mstate0 ic im = \<lparr>hist = [],
     self = \<lparr>mc_infraCluster = ic, mc_clusterMachine = machine0, mc_infraMachine = im\<rparr>\<rparr>"

theorem machine_reconcile_waits_witness:
  "\<exists>msg. machine_reconcile lib0 env0 (mstate0 msc0 msm0) =
     (Some (empty_Result, Some (ErrNew msg)), mstate0 msc0 msm0)"
  by (rule machine_reconcile_waits) (simp add: mstate0_def msc0_def)

text \<open>C37. A machine that was deleted behind the controller's back is not replaced: where the
  object names a provider machine and the lookup answers 404, the object gets the failure
  reason and message, its spec and readiness stay, nothing is allocated or freed, and the
  result is an error.\<close>

theorem machine_deleted_externally_fails:
  assumes "providerID s \<noteq> []" and "NodeNetworkID (msc_Spec (mc_infraCluster (self s))) \<noteq> None"
    and "Host (ControlPlaneEndpoint (msc_Spec (mc_infraCluster (self s)))) \<noteq> []"
    and "machine_DataSecretName (mc_clusterMachine (self s)) \<noteq> None"
    and "metal_FindMachine E (hist s) (decodeProviderID (providerID s)) = Inl err"
    and "errors_As (Some err) ''FindMachineDefault'' = Some 404"
    and "machine_reconcile L E s = (x, s')"
  shows "x = Some (empty_Result, Some (ErrNew ''machine has been deleted externally'')) \<and>
    msms_FailureReason (msm_Status (infraMachine s')) = Some (UpdateMachineError L) \<and>
    msms_FailureMessage (msm_Status (infraMachine s')) =
      Some ''machine has been deleted externally'' \<and>
    same_objects s s' \<and>
    hist s' = hist s @ [Metal (FindMachine (decodeProviderID (providerID s)) (Inl err))]"
  using assms
  by (auto simp: machine_reconcile_def provider_machine_def findProviderMachine_def Let_def exec
      StatusNotFound_def errProviderMachineNotFound_def machine_deleted_externally_def
      machine_object_defs)

definition msc_ready :: MetalStackCluster where
  "msc_ready = msc0\<lparr>msc_Spec := (msc_Spec msc0)\<lparr>NodeNetworkID := Some ''net1'',
     ControlPlaneEndpoint := \<lparr>Host = ''10.0.0.1'', Port = 443\<rparr>\<rparr>\<rparr>"

definition msm_created :: MetalStackMachine where
  "msm_created = msm0\<lparr>msm_Spec := (msm_Spec msm0)\<lparr>ProviderID := ''metal://part/m1''\<rparr>,
     msm_ObjectMeta := meta0\<lparr>Finalizers := [MachineFinalizer]\<rparr>\<rparr>"

abbreviation machine_404 :: go_error where
  "machine_404 \<equiv> ErrExternal ''FindMachineDefault'' 404 ''no such machine''"

theorem machine_deleted_externally_fails_witness:
  "\<exists>s'. machine_reconcile lib0 (env0\<lparr>metal_FindMachine := \<lambda>h q. Inl machine_404\<rparr>)
      (mstate0 msc_ready msm_created) =
      (Some (empty_Result, Some (ErrNew ''machine has been deleted externally'')), s')"
proof -
  let ?E = "env0\<lparr>metal_FindMachine := \<lambda>h q. Inl machine_404\<rparr>"
  let ?s = "mstate0 msc_ready msm_created"
  obtain x s' where run: "machine_reconcile lib0 ?E ?s = (x, s')" by fastforce
  have "providerID ?s \<noteq> []" "NodeNetworkID (msc_Spec (mc_infraCluster (self ?s))) \<noteq> None"
    "Host (ControlPlaneEndpoint (msc_Spec (mc_infraCluster (self ?s)))) \<noteq> []"
    "machine_DataSecretName (mc_clusterMachine (self ?s)) \<noteq> None"
    "metal_FindMachine ?E (hist ?s) (decodeProviderID (providerID ?s)) = Inl machine_404"
    "errors_As (Some machine_404) ''FindMachineDefault'' = Some 404"
    by (simp_all add: mstate0_def msc_ready_def msm_created_def machine0_def errors_As_def)
  from machine_deleted_externally_fails [OF this run] run show ?thesis by blast
qed

section \<open>A successful reconcile\<close>

abbreviation mcondition_of :: "string \<Rightarrow> machineReconciler st \<Rightarrow> Condition option" where
  "mcondition_of t s \<equiv> find_condition t (msms_Conditions (msm_Status (infraMachine s)))"

definition mcondition_is :: "string \<Rightarrow> bool \<Rightarrow> machineReconciler st \<Rightarrow> bool" where
  "mcondition_is t b s \<longleftrightarrow> (\<exists>c. mcondition_of t s = Some c \<and>
     condStatus c = (if b then ConditionTrue else ConditionFalse))"

lemma machine_condition_types_distinct [simp]:
  "ProviderMachineCreated \<noteq> ProviderMachineReady" "ProviderMachineCreated \<noteq> ProviderMachineHealthy"
  "ProviderMachineReady \<noteq> ProviderMachineHealthy" "ProviderMachineReady \<noteq> ProviderMachineCreated"
  "ProviderMachineHealthy \<noteq> ProviderMachineCreated" "ProviderMachineHealthy \<noteq> ProviderMachineReady"
  by (simp_all add: ProviderMachineCreated_def ProviderMachineReady_def ProviderMachineHealthy_def)

lemma patchMachineLabels_frame [simp]:
  "msm_Spec (patchMachineLabels L m im) = msm_Spec im"
  "msm_Status (patchMachineLabels L m im) = msm_Status im"
  "Finalizers (msm_ObjectMeta (patchMachineLabels L m im)) = Finalizers (msm_ObjectMeta im)"
  "DeletionTimestamp (msm_ObjectMeta (patchMachineLabels L m im)) = DeletionTimestamp (msm_ObjectMeta im)"
  by (simp_all add: patchMachineLabels_def Let_def)

text \<open>What the object says after the machine was applied to it.\<close>

definition reflects :: "lib \<Rightarrow> V1MachineResponse \<Rightarrow> machineReconciler st \<Rightarrow> machineReconciler st \<Rightarrow> bool" where
  "reflects L m s s' \<longleftrightarrow>
     providerID s' = encodeProviderID L m \<and>
     mcondition_is ProviderMachineCreated True s' \<and>
     mcondition_is ProviderMachineHealthy (snd (getMachineStatus L m) = None) s' \<and>
     mcondition_is ProviderMachineReady (fst (getMachineStatus L m)) s' \<and>
     (msms_Ready (msm_Status (infraMachine s')) \<longleftrightarrow>
        msms_Ready (msm_Status (infraMachine s)) \<or> fst (getMachineStatus L m)) \<and>
     msmi_Provisioned (msms_Initialization (msm_Status (infraMachine s'))) =
       (if fst (getMachineStatus L m) then Some True
        else msmi_Provisioned (msms_Initialization (msm_Status (infraMachine s))))"

definition requeue_time :: "lib \<Rightarrow> V1MachineResponse \<Rightarrow> duration" where
  "requeue_time L m =
     (if fst (getMachineStatus L m) \<and> snd (getMachineStatus L m) = None then 0 else 30000000000)"

lemma apply_machine_step:
  assumes "conditions_laws L"
  shows "wp (apply_machine L m) (\<lambda>x s'. hist s' = hist s \<and>
    (\<forall>res. x = Some (res, None) \<longrightarrow> mr_ID m \<noteq> None \<and> mr_Allocation m \<noteq> None \<and>
       reflects L m s s' \<and> RequeueAfter res = requeue_time L m)) s"
  using assms
  by (cases "getMachineStatus L m"; cases "mr_ID m"; cases "mr_Allocation m")
    (auto simp: apply_machine_def wp_simps getMachineAddresses_def Let_def reflects_def
      requeue_time_def mcondition_is_def set_machine_condition_def MetalStackMachine_SetConditions_def
      MetalStackMachine_GetConditions_def health_condition_def ready_condition_def empty_Result_def
      defaultProviderMachineRequeueTime_def second_def split: option.split)

lemma provider_machine_found:
  "wp (provider_machine L E) (\<lambda>x s'. \<forall>m. x = Some (Inr m) \<longrightarrow>
     same_objects s s' \<and>
     (\<exists>tr. hist s' = hist s @ tr \<and>
       (if providerID s = [] then \<exists>q. Metal (AllocateMachine q (Inr m)) \<in> set tr
        else Metal (FindMachine (decodeProviderID (providerID s)) (Inr m)) \<in> set tr \<and>
          in_project (project s) m))) s"
proof (cases "providerID s = []")
  case True
  show ?thesis unfolding provider_machine_def
    by (simp add: wp_simps True, rule wp_mono [OF create_step])
      (auto simp: wp_simps same_objects_def split: sum.split option.split)
next
  case False
  show ?thesis unfolding provider_machine_def
    by (simp add: wp_simps False, rule wp_mono [OF find_step])
      (auto simp: wp_simps False split: sum.split option.split)
qed

text \<open>C15. A reconcile that returns no error has a provider machine, either the one the object named,
  found in the cluster's project, or a newly allocated one, and the object reflects it: its
  provider ID encodes the machine, the created condition is True, the healthy and ready
  conditions are the machine's status, readiness is set when the machine is ready and never
  taken back. It asks to be called again after 30 seconds unless the machine is healthy and
  ready.\<close>

theorem machine_reconcile_success:
  assumes "conditions_laws L" and "machine_reconcile L E s = (Some (res, None), s')"
  shows "\<exists>m tr. hist s' = hist s @ tr \<and>
    (if providerID s = [] then \<exists>q. Metal (AllocateMachine q (Inr m)) \<in> set tr
     else Metal (FindMachine (decodeProviderID (providerID s)) (Inr m)) \<in> set tr \<and>
       in_project (project s) m) \<and>
    mr_ID m \<noteq> None \<and> reflects L m s s' \<and> RequeueAfter res = requeue_time L m"
proof -
  obtain x t where p: "provider_machine L E s = (x, t)" by fastforce
  from assms(2) p obtain m where x: "x = Some (Inr m)" and a: "apply_machine L m t = (Some (res, None), s')"
    by (auto simp: machine_reconcile_def Let_def exec split: if_splits option.splits sum.splits)
  from wpD [OF provider_machine_found p] x obtain tr where
    P: "same_objects s t" "hist t = hist s @ tr"
      "if providerID s = [] then \<exists>q. Metal (AllocateMachine q (Inr m)) \<in> set tr
       else Metal (FindMachine (decodeProviderID (providerID s)) (Inr m)) \<in> set tr \<and>
          in_project (project s) m" by blast
  from wpD [OF apply_machine_step [OF assms(1)] a] have
    A: "hist s' = hist t" "mr_ID m \<noteq> None" "reflects L m t s'" "RequeueAfter res = requeue_time L m"
    by auto
  have "reflects L m s s'" using A(3) P(1) by (simp add: reflects_def same_objects_def)
  with A P show ?thesis by metis
qed

theorem machine_reconcile_success_witness:
  "\<exists>res s'. machine_reconcile lib0 env0 (mstate0 msc_ready msm0) = (Some (res, None), s') \<and>
     (\<exists>m. reflects lib0 m (mstate0 msc_ready msm0) s')"
proof -
  obtain x s' where run: "machine_reconcile lib0 env0 (mstate0 msc_ready msm0) = (x, s')" by fastforce
  then obtain res where x: "x = Some (res, None)"
    by (auto simp: machine_reconcile_def provider_machine_def create_def machineTags_def
        apply_machine_def getMachineAddresses_def getMachineStatus_def Let_def exec
        mstate0_def msc_ready_def objects0 errors_Join_def map_filter_def)
  show ?thesis using machine_reconcile_success [OF lib0_laws(1) run [unfolded x]] run x by blast
qed

text \<open>C34. Provider IDs decode to the machine's ID, so after a successful reconcile the next lookup
  asks the API for exactly the machine that was applied (partition names contain no
  slash).\<close>

theorem provider_id_roundtrip:
  assumes "pointer_laws L" and "mr_ID m = Some i" and "reflects L m s s'"
    and "\<forall>p. mr_Partition m = Some p \<longrightarrow> (\<forall>n. pr_ID p = Some n \<longrightarrow> CHR ''/'' \<notin> set n)"
  shows "decodeProviderID (encodeProviderID L m) = i \<and>
    (\<exists>resp. hist (snd (findProviderMachine L E s')) = hist s' @ [Metal (FindMachine i resp)])"
proof -
  have "CHR ''/'' \<notin> set (machine_partition L m)"
  proof (cases "mr_Partition m")
    case None
    with assms(1) show ?thesis by (simp add: machine_partition_def)
  next
    case (Some p)
    with assms(1,4) show ?thesis
      by (cases "pr_ID p") (simp_all add: machine_partition_def)
  qed
  then have d: "decodeProviderID (encodeProviderID L m) = i"
    using machine_id.decode_encode [of L m] assms(1,2) by (simp add: machine_ident_def)
  have "providerID s' = encodeProviderID L m" "encodeProviderID L m \<noteq> []"
    using assms(3) machine_id.encode_nonempty by (simp_all add: reflects_def)
  with d find_step [of L E s'] show ?thesis by (auto simp: wp_def)
qed

theorem provider_id_roundtrip_witness:
  "decodeProviderID (encodeProviderID lib0 response0) = ''m1''"
proof -
  obtain x s' where run: "apply_machine lib0 response0 (mstate0 msc_ready msm0) = (x, s')" by fastforce
  then obtain res where x: "x = Some (res, None)"
    by (auto simp: apply_machine_def getMachineAddresses_def getMachineStatus_def Let_def exec
        response0_def errors_Join_def map_filter_def)
  have "reflects lib0 response0 (mstate0 msc_ready msm0) s'"
    using wpD [OF apply_machine_step [OF lib0_laws(1)] run] x by simp
  from provider_id_roundtrip [OF lib0_laws(3) _ this, of "''m1''"] show ?thesis
    by (simp add: response0_def)
qed

section \<open>Deletion\<close>

abbreviation worker :: "lib \<Rightarrow> machineReconciler st \<Rightarrow> bool" where
  "worker L s \<equiv> \<not> IsControlPlaneMachine L (mc_clusterMachine (self s))"

abbreviation deleted_at :: "machineReconciler st \<Rightarrow> time option" where
  "deleted_at s \<equiv> DeletionTimestamp (msm_ObjectMeta (infraMachine s))"

abbreviation unfinalized :: "lib \<Rightarrow> machineReconciler st \<Rightarrow> machineReconciler st" where
  "unfinalized L t \<equiv> t\<lparr>self := mc_infraMachine_update (remove_machine_finalizer L) (self t)\<rparr>"

text \<open>The three outcomes of the lookup decide how the deletion goes on.\<close>

lemma machine_delete_gone:
  assumes "machine_has_finalizer L (self s)"
    and "findProviderMachine L E s = (Some (Inl e), t)"
    and "errors_Is (Some e) errProviderMachineNotFound"
  shows "machine_delete L E s =
    (if worker L s then (Some (empty_Result, None), unfinalized L t)
     else case deleted_at s of
       None \<Rightarrow> (None, t)
     | Some d \<Rightarrow>
         let now = time_Now E (hist t); u = t\<lparr>hist := hist t @ [Now now]\<rparr> in
         if d + 30000000000 < now then (Some (empty_Result, None), unfinalized L u)
         else (Some (\<lparr>RequeueAfter = 15000000000\<rparr>, None), u))"
  using assms by (auto simp: machine_delete_def machine_has_finalizer_def exec Let_def
      defaultControlPlaneMachineFreeRequeueTime_def second_def split: option.split)

lemma machine_delete_failed:
  assumes "machine_has_finalizer L (self s)"
    and "findProviderMachine L E s = (Some (Inl e), t)"
    and "\<not> errors_Is (Some e) errProviderMachineNotFound"
  shows "machine_delete L E s =
    (Some (empty_Result, Some (ErrWrap ''failed to find provider machine'' e)), t)"
  using assms by (auto simp: machine_delete_def machine_has_finalizer_def exec Let_def)

lemma machine_delete_found:
  assumes "machine_has_finalizer L (self s)"
    and "findProviderMachine L E s = (Some (Inr m), t)"
  shows "machine_delete L E s =
    (case mr_ID m of None \<Rightarrow> (None, t)
     | Some i \<Rightarrow>
         let err = metal_FreeMachine E (hist t) i;
             u = t\<lparr>hist := hist t @ [Metal (FreeMachine i err)]\<rparr> in
         case err of
           Some e \<Rightarrow> (Some (empty_Result, Some (ErrWrap ''failed to delete provider machine'' e)), u)
         | None \<Rightarrow>
             if worker L s then (Some (empty_Result, None), unfinalized L u)
             else (Some (\<lparr>RequeueAfter = 60000000000\<rparr>, None), u))"
  using assms by (auto simp: machine_delete_def machine_has_finalizer_def exec Let_def
      minute_def second_def split: option.split)

lemma machine_delete_skip:
  "\<not> machine_has_finalizer L (self s) \<Longrightarrow> machine_delete L E s = (Some (empty_Result, None), s)"
  by (simp add: machine_rec.delete_guard)

lemma remove_machine_finalizer_simps [simp]:
  "msm_Spec (remove_machine_finalizer L im) = msm_Spec im"
  "msm_Status (remove_machine_finalizer L im) = msm_Status im"
  "DeletionTimestamp (msm_ObjectMeta (remove_machine_finalizer L im)) =
     DeletionTimestamp (msm_ObjectMeta im)"
  "Finalizers (msm_ObjectMeta (remove_machine_finalizer L im)) =
     RemoveFinalizer L (Finalizers (msm_ObjectMeta im)) MachineFinalizer"
  by (simp_all add: remove_machine_finalizer_def)

lemma find_outcome:
  obtains y t tr where "findProviderMachine L E s = (Some y, t)" "same_objects s t"
    "hist t = hist s @ tr" "filter is_release tr = []" "filter is_allocation tr = []"
    "filter (\<lambda>e. \<exists>n. e = Now n) tr = []"
    "\<And>m. y = Inr m \<Longrightarrow> tr = [Metal (FindMachine (decodeProviderID (providerID s)) (Inr m))]"
    "\<And>m. y = Inr m \<Longrightarrow> in_project (project s) m"
proof -
  obtain x t where f: "findProviderMachine L E s = (x, t)" by fastforce
  note F = wpD [OF find_step f]
  then obtain y where y: "x = Some y" by auto
  from F obtain tr where "hist t = hist s @ tr" and
    "if providerID s = [] then tr = [] \<and> x = Some (Inl errProviderMachineNotFound) \<and> t = s
     else \<exists>resp. tr = [Metal (FindMachine (decodeProviderID (providerID s)) resp)] \<and>
          (\<forall>m. x = Some (Inr m) \<longrightarrow> resp = Inr m \<and> in_project (project s) m)" by auto
  then show ?thesis using F f y
    by (intro that [of y t tr]) (auto split: if_splits)
qed

text \<open>The machine an object stands for is gone: it names none, or the API was asked for it and
  answered 404, or with a machine that is not allocated in the project of the cluster.\<close>

definition seen_gone :: "machineReconciler st \<Rightarrow> history \<Rightarrow> bool" where
  "seen_gone s tr \<longleftrightarrow> providerID s = [] \<or>
     (\<exists>answer. Metal (FindMachine (decodeProviderID (providerID s)) answer) \<in> set tr \<and>
        (case answer of
           Inl err \<Rightarrow> errors_As (Some err) ''FindMachineDefault'' = Some 404
         | Inr m \<Rightarrow> \<not> in_project (project s) m))"

text \<open>No answer of the API is the controller's own error variable.\<close>

definition foreign_errors :: "env \<Rightarrow> bool" where
  "foreign_errors E \<longleftrightarrow> (\<forall>h i err. metal_FindMachine E h i = Inl err \<longrightarrow>
     \<not> errors_Is (Some err) errProviderMachineNotFound)"

lemma not_found_seen:
  assumes "foreign_errors E" and "findProviderMachine L E s = (Some (Inl e), t)"
    and "errors_Is (Some e) errProviderMachineNotFound" and "hist t = hist s @ tr"
  shows "seen_gone s (tr @ tr')"
proof (cases "providerID s = []")
  case False
  let ?answer = "metal_FindMachine E (hist s) (decodeProviderID (providerID s))"
  have "Metal (FindMachine (decodeProviderID (providerID s)) ?answer) \<in> set (tr @ tr')"
    "case ?answer of Inl err \<Rightarrow> errors_As (Some err) ''FindMachineDefault'' = Some 404
     | Inr m \<Rightarrow> \<not> in_project (project s) m"
    using assms False
    by (auto simp: findProviderMachine_def exec Let_def StatusNotFound_def foreign_errors_def
        in_project_def split: if_splits sum.splits option.splits)
  then show ?thesis unfolding seen_gone_def by blast
qed (simp add: seen_gone_def)

text \<open>C9. A deletion frees at most one machine, and only the one its own lookup returned for the
  object's provider ID, allocated to the cluster's project; it allocates nothing.\<close>

theorem machine_delete_own_project:
  "\<exists>tr. hist (snd (machine_delete L E s)) = hist s @ tr \<and> filter is_allocation tr = [] \<and>
     (filter is_release tr = [] \<or>
      (\<exists>m i r. tr = [Metal (FindMachine (decodeProviderID (providerID s)) (Inr m)),
                    Metal (FreeMachine i r)] \<and>
         mr_ID m = Some i \<and> in_project (project s) m))"
proof (cases "machine_has_finalizer L (self s)")
  case False
  then show ?thesis by (simp add: machine_delete_skip)
next
  case F: True
  obtain y t tr where O: "findProviderMachine L E s = (Some y, t)"
    "hist t = hist s @ tr" "filter is_release tr = []" "filter is_allocation tr = []"
    "\<And>m. y = Inr m \<Longrightarrow> tr = [Metal (FindMachine (decodeProviderID (providerID s)) (Inr m))]"
    "\<And>m. y = Inr m \<Longrightarrow> in_project (project s) m"
    by (rule find_outcome) blast
  show ?thesis
  proof (cases y)
    case (Inl e)
    with O F show ?thesis
      by (cases "errors_Is (Some e) errProviderMachineNotFound")
        (auto simp: machine_delete_gone machine_delete_failed Let_def split: option.split)
  next
    case (Inr m)
    with O F show ?thesis
      by (auto simp: machine_delete_found Let_def split: option.split)
  qed
qed

text \<open>C10. The finalizer is the last thing to go. When a deletion has taken it off, the result is
  empty, the spec has not changed, and the machine is gone (the object names none, or in this run
  the API answered 404 for it or with a machine outside the cluster's project) or this run has
  freed it; the finalizer of a control plane machine goes only in the first case, and not before
  30 seconds have passed since the object was deleted. No other error of the lookup lets the
  finalizer go. A deletion that leaves the finalizer on changes no more than conditions.\<close>

theorem machine_delete_finalizer_last:
  assumes "finalizer_laws L" and "machine_has_finalizer L (self s)"
    and "machine_delete L E s = (x, s')" and "foreign_errors E"
  shows "\<exists>tr. hist s' = hist s @ tr \<and>
    (if machine_has_finalizer L (self s') then same_objects s s'
     else x = Some (empty_Result, None) \<and>
       msm_Spec (infraMachine s') = msm_Spec (infraMachine s) \<and>
       (if worker L s
        then seen_gone s tr \<or> (\<exists>i. Metal (FreeMachine i None) \<in> set tr)
        else seen_gone s tr \<and> filter is_release tr = [] \<and>
          (\<exists>d now. deleted_at s = Some d \<and> Now now \<in> set tr \<and> d + 30000000000 < now)))"
proof -
  obtain y t tr where O: "findProviderMachine L E s = (Some y, t)" "same_objects s t"
    "hist t = hist s @ tr" "filter is_release tr = []"
    by (rule find_outcome) blast
  have fin: "machine_has_finalizer L (self u) = machine_has_finalizer L (self s)"
    if "same_objects s u" for u
    using that by (simp add: same_objects_def machine_has_finalizer_def)
  have gone: "\<not> machine_has_finalizer L (self (unfinalized L u))" for u
    using assms(1) by (simp add: machine_has_finalizer_def)
  have so: "same_objects s (t\<lparr>hist := h\<rparr>)" for h
    using O(2) by (simp add: same_objects_def)
  have sp: "msm_Spec (infraMachine t) = msm_Spec (infraMachine s)"
    using O(2) by (simp add: same_objects_def)
  show ?thesis
  proof (cases y)
    case (Inl e)
    show ?thesis
    proof (cases "errors_Is (Some e) errProviderMachineNotFound")
      case True
      have "seen_gone s (tr @ tr')" for tr'
        by (rule not_found_seen [OF assms(4) O(1) [unfolded Inl] True O(3)])
      from this this [of "[]"] have "seen_gone s tr" "seen_gone s (tr @ [Now n])" for n by simp_all
      then show ?thesis
        using assms(2,3) O fin [OF so] fin [OF O(2)] gone so sp
        by (auto simp: machine_delete_gone [OF assms(2) O(1) [unfolded Inl] True] Let_def
            split: option.splits if_splits)
    next
      case False
      then show ?thesis
        using assms(2,3) O fin [OF O(2)]
        by (auto simp: machine_delete_failed [OF assms(2) O(1) [unfolded Inl]])
    qed
  next
    case (Inr m)
    then show ?thesis
      using assms(2,3) O fin [OF so] fin [OF O(2)] gone so sp
      by (auto simp: machine_delete_found [OF assms(2) O(1) [unfolded Inr]] Let_def
          split: option.splits if_splits)
  qed
qed

definition machine_deleted0 :: "MetalStackMachine" where
  "machine_deleted0 = msm_created\<lparr>msm_ObjectMeta :=
     (msm_ObjectMeta msm_created)\<lparr>DeletionTimestamp := Some 1\<rparr>\<rparr>"

theorem machine_delete_finalizer_last_witness:
  "\<exists>x s'. machine_delete lib0 env0 (mstate0 msc_ready machine_deleted0) = (x, s') \<and>
     \<not> machine_has_finalizer lib0 (self s') \<and> (\<exists>i. Metal (FreeMachine i None) \<in> set (hist s'))"
proof -
  let ?s = "mstate0 msc_ready machine_deleted0"
  have fin: "machine_has_finalizer lib0 (self ?s)"
    by (simp add: machine_has_finalizer_def mstate0_def machine_deleted0_def msm_created_def)
  have w: "worker lib0 ?s" by (simp add: mstate0_def machine_deleted0_def objects0)
  have E: "foreign_errors env0" by (simp add: foreign_errors_def)
  obtain x s' where run: "machine_delete lib0 env0 ?s = (x, s')" by fastforce
  then have g: "\<not> machine_has_finalizer lib0 (self s')"
    and h: "\<forall>q a. Metal (FindMachine q a) \<in> set (hist s') \<longrightarrow> a = Inr response0"
    by (auto simp: machine_delete_def findProviderMachine_def exec Let_def objects0 msc_ready_def
        mstate0_def machine_deleted0_def msm_created_def machine_has_finalizer_def)
  have "providerID ?s \<noteq> []" "in_project (project ?s) response0"
    by (simp_all add: mstate0_def machine_deleted0_def msm_created_def objects0 msc_ready_def
        in_project_def)
  with machine_delete_finalizer_last [OF lib0_laws(2) fin run E] g h w run show ?thesis
    by (fastforce simp: mstate0_def seen_gone_def)
qed

text \<open>C22. A deletion comes to its end: once the object names no machine, or the API answers 404 for
  it, the finalizer is taken off without an error, at once for a worker and as soon as 30
  seconds have passed since the deletion for a control plane machine, which until then asks to
  be called again after 15 seconds.\<close>

theorem machine_delete_completes:
  assumes "finalizer_laws L" and "machine_has_finalizer L (self s)"
    and "providerID s = [] \<or> (\<exists>err.
      metal_FindMachine E (hist s) (decodeProviderID (providerID s)) = Inl err \<and>
      errors_As (Some err) ''FindMachineDefault'' = Some 404)"
    and "deleted_at s = Some d"
  shows "\<exists>tr s' now. hist s' = hist s @ tr \<and> filter is_release tr = [] \<and>
    (now = time_Now E (hist s) \<or> (\<exists>e. now = time_Now E (hist s @ [e]))) \<and>
    (if worker L s \<or> d + 30000000000 < now
     then machine_delete L E s = (Some (empty_Result, None), s') \<and>
       \<not> machine_has_finalizer L (self s')
     else machine_delete L E s = (Some (\<lparr>RequeueAfter = 15000000000\<rparr>, None), s') \<and>
       self s' = self s)"
proof -
  have "\<exists>t tr. findProviderMachine L E s = (Some (Inl errProviderMachineNotFound), t) \<and>
      self t = self s \<and> hist t = hist s @ tr \<and> (tr = [] \<or> (\<exists>q r. tr = [Metal (FindMachine q r)]))"
    using assms(3)
    by (cases "providerID s = []")
      (auto simp: findProviderMachine_def exec Let_def StatusNotFound_def errProviderMachineNotFound_def)
  then obtain t tr where t: "findProviderMachine L E s = (Some (Inl errProviderMachineNotFound), t)"
    "self t = self s" "hist t = hist s @ tr" "tr = [] \<or> (\<exists>q r. tr = [Metal (FindMachine q r)])"
    by blast
  have gone: "\<not> machine_has_finalizer L (self (unfinalized L u))" for u
    using assms(1) by (simp add: machine_has_finalizer_def)
  define now where "now = time_Now E (hist t)"
  define u where "u = t\<lparr>hist := hist t @ [Now now]\<rparr>"
  have D: "machine_delete L E s =
    (if worker L s then (Some (empty_Result, None), unfinalized L t)
     else if d + 30000000000 < now then (Some (empty_Result, None), unfinalized L u)
     else (Some (\<lparr>RequeueAfter = 15000000000\<rparr>, None), u))"
    using machine_delete_gone [OF assms(2) t(1)] assms(4)
    by (simp add: errProviderMachineNotFound_def now_def u_def)
  have now: "now = time_Now E (hist s) \<or> (\<exists>e. now = time_Now E (hist s @ [e]))"
    using t(3,4) by (auto simp: now_def)
  have T: "filter is_release (tr @ [Now now]) = []" "filter is_release tr = []"
    using t(4) by auto
  consider "worker L s" | "\<not> worker L s" "d + 30000000000 < now"
    | "\<not> worker L s" "\<not> d + 30000000000 < now" by blast
  then show ?thesis
  proof cases
    case 1
    with D T now t(3) gone show ?thesis
      by (intro exI [of _ tr] exI [of _ "unfinalized L t"] exI [of _ now]) simp
  next
    case 2
    with D T now t(3) gone show ?thesis
      by (intro exI [of _ "tr @ [Now now]"] exI [of _ "unfinalized L u"] exI [of _ now])
        (simp add: u_def)
  next
    case 3
    with D T now t(2,3) show ?thesis
      by (intro exI [of _ "tr @ [Now now]"] exI [of _ u] exI [of _ now]) (simp add: u_def)
  qed
qed

theorem machine_delete_completes_witness:
  "\<exists>s'. machine_delete lib0 (env0\<lparr>metal_FindMachine := \<lambda>h q. Inl machine_404\<rparr>)
      (mstate0 msc_ready machine_deleted0) = (Some (empty_Result, None), s') \<and>
    \<not> machine_has_finalizer lib0 (self s')"
proof -
  let ?s = "mstate0 msc_ready machine_deleted0"
  let ?E = "env0\<lparr>metal_FindMachine := \<lambda>h q. Inl machine_404\<rparr>"
  have "machine_has_finalizer lib0 (self ?s)"
    by (simp add: machine_has_finalizer_def mstate0_def machine_deleted0_def msm_created_def)
  moreover have "providerID ?s = [] \<or> (\<exists>err.
      metal_FindMachine ?E (hist ?s) (decodeProviderID (providerID ?s)) = Inl err \<and>
      errors_As (Some err) ''FindMachineDefault'' = Some 404)"
    by (simp add: errors_As_def)
  moreover have "deleted_at ?s = Some 1" "worker lib0 ?s"
    by (simp_all add: mstate0_def machine_deleted0_def objects0)
  ultimately show ?thesis
    using machine_delete_completes [OF lib0_laws(2), of ?s ?E 1] by (simp split: if_splits) blast
qed

section \<open>The request and the labels\<close>

text \<open>What a request asks for, given the objects and the calls made before it.\<close>

definition request_for :: "lib \<Rightarrow> machineReconciler st \<Rightarrow> history \<Rightarrow> V1MachineAllocateRequest \<Rightarrow> bool" where
  "request_for L s tr q \<longleftrightarrow>
     mar_Partitionid q = Some (Partition (msc_Spec (mc_infraCluster (self s)))) \<and>
     mar_Projectid q = Some (project s) \<and>
     mar_Name q = Name (msm_ObjectMeta (infraMachine s)) \<and> mar_Hostname q = mar_Name q \<and>
     mar_Sizeid q = Some (Size (msm_Spec (infraMachine s))) \<and>
     mar_Imageid q = Some (Image (msm_Spec (infraMachine s))) \<and>
     (\<exists>nw. NodeNetworkID (msc_Spec (mc_infraCluster (self s))) = Some nw \<and>
        mar_Networks q = [\<lparr>man_Autoacquire = Some True, man_Networkid = Some nw\<rparr>] \<and>
        tag_New L (tag_ClusterID L) nw \<in> set (mar_Tags q)) \<and>
     (\<exists>secret data. machine_DataSecretName (mc_clusterMachine (self s)) = Some secret \<and>
        Kube (GetSecret (ObjectKeyFromObject L
          (object_meta secret (Namespace (msm_ObjectMeta (infraMachine s))))) (Inr data)) \<in> set tr \<and>
        mar_UserData q = (case data ''value'' of None \<Rightarrow> [] | Some v \<Rightarrow> v)) \<and>
     (TagControlPlanePurpose L \<in> set (mar_Tags q) \<or> worker L s)"

lemma create_requests:
  "wp (create L E) (\<lambda>x s'. \<exists>tr. hist s' = hist s @ tr \<and>
     (\<forall>q resp. Metal (AllocateMachine q resp) \<in> set tr \<longrightarrow> request_for L s tr q)) s"
  unfolding create_def machineTags_def Let_def
  by (auto simp: wp_simps request_for_def machine_request_def Let_def split: sum.split option.split)

lemma provider_machine_requests:
  "wp (provider_machine L E) (\<lambda>x s'. \<exists>tr. hist s' = hist s @ tr \<and>
     (\<forall>q resp. Metal (AllocateMachine q resp) \<in> set tr \<longrightarrow> request_for L s tr q)) s"
proof (cases "providerID s = []")
  case True
  show ?thesis unfolding provider_machine_def
    by (simp add: wp_simps True, rule wp_mono [OF create_requests])
      (auto simp: wp_simps split: sum.split option.split)
next
  case False
  show ?thesis unfolding provider_machine_def
    by (simp add: wp_simps False, rule wp_mono [OF find_step])
      (auto simp: wp_simps False split: sum.split option.split)
qed

text \<open>The machine a reconcile asks for: in the cluster's partition and project, named after the
  object, with its size and image, in exactly one network, the cluster's node network, tagged
  with that network, with the value of the bootstrap secret of the object's namespace, read in
  the same run, as user data, and tagged for its purpose when it is a control plane
  machine.\<close>

theorem machine_request_content:
  assumes "machine_reconcile L E s = (x, s')" and "hist s' = hist s @ tr"
    and "Metal (AllocateMachine q resp) \<in> set tr"
  shows "request_for L s tr q"
proof -
  obtain y t where p: "provider_machine L E s = (y, t)" by fastforce
  from wpD [OF provider_machine_requests p] obtain tr' where
    T: "hist t = hist s @ tr'" "\<forall>q resp. Metal (AllocateMachine q resp) \<in> set tr' \<longrightarrow> request_for L s tr' q"
    by blast
  have quiet: "hist s' = hist t" if "apply_machine L m t = (x, s')" for m
    using emits_nothing [OF emits_apply_machine, of L m t] that by simp
  have "hist s' = hist s \<or> hist s' = hist t"
    using assms(1) p
    by (auto simp: machine_reconcile_def Let_def exec dest: quiet
        split: if_splits option.splits sum.splits)
  then show ?thesis using assms(2,3) T by auto
qed

theorem machine_request_content_witness:
  "\<exists>x s' q resp. machine_reconcile lib0 env0 (mstate0 msc_ready msm0) = (x, s') \<and>
     Metal (AllocateMachine q resp) \<in> set (hist s') \<and> mar_UserData q = ''ignition''"
proof -
  let ?s = "mstate0 msc_ready msm0"
  obtain x s' where run: "machine_reconcile lib0 env0 ?s = (x, s')" by fastforce
  have h: "hist s' = hist ?s @ hist s'" by (simp add: mstate0_def)
  obtain q resp where q: "Metal (AllocateMachine q resp) \<in> set (hist s')"
    and secret: "\<forall>k d. Kube (GetSecret k (Inr d)) \<in> set (hist s') \<longrightarrow> d ''value'' = Some ''ignition''"
    using run
    by (auto simp: machine_reconcile_def provider_machine_def create_def machineTags_def
        apply_machine_def getMachineAddresses_def getMachineStatus_def Let_def exec
        mstate0_def msc_ready_def objects0 errors_Join_def map_filter_def)
  from machine_request_content [OF run h q] obtain k d where
    "Kube (GetSecret k (Inr d)) \<in> set (hist s')"
    "mar_UserData q = (case d ''value'' of None \<Rightarrow> [] | Some v \<Rightarrow> v)"
    unfolding request_for_def by blast
  with secret have "mar_UserData q = ''ignition''" by fastforce
  with run q show ?thesis by blast
qed

lemma set_label_apply:
  "set_label k v ls k' = (if k' = k \<and> v \<noteq> None then v else ls k')"
  by (auto simp: set_label_def split: option.split)

lemma case_option_default:
  "(case v of None \<Rightarrow> d | Some x \<Rightarrow> Some x) = (if v = None then d else v)"
  by (simp split: option.split)

text \<open>The labels of the object after a machine was applied: the host name, the zone, the rack,
  the ASN and the chassis label show what the machine says, keep their old value where it says
  nothing, and every other label stays as it was.\<close>

theorem patchMachineLabels_spec:
  assumes "distinct [LabelHostname L, LabelTopologyZone L, tag_MachineRack L,
      tag_MachineNetworkPrimaryASN L, tag_MachineChassis L]"
  shows "\<exists>ls old. Labels (msm_ObjectMeta (patchMachineLabels L m im)) = Some ls \<and>
    old = (case Labels (msm_ObjectMeta im) of None \<Rightarrow> Map.empty | Some l \<Rightarrow> l) \<and>
    ls (LabelHostname L) = (case Option.bind (mr_Allocation m) mal_Hostname of
      None \<Rightarrow> old (LabelHostname L) | Some h \<Rightarrow> Some h) \<and>
    ls (LabelTopologyZone L) = (case Option.bind (mr_Partition m) pr_ID of
      None \<Rightarrow> old (LabelTopologyZone L) | Some p \<Rightarrow> Some p) \<and>
    ls (tag_MachineRack L) =
      (if mr_Rackid m = [] then old (tag_MachineRack L) else Some (mr_Rackid m)) \<and>
    ls (tag_MachineNetworkPrimaryASN L) =
      (case TagMap_Value L (mr_Tags m) (tag_MachineNetworkPrimaryASN L) of
        None \<Rightarrow> old (tag_MachineNetworkPrimaryASN L) | Some v \<Rightarrow> Some v) \<and>
    ls (tag_MachineChassis L) = (case TagMap_Value L (mr_Tags m) (tag_MachineChassis L) of
        None \<Rightarrow> old (tag_MachineChassis L) | Some v \<Rightarrow> Some v) \<and>
    (\<forall>k. k \<in> {LabelHostname L, LabelTopologyZone L, tag_MachineRack L,
        tag_MachineNetworkPrimaryASN L, tag_MachineChassis L} \<or> ls k = old k)"
proof -
  have "distinct (rev [LabelHostname L, LabelTopologyZone L, tag_MachineRack L,
      tag_MachineNetworkPrimaryASN L, tag_MachineChassis L])"
    using assms by (simp only: distinct_rev)
  with assms show ?thesis
    by (simp add: patchMachineLabels_def Let_def set_label_apply case_option_default)
qed

theorem patchMachineLabels_spec_witness:
  "\<exists>ls. Labels (msm_ObjectMeta (patchMachineLabels lib0 response0 msm0)) = Some ls \<and>
     ls ''kubernetes.io/hostname'' = Option.bind (mr_Allocation response0) mal_Hostname"
proof -
  have "distinct [LabelHostname lib0, LabelTopologyZone lib0, tag_MachineRack lib0,
      tag_MachineNetworkPrimaryASN lib0, tag_MachineChassis lib0]" by simp
  from patchMachineLabels_spec [OF this, of response0 msm0] show ?thesis
    by (auto simp: response0_def)
qed

section \<open>Failures\<close>

text \<open>A run that allocates a machine without an allocation panics.\<close>

definition loses :: "(Result \<times> go_error option) option \<Rightarrow> history \<Rightarrow> bool" where
  "loses x tr \<longleftrightarrow> list_all (\<lambda>e. \<not> is_patch e) tr \<and>
     (x = None \<or> (\<forall>q m. Metal (AllocateMachine q (Inr m)) \<in> set tr \<longrightarrow>
        mr_ID m = None \<or> mr_Allocation m \<noteq> None))"

lemma create_allocated:
  "wp (create L E) (\<lambda>x s'. \<exists>tr. hist s' = hist s @ tr \<and> list_all (\<lambda>e. \<not> is_patch e) tr \<and>
     (\<forall>q m. Metal (AllocateMachine q (Inr m)) \<in> set tr \<longrightarrow> x = Some (Inr m))) s"
  unfolding create_def machineTags_def Let_def
  by (auto simp: wp_simps split: sum.split option.split)

lemma provider_machine_allocated:
  "wp (provider_machine L E) (\<lambda>x s'. \<exists>tr. hist s' = hist s @ tr \<and>
     list_all (\<lambda>e. \<not> is_patch e) tr \<and>
     (\<forall>q m. Metal (AllocateMachine q (Inr m)) \<in> set tr \<longrightarrow> x = Some (Inr m))) s"
proof (cases "providerID s = []")
  case True
  show ?thesis unfolding provider_machine_def
    by (simp add: wp_simps True, rule wp_mono [OF create_allocated])
      (auto simp: wp_simps split: sum.split option.split)
next
  case False
  show ?thesis unfolding provider_machine_def
    by (simp add: wp_simps False, rule wp_mono [OF find_step])
      (auto simp: wp_simps False split: sum.split option.split)
qed

lemma apply_machine_panics:
  assumes "mr_ID m \<noteq> None" and "mr_Allocation m = None"
  shows "fst (apply_machine L m t) = None"
  using assms by (auto simp: apply_machine_def getMachineAddresses_def exec split: prod.split)

lemma machine_reconcile_loses:
  "wp (machine_reconcile L E) (\<lambda>x s'. \<exists>tr. hist s' = hist s @ tr \<and> loses x tr) s"
proof -
  have rest: "wp (apply_machine L m) (\<lambda>x s'. \<exists>tr. hist s' = hist s @ tr \<and> loses x tr) t"
    if "hist t = hist s @ tr" "list_all (\<lambda>e. \<not> is_patch e) tr"
      "\<forall>q m'. Metal (AllocateMachine q (Inr m')) \<in> set tr \<longrightarrow> m' = m" for m t tr
  proof -
    have "hist (snd (apply_machine L m t)) = hist t"
      by (rule emits_nothing [OF emits_apply_machine])
    moreover have "loses (fst (apply_machine L m t)) tr"
    proof (cases "mr_ID m = None \<or> mr_Allocation m \<noteq> None")
      case True
      with that show ?thesis by (auto simp: loses_def)
    next
      case False
      with that apply_machine_panics [of m L t] show ?thesis by (simp add: loses_def)
    qed
    ultimately show ?thesis using that by (auto simp: wp_def)
  qed
  have "wp (provider_machine L E) (\<lambda>x s'. case x of
        None \<Rightarrow> \<exists>tr. hist s' = hist s @ tr \<and> loses None tr
      | Some y \<Rightarrow> wp (case y of Inl err \<Rightarrow> ret (empty_Result, Some err) | Inr m \<Rightarrow> apply_machine L m)
          (\<lambda>x s'. \<exists>tr. hist s' = hist s @ tr \<and> loses x tr) s') s"
  proof (rule wp_mono [OF provider_machine_allocated])
    fix x :: "(go_error + V1MachineResponse) option" and s' :: "machineReconciler st"
    assume "\<exists>tr. hist s' = hist s @ tr \<and> list_all (\<lambda>e. \<not> is_patch e) tr \<and>
      (\<forall>q m. Metal (AllocateMachine q (Inr m)) \<in> set tr \<longrightarrow> x = Some (Inr m))"
    then obtain tr where tr: "hist s' = hist s @ tr" "list_all (\<lambda>e. \<not> is_patch e) tr"
      "\<forall>q m. Metal (AllocateMachine q (Inr m)) \<in> set tr \<longrightarrow> x = Some (Inr m)" by blast
    then show "case x of
        None \<Rightarrow> \<exists>tr. hist s' = hist s @ tr \<and> loses None tr
      | Some y \<Rightarrow> wp (case y of Inl err \<Rightarrow> ret (empty_Result, Some err) | Inr m \<Rightarrow> apply_machine L m)
          (\<lambda>x s'. \<exists>tr. hist s' = hist s @ tr \<and> loses x tr) s'"
      using rest [OF tr(1,2)]
      by (auto simp: wp_simps loses_def split: option.split sum.split)
  qed
  moreover have "loses x []" for x by (simp add: loses_def)
  ultimately show ?thesis unfolding machine_reconcile_def Let_def by (simp add: wp_simps)
qed

lemma machine_switch_loses:
  "wp (machine_switch L E c) (\<lambda>x s'. \<exists>tr. hist s' = hist s @ tr \<and> loses x tr) s"
proof -
  have "emits (\<lambda>e. \<not> is_patch e \<and> \<not> is_allocation e) (machine_delete L E)"
    unfolding machine_delete_def Let_def by (intro emits_intros) simp_all
  then have D: "wp (machine_delete L E) (\<lambda>x s'. \<exists>tr. hist s' = hist s @ tr \<and> loses x tr) s"
    by (rule wp_mono [OF emits_wp]) (force simp: loses_def list_all_iff)
  have "loses x []" for x by (simp add: loses_def)
  then show ?thesis unfolding machine_switch_def
    by (simp add: wp_simps D machine_reconcile_loses)
qed

text \<open>C38. A machine that was allocated is forgotten when the API's answer carries no allocation: the
  run dereferences the missing allocation and panics after the call, so the provider ID it had
  just written to the object is not persisted, and the object still names no machine when the
  next run reads it.\<close>

theorem machine_allocation_lost:
  assumes "machine_dispatch L E c s = (x, s')" and "hist s' = hist s @ tr"
    and "Metal (AllocateMachine q (Inr m)) \<in> set tr" and "mr_ID m = Some i"
    and "mr_Allocation m = None"
  shows "x = None \<and> filter is_patch tr = []"
proof -
  define helper where "helper = kube_NewHelper E (hist s) (OMachine (mc_infraMachine (self s)))"
  define t where "t = s\<lparr>hist := hist s @ [Kube (NewHelper (OMachine (mc_infraMachine (self s))) helper)],
     self := mark_machine_paused L c (self s)\<rparr>"
  obtain y u where b: "machine_switch L E c t = (y, u)" by fastforce
  from wpD [OF machine_switch_loses b] obtain tr' where u: "hist u = hist t @ tr'" "loses y tr'" by blast
  have run: "case helper of Some e \<Rightarrow> x = Some (empty_Result, Some e) \<and> tr = [Kube (NewHelper (OMachine (mc_infraMachine (self s))) helper)]
     | None \<Rightarrow> (case y of None \<Rightarrow> x = None \<and> s' = u | Some r \<Rightarrow> machine_patch E (self s) r u = (x, s'))"
    using assms(1,2) b
    by (auto simp: machine_dispatch_def exec helper_def t_def split: option.splits)
  with assms(3) have none: "helper = None" by (auto split: option.splits)
  show ?thesis
  proof (cases y)
    case None
    with run none u assms(2) show ?thesis
      by (auto simp: t_def loses_def list_all_iff filter_empty_conv)
  next
    case (Some r)
    with run none have "machine_patch E (self s) r u = (x, s')" by simp
    moreover have "emits (\<lambda>e. \<not> is_metal e) (machine_patch E (self s) r)"
      by (intro emits_intros) simp
    ultimately obtain tr2 where "hist s' = hist u @ tr2" "list_all (\<lambda>e. \<not> is_metal e) tr2"
      by (metis emitsD)
    moreover have "\<not> list_all (\<lambda>e. \<not> is_metal e) tr2"
      if "Metal (AllocateMachine q (Inr m)) \<in> set tr2"
      using that by (force simp: list_all_iff)
    ultimately have "Metal (AllocateMachine q (Inr m)) \<in> set tr'"
      using u(1) assms(2,3) by (auto simp: t_def)
    moreover have "y \<noteq> None" "mr_ID m \<noteq> None" using Some assms(4) by simp_all
    moreover from u(2) have "y = None \<or> (\<forall>q m. Metal (AllocateMachine q (Inr m)) \<in> set tr' \<longrightarrow>
        mr_ID m = None \<or> mr_Allocation m \<noteq> None)" by (simp only: loses_def)
    ultimately have "mr_Allocation m \<noteq> None" by metis
    with assms(5) show ?thesis by simp
  qed
qed

abbreviation response_lost :: V1MachineResponse where
  "response_lost \<equiv> response0\<lparr>mr_Allocation := None\<rparr>"

theorem machine_allocation_lost_witness:
  "\<exists>s'. machine_dispatch lib0 (env0\<lparr>metal_AllocateMachine := \<lambda>h q. Inr response_lost\<rparr>) cluster0
      (mstate0 msc_ready (msm0\<lparr>msm_ObjectMeta := meta0\<lparr>Finalizers := [MachineFinalizer]\<rparr>\<rparr>)) =
      (None, s') \<and> filter is_patch (hist s') = []"
proof -
  let ?s = "mstate0 msc_ready (msm0\<lparr>msm_ObjectMeta := meta0\<lparr>Finalizers := [MachineFinalizer]\<rparr>\<rparr>)"
  let ?E = "env0\<lparr>metal_AllocateMachine := \<lambda>h q. Inr response_lost\<rparr>"
  obtain x s' where run: "machine_dispatch lib0 ?E cluster0 ?s = (x, s')" by fastforce
  have h: "hist s' = hist ?s @ hist s'" by (simp add: mstate0_def)
  obtain q where "Metal (AllocateMachine q (Inr response_lost)) \<in> set (hist s')"
    using run
    by (auto simp: machine_dispatch_def machine_switch_def machine_paused_def machine_deleting_def
        machine_has_finalizer_def mark_machine_paused_def set_machine_condition_def
        MetalStackMachine_SetConditions_def MetalStackMachine_GetConditions_def
        machine_reconcile_def provider_machine_def create_def machineTags_def
        apply_machine_def getMachineAddresses_def getMachineStatus_def Let_def exec
        mstate0_def msc_ready_def objects0 errors_Join_def map_filter_def)
  from machine_allocation_lost [OF run h this, of "''m1''"] run show ?thesis
    by (simp add: response0_def)
qed

section \<open>The whole Reconcile\<close>

text \<open>C19. Every call of the metal-stack API a Reconcile of a machine makes is guarded: in the same run
  the object was read with the finalizer already on it, its owner machine and its cluster were
  found, and the cluster and the object are not paused.\<close>

theorem machine_Reconcile_guarded:
  assumes "MetalStackMachineReconciler_Reconcile L E req s = (x, s')"
    and "hist s' = hist s @ tr" and "e \<in> set tr" and "is_metal e"
  shows "\<exists>im m c. Kube (GetMetalStackMachine req (Inr im)) \<in> set tr \<and>
    Kube (GetOwnerMachine (msm_ObjectMeta im) (Inr (Some m))) \<in> set tr \<and>
    Kube (GetClusterFromMetadata (machine_ObjectMeta m) (Inr (Some c))) \<in> set tr \<and>
    ContainsFinalizer L (Finalizers (msm_ObjectMeta im)) MachineFinalizer \<and>
    \<not> IsPaused L c (msm_ObjectMeta im)"
proof -
  let ?get = "kube_GetMetalStackMachine E (hist s) req"
  let ?h1 = "hist s @ [Kube (GetMetalStackMachine req ?get)]"
  obtain im where im: "?get = Inr im"
    using assms by (cases ?get)
      (auto simp: MetalStackMachineReconciler_Reconcile_def exec split: if_splits)
  let ?own = "kube_GetOwnerMachine E ?h1 (msm_ObjectMeta im)"
  let ?h2 = "?h1 @ [Kube (GetOwnerMachine (msm_ObjectMeta im) ?own)]"
  obtain m where m: "?own = Inr (Some m)"
    using assms im by (auto simp: MetalStackMachineReconciler_Reconcile_def exec
        split: sum.splits option.splits)
  let ?clu = "kube_GetClusterFromMetadata E ?h2 (machine_ObjectMeta m)"
  let ?h3 = "?h2 @ [Kube (GetClusterFromMetadata (machine_ObjectMeta m) ?clu)]"
  obtain c where c: "?clu = Inr (Some c)"
    using assms im m by (auto simp: MetalStackMachineReconciler_Reconcile_def exec
        split: sum.splits option.splits)
  let ?key = "ObjectKeyFromObject L (object_meta (irName (cluster_InfrastructureRef c))
     (Namespace (cluster_ObjectMeta c)))"
  let ?inf = "kube_GetMetalStackCluster E ?h3 ?key"
  obtain ic where ic: "?inf = Inr ic"
    using assms im m c by (cases ?inf) (auto simp: MetalStackMachineReconciler_Reconcile_def exec
        split: if_splits)
  define pre where "pre = [Kube (GetMetalStackMachine req ?get),
     Kube (GetOwnerMachine (msm_ObjectMeta im) ?own),
     Kube (GetClusterFromMetadata (machine_ObjectMeta m) ?clu),
     Kube (GetMetalStackCluster ?key ?inf)]"
  define t where "t = \<lparr>hist = hist s @ pre,
      self = \<lparr>mc_infraCluster = ic, mc_clusterMachine = m, mc_infraMachine = im\<rparr>\<rparr>"
  obtain y t' where d: "machine_dispatch L E c t = (y, t')" by fastforce
  have h: "hist s' = hist t' \<or> hist s' = hist t"
    using assms(1) im m c ic d
    by (auto simp: MetalStackMachineReconciler_Reconcile_def exec with_self_def t_def pre_def
        split: option.splits if_splits)
  have "emits (\<lambda>_. True) (machine_dispatch L E c)"
    unfolding machine_dispatch_def machine_switch_def machine_delete_def machine_reconcile_def Let_def
    by (intro emits_intros) simp_all
  then obtain tr' where tr': "hist t' = hist t @ tr'" using d by (rule emitsD)
  have "\<not> is_metal e'" if "e' \<in> set pre" for e' using that by (auto simp: pre_def)
  with h tr' assms(2-4) have tr: "tr = pre @ tr'" "e \<in> set tr'" by (auto simp: t_def)
  from machine_rec.metal_event_guarded [OF d tr' tr(2) assms(4)]
  have "\<not> IsPaused L c (msm_ObjectMeta im)"
    "ContainsFinalizer L (Finalizers (msm_ObjectMeta im)) MachineFinalizer"
    by (simp_all add: t_def machine_paused_def machine_has_finalizer_def)
  moreover have "set pre \<subseteq> set tr" by (simp add: tr(1))
  ultimately show ?thesis using im m c by (auto simp: pre_def)
qed

theorem machine_Reconcile_guarded_witness:
  "\<exists>x s' im. MetalStackMachineReconciler_Reconcile lib0
      (env0\<lparr>kube_GetMetalStackMachine := \<lambda>h q. Inr msm_created,
            kube_GetMetalStackCluster := \<lambda>h q. Inr msc_ready\<rparr>)
      \<lparr>nnNamespace = ''ns'', nnName = ''m1''\<rparr> \<lparr>hist = [], self = ()\<rparr> = (x, s') \<and>
     Kube (GetMetalStackMachine \<lparr>nnNamespace = ''ns'', nnName = ''m1''\<rparr> (Inr im)) \<in> set (hist s')"
proof -
  let ?E = "env0\<lparr>kube_GetMetalStackMachine := \<lambda>h q. Inr msm_created,
            kube_GetMetalStackCluster := \<lambda>h q. Inr msc_ready\<rparr>"
  let ?req = "\<lparr>nnNamespace = ''ns'', nnName = ''m1''\<rparr>"
  let ?s = "\<lparr>hist = [], self = ()\<rparr>"
  obtain x s' where run: "MetalStackMachineReconciler_Reconcile lib0 ?E ?req ?s = (x, s')"
    by fastforce
  have h: "hist s' = hist ?s @ hist s'" by simp
  obtain q r where e: "Metal (FindMachine q r) \<in> set (hist s')"
    using run
    by (auto simp: MetalStackMachineReconciler_Reconcile_def machine_dispatch_def machine_switch_def
        machine_paused_def machine_deleting_def machine_patch_def with_self_def
        machine_has_finalizer_def mark_machine_paused_def set_machine_condition_def
        MetalStackMachine_SetConditions_def MetalStackMachine_GetConditions_def
        machine_reconcile_def provider_machine_def findProviderMachine_def
        apply_machine_def getMachineAddresses_def getMachineStatus_def Let_def exec
        msc_ready_def msm_created_def objects0 errors_Join_def map_filter_def)
  show ?thesis
    using machine_Reconcile_guarded [OF run h e] run by auto
qed

end
