(* ===== verification/FirewallController.thy ===== *)
theory FirewallController
  imports Owners ProviderID Reconciler
begin

text \<open>
  \<open>internal/controller/metalstackfirewalldeployment_controller.go\<close>: the reconciliation of a
  MetalStackFirewallDeployment, with the receiver \<open>firewallDeploymentReconciler\<close> as the
  state of its methods. The functions that go over a slice with \<open>range\<close> are recursions.
\<close>

section \<open>The methods\<close>

record firewallDeploymentReconciler =
  fc_cluster :: Cluster
  fc_infraCluster :: MetalStackCluster
  fc_firewallDeployment :: MetalStackFirewallDeployment
  fc_firewallTemplate :: MetalStackFirewallTemplate

type_synonym 'a firewall_prog = "(firewallDeploymentReconciler st, 'a) go"

abbreviation modify_deployment ::
    "(MetalStackFirewallDeployment \<Rightarrow> MetalStackFirewallDeployment) \<Rightarrow> unit firewall_prog" where
  "modify_deployment f \<equiv> mod_self (fc_firewallDeployment_update f)"

definition set_deployment_condition ::
    "lib \<Rightarrow> Condition \<Rightarrow> MetalStackFirewallDeployment \<Rightarrow> MetalStackFirewallDeployment" where
  "set_deployment_condition L c d =
     MetalStackFirewallDeployment_SetConditions d
       (SetCondition L c (MetalStackFirewallDeployment_GetConditions d))"

abbreviation modify_infra_condition :: "lib \<Rightarrow> Condition \<Rightarrow> unit firewall_prog" where
  "modify_infra_condition L c \<equiv> mod_self (fc_infraCluster_update (set_cluster_condition L c))"

definition firewall_ensureAllMetalStackMachinesAreGone ::
    "lib \<Rightarrow> env \<Rightarrow> go_error option firewall_prog" where
  "firewall_ensureAllMetalStackMachinesAreGone L E =
     bnd get_self (\<lambda>r.
     bnd (do_ListMachines E (machines_of_cluster L (fc_cluster r))) (\<lambda>resp.
     case resp of
       Inl err \<Rightarrow> ret (Some (ErrWrap ''failed to fetch machines'' err))
     | Inr items \<Rightarrow>
         if length items > 0 then ret (Some (ErrNew ''waiting for all infra machines to be gone''))
         else ret None))"

definition template_owner :: "lib \<Rightarrow> MetalStackFirewallDeployment \<Rightarrow> OwnerReference" where
  "template_owner L d =
     \<lparr>refAPIVersion = GroupVersionString L GroupVersion_v1alpha1,
      refKind = MetalStackFirewallDeploymentKind,
      refName = Name (msfd_ObjectMeta d), refUID = UID (msfd_ObjectMeta d),
      refController = None, refBlockOwnerDeletion = None\<rparr>"

definition own_template ::
    "lib \<Rightarrow> OwnerReference \<Rightarrow> MetalStackFirewallTemplate \<Rightarrow> MetalStackFirewallTemplate" where
  "own_template L ownerref t = t\<lparr>msft_ObjectMeta := (msft_ObjectMeta t)\<lparr>
     OwnerReferences := EnsureOwnerRef L (OwnerReferences (msft_ObjectMeta t)) ownerref\<rparr>\<rparr>"

definition ensureFirewallTemplateOwnerRefAndFinalizer ::
    "lib \<Rightarrow> env \<Rightarrow> go_error option firewall_prog" where
  "ensureFirewallTemplateOwnerRefAndFinalizer L E =
     bnd get_self (\<lambda>r.
     let template = fc_firewallTemplate r;
         ownerref = template_owner L (fc_firewallDeployment r) in
     if HasOwnerRef L (OwnerReferences (msft_ObjectMeta template)) ownerref then ret None
     else
       bnd (do_NewHelper E (OFirewallTemplate template)) (\<lambda>err.
       case err of
         Some e \<Rightarrow> ret (Some (ErrWrap ''failed to create patch helper for firewall template'' e))
       | None \<Rightarrow>
           bnd (mod_self (fc_firewallTemplate_update (own_template L ownerref))) (\<lambda>_.
           bnd get_self (\<lambda>r'.
           bnd (do_Patch E (OFirewallTemplate template)
                  (OFirewallTemplate (fc_firewallTemplate r'))) (\<lambda>err.
           case err of
             Some e \<Rightarrow>
               ret (Some (ErrWrap ''failed to patch firewall template with owner reference'' e))
           | None \<Rightarrow> ret None)))))"

text \<open>The tags of a deployment's firewalls, the same expression in the allocation and in the
  lookup. The node network id is dereferenced without a check.\<close>

definition firewall_tags :: "lib \<Rightarrow> firewallDeploymentReconciler \<Rightarrow> string list firewall_prog" where
  "firewall_tags L r =
     (let ic = msc_ObjectMeta (fc_infraCluster r); d = msfd_ObjectMeta (fc_firewallDeployment r) in
      bnd (deref (NodeNetworkID (msc_Spec (fc_infraCluster r)))) (\<lambda>nodeNetworkID.
      ret [tag_New L (tag_ClusterID L) nodeNetworkID,
           tag_New L TagInfraClusterResource (Namespace ic @ ''.'' @ Name ic),
           tag_New L (FirewallControllerManagedByAnnotation L) ''cluster-api-provider-metal-stack'',
           tag_New L TagFirewallDeploymentResource (Namespace d @ ''.'' @ Name d)]))"

definition network_ids :: "string list \<Rightarrow> string \<Rightarrow> string list" where
  "network_ids ids nodeNetworkID =
     (if nodeNetworkID \<in> set ids then ids else ids @ [nodeNetworkID])"

fun networks_of :: "string list \<Rightarrow> V1MachineAllocationNetwork list" where
  "networks_of [] = []"
| "networks_of (n # ns) =
     \<lparr>man_Autoacquire = Some True, man_Networkid = Some n\<rparr> # networks_of ns"

fun egress_rules :: "EgressRule list \<Rightarrow> V1FirewallEgressRule list" where
  "egress_rules [] = []"
| "egress_rules (er # ers) =
     \<lparr>ver_Comment = eComment er, ver_Ports = ePorts er, ver_Protocol = eProtocol er,
      ver_To = eTo er\<rparr> # egress_rules ers"

fun ingress_rules :: "IngressRule list \<Rightarrow> V1FirewallIngressRule list" where
  "ingress_rules [] = []"
| "ingress_rules (ir # irs) =
     \<lparr>vir_Comment = iComment ir, vir_Ports = iPorts ir, vir_Protocol = iProtocol ir,
      vir_From = iFrom ir\<rparr> # ingress_rules irs"

definition firewall_name :: "firewallDeploymentReconciler \<Rightarrow> string" where
  "firewall_name r = Name (msc_ObjectMeta (fc_infraCluster r)) @ ''-firewall''"

definition firewall_request ::
    "firewallDeploymentReconciler \<Rightarrow> string list \<Rightarrow> string list \<Rightarrow> InitialRuleSet \<Rightarrow>
       V1FirewallCreateRequest" where
  "firewall_request r tags networkIDs rules =
     (let ic = msc_Spec (fc_infraCluster r); t = msft_Spec (fc_firewallTemplate r) in
     \<lparr>fcr_Hostname = firewall_name r,
      fcr_Name = firewall_name r,
      fcr_Description = ''firewall for cluster '' @ Name (cluster_ObjectMeta (fc_cluster r)),
      fcr_Partitionid = Some (Partition ic),
      fcr_Projectid = Some (ProjectID ic),
      fcr_Tags = tags,
      fcr_SSHPubKeys = [],
      fcr_Networks = networks_of networkIDs,
      fcr_Imageid = Some (fwImage t),
      fcr_Sizeid = Some (fwSize t),
      fcr_FirewallRules = Some
        \<lparr>vfr_Egress = egress_rules (Egress rules),
         vfr_Ingress = ingress_rules (Ingress rules)\<rparr>\<rparr>)"

definition managed_resource_name :: "string \<Rightarrow> string \<Rightarrow> string" where
  "managed_resource_name part i = ''metal://'' @ part @ ''/'' @ i"

definition no_rule_set :: "MetalStackFirewallTemplate \<Rightarrow> go_error" where
  "no_rule_set t = ErrNew (''firewall template '' @ Namespace (msft_ObjectMeta t) @ ''/''
     @ Name (msft_ObjectMeta t)
     @ '' has no initial rule set defined and will not allow any traffic'')"

definition ensureFirewallDeployment :: "lib \<Rightarrow> env \<Rightarrow> go_error option firewall_prog" where
  "ensureFirewallDeployment L E =
     bnd get_self (\<lambda>r.
     let ic = msc_Spec (fc_infraCluster r); t = fc_firewallTemplate r in
     bnd (firewall_tags L r) (\<lambda>tags.
     if ManagedResourceRef (msfd_Spec (fc_firewallDeployment r)) \<noteq> None then ret None
     else
       bnd (deref (NodeNetworkID ic)) (\<lambda>nodeNetworkID.
       let networkIDs = network_ids (fwNetworks (msft_Spec t)) nodeNetworkID in
       case fwInitialRuleSet (msft_Spec t) of
         None \<Rightarrow> ret (Some (no_rule_set t))
       | Some rules \<Rightarrow>
           bnd (do_AllocateFirewall E (firewall_request r tags networkIDs rules)) (\<lambda>resp.
           case resp of
             Inl err \<Rightarrow> ret (Some (ErrWrap ''error creating firewall deployment'' err))
           | Inr payload \<Rightarrow>
               bnd (deref (fw_ID payload)) (\<lambda>i.
               bnd (modify_deployment (msfd_Spec_update (\<lambda>sp. sp\<lparr>ManagedResourceRef :=
                 Some \<lparr>mrrName = managed_resource_name (Partition ic) i\<rparr>\<rparr>))) (\<lambda>_.
               ret None))))))"

text \<open>The loop of \<open>deleteFirewallDeployment\<close>: a failed call does not stop it, the errors are
  collected.\<close>

fun free_firewalls ::
    "env \<Rightarrow> go_error option list \<Rightarrow> V1FirewallResponse list \<Rightarrow> go_error option list firewall_prog" where
  "free_firewalls E errs [] = ret errs"
| "free_firewalls E errs (fw # fws) =
     (case fw_ID fw of
       None \<Rightarrow> free_firewalls E errs fws
     | Some i \<Rightarrow>
         bnd (do_FreeMachine E i) (\<lambda>err.
         case err of
           Some e \<Rightarrow> free_firewalls E
             (errs @ [Some (ErrWrap (''error deleting firewall deployment '' @ i) e)]) fws
         | None \<Rightarrow> free_firewalls E errs fws))"

definition firewall_find_request ::
    "firewallDeploymentReconciler \<Rightarrow> string list \<Rightarrow> V1FirewallFindRequest" where
  "firewall_find_request r tags =
     \<lparr>ffr_PartitionID = Partition (msc_Spec (fc_infraCluster r)),
      ffr_AllocationProject = ProjectID (msc_Spec (fc_infraCluster r)),
      ffr_Tags = tags\<rparr>"

definition deleteFirewallDeployment :: "lib \<Rightarrow> env \<Rightarrow> go_error option firewall_prog" where
  "deleteFirewallDeployment L E =
     bnd get_self (\<lambda>r.
     bnd (firewall_tags L r) (\<lambda>tags.
     bnd (do_FindFirewalls E (firewall_find_request r tags)) (\<lambda>resp.
     case resp of
       Inl err \<Rightarrow> ret (Some (ErrWrap ''error finding firewall deployments'' err))
     | Inr payload \<Rightarrow>
         if length payload = 0 then ret None
         else bnd (free_firewalls E [] payload) (\<lambda>errs. ret (errors_Join errs)))))"

definition missing_node_network :: "MetalStackCluster \<Rightarrow> go_error" where
  "missing_node_network ic = ErrNew (''node network ID is not set on MetalStackCluster ''
     @ Namespace (msc_ObjectMeta ic) @ ''/'' @ Name (msc_ObjectMeta ic))"

definition mark_deployment_ready :: "MetalStackFirewallDeployment \<Rightarrow> MetalStackFirewallDeployment" where
  "mark_deployment_ready d = d\<lparr>msfd_Status := (msfd_Status d)\<lparr>msfds_Ready := True\<rparr>\<rparr>"

definition firewall_reconcile :: "lib \<Rightarrow> env \<Rightarrow> go_error option firewall_prog" where
  "firewall_reconcile L E =
     bnd get_self (\<lambda>r.
     if NodeNetworkID (msc_Spec (fc_infraCluster r)) = None then
       bnd (modify_infra_condition L
         \<lparr>condType = ClusterFirewallDeploymentEnsured, condStatus = ConditionFalse,
          condReason = ''MissingNodeNetworkID'',
          condMessage = ''Node network ID is not set on MetalStackCluster''\<rparr>) (\<lambda>_.
       ret (Some (missing_node_network (fc_infraCluster r))))
     else
       bnd (ensureFirewallTemplateOwnerRefAndFinalizer L E) (\<lambda>err.
       case err of
         Some e \<Rightarrow>
           ret (Some (ErrWrap ''unable to ensure firewall template owner reference'' e))
       | None \<Rightarrow>
           bnd (ensureFirewallDeployment L E) (\<lambda>err.
           case err of
             Some e \<Rightarrow>
               bnd (modify_infra_condition L
                 \<lparr>condType = ClusterFirewallDeploymentEnsured, condStatus = ConditionFalse,
                  condReason = conditionMessageInternalError, condMessage = Error e\<rparr>) (\<lambda>_.
               ret (Some (ErrWrap ''unable to ensure firewall deployment'' e)))
           | None \<Rightarrow>
               bnd (modify_infra_condition L
                 \<lparr>condType = ClusterFirewallDeploymentEnsured, condStatus = ConditionTrue,
                  condReason = ''FirewallDeploymentReady'',
                  condMessage = ''Firewall deployment is ready''\<rparr>) (\<lambda>_.
               bnd (modify_deployment mark_deployment_ready) (\<lambda>_.
               ret None)))))"

definition remove_deployment_finalizer ::
    "lib \<Rightarrow> MetalStackFirewallDeployment \<Rightarrow> MetalStackFirewallDeployment" where
  "remove_deployment_finalizer L d = d\<lparr>msfd_ObjectMeta := (msfd_ObjectMeta d)\<lparr>
     Finalizers :=
       RemoveFinalizer L (Finalizers (msfd_ObjectMeta d)) FirewallDeploymentFinalizer\<rparr>\<rparr>"

definition firewall_delete :: "lib \<Rightarrow> env \<Rightarrow> go_error option firewall_prog" where
  "firewall_delete L E =
     bnd get_self (\<lambda>r.
     if \<not> ContainsFinalizer L (Finalizers (msfd_ObjectMeta (fc_firewallDeployment r)))
            FirewallDeploymentFinalizer
     then ret None
     else
       bnd (firewall_ensureAllMetalStackMachinesAreGone L E) (\<lambda>err.
       case err of Some e \<Rightarrow> ret (Some e) | None \<Rightarrow>
       bnd (deleteFirewallDeployment L E) (\<lambda>err.
       case err of Some e \<Rightarrow> ret (Some e) | None \<Rightarrow>
       bnd (modify_deployment (remove_deployment_finalizer L)) (\<lambda>_.
       ret None))))"

section \<open>Reconcile\<close>

definition firewall_paused :: "lib \<Rightarrow> firewallDeploymentReconciler \<Rightarrow> bool" where
  "firewall_paused L r \<longleftrightarrow>
     IsPaused L (fc_cluster r) (msfd_ObjectMeta (fc_firewallDeployment r)) \<or>
     IsPaused L (fc_cluster r) (msc_ObjectMeta (fc_infraCluster r))"

text \<open>Both branches write the reason \<open>PausedReason\<close>.\<close>

definition mark_firewall_paused ::
    "lib \<Rightarrow> firewallDeploymentReconciler \<Rightarrow> firewallDeploymentReconciler" where
  "mark_firewall_paused L r =
     fc_firewallDeployment_update (set_deployment_condition L
       (if firewall_paused L r
        then \<lparr>condType = PausedCondition L, condStatus = ConditionTrue,
              condReason = PausedReason L,
              condMessage = conditionMessageReconciliationPaused\<rparr>
        else \<lparr>condType = PausedCondition L, condStatus = ConditionFalse,
              condReason = PausedReason L,
              condMessage = conditionMessageReconciliationNotPaused\<rparr>)) r"

definition firewall_deleting :: "lib \<Rightarrow> firewallDeploymentReconciler \<Rightarrow> bool" where
  "firewall_deleting L r \<longleftrightarrow>
     \<not> IsZero L (DeletionTimestamp (msfd_ObjectMeta (fc_firewallDeployment r)))"

definition firewall_has_finalizer :: "lib \<Rightarrow> firewallDeploymentReconciler \<Rightarrow> bool" where
  "firewall_has_finalizer L r =
     ContainsFinalizer L (Finalizers (msfd_ObjectMeta (fc_firewallDeployment r)))
       FirewallDeploymentFinalizer"

definition add_firewall_finalizer ::
    "lib \<Rightarrow> firewallDeploymentReconciler \<Rightarrow> firewallDeploymentReconciler" where
  "add_firewall_finalizer L r = fc_firewallDeployment_update (\<lambda>d. d\<lparr>msfd_ObjectMeta :=
     (msfd_ObjectMeta d)\<lparr>Finalizers :=
       AddFinalizer L (Finalizers (msfd_ObjectMeta d)) FirewallDeploymentFinalizer\<rparr>\<rparr>) r"

definition firewall_switch :: "lib \<Rightarrow> env \<Rightarrow> go_error option firewall_prog" where
  "firewall_switch L E =
     bnd get_self (\<lambda>r.
     if firewall_paused L r then ret None
     else if firewall_deleting L r then firewall_delete L E
     else if \<not> firewall_has_finalizer L r then
       bnd (mod_self (add_firewall_finalizer L)) (\<lambda>_. ret None)
     else firewall_reconcile L E)"

text \<open>Only the firewall deployment is patched at the end.\<close>

definition firewall_patch ::
    "env \<Rightarrow> firewallDeploymentReconciler \<Rightarrow> go_error option \<Rightarrow> go_error option firewall_prog" where
  "firewall_patch E before err =
     bnd get_self (\<lambda>r.
     let d = fc_firewallDeployment r in
     bnd (do_Patch E (OFirewallDeployment (fc_firewallDeployment before))
            (OFirewallDeployment d)) (\<lambda>updateErr.
     case updateErr of
       None \<Rightarrow> ret err
     | Some u \<Rightarrow> ret (errors_Join [err,
         Some (ErrWrap (''failed to patch firewall deployment '' @ Namespace (msfd_ObjectMeta d)
           @ ''/'' @ Name (msfd_ObjectMeta d)) u)])))"

definition firewall_dispatch :: "lib \<Rightarrow> env \<Rightarrow> go_error option firewall_prog" where
  "firewall_dispatch L E =
     bnd get_self (\<lambda>r.
     bnd (do_NewHelper E (OFirewallDeployment (fc_firewallDeployment r))) (\<lambda>err.
     case err of
       Some e \<Rightarrow> ret (Some e)
     | None \<Rightarrow>
         bnd (mod_self (mark_firewall_paused L)) (\<lambda>_.
         bnd (firewall_switch L E) (\<lambda>err.
         firewall_patch E r err))))"

definition template_key :: "MetalStackFirewallDeployment \<Rightarrow> NamespacedName" where
  "template_key d = \<lparr>nnNamespace = Namespace (msfd_ObjectMeta d),
     nnName = ftrName (FirewallTemplateRef (msfd_Spec d))\<rparr>"

definition MetalStackFirewallDeploymentReconciler_Reconcile ::
    "lib \<Rightarrow> env \<Rightarrow> NamespacedName \<Rightarrow> ('r st, Result \<times> go_error option) go" where
  "MetalStackFirewallDeploymentReconciler_Reconcile L E req =
     bnd (do_GetFirewallDeployment E req) (\<lambda>resp.
     case resp of
       Inl err \<Rightarrow>
         if IsNotFound L (Some err) then ret (empty_Result, None)
         else ret (empty_Result, Some err)
     | Inr fwdeploy \<Rightarrow>
     bnd (GetOwnerMetalStackCluster L E (msfd_ObjectMeta fwdeploy)) (\<lambda>resp.
     case resp of
       Inl err \<Rightarrow>
         ret (empty_Result, Some (ErrWrap ''failed to get owner metal-stack cluster'' err))
     | Inr None \<Rightarrow> ret (empty_Result, None)
     | Inr (Some infraCluster) \<Rightarrow>
     bnd (do_GetOwnerCluster E (msc_ObjectMeta infraCluster)) (\<lambda>resp.
     case resp of
       Inl err \<Rightarrow> ret (empty_Result, Some err)
     | Inr None \<Rightarrow> ret (empty_Result, None)
     | Inr (Some cluster) \<Rightarrow>
     bnd (do_GetFirewallTemplate E (template_key fwdeploy)) (\<lambda>resp.
     case resp of
       Inl err \<Rightarrow>
         if IsNotFound L (Some err) then ret (empty_Result, None)
         else ret (empty_Result, Some err)
     | Inr fwtemplate \<Rightarrow>
         bnd (with_self \<lparr>fc_cluster = cluster, fc_infraCluster = infraCluster,
                fc_firewallDeployment = fwdeploy, fc_firewallTemplate = fwtemplate\<rparr>
              (firewall_dispatch L E)) (\<lambda>(err, _).
         ret (empty_Result, err))))))"

section \<open>Which calls the methods make\<close>

lemma emits_firewall_tags [emits_intros]: "emits P (firewall_tags L r)"
  unfolding firewall_tags_def Let_def by (intro emits_intros)

lemma emits_template_owner [emits_intros]:
  "(\<And>x r. P (Kube (NewHelper x r))) \<Longrightarrow> (\<And>a b r. P (Kube (PatchObject a b r))) \<Longrightarrow>
     emits P (ensureFirewallTemplateOwnerRefAndFinalizer L E)"
  unfolding ensureFirewallTemplateOwnerRefAndFinalizer_def Let_def by (intro emits_intros)

lemma emits_ensureFirewallDeployment [emits_intros]:
  "(\<And>q r. P (Metal (AllocateFirewall q r))) \<Longrightarrow> emits P (ensureFirewallDeployment L E)"
  unfolding ensureFirewallDeployment_def Let_def by (intro emits_intros)

lemma emits_firewall_machines_gone [emits_intros]:
  "(\<And>q r. P (Kube (ListMachines q r))) \<Longrightarrow>
     emits P (firewall_ensureAllMetalStackMachinesAreGone L E)"
  unfolding firewall_ensureAllMetalStackMachinesAreGone_def by (intro emits_intros)

lemma emits_free_firewalls [emits_intros]:
  assumes "\<And>i r. P (Metal (FreeMachine i r))"
  shows "emits P (free_firewalls E errs fws)"
proof (induction fws arbitrary: errs)
  case Nil
  show ?case by (simp add: emits_ret)
next
  case (Cons fw fws)
  show ?case unfolding free_firewalls.simps by (intro emits_intros Cons.IH assms)
qed

lemma emits_deleteFirewallDeployment [emits_intros]:
  "(\<And>q r. P (Metal (FindFirewalls q r))) \<Longrightarrow> (\<And>i r. P (Metal (FreeMachine i r))) \<Longrightarrow>
     emits P (deleteFirewallDeployment L E)"
  unfolding deleteFirewallDeployment_def by (intro emits_intros)

lemma emits_firewall_reconcile [emits_intros]:
  "(\<And>q r. P (Metal (AllocateFirewall q r))) \<Longrightarrow> (\<And>x r. P (Kube (NewHelper x r))) \<Longrightarrow>
   (\<And>a b r. P (Kube (PatchObject (OFirewallTemplate a) (OFirewallTemplate b) r))) \<Longrightarrow>
     emits P (firewall_reconcile L E)"
  unfolding firewall_reconcile_def ensureFirewallTemplateOwnerRefAndFinalizer_def Let_def
  by (intro emits_intros)

lemma emits_firewall_delete [emits_intros]:
  "(\<And>q r. P (Kube (ListMachines q r))) \<Longrightarrow> (\<And>q r. P (Metal (FindFirewalls q r))) \<Longrightarrow>
   (\<And>i r. P (Metal (FreeMachine i r))) \<Longrightarrow> emits P (firewall_delete L E)"
  unfolding firewall_delete_def by (intro emits_intros)

lemma emits_firewall_patch [emits_intros]:
  "(\<And>a b r. P (Kube (PatchObject a b r))) \<Longrightarrow> emits P (firewall_patch E before err)"
  unfolding firewall_patch_def Let_def by (intro emits_intros)

section \<open>The contracts\<close>

interpretation firewall_gate:
  machines_gate L E "firewall_ensureAllMetalStackMachinesAreGone L E" fc_cluster for L E
  by unfold_locales
    (simp add: firewall_ensureAllMetalStackMachinesAreGone_def exec Let_def split: sum.split)

interpretation firewall_id:
  provider_id "\<lambda>(p, i). managed_resource_name p i" fst snd decodeProviderID
  by unfold_locales
    (auto simp: managed_resource_name_def decode_metal [simplified])

lemma mark_firewall_paused_simps [simp]:
  "fc_cluster (mark_firewall_paused L r) = fc_cluster r"
  "fc_infraCluster (mark_firewall_paused L r) = fc_infraCluster r"
  "fc_firewallTemplate (mark_firewall_paused L r) = fc_firewallTemplate r"
  "msfd_ObjectMeta (fc_firewallDeployment (mark_firewall_paused L r)) =
     msfd_ObjectMeta (fc_firewallDeployment r)"
  "msfd_Spec (fc_firewallDeployment (mark_firewall_paused L r)) =
     msfd_Spec (fc_firewallDeployment r)"
  by (simp_all add: mark_firewall_paused_def set_deployment_condition_def
      MetalStackFirewallDeployment_SetConditions_def)

interpretation firewall_rec:
  reconciler "firewall_switch L E" "firewall_delete L E" "firewall_reconcile L E" None
    "firewall_paused L" "firewall_deleting L" "firewall_has_finalizer L"
    "add_firewall_finalizer L" "firewall_dispatch L E"
    "\<lambda>r. do_NewHelper E (OFirewallDeployment (fc_firewallDeployment r))" Some
    "mark_firewall_paused L" "firewall_patch E"
  for L E
proof unfold_locales
  show "firewall_dispatch L E = bnd get_self (\<lambda>r.
      bnd (do_NewHelper E (OFirewallDeployment (fc_firewallDeployment r))) (\<lambda>err.
      case err of Some e \<Rightarrow> ret (Some e)
      | None \<Rightarrow> bnd (mod_self (mark_firewall_paused L)) (\<lambda>_.
          bnd (firewall_switch L E) (firewall_patch E r))))"
    by (simp add: firewall_dispatch_def)
  show "emits (\<lambda>e. \<not> is_metal e) (firewall_patch E r b)" for r b
    by (intro emits_intros) simp
  show "emits (\<lambda>e. \<not> is_metal e) (do_NewHelper E (OFirewallDeployment (fc_firewallDeployment r)))"
    for r
    by (intro emits_intros) simp
qed (auto simp: firewall_switch_def firewall_delete_def firewall_has_finalizer_def
    firewall_paused_def exec wp_simps)

end
