(* ===== verification/FirewallProperties.thy ===== *)
theory FirewallProperties
  imports FirewallController Examples
begin

text \<open>
  What the methods of the firewall deployment controller do, and the properties of the
  component.
\<close>

section \<open>The steps of reconcile\<close>

abbreviation deployment :: "firewallDeploymentReconciler st \<Rightarrow> MetalStackFirewallDeployment" where
  "deployment s \<equiv> fc_firewallDeployment (self s)"

abbreviation template :: "firewallDeploymentReconciler st \<Rightarrow> MetalStackFirewallTemplate" where
  "template s \<equiv> fc_firewallTemplate (self s)"

abbreviation fw_cluster_spec :: "firewallDeploymentReconciler st \<Rightarrow> MetalStackClusterSpec" where
  "fw_cluster_spec s \<equiv> msc_Spec (fc_infraCluster (self s))"

abbreviation managed_ref :: "firewallDeploymentReconciler st \<Rightarrow> MetalStackManagedResourceRef option" where
  "managed_ref s \<equiv> ManagedResourceRef (msfd_Spec (deployment s))"

text \<open>The tags that tie a firewall to its deployment.\<close>

definition tags_of :: "lib \<Rightarrow> string \<Rightarrow> firewallDeploymentReconciler \<Rightarrow> string list" where
  "tags_of L nodeNetworkID r =
     (let ic = msc_ObjectMeta (fc_infraCluster r); d = msfd_ObjectMeta (fc_firewallDeployment r) in
      [tag_New L (tag_ClusterID L) nodeNetworkID,
       tag_New L TagInfraClusterResource (Namespace ic @ ''.'' @ Name ic),
       tag_New L (FirewallControllerManagedByAnnotation L) ''cluster-api-provider-metal-stack'',
       tag_New L TagFirewallDeploymentResource (Namespace d @ ''.'' @ Name d)])"

lemma firewall_tags_run [simp]:
  "firewall_tags L r =
     bnd (deref (NodeNetworkID (msc_Spec (fc_infraCluster r)))) (\<lambda>n. ret (tags_of L n r))"
  by (simp add: firewall_tags_def tags_of_def Let_def)

definition same_deployment ::
    "firewallDeploymentReconciler st \<Rightarrow> firewallDeploymentReconciler st \<Rightarrow> bool" where
  "same_deployment s s' \<longleftrightarrow>
     fc_cluster (self s') = fc_cluster (self s) \<and>
     msc_ObjectMeta (fc_infraCluster (self s')) = msc_ObjectMeta (fc_infraCluster (self s)) \<and>
     fw_cluster_spec s' = fw_cluster_spec s \<and>
     msft_Spec (template s') = msft_Spec (template s) \<and>
     msfd_ObjectMeta (deployment s') = msfd_ObjectMeta (deployment s)"

lemma template_owner_step:
  "wp (ensureFirewallTemplateOwnerRefAndFinalizer L E) (\<lambda>x s'. same_deployment s s' \<and>
     deployment s' = deployment s \<and> x \<noteq> None \<and>
     fc_infraCluster (self s') = fc_infraCluster (self s) \<and>
     (\<exists>tr. hist s' = hist s @ tr \<and> list_all (\<lambda>e. \<not> is_metal e) tr \<and>
        (x = Some None \<longrightarrow> (let ref = template_owner L (deployment s) in
           if HasOwnerRef L (OwnerReferences (msft_ObjectMeta (template s))) ref
           then self s' = self s \<and> tr = []
           else template s' = own_template L ref (template s) \<and>
             Kube (PatchObject (OFirewallTemplate (template s)) (OFirewallTemplate (template s')) None)
               \<in> set tr)))) s"
  unfolding ensureFirewallTemplateOwnerRefAndFinalizer_def Let_def
  by (auto simp: wp_simps same_deployment_def own_template_def split: option.split)

lemma networks_of_map:
  "networks_of ns = map (\<lambda>n. \<lparr>man_Autoacquire = Some True, man_Networkid = Some n\<rparr>) ns"
  by (induction ns) auto

lemma set_network_ids [simp]: "set (network_ids ns n) = insert n (set ns)"
  by (auto simp: network_ids_def)

lemma distinct_network_ids [simp]: "distinct (network_ids ns n) = distinct ns"
  by (auto simp: network_ids_def)

lemma egress_rules_map:
  "egress_rules ers = map (\<lambda>er. \<lparr>ver_Comment = eComment er, ver_Ports = ePorts er,
     ver_Protocol = eProtocol er, ver_To = eTo er\<rparr>) ers"
  by (induction ers) auto

lemma ingress_rules_map:
  "ingress_rules irs = map (\<lambda>ir. \<lparr>vir_Comment = iComment ir, vir_Ports = iPorts ir,
     vir_Protocol = iProtocol ir, vir_From = iFrom ir\<rparr>) irs"
  by (induction irs) auto

text \<open>What a firewall request asks for.\<close>

definition firewall_for ::
    "lib \<Rightarrow> firewallDeploymentReconciler st \<Rightarrow> V1FirewallCreateRequest \<Rightarrow> bool" where
  "firewall_for L s q \<longleftrightarrow>
     fcr_Partitionid q = Some (Partition (fw_cluster_spec s)) \<and>
     fcr_Projectid q = Some (ProjectID (fw_cluster_spec s)) \<and>
     fcr_Hostname q = fcr_Name q \<and>
     fcr_Imageid q = Some (fwImage (msft_Spec (template s))) \<and>
     fcr_Sizeid q = Some (fwSize (msft_Spec (template s))) \<and>
     (\<exists>nw. NodeNetworkID (fw_cluster_spec s) = Some nw \<and> fcr_Tags q = tags_of L nw (self s) \<and>
        {n. Some n \<in> set (map man_Networkid (fcr_Networks q))} =
          insert nw (set (fwNetworks (msft_Spec (template s)))) \<and>
        length (fcr_Networks q) = length (network_ids (fwNetworks (msft_Spec (template s))) nw)) \<and>
     (\<exists>rules out. fwInitialRuleSet (msft_Spec (template s)) = Some rules \<and>
        fcr_FirewallRules q = Some out \<and>
        map (\<lambda>r. (ver_Comment r, ver_Ports r, ver_Protocol r, ver_To r)) (vfr_Egress out) =
          map (\<lambda>r. (eComment r, ePorts r, eProtocol r, eTo r)) (Egress rules) \<and>
        map (\<lambda>r. (vir_Comment r, vir_Ports r, vir_Protocol r, vir_From r)) (vfr_Ingress out) =
          map (\<lambda>r. (iComment r, iPorts r, iProtocol r, iFrom r)) (Ingress rules))"

lemma firewall_request_for:
  assumes "NodeNetworkID (fw_cluster_spec s) = Some nw"
    and "fwInitialRuleSet (msft_Spec (template s)) = Some rules"
  shows "firewall_for L s (firewall_request (self s) (tags_of L nw (self s))
    (network_ids (fwNetworks (msft_Spec (template s))) nw) rules)"
  using assms
  by (auto simp: firewall_for_def firewall_request_def Let_def networks_of_map egress_rules_map
      ingress_rules_map o_def)

lemma ensure_firewall_step:
  "wp (ensureFirewallDeployment L E) (\<lambda>x s'. same_deployment s s' \<and>
     template s' = template s \<and> msfd_Status (deployment s') = msfd_Status (deployment s) \<and>
     fc_infraCluster (self s') = fc_infraCluster (self s) \<and>
     (\<exists>tr. hist s' = hist s @ tr \<and>
        (if managed_ref s \<noteq> None \<or> fwInitialRuleSet (msft_Spec (template s)) = None \<or>
            NodeNetworkID (fw_cluster_spec s) = None
         then tr = [] \<and> deployment s' = deployment s \<and>
           (x = Some None \<longrightarrow> managed_ref s \<noteq> None)
         else \<exists>q resp. tr = [Metal (AllocateFirewall q resp)] \<and> firewall_for L s q \<and>
           (x = Some None \<longrightarrow> (\<exists>m i. resp = Inr m \<and> fw_ID m = Some i \<and> managed_ref s' =
              Some \<lparr>mrrName = managed_resource_name (Partition (fw_cluster_spec s)) i\<rparr>)) \<and>
           (x \<noteq> Some None \<longrightarrow> deployment s' = deployment s)))) s"
  unfolding ensureFirewallDeployment_def Let_def
  by (auto simp: wp_simps same_deployment_def firewall_request_for
      split: sum.split option.split)

section \<open>Properties of reconcile\<close>

lemma mark_deployment_ready_simps [simp]:
  "msfd_ObjectMeta (mark_deployment_ready d) = msfd_ObjectMeta d"
  "msfd_Spec (mark_deployment_ready d) = msfd_Spec d"
  "msfds_Ready (msfd_Status (mark_deployment_ready d))"
  by (simp_all add: mark_deployment_ready_def)

lemma set_cluster_condition_simps [simp]:
  "msc_ObjectMeta (set_cluster_condition L c ic) = msc_ObjectMeta ic"
  "msc_Spec (set_cluster_condition L c ic) = msc_Spec ic"
  "mscs_Conditions (msc_Status (set_cluster_condition L c ic)) =
     SetCondition L c (mscs_Conditions (msc_Status ic))"
  by (simp_all add: set_cluster_condition_def MetalStackCluster_SetConditions_def
      MetalStackCluster_GetConditions_def)

abbreviation fw_condition :: "firewallDeploymentReconciler st \<Rightarrow> Condition option" where
  "fw_condition s \<equiv> find_condition ClusterFirewallDeploymentEnsured
     (mscs_Conditions (msc_Status (fc_infraCluster (self s))))"

text \<open>The state \<open>reconcile\<close> leaves when both of its steps succeeded.\<close>

definition deployment_ensured ::
    "lib \<Rightarrow> firewallDeploymentReconciler st \<Rightarrow> firewallDeploymentReconciler st" where
  "deployment_ensured L t = t\<lparr>self := fc_firewallDeployment_update mark_deployment_ready
     (fc_infraCluster_update (set_cluster_condition L
       \<lparr>condType = ClusterFirewallDeploymentEnsured, condStatus = ConditionTrue,
        condReason = ''FirewallDeploymentReady'',
        condMessage = ''Firewall deployment is ready''\<rparr>) (self t))\<rparr>"

lemma firewall_reconcile_ok_iff:
  "firewall_reconcile L E s = (Some None, s') \<longleftrightarrow> NodeNetworkID (fw_cluster_spec s) \<noteq> None \<and>
     (\<exists>s1 s2. ensureFirewallTemplateOwnerRefAndFinalizer L E s = (Some None, s1) \<and>
        ensureFirewallDeployment L E s1 = (Some None, s2) \<and> s' = deployment_ensured L s2)"
  unfolding firewall_reconcile_def deployment_ensured_def
  by (auto simp: exec split: prod.splits option.splits)

lemma firewall_reconcile_fails:
  assumes "firewall_reconcile L E s = (x, s')" and "x \<noteq> Some None"
  shows "(hist s' = hist s \<and> deployment s' = deployment s) \<or>
    (\<exists>y t. ensureFirewallTemplateOwnerRefAndFinalizer L E s = (y, t) \<and>
       hist s' = hist t \<and> deployment s' = deployment t) \<or>
    (\<exists>t y u. ensureFirewallTemplateOwnerRefAndFinalizer L E s = (Some None, t) \<and>
       ensureFirewallDeployment L E t = (y, u) \<and> y \<noteq> Some None \<and>
       hist s' = hist u \<and> deployment s' = deployment u)"
  using assms unfolding firewall_reconcile_def
  by (auto simp: exec split: prod.splits option.splits if_splits)

lemma template_owner_ensured:
  assumes "owner_laws L"
    and "ensureFirewallTemplateOwnerRefAndFinalizer L E s = (Some None, t)"
  shows "HasOwnerRef L (OwnerReferences (msft_ObjectMeta (template t)))
    (template_owner L (deployment s))"
proof (cases "HasOwnerRef L (OwnerReferences (msft_ObjectMeta (template s)))
    (template_owner L (deployment s))")
  case True
  with wpD [OF template_owner_step assms(2)] show ?thesis by (simp add: Let_def)
next
  case False
  with wpD [OF template_owner_step assms(2)]
  have "template t = own_template L (template_owner L (deployment s)) (template s)"
    by (auto simp: Let_def)
  then show ?thesis using assms(1) by (simp add: own_template_def)
qed

lemma template_owner_quiet:
  assumes "ensureFirewallTemplateOwnerRefAndFinalizer L E s = (y, t)"
  shows "same_deployment s t" "deployment t = deployment s"
    and "\<exists>tr. hist t = hist s @ tr \<and> filter is_metal tr = []"
proof -
  note T = wpD [OF template_owner_step assms]
  from T show "same_deployment s t" by (rule conjunct1)
  from T show "deployment t = deployment s" by (elim conjE)
  from T obtain tr where "hist t = hist s @ tr" "list_all (\<lambda>e. \<not> is_metal e) tr" by blast
  then show "\<exists>tr. hist t = hist s @ tr \<and> filter is_metal tr = []"
    by (auto simp: list_all_iff filter_empty_conv)
qed

lemma ensure_firewall_effect:
  assumes "ensureFirewallDeployment L E s = (z, u)"
  shows "template u = template s"
    and "z = Some None \<or> deployment u = deployment s"
    and "\<exists>tr. hist u = hist s @ tr \<and> (tr = [] \<and> deployment u = deployment s \<or>
      (\<exists>q resp. tr = [Metal (AllocateFirewall q resp)] \<and> firewall_for L s q \<and> managed_ref s = None))"
    and "z = Some None \<Longrightarrow> managed_ref s = None \<Longrightarrow> \<exists>q m i.
      hist u = hist s @ [Metal (AllocateFirewall q (Inr m))] \<and> firewall_for L s q \<and>
      fw_ID m = Some i \<and>
      managed_ref u = Some \<lparr>mrrName = managed_resource_name (Partition (fw_cluster_spec s)) i\<rparr>"
    and "managed_ref s \<noteq> None \<Longrightarrow> hist u = hist s \<and> deployment u = deployment s"
proof -
  note D = wpD [OF ensure_firewall_step assms]
  let ?c = "managed_ref s \<noteq> None \<or> fwInitialRuleSet (msft_Spec (template s)) = None \<or>
            NodeNetworkID (fw_cluster_spec s) = None"
  from D show "template u = template s" by (elim conjE)
  from D obtain tr where T: "hist u = hist s @ tr"
    and i: "if ?c then tr = [] \<and> deployment u = deployment s \<and> (z = Some None \<longrightarrow> managed_ref s \<noteq> None)
      else \<exists>q resp. tr = [Metal (AllocateFirewall q resp)] \<and> firewall_for L s q \<and>
       (z = Some None \<longrightarrow> (\<exists>m i. resp = Inr m \<and> fw_ID m = Some i \<and> managed_ref u =
          Some \<lparr>mrrName = managed_resource_name (Partition (fw_cluster_spec s)) i\<rparr>)) \<and>
       (z \<noteq> Some None \<longrightarrow> deployment u = deployment s)" by blast
  show "hist u = hist s \<and> deployment u = deployment s" if "managed_ref s \<noteq> None"
    using T i that by simp
  show "z = Some None \<or> deployment u = deployment s"
    using i by (cases ?c) auto
  show "\<exists>tr. hist u = hist s @ tr \<and> (tr = [] \<and> deployment u = deployment s \<or>
      (\<exists>q resp. tr = [Metal (AllocateFirewall q resp)] \<and> firewall_for L s q \<and> managed_ref s = None))"
    using T i by (intro exI [of _ tr]) (cases ?c; auto)
  show "\<exists>q m i. hist u = hist s @ [Metal (AllocateFirewall q (Inr m))] \<and> firewall_for L s q \<and>
      fw_ID m = Some i \<and>
      managed_ref u = Some \<lparr>mrrName = managed_resource_name (Partition (fw_cluster_spec s)) i\<rparr>"
    if "z = Some None" "managed_ref s = None"
    using T i that by (cases ?c) auto
qed

lemma same_deployment_for:
  assumes "same_deployment s t"
  shows "firewall_for L t q = firewall_for L s q"
  using assms by (simp add: firewall_for_def same_deployment_def tags_of_def Let_def)

text \<open>C16. A reconcile that returns no error leaves the deployment ready, the template owned by it and
  the deployment with a managed resource. A deployment that had one keeps it and the
  metal-stack API is not called; otherwise exactly one firewall has been allocated, as the
  template and the cluster say, and the reference decodes to the ID of that firewall.\<close>

theorem firewall_reconcile_success:
  assumes "conditions_laws L" and "owner_laws L"
    and "CHR ''/'' \<notin> set (Partition (fw_cluster_spec s))"
    and "firewall_reconcile L E s = (Some None, s')"
  shows "msfds_Ready (msfd_Status (deployment s')) \<and>
    HasOwnerRef L (OwnerReferences (msft_ObjectMeta (template s')))
      (template_owner L (deployment s)) \<and>
    (\<exists>c. fw_condition s' = Some c \<and> condStatus c = ConditionTrue) \<and>
    (\<exists>tr. hist s' = hist s @ tr \<and>
      (if managed_ref s \<noteq> None then managed_ref s' = managed_ref s \<and> filter is_metal tr = []
       else \<exists>q m i ref. filter is_metal tr = [Metal (AllocateFirewall q (Inr m))] \<and>
         firewall_for L s q \<and> fw_ID m = Some i \<and> managed_ref s' = Some ref \<and>
         decodeProviderID (mrrName ref) = i))"
proof -
  let ?p = "Partition (fw_cluster_spec s)"
  from assms(4) obtain s1 s2 where
    r: "ensureFirewallTemplateOwnerRefAndFinalizer L E s = (Some None, s1)"
      "ensureFirewallDeployment L E s1 = (Some None, s2)" "s' = deployment_ensured L s2"
    by (auto simp: firewall_reconcile_ok_iff)
  obtain tr1 where tr1: "hist s1 = hist s @ tr1" "filter is_metal tr1 = []"
    using template_owner_quiet(3) [OF r(1)] by blast
  note same = template_owner_quiet(1,2) [OF r(1)]
  have refs: "managed_ref s' = managed_ref s2" "hist s' = hist s2" "template s' = template s2"
    by (simp_all add: r(3) deployment_ensured_def)
  have owner: "HasOwnerRef L (OwnerReferences (msft_ObjectMeta (template s')))
      (template_owner L (deployment s))"
    using template_owner_ensured [OF assms(2) r(1)] ensure_firewall_effect(1) [OF r(2)] refs(3) by simp
  have "\<exists>tr. hist s' = hist s @ tr \<and>
      (if managed_ref s \<noteq> None then managed_ref s' = managed_ref s \<and> filter is_metal tr = []
       else \<exists>q m i ref. filter is_metal tr = [Metal (AllocateFirewall q (Inr m))] \<and>
         firewall_for L s q \<and> fw_ID m = Some i \<and> managed_ref s' = Some ref \<and>
         decodeProviderID (mrrName ref) = i)"
  proof (cases "managed_ref s = None")
    case False
    with ensure_firewall_effect(5) [OF r(2)] same(2) refs tr1 show ?thesis by simp
  next
    case True
    then obtain q m i where
      "hist s2 = hist s1 @ [Metal (AllocateFirewall q (Inr m))]" "firewall_for L s1 q"
      "fw_ID m = Some i" "managed_ref s2 = Some \<lparr>mrrName = managed_resource_name ?p i\<rparr>"
      using ensure_firewall_effect(4) [OF r(2)] same by (auto simp: same_deployment_def)
    moreover have "decodeProviderID (managed_resource_name ?p i) = i"
      using firewall_id.decode_encode [of "(?p, i)"] assms(3) by simp
    ultimately show ?thesis
      using True tr1 refs same_deployment_for [OF same(1)] by simp
  qed
  with owner assms(1) r(3) show ?thesis
    by (simp add: deployment_ensured_def)
qed

definition fstate0 :: "MetalStackCluster \<Rightarrow> MetalStackFirewallDeployment \<Rightarrow> firewallDeploymentReconciler st" where
  "fstate0 ic d = \<lparr>hist = [], self = \<lparr>fc_cluster = cluster0, fc_infraCluster = ic,
     fc_firewallDeployment = d, fc_firewallTemplate = msft0\<rparr>\<rparr>"

definition msc_net :: MetalStackCluster where
  "msc_net = msc0\<lparr>msc_Spec := (msc_Spec msc0)\<lparr>NodeNetworkID := Some ''net1''\<rparr>\<rparr>"

definition msfd_old :: MetalStackFirewallDeployment where
  "msfd_old = msfd0\<lparr>msfd_ObjectMeta := meta0\<lparr>Finalizers := [FirewallDeploymentFinalizer]\<rparr>\<rparr>"

lemmas run_firewall_defs =
  firewall_reconcile_def ensureFirewallTemplateOwnerRefAndFinalizer_def ensureFirewallDeployment_def
  firewall_delete_def firewall_ensureAllMetalStackMachinesAreGone_def deleteFirewallDeployment_def
  template_owner_def own_template_def fstate0_def msc_net_def msfd_old_def

theorem firewall_reconcile_success_witness:
  "\<exists>s' ref. firewall_reconcile lib0 env0 (fstate0 msc_net msfd0) = (Some None, s') \<and>
     managed_ref s' = Some ref \<and> decodeProviderID (mrrName ref) = ''fw1''"
proof -
  let ?s = "fstate0 msc_net msfd0"
  obtain x s' where run: "firewall_reconcile lib0 env0 ?s = (x, s')" by fastforce
  then have x: "x = Some None" by (auto simp: run_firewall_defs exec objects0 Let_def)
  have p: "CHR ''/'' \<notin> set (Partition (fw_cluster_spec ?s))" "managed_ref ?s = None"
    by (simp_all add: fstate0_def msc_net_def objects0)
  have "\<forall>q m. Metal (AllocateFirewall q (Inr m)) \<in> set (hist s') \<longrightarrow> fw_ID m = Some ''fw1''"
    using run by (auto simp: run_firewall_defs exec objects0 Let_def)
  moreover from firewall_reconcile_success [OF lib0_laws(1,5) p(1) run [unfolded x]] p(2)
  obtain tr q m i ref where "hist s' = hist ?s @ tr"
    "filter is_metal tr = [Metal (AllocateFirewall q (Inr m))]" "fw_ID m = Some i"
    "managed_ref s' = Some ref" "decodeProviderID (mrrName ref) = i" by auto
  moreover from this(2) have "Metal (AllocateFirewall q (Inr m)) \<in> set tr"
    by (metis filter_is_subset list.set_intros(1) subsetD)
  ultimately show ?thesis using run x by auto
qed

lemma firewall_reconcile_calls:
  assumes "firewall_reconcile L E s = (x, s')"
  shows "\<exists>tr. hist s' = hist s @ tr \<and>
    (filter is_metal tr = [] \<or>
     (\<exists>q resp. filter is_metal tr = [Metal (AllocateFirewall q resp)] \<and> firewall_for L s q \<and>
        managed_ref s = None)) \<and>
    (x = Some None \<or> deployment s' = deployment s)"
proof -
  let ?ok = "\<lambda>tr. filter is_metal tr = [] \<or>
     (\<exists>q resp. filter is_metal tr = [Metal (AllocateFirewall q resp)] \<and> firewall_for L s q \<and>
        managed_ref s = None)"
  obtain y t where o: "ensureFirewallTemplateOwnerRefAndFinalizer L E s = (y, t)" by fastforce
  obtain z u where e: "ensureFirewallDeployment L E t = (z, u)" by fastforce
  obtain tr1 where tr1: "hist t = hist s @ tr1" "filter is_metal tr1 = []"
    using template_owner_quiet(3) [OF o] by blast
  note same = template_owner_quiet(1,2) [OF o] same_deployment_for [OF template_owner_quiet(1) [OF o]]
  obtain tr2 where "hist u = hist t @ tr2" "tr2 = [] \<or>
      (\<exists>q resp. tr2 = [Metal (AllocateFirewall q resp)] \<and> firewall_for L s q \<and> managed_ref s = None)"
    using ensure_firewall_effect(3) [OF e] same by auto
  then have whole: "hist u = hist s @ tr1 @ tr2" "?ok (tr1 @ tr2)"
    using tr1 by auto
  show ?thesis
  proof (cases "x = Some None")
    case True
    with assms o e have "hist s' = hist u"
      by (auto simp: firewall_reconcile_ok_iff deployment_ensured_def)
    with whole True show ?thesis by (intro exI [of _ "tr1 @ tr2"]) simp
  next
    case False
    from firewall_reconcile_fails [OF assms False] o e
    consider "hist s' = hist s" "deployment s' = deployment s"
      | "hist s' = hist t" "deployment s' = deployment t"
      | "hist s' = hist u" "deployment s' = deployment u" "z \<noteq> Some None" by auto
    then show ?thesis
    proof cases
      case 1
      then show ?thesis by (intro exI [of _ "[]"]) simp
    next
      case 2
      with tr1 same show ?thesis by (intro exI [of _ tr1]) simp
    next
      case 3
      with ensure_firewall_effect(2) [OF e] same(2) whole show ?thesis
        by (intro exI [of _ "tr1 @ tr2"]) simp
    qed
  qed
qed

text \<open>C36. A firewall is allocated at most once per reconcile, never for a deployment that has a
  managed resource or whose template has no initial rule set, and always as the template and
  the cluster say. A reconcile releases nothing, and one that fails leaves the deployment as it
  was.\<close>

theorem firewall_reconcile_allocates_once:
  assumes "firewall_reconcile L E s = (x, s')"
  shows "\<exists>tr. hist s' = hist s @ tr \<and>
    (filter is_metal tr = [] \<or>
     (\<exists>q resp. filter is_metal tr = [Metal (AllocateFirewall q resp)] \<and> firewall_for L s q \<and>
        managed_ref s = None)) \<and>
    (x = Some None \<or> deployment s' = deployment s)"
  using assms by (rule firewall_reconcile_calls)

theorem firewall_reconcile_allocates_once_witness:
  "\<exists>x s'. firewall_reconcile lib0 env0 (fstate0 msc_net msfd0) = (x, s') \<and>
     length (filter is_metal (hist s')) \<le> 1"
proof -
  obtain x s' where run: "firewall_reconcile lib0 env0 (fstate0 msc_net msfd0) = (x, s')" by fastforce
  from firewall_reconcile_allocates_once [OF run] run show ?thesis
    by (auto simp: fstate0_def)
qed

section \<open>Deletion\<close>

definition ids_of :: "V1FirewallResponse list \<Rightarrow> string list" where
  "ids_of fws = List.map_filter fw_ID fws"

lemma ids_of_simps [simp]:
  "ids_of [] = []"
  "ids_of (fw # fws) = (case fw_ID fw of None \<Rightarrow> ids_of fws | Some i \<Rightarrow> i # ids_of fws)"
  by (simp_all add: ids_of_def map_filter_def split: option.split)

definition free_calls :: "string list \<Rightarrow> go_error option list \<Rightarrow> history" where
  "free_calls is rs = map2 (\<lambda>i r. Metal (FreeMachine i r)) is rs"

lemma free_firewalls_run:
  "\<exists>rs errs'. length rs = length (ids_of fws) \<and>
     free_firewalls E errs fws s =
       (Some (errs @ errs'), s\<lparr>hist := hist s @ free_calls (ids_of fws) rs\<rparr>) \<and>
     ((\<forall>e \<in> set errs'. e = None) \<longleftrightarrow> (\<forall>r \<in> set rs. r = None)) \<and>
     length errs' = length (filter (\<lambda>r. r \<noteq> None) rs)"
proof (induction fws arbitrary: errs s)
  case Nil
  show ?case by (simp add: exec free_calls_def)
next
  case (Cons fw fws)
  show ?case
  proof (cases "fw_ID fw")
    case None
    with Cons.IH [of errs s] show ?thesis by simp
  next
    case (Some i)
    define r where "r = metal_FreeMachine E (hist s) i"
    define t where "t = s\<lparr>hist := hist s @ [Metal (FreeMachine i r)]\<rparr>"
    define errs1 where "errs1 = (case r of None \<Rightarrow> []
      | Some e \<Rightarrow> [Some (ErrWrap (''error deleting firewall deployment '' @ i) e)])"
    have step: "free_firewalls E errs (fw # fws) s = free_firewalls E (errs @ errs1) fws t"
      by (simp add: Some exec r_def [symmetric] t_def errs1_def split: option.split)
    obtain rs errs' where "length rs = length (ids_of fws)"
      "free_firewalls E (errs @ errs1) fws t =
         (Some ((errs @ errs1) @ errs'), t\<lparr>hist := hist t @ free_calls (ids_of fws) rs\<rparr>)"
      "(\<forall>e \<in> set errs'. e = None) \<longleftrightarrow> (\<forall>r \<in> set rs. r = None)"
      "length errs' = length (filter (\<lambda>r. r \<noteq> None) rs)"
      using Cons.IH [of "errs @ errs1" t] by auto
    moreover have "(\<forall>e \<in> set errs1. e = None) \<longleftrightarrow> r = None"
      "length errs1 = length (filter (\<lambda>r. r \<noteq> None) [r])"
      by (cases r; simp add: errs1_def)+
    moreover have "free_calls (ids_of (fw # fws)) (r # rs) =
        Metal (FreeMachine i r) # free_calls (ids_of fws) rs"
      by (simp add: free_calls_def Some)
    ultimately have "length (r # rs) = length (ids_of (fw # fws)) \<and>
        free_firewalls E errs (fw # fws) s = (Some (errs @ (errs1 @ errs')),
          s\<lparr>hist := hist s @ free_calls (ids_of (fw # fws)) (r # rs)\<rparr>) \<and>
        ((\<forall>e \<in> set (errs1 @ errs'). e = None) \<longleftrightarrow> (\<forall>r \<in> set (r # rs). r = None)) \<and>
        length (errs1 @ errs') = length (filter (\<lambda>r. r \<noteq> None) (r # rs))"
      unfolding step by (auto simp: Some t_def)
    then show ?thesis by blast
  qed
qed

text \<open>What a deletion asks the API for.\<close>

abbreviation find_request :: "lib \<Rightarrow> string \<Rightarrow> firewallDeploymentReconciler st \<Rightarrow> V1FirewallFindRequest" where
  "find_request L nw s \<equiv> firewall_find_request (self s) (tags_of L nw (self s))"

lemma deleteFirewallDeployment_found:
  assumes "NodeNetworkID (fw_cluster_spec s) = Some nw"
    and "metal_FindFirewalls E (hist s) (find_request L nw s) = Inr fws"
  shows "\<exists>rs err. length rs = length (ids_of fws) \<and>
    deleteFirewallDeployment L E s = (Some err, s\<lparr>hist := hist s @
      Metal (FindFirewalls (find_request L nw s) (Inr fws)) # free_calls (ids_of fws) rs\<rparr>) \<and>
    (err = None \<longleftrightarrow> (\<forall>r \<in> set rs. r = None))"
proof -
  let ?t = "s\<lparr>hist := hist s @ [Metal (FindFirewalls (find_request L nw s) (Inr fws))]\<rparr>"
  obtain rs errs where F: "length rs = length (ids_of fws)"
    "free_firewalls E [] fws ?t = (Some errs, ?t\<lparr>hist := hist ?t @ free_calls (ids_of fws) rs\<rparr>)"
    "(\<forall>e \<in> set errs. e = None) \<longleftrightarrow> (\<forall>r \<in> set rs. r = None)"
    using free_firewalls_run [of fws E "[]" ?t] by auto
  show ?thesis
  proof (cases fws)
    case Nil
    with assms show ?thesis
      by (simp add: deleteFirewallDeployment_def exec free_calls_def)
  next
    case (Cons fw fws')
    then have "fws \<noteq> []" by simp
    with assms F show ?thesis
      by (intro exI [of _ rs] exI [of _ "errors_Join errs"])
        (simp add: deleteFirewallDeployment_def exec errors_Join_None_iff)
  qed
qed

lemma free_calls_None:
  "length rs = length is \<Longrightarrow> \<forall>r \<in> set rs. r = None \<Longrightarrow>
     free_calls is rs = map (\<lambda>i. Metal (FreeMachine i None)) is"
  unfolding free_calls_def by (induction rs "is" rule: list_induct2) auto

lemma deleteFirewallDeployment_outcome:
  assumes "deleteFirewallDeployment L E t = (z, u)"
  shows "self u = self t \<and> (z = Some None \<longrightarrow>
    (\<exists>nw fws. NodeNetworkID (fw_cluster_spec t) = Some nw \<and>
        hist u = hist t @ Metal (FindFirewalls (find_request L nw t) (Inr fws)) #
          map (\<lambda>i. Metal (FreeMachine i None)) (ids_of fws)))"
proof (cases "NodeNetworkID (fw_cluster_spec t)")
  case None
  with assms show ?thesis by (auto simp: deleteFirewallDeployment_def exec)
next
  case (Some nw)
  show ?thesis
  proof (cases "metal_FindFirewalls E (hist t) (find_request L nw t)")
    case (Inl e)
    with Some assms show ?thesis by (auto simp: deleteFirewallDeployment_def exec)
  next
    case (Inr fws)
    with deleteFirewallDeployment_found [OF Some Inr] assms Some show ?thesis
      by (auto simp: free_calls_None)
  qed
qed

text \<open>The deletion of a deployment's firewalls asks the API to free every firewall it found that
  has an ID, in the order of the answer and each once, whatever the calls before returned, and
  it succeeds exactly when all of them did.\<close>

theorem firewall_delete_frees_all:
  assumes "NodeNetworkID (fw_cluster_spec s) = Some nw"
    and "metal_FindFirewalls E (hist s) (find_request L nw s) = Inr fws"
  shows "\<exists>rs err s'. deleteFirewallDeployment L E s = (Some err, s') \<and> self s' = self s \<and>
    length rs = length (ids_of fws) \<and>
    hist s' = hist s @ Metal (FindFirewalls (find_request L nw s) (Inr fws)) #
      map2 (\<lambda>i r. Metal (FreeMachine i r)) (ids_of fws) rs \<and>
    (err = None \<longleftrightarrow> (\<forall>r \<in> set rs. r = None))"
  using deleteFirewallDeployment_found [OF assms] by (auto simp: free_calls_def)

abbreviation env_two_firewalls :: env where
  "env_two_firewalls \<equiv> env0\<lparr>
     metal_FindFirewalls := \<lambda>h q. Inr [\<lparr>fw_ID = Some ''fw1''\<rparr>, \<lparr>fw_ID = None\<rparr>, \<lparr>fw_ID = Some ''fw2''\<rparr>],
     metal_FreeMachine := \<lambda>h i. if i = ''fw1'' then Some not_found else None\<rparr>"

theorem firewall_delete_frees_all_witness:
  "\<exists>s' err. deleteFirewallDeployment lib0 env_two_firewalls (fstate0 msc_net msfd_old) = (Some err, s') \<and>
     (\<exists>r. Metal (FreeMachine ''fw2'' r) \<in> set (hist s'))"
proof -
  let ?s = "fstate0 msc_net msfd_old"
  have "NodeNetworkID (fw_cluster_spec ?s) = Some ''net1''" by (simp add: fstate0_def msc_net_def)
  moreover have "metal_FindFirewalls env_two_firewalls (hist ?s) (find_request lib0 ''net1'' ?s) =
      Inr [\<lparr>fw_ID = Some ''fw1''\<rparr>, \<lparr>fw_ID = None\<rparr>, \<lparr>fw_ID = Some ''fw2''\<rparr>]" by simp
  ultimately show ?thesis
    using firewall_delete_frees_all [of ?s "''net1''" env_two_firewalls lib0]
    by (force simp: length_Suc_conv)
qed

text \<open>C13. A deletion of a deployment that carries the finalizer takes it off exactly when it returns
  no error, and then the run found no machine of the cluster, looked the deployment's firewalls
  up by its tags and freed every one that has an ID. Otherwise the deployment is as it was.\<close>

theorem firewall_delete_complete:
  assumes "finalizer_laws L" and "firewall_has_finalizer L (self s)"
    and "firewall_delete L E s = (x, s')"
  shows "(x = Some None \<longleftrightarrow> \<not> firewall_has_finalizer L (self s')) \<and>
    (if x = Some None
     then \<exists>nw fws. NodeNetworkID (fw_cluster_spec s) = Some nw \<and>
       hist s' = hist s @ [Kube (ListMachines (machines_of_cluster L (fc_cluster (self s))) (Inr [])),
         Metal (FindFirewalls (find_request L nw s) (Inr fws))] @
         map (\<lambda>i. Metal (FreeMachine i None)) (ids_of fws)
     else self s' = self s)"
proof -
  obtain y t where g: "firewall_ensureAllMetalStackMachinesAreGone L E s = (y, t)" by fastforce
  note G = wpD [OF firewall_gate.gate_asks g]
  have fin: "ContainsFinalizer L (Finalizers (msfd_ObjectMeta (deployment s))) FirewallDeploymentFinalizer"
    using assms(2) by (simp add: firewall_has_finalizer_def)
  show ?thesis
  proof (cases "y = Some None")
    case False
    then obtain e where y: "y = Some (Some e)" using G by (metis option.exhaust)
    with assms(3) g fin have "x = Some (Some e)" "s' = t"
      by (simp_all add: firewall_delete_def exec)
    then show ?thesis using G assms(2) by simp
  next
    case True
    obtain z u where d: "deleteFirewallDeployment L E t = (z, u)" by fastforce
    have t: "self t = self s"
      "hist t = hist s @ [Kube (ListMachines (machines_of_cluster L (fc_cluster (self s))) (Inr []))]"
      using firewall_gate.gate_opens [OF g [unfolded True]] by simp_all
    have run: "if z = Some None
       then x = Some None \<and> s' = u\<lparr>self := fc_firewallDeployment_update (remove_deployment_finalizer L) (self u)\<rparr>
       else x \<noteq> Some None \<and> s' = u"
      using assms(3) g True d fin by (auto simp: firewall_delete_def exec split: option.splits)
    have D: "self u = self t \<and> (z = Some None \<longrightarrow> (\<exists>nw fws. NodeNetworkID (fw_cluster_spec t) = Some nw \<and>
        hist u = hist t @ Metal (FindFirewalls (find_request L nw t) (Inr fws)) #
          map (\<lambda>i. Metal (FreeMachine i None)) (ids_of fws)))"
      by (rule deleteFirewallDeployment_outcome [OF d])
    show ?thesis
    proof (cases "z = Some None")
      case False
      with run D t assms(2) show ?thesis by simp
    next
      case z: True
      with run D t have "\<not> firewall_has_finalizer L (self s')"
        using assms(1) by (simp add: firewall_has_finalizer_def remove_deployment_finalizer_def)
      with z run D t show ?thesis by auto
    qed
  qed
qed

theorem firewall_delete_complete_witness:
  "\<exists>s'. firewall_delete lib0 env0 (fstate0 msc_net msfd_old) = (Some None, s') \<and>
     \<not> firewall_has_finalizer lib0 (self s') \<and> length (filter is_release (hist s')) = 1"
proof -
  let ?s = "fstate0 msc_net msfd_old"
  have fin: "firewall_has_finalizer lib0 (self ?s)"
    by (simp add: firewall_has_finalizer_def fstate0_def msfd_old_def)
  obtain x s' where run: "firewall_delete lib0 env0 ?s = (x, s')" by fastforce
  then have x: "x = Some None" "length (filter is_release (hist s')) = 1"
    by (auto simp: run_firewall_defs exec objects0 Let_def)
  with firewall_delete_complete [OF lib0_laws(2) fin run] run show ?thesis by auto
qed

lemma firewall_reconcile_requests:
  assumes "firewall_reconcile L E s = (x, s')"
  shows "\<exists>tr. hist s' = hist s @ tr \<and>
    (\<forall>q resp. Metal (AllocateFirewall q resp) \<in> set tr \<longrightarrow> firewall_for L s q)"
proof -
  obtain tr where "hist s' = hist s @ tr" "filter is_metal tr = [] \<or>
     (\<exists>q resp. filter is_metal tr = [Metal (AllocateFirewall q resp)] \<and> firewall_for L s q)"
    using firewall_reconcile_calls [OF assms] by blast
  moreover have "Metal c \<in> set (filter is_metal tr)" if "Metal c \<in> set tr" for c
    using that by simp
  ultimately show ?thesis by (intro exI [of _ tr]) fastforce
qed

lemma free_calls_only_free: "Metal (FindFirewalls f r) \<notin> set (free_calls is rs)"
  unfolding free_calls_def by auto

lemma deleteFirewallDeployment_requests:
  assumes "deleteFirewallDeployment L E t = (y, t')"
  shows "\<exists>tr. hist t' = hist t @ tr \<and> (\<forall>f resp. Metal (FindFirewalls f resp) \<in> set tr \<longrightarrow>
    (\<exists>nw. NodeNetworkID (fw_cluster_spec t) = Some nw \<and> f = find_request L nw t))"
proof (cases "NodeNetworkID (fw_cluster_spec t)")
  case None
  with assms show ?thesis by (auto simp: deleteFirewallDeployment_def exec)
next
  case (Some nw)
  show ?thesis
  proof (cases "metal_FindFirewalls E (hist t) (find_request L nw t)")
    case (Inl e)
    with Some assms show ?thesis by (auto simp: deleteFirewallDeployment_def exec)
  next
    case (Inr fws)
    with deleteFirewallDeployment_found [OF Some Inr] assms Some show ?thesis
      by (auto simp: free_calls_only_free)
  qed
qed

lemma firewall_delete_requests:
  assumes "firewall_delete L E t = (y, t')"
  shows "\<exists>tr. hist t' = hist t @ tr \<and> (\<forall>f resp. Metal (FindFirewalls f resp) \<in> set tr \<longrightarrow>
    (\<exists>nw. NodeNetworkID (fw_cluster_spec t) = Some nw \<and> f = find_request L nw t))"
proof -
  obtain z u where g: "firewall_ensureAllMetalStackMachinesAreGone L E t = (z, u)" by fastforce
  obtain v w where d: "deleteFirewallDeployment L E u = (v, w)" by fastforce
  obtain resp where G: "self u = self t"
    "hist u = hist t @ [Kube (ListMachines (machines_of_cluster L (fc_cluster (self t))) resp)]"
    using wpD [OF firewall_gate.gate_asks g] by blast
  have "hist t' = hist t \<or> hist t' = hist u \<or> hist t' = hist w"
    using assms g d by (auto simp: firewall_delete_def exec split: if_splits option.splits)
  then show ?thesis using deleteFirewallDeployment_requests [OF d] G by auto
qed

text \<open>A deletion finds what a reconcile allocated: for the same deployment and cluster, every
  lookup of a deletion asks for exactly the tags, the partition and the project that an
  allocation put on its firewall.\<close>

theorem firewall_deletion_finds_allocation:
  assumes "firewall_reconcile L E s = (x, s')" and "hist s' = hist s @ tr"
    and "Metal (AllocateFirewall q resp) \<in> set tr"
    and "same_deployment s t"
    and "firewall_delete L E' t = (y, t')" and "hist t' = hist t @ tr'"
    and "Metal (FindFirewalls f resp') \<in> set tr'"
  shows "ffr_Tags f = fcr_Tags q \<and> Some (ffr_PartitionID f) = fcr_Partitionid q \<and>
    Some (ffr_AllocationProject f) = fcr_Projectid q"
proof -
  have q: "firewall_for L s q"
    using firewall_reconcile_requests [OF assms(1)] assms(2,3) by auto
  have f: "\<exists>nw. NodeNetworkID (fw_cluster_spec t) = Some nw \<and> f = find_request L nw t"
    using firewall_delete_requests [OF assms(5)] assms(6,7) by auto
  from q f assms(4) show ?thesis
    by (auto simp: firewall_for_def same_deployment_def firewall_find_request_def tags_of_def Let_def)
qed

theorem firewall_deletion_finds_allocation_witness:
  "\<exists>(q :: V1FirewallCreateRequest) (f :: V1FirewallFindRequest). ffr_Tags f = fcr_Tags q \<and>
     fcr_Tags q = tags_of lib0 ''net1'' (self (fstate0 msc_net msfd0))"
proof -
  let ?s = "fstate0 msc_net msfd0" and ?t = "fstate0 msc_net msfd_old"
  obtain x s' where run: "firewall_reconcile lib0 env0 ?t = (x, s')" by fastforce
  have h: "hist s' = hist ?t @ hist s'" by (simp add: fstate0_def)
  obtain y t' where del: "firewall_delete lib0 env0 ?t = (y, t')" by fastforce
  have h': "hist t' = hist ?t @ hist t'" by (simp add: fstate0_def)
  obtain q resp where q: "Metal (AllocateFirewall q resp) \<in> set (hist s')"
    and tags: "fcr_Tags q = tags_of lib0 ''net1'' (self ?s)"
    using run by (auto simp: run_firewall_defs exec objects0 Let_def firewall_request_def tags_of_def)
  obtain f resp' where f: "Metal (FindFirewalls f resp') \<in> set (hist t')"
    using del by (auto simp: run_firewall_defs exec objects0 Let_def)
  have "same_deployment ?t ?t" by (simp add: same_deployment_def)
  from firewall_deletion_finds_allocation [OF run h q this del h' f] tags show ?thesis by blast
qed

text \<open>A deployment whose cluster has no node network cannot be deleted: the deletion
  dereferences the missing ID and panics, and the deployment keeps its finalizer.\<close>

theorem firewall_delete_panics_without_network:
  assumes "firewall_has_finalizer L (self s)" and "NodeNetworkID (fw_cluster_spec s) = None"
    and "kube_ListMachines E (hist s) (machines_of_cluster L (fc_cluster (self s))) = Inr []"
    and "firewall_delete L E s = (x, s')"
  shows "x = None \<and> self s' = self s"
  using assms
  by (auto simp: firewall_delete_def firewall_has_finalizer_def exec deleteFirewallDeployment_def
      firewall_ensureAllMetalStackMachinesAreGone_def)

theorem firewall_delete_panics_without_network_witness:
  "\<exists>s'. firewall_delete lib0 env0 (fstate0 msc0 msfd_old) = (None, s') \<and>
     firewall_has_finalizer lib0 (self s')"
proof -
  let ?s = "fstate0 msc0 msfd_old"
  have fin: "firewall_has_finalizer lib0 (self ?s)"
    by (simp add: firewall_has_finalizer_def fstate0_def msfd_old_def)
  moreover have "NodeNetworkID (fw_cluster_spec ?s) = None" by (simp add: fstate0_def objects0)
  moreover have "kube_ListMachines env0 (hist ?s) (machines_of_cluster lib0 (fc_cluster (self ?s))) = Inr []"
    by simp
  moreover obtain x s' where "firewall_delete lib0 env0 ?s = (x, s')" by fastforce
  ultimately show ?thesis
    using firewall_delete_panics_without_network [of lib0 ?s env0 x s'] by simp
qed

section \<open>The whole Reconcile\<close>

fun writes_cluster :: "event \<Rightarrow> bool" where
  "writes_cluster (Kube (PatchObject a (OCluster ic) r)) = True"
| "writes_cluster _ = False"

text \<open>What the controller says about a cluster's firewall deployment is lost: no run of its
  Reconcile ever writes a cluster, though each sets the cluster's condition in memory.\<close>

theorem firewall_Reconcile_writes_no_cluster:
  "\<exists>tr. hist (snd (MetalStackFirewallDeploymentReconciler_Reconcile L E req s)) = hist s @ tr \<and>
     filter writes_cluster tr = []"
proof -
  have "emits (\<lambda>e. \<not> writes_cluster e) (MetalStackFirewallDeploymentReconciler_Reconcile L E req)"
    unfolding MetalStackFirewallDeploymentReconciler_Reconcile_def firewall_dispatch_def
      firewall_switch_def firewall_patch_def Let_def
    by (intro emits_intros) simp_all
  then show ?thesis by (auto simp: emits_def list_all_iff filter_empty_conv)
qed

text \<open>
  A Reconcile looks up the deployment, the owner cluster, its Cluster API cluster and the
  template, and either stops at one of them or goes on with all four.
\<close>

definition lookup :: "event \<Rightarrow> bool" where
  "lookup e \<longleftrightarrow> \<not> is_metal e \<and> \<not> is_patch e"

definition no_template_error :: "history \<Rightarrow> bool" where
  "no_template_error tr \<longleftrightarrow> (\<forall>key err. Kube (GetFirewallTemplate key (Inl err)) \<notin> set tr)"

definition lookups_stop :: "lib \<Rightarrow> (Result \<times> go_error option) option \<Rightarrow> history \<Rightarrow> bool" where
  "lookups_stop L x pre \<longleftrightarrow> list_all lookup pre \<and>
     (no_template_error pre \<or> (\<exists>pre' key err.
        pre = pre' @ [Kube (GetFirewallTemplate key (Inl err))] \<and> no_template_error pre' \<and>
        x = Some (empty_Result, if IsNotFound L (Some err) then None else Some err)))"

definition lookups_done ::
    "NamespacedName \<Rightarrow> firewallDeploymentReconciler \<Rightarrow> history \<Rightarrow> bool" where
  "lookups_done req r pre \<longleftrightarrow> list_all lookup pre \<and> no_template_error pre \<and>
     (let d = fc_firewallDeployment r; ic = fc_infraCluster r in
       Kube (GetFirewallDeployment req (Inr d)) \<in> set pre \<and>
       (\<exists>ref \<in> set (OwnerReferences (msfd_ObjectMeta d)). Kube (GetMetalStackCluster
          \<lparr>nnNamespace = Namespace (msfd_ObjectMeta d), nnName = refName ref\<rparr> (Inr ic)) \<in> set pre) \<and>
       Kube (GetOwnerCluster (msc_ObjectMeta ic) (Inr (Some (fc_cluster r)))) \<in> set pre \<and>
       Kube (GetFirewallTemplate (template_key d) (Inr (fc_firewallTemplate r))) \<in> set pre)"

lemma list_all_lookup_simps [simp]:
  "lookup (Kube (GetFirewallDeployment k r1))" "lookup (Kube (GetOwnerCluster m r2))"
  "lookup (Kube (GetFirewallTemplate k r3))" "lookup (Kube (GetMetalStackCluster k r4))"
  by (simp_all add: lookup_def)

lemma no_template_error_simps [simp]:
  "no_template_error []"
  "no_template_error (e # tr) \<longleftrightarrow>
     (\<forall>key err. e \<noteq> Kube (GetFirewallTemplate key (Inl err))) \<and> no_template_error tr"
  "no_template_error (tr @ tr') \<longleftrightarrow> no_template_error tr \<and> no_template_error tr'"
  by (auto simp: no_template_error_def)

lemma owner_lookup:
  assumes "GetOwnerMetalStackCluster L E m s = (y, t)"
  shows "\<exists>tr. hist t = hist s @ tr \<and> list_all lookup tr \<and> no_template_error tr \<and>
    (\<forall>ic. y = Some (Inr (Some ic)) \<longrightarrow> (\<exists>ref \<in> set (OwnerReferences m).
       Kube (GetMetalStackCluster \<lparr>nnNamespace = Namespace m, nnName = refName ref\<rparr> (Inr ic)) \<in> set tr))"
proof -
  have "emits (\<lambda>e. lookup e \<and> (\<forall>key err. e \<noteq> Kube (GetFirewallTemplate key (Inl err))))
      (GetOwnerMetalStackCluster L E m)"
    by (intro emits_intros) simp
  then obtain tr where tr: "hist t = hist s @ tr"
    "list_all (\<lambda>e. lookup e \<and> (\<forall>key err. e \<noteq> Kube (GetFirewallTemplate key (Inl err)))) tr"
    using assms by (rule emitsD)
  then have "list_all lookup tr" "no_template_error tr"
    by (auto simp: list_all_iff no_template_error_def)
  moreover have "\<exists>ref \<in> set (OwnerReferences m). Kube (GetMetalStackCluster
      \<lparr>nnNamespace = Namespace m, nnName = refName ref\<rparr> (Inr ic)) \<in> set tr"
    if "y = Some (Inr (Some ic))" for ic
    using owner_loop_found [of L E "Namespace m" "OwnerReferences m" s ic t] assms that tr(1)
    by (auto simp: GetOwnerMetalStackCluster_def)
  ultimately show ?thesis using tr(1) by blast
qed

text \<open>The run after the owner was found, and the whole run.\<close>

lemma firewall_Reconcile_owned:
  assumes "kube_GetFirewallDeployment E (hist s) req = Inr d"
    and "GetOwnerMetalStackCluster L E (msfd_ObjectMeta d)
      (s\<lparr>hist := hist s @ [Kube (GetFirewallDeployment req (Inr d))]\<rparr>) = (Some (Inr (Some ic)), t)"
    and "kube_GetOwnerCluster E (hist t) (msc_ObjectMeta ic) = Inr (Some c)"
    and "hist t = hist s @ pre"
    and "MetalStackFirewallDeploymentReconciler_Reconcile L E req s = (x, s')"
  shows "let h = hist s @ pre @ [Kube (GetOwnerCluster (msc_ObjectMeta ic) (Inr (Some c)))];
      resp = kube_GetFirewallTemplate E h (template_key d);
      h' = h @ [Kube (GetFirewallTemplate (template_key d) resp)] in
    case resp of
      Inl err \<Rightarrow> hist s' = h' \<and>
        x = Some (empty_Result, if IsNotFound L (Some err) then None else Some err)
    | Inr tmpl \<Rightarrow> \<exists>y t'. firewall_dispatch L E \<lparr>hist = h', self = \<lparr>fc_cluster = c,
          fc_infraCluster = ic, fc_firewallDeployment = d, fc_firewallTemplate = tmpl\<rparr>\<rparr> = (y, t') \<and>
        hist s' = hist t' \<and> x = map_option (\<lambda>e. (empty_Result, e)) y"
  using assms
  by (auto simp: MetalStackFirewallDeploymentReconciler_Reconcile_def exec with_self_def Let_def
      split: sum.splits option.splits prod.splits if_splits)

lemma firewall_Reconcile_lookups:
  assumes run: "MetalStackFirewallDeploymentReconciler_Reconcile L E req s = (x, s')"
  shows "(\<exists>pre. hist s' = hist s @ pre \<and> lookups_stop L x pre) \<or>
    (\<exists>r pre y t'. lookups_done req r pre \<and>
       firewall_dispatch L E \<lparr>hist = hist s @ pre, self = r\<rparr> = (y, t') \<and>
       hist s' = hist t' \<and> x = map_option (\<lambda>e. (empty_Result, e)) y)"
proof (cases "kube_GetFirewallDeployment E (hist s) req")
  case (Inl e)
  with run show ?thesis
    by (auto simp: MetalStackFirewallDeploymentReconciler_Reconcile_def exec lookups_stop_def
        split: if_splits)
next
  case (Inr d)
  let ?s1 = "s\<lparr>hist := hist s @ [Kube (GetFirewallDeployment req (Inr d))]\<rparr>"
  obtain y t where o: "GetOwnerMetalStackCluster L E (msfd_ObjectMeta d) ?s1 = (y, t)" by fastforce
  from owner_lookup [OF this] obtain tr where tr: "hist t = hist ?s1 @ tr" "list_all lookup tr"
    "no_template_error tr"
    "\<forall>ic. y = Some (Inr (Some ic)) \<longrightarrow> (\<exists>ref \<in> set (OwnerReferences (msfd_ObjectMeta d)).
       Kube (GetMetalStackCluster \<lparr>nnNamespace = Namespace (msfd_ObjectMeta d),
         nnName = refName ref\<rparr> (Inr ic)) \<in> set tr)" by blast
  let ?pre = "Kube (GetFirewallDeployment req (Inr d)) # tr"
  have h: "hist t = hist s @ ?pre" using tr(1) by simp
  show ?thesis
  proof (cases "\<exists>ic c. y = Some (Inr (Some ic)) \<and>
      kube_GetOwnerCluster E (hist t) (msc_ObjectMeta ic) = Inr (Some c)")
    case False
    with run Inr o have "s' = t \<or> (\<exists>m r. s' = t\<lparr>hist := hist t @ [Kube (GetOwnerCluster m r)]\<rparr>)"
      by (auto simp: MetalStackFirewallDeploymentReconciler_Reconcile_def exec
          split: option.splits sum.splits)
    then show ?thesis using h tr(2,3) by (auto simp: lookups_stop_def)
  next
    case True
    then obtain ic c where y: "y = Some (Inr (Some ic))"
      and c: "kube_GetOwnerCluster E (hist t) (msc_ObjectMeta ic) = Inr (Some c)" by blast
    let ?pre' = "?pre @ [Kube (GetOwnerCluster (msc_ObjectMeta ic) (Inr (Some c)))]"
    let ?resp = "kube_GetFirewallTemplate E (hist s @ ?pre') (template_key d)"
    let ?pre'' = "?pre' @ [Kube (GetFirewallTemplate (template_key d) ?resp)]"
    note R = firewall_Reconcile_owned [OF Inr o [unfolded y] c h run]
    show ?thesis
    proof (cases ?resp)
      case (Inl err)
      with R have "hist s' = hist s @ ?pre''"
        "x = Some (empty_Result, if IsNotFound L (Some err) then None else Some err)"
        by (simp_all add: Let_def)
      moreover have "lookups_stop L x ?pre''"
        unfolding lookups_stop_def using tr(2,3) calculation(2) Inl
        by (intro conjI disjI2 exI [of _ ?pre'] exI [of _ "template_key d"] exI [of _ err]) simp_all
      ultimately show ?thesis by blast
    next
      case (Inr tmpl)
      let ?r = "\<lparr>fc_cluster = c, fc_infraCluster = ic, fc_firewallDeployment = d, fc_firewallTemplate = tmpl\<rparr>"
      have "lookups_done req ?r ?pre''"
        using tr(2-4) Inr y by (simp add: lookups_done_def)
      moreover have "\<exists>z t'. firewall_dispatch L E \<lparr>hist = hist s @ ?pre'', self = ?r\<rparr> = (z, t') \<and>
          hist s' = hist t' \<and> x = map_option (\<lambda>e. (empty_Result, e)) z"
        using R Inr by (simp add: Let_def)
      ultimately show ?thesis by blast
    qed
  qed
qed

text \<open>A missing template blocks the deletion of a deployment: whatever the deployment's state, a
  Reconcile that cannot find the template ends without an error, a call of the metal-stack API
  or a write, so a deployment in deletion keeps its finalizer.\<close>

theorem firewall_template_missing_blocks:
  assumes "MetalStackFirewallDeploymentReconciler_Reconcile L E req s = (x, s')"
    and "hist s' = hist s @ tr"
    and "Kube (GetFirewallTemplate key (Inl err)) \<in> set tr" and "IsNotFound L (Some err)"
  shows "x = Some (empty_Result, None) \<and> filter is_metal tr = [] \<and> filter is_patch tr = []"
proof -
  have quiet: "filter is_metal pre = [] \<and> filter is_patch pre = []" if "list_all lookup pre" for pre
    using that by (auto simp: list_all_iff lookup_def filter_empty_conv)
  from firewall_Reconcile_lookups [OF assms(1)] show ?thesis
  proof (elim disjE exE conjE)
    fix pre assume "hist s' = hist s @ pre" and stop: "lookups_stop L x pre"
    with assms(2) have "pre = tr" by simp
    with stop assms(3,4) quiet [of pre] show ?thesis
      by (auto simp: lookups_stop_def no_template_error_def split: if_splits)
  next
    fix r pre y t'
    assume pre: "lookups_done req r pre"
      and d: "firewall_dispatch L E \<lparr>hist = hist s @ pre, self = r\<rparr> = (y, t')"
      and h: "hist s' = hist t'"
    have "emits (\<lambda>e. \<forall>key err. e \<noteq> Kube (GetFirewallTemplate key (Inl err))) (firewall_dispatch L E)"
      unfolding firewall_dispatch_def firewall_switch_def by (intro emits_intros) simp_all
    then obtain tr' where "hist t' = hist s @ pre @ tr'" "no_template_error tr'"
      using d by (rule emitsD) (auto simp: list_all_iff no_template_error_def)
    with h pre assms(2,3) show ?thesis
      by (auto simp: lookups_done_def no_template_error_def)
  qed
qed

text \<open>C21. Every call of the metal-stack API a Reconcile of a firewall deployment makes is guarded: in
  the same run the deployment was read with the finalizer already on it, its owner, the owner's
  cluster and its template were found, and the cluster pauses neither the deployment nor the
  owner.\<close>

theorem firewall_Reconcile_guarded:
  assumes "MetalStackFirewallDeploymentReconciler_Reconcile L E req s = (x, s')"
    and "hist s' = hist s @ tr" and "e \<in> set tr" and "is_metal e"
  shows "\<exists>d ic c t key. Kube (GetFirewallDeployment req (Inr d)) \<in> set tr \<and>
    Kube (GetMetalStackCluster key (Inr ic)) \<in> set tr \<and>
    Kube (GetOwnerCluster (msc_ObjectMeta ic) (Inr (Some c))) \<in> set tr \<and>
    Kube (GetFirewallTemplate (template_key d) (Inr t)) \<in> set tr \<and>
    ContainsFinalizer L (Finalizers (msfd_ObjectMeta d)) FirewallDeploymentFinalizer \<and>
    \<not> IsPaused L c (msfd_ObjectMeta d) \<and> \<not> IsPaused L c (msc_ObjectMeta ic)"
  using firewall_Reconcile_lookups [OF assms(1)]
proof (elim disjE exE conjE)
  fix pre assume "hist s' = hist s @ pre" "lookups_stop L x pre"
  with assms(2-4) show ?thesis by (auto simp: lookups_stop_def list_all_iff lookup_def)
next
  fix r pre y t'
  assume pre: "lookups_done req r pre"
    and d: "firewall_dispatch L E \<lparr>hist = hist s @ pre, self = r\<rparr> = (y, t')"
    and h: "hist s' = hist t'"
  have "emits (\<lambda>_. True) (firewall_dispatch L E)"
    unfolding firewall_dispatch_def firewall_switch_def by (intro emits_intros) simp_all
  then obtain tr' where tr': "hist t' = hist \<lparr>hist = hist s @ pre, self = r\<rparr> @ tr'"
    using d by (rule emitsD)
  with h assms(2) have tr: "tr = pre @ tr'" by simp
  have "e \<notin> set pre" using pre assms(4) by (auto simp: lookups_done_def list_all_iff lookup_def)
  with tr assms(3) have "e \<in> set tr'" by simp
  from firewall_rec.metal_event_guarded [OF d tr' this assms(4)] pre tr show ?thesis
    by (auto simp: lookups_done_def Let_def firewall_paused_def firewall_has_finalizer_def)
qed

definition msfd_owned :: MetalStackFirewallDeployment where
  "msfd_owned = msfd_old\<lparr>msfd_ObjectMeta := (msfd_ObjectMeta msfd_old)\<lparr>OwnerReferences :=
     [\<lparr>refAPIVersion = ''infrastructure.cluster.x-k8s.io/v1alpha1'', refKind = MetalStackClusterKind,
       refName = ''c1'', refUID = ''u1'', refController = None, refBlockOwnerDeletion = None\<rparr>]\<rparr>\<rparr>"

lemmas run_firewall_Reconcile_defs =
  MetalStackFirewallDeploymentReconciler_Reconcile_def firewall_dispatch_def firewall_switch_def
  firewall_patch_def firewall_paused_def firewall_deleting_def firewall_has_finalizer_def
  mark_firewall_paused_def set_deployment_condition_def MetalStackFirewallDeployment_SetConditions_def
  GetOwnerMetalStackCluster_def GetInfraClusterByName_def with_self_def msfd_owned_def
  GroupVersion_v1alpha1_def Cut_def

abbreviation request1 :: NamespacedName where
  "request1 \<equiv> \<lparr>nnNamespace = ''ns'', nnName = ''c1''\<rparr>"

abbreviation start :: "unit st" where
  "start \<equiv> \<lparr>hist = [], self = ()\<rparr>"

theorem firewall_Reconcile_guarded_witness:
  "\<exists>x s' d. MetalStackFirewallDeploymentReconciler_Reconcile lib0
      (env0\<lparr>kube_GetFirewallDeployment := \<lambda>h q. Inr msfd_owned,
            kube_GetMetalStackCluster := \<lambda>h q. Inr msc_net\<rparr>) request1 start = (x, s') \<and>
     Kube (GetFirewallDeployment request1 (Inr d)) \<in> set (hist s')"
proof -
  let ?E = "env0\<lparr>kube_GetFirewallDeployment := \<lambda>h q. Inr msfd_owned,
            kube_GetMetalStackCluster := \<lambda>h q. Inr msc_net\<rparr>"
  obtain x s' where run: "MetalStackFirewallDeploymentReconciler_Reconcile lib0 ?E request1 start = (x, s')"
    by fastforce
  have h: "hist s' = hist start @ hist s'" by simp
  obtain q r where e: "Metal (AllocateFirewall q r) \<in> set (hist s')"
    using run by (auto simp: run_firewall_Reconcile_defs run_firewall_defs exec objects0 Let_def)
  show ?thesis using firewall_Reconcile_guarded [OF run h e] run by auto
qed

theorem firewall_template_missing_blocks_witness:
  "\<exists>s'. MetalStackFirewallDeploymentReconciler_Reconcile lib0
      (env0\<lparr>kube_GetFirewallDeployment := \<lambda>h q. Inr (msfd_owned\<lparr>msfd_ObjectMeta :=
              (msfd_ObjectMeta msfd_owned)\<lparr>DeletionTimestamp := Some 1\<rparr>\<rparr>),
            kube_GetFirewallTemplate := \<lambda>h q. Inl not_found\<rparr>) request1 start =
      (Some (empty_Result, None), s')"
proof -
  let ?E = "env0\<lparr>kube_GetFirewallDeployment := \<lambda>h q. Inr (msfd_owned\<lparr>msfd_ObjectMeta :=
              (msfd_ObjectMeta msfd_owned)\<lparr>DeletionTimestamp := Some 1\<rparr>\<rparr>),
            kube_GetFirewallTemplate := \<lambda>h q. Inl not_found\<rparr>"
  obtain x s' where run: "MetalStackFirewallDeploymentReconciler_Reconcile lib0 ?E request1 start = (x, s')"
    by fastforce
  have h: "hist s' = hist start @ hist s'" by simp
  obtain key where e: "Kube (GetFirewallTemplate key (Inl not_found)) \<in> set (hist s')"
    using run by (auto simp: run_firewall_Reconcile_defs run_firewall_defs exec objects0 Let_def
        errors_As_def)
  have "IsNotFound lib0 (Some not_found)" by (simp add: not_found_def errors_As_def)
  from firewall_template_missing_blocks [OF run h e this] run show ?thesis by simp
qed

end
