(* ===== verification/Watches.thy ===== *)
theory Watches
  imports Owners
begin

text \<open>
  The map functions the controllers register with \<open>Watches\<close> in their \<open>SetupWithManager\<close>:
  which objects are reconciled when another object changes. A map function gets any client
  object and returns the keys to enqueue; one it does not expect, a failed lookup and a filter
  that does not match all give no key. The four that list objects share the contract
  \<open>list_watch\<close>.
\<close>

section \<open>The map functions\<close>

text \<open>What a type assertion on a client object can find.\<close>

datatype client_object =
    CCluster Cluster
  | CMachine Machine
  | CMetalStackCluster MetalStackCluster
  | CMetalStackMachine MetalStackMachine
  | CFirewallDeployment MetalStackFirewallDeployment
  | CFirewallTemplate MetalStackFirewallTemplate
  | COther string

type_synonym 'r map_func = "client_object \<Rightarrow> ('r st, NamespacedName list) go"

subsection \<open>metalstackcluster_controller.go\<close>

definition clusterToMetalStackCluster :: "lib \<Rightarrow> env \<Rightarrow> 'r map_func" where
  "clusterToMetalStackCluster L E obj =
     (case obj of
       CCluster cluster \<Rightarrow>
         let ref = cluster_InfrastructureRef cluster;
             infraName = \<lparr>nnNamespace = [], nnName = irName ref\<rparr> in
         if irKind ref \<noteq> MetalStackClusterKind then ret []
         else
           bnd (do_GetMetalStackCluster E infraName) (\<lambda>resp.
           case resp of
             Inl err \<Rightarrow> ret []
           | Inr infraCluster \<Rightarrow>
               if IsExternallyManaged L (msc_ObjectMeta infraCluster) then ret []
               else ret [infraName])
     | _ \<Rightarrow> ret [])"

text \<open>The key of the infrastructure cluster of a cluster, from an object made up for it.\<close>

definition infra_cluster_key :: "lib \<Rightarrow> Cluster \<Rightarrow> NamespacedName" where
  "infra_cluster_key L cluster =
     ObjectKeyFromObject L (object_meta (irName (cluster_InfrastructureRef cluster))
       (Namespace (cluster_ObjectMeta cluster)))"

definition metalStackMachineToMetalStackCluster :: "lib \<Rightarrow> env \<Rightarrow> 'r map_func" where
  "metalStackMachineToMetalStackCluster L E obj =
     (case obj of
       CMetalStackMachine infraMachine \<Rightarrow>
         bnd (do_GetOwnerMachine E (msm_ObjectMeta infraMachine)) (\<lambda>resp.
         case resp of
           Inl err \<Rightarrow> ret []
         | Inr None \<Rightarrow> ret []
         | Inr (Some machine) \<Rightarrow>
         bnd (do_GetClusterFromMetadata E (machine_ObjectMeta machine)) (\<lambda>resp.
         case resp of
           Inl err \<Rightarrow> ret []
         | Inr None \<Rightarrow> ret []
         | Inr (Some cluster) \<Rightarrow>
         bnd (do_GetMetalStackCluster E (infra_cluster_key L cluster)) (\<lambda>resp.
         case resp of
           Inl err \<Rightarrow> ret []
         | Inr infraCluster \<Rightarrow>
             if irKind (cluster_InfrastructureRef cluster) \<noteq> MetalStackClusterKind then ret []
             else if IsExternallyManaged L (msc_ObjectMeta infraCluster) then ret []
             else ret [ObjectKeyFromObject L (msc_ObjectMeta infraCluster)])))
     | _ \<Rightarrow> ret [])"

definition metalStackFirewallToMetalStackCluster :: "lib \<Rightarrow> env \<Rightarrow> 'r map_func" where
  "metalStackFirewallToMetalStackCluster L E obj =
     (case obj of
       CFirewallDeployment fwDeploy \<Rightarrow>
         bnd (GetOwnerMetalStackCluster L E (msfd_ObjectMeta fwDeploy)) (\<lambda>resp.
         case resp of
           Inl err \<Rightarrow> ret []
         | Inr None \<Rightarrow> ret []
         | Inr (Some cluster) \<Rightarrow>
             ret [\<lparr>nnNamespace = Namespace (msc_ObjectMeta cluster),
                   nnName = Name (msc_ObjectMeta cluster)\<rparr>])
     | _ \<Rightarrow> ret [])"

subsection \<open>metalstackmachine_controller.go\<close>

fun machine_requests :: "lib \<Rightarrow> MetalStackMachine list \<Rightarrow> NamespacedName list" where
  "machine_requests L [] = []"
| "machine_requests L (infraMachine # items) =
     ObjectKeyFromObject L (msm_ObjectMeta infraMachine) # machine_requests L items"

definition list_machine_requests :: "lib \<Rightarrow> env \<Rightarrow> ListOptions \<Rightarrow> ('r st, NamespacedName list) go" where
  "list_machine_requests L E options =
     bnd (do_ListMachines E options) (\<lambda>resp.
     case resp of
       Inl err \<Rightarrow> ret []
     | Inr items \<Rightarrow> ret (machine_requests L items))"

definition clusterToMetalStackMachine :: "lib \<Rightarrow> env \<Rightarrow> 'r map_func" where
  "clusterToMetalStackMachine L E obj =
     (case obj of
       CCluster cluster \<Rightarrow>
         list_machine_requests L E
           \<lparr>Limit = None, lo_Namespace = Namespace (cluster_ObjectMeta cluster),
            LabelSelector = [ClusterNameLabel L \<mapsto> Name (cluster_ObjectMeta cluster)]\<rparr>
     | _ \<Rightarrow> ret [])"

text \<open>Reading a label: a nil map has none.\<close>

definition label_of :: "string \<Rightarrow> ObjectMeta \<Rightarrow> string option" where
  "label_of k m = (case Labels m of None \<Rightarrow> None | Some ls \<Rightarrow> ls k)"

definition metalStackClusterToMetalStackMachine :: "lib \<Rightarrow> env \<Rightarrow> 'r map_func" where
  "metalStackClusterToMetalStackMachine L E obj =
     (case obj of
       CMetalStackCluster infraCluster \<Rightarrow>
         (case label_of (ClusterNameLabel L) (msc_ObjectMeta infraCluster) of
           None \<Rightarrow> ret []
         | Some clusterName \<Rightarrow>
             list_machine_requests L E
               \<lparr>Limit = None, lo_Namespace = Namespace (msc_ObjectMeta infraCluster),
                LabelSelector = [ClusterNameLabel L \<mapsto> clusterName]\<rparr>)
     | _ \<Rightarrow> ret [])"

definition machineToMetalStackMachine :: "lib \<Rightarrow> env \<Rightarrow> 'r map_func" where
  "machineToMetalStackMachine L E obj =
     (case obj of
       CMachine machine \<Rightarrow>
         let m = machine_ObjectMeta machine in
         (case label_of (ClusterNameLabel L) m of None \<Rightarrow> ret [] | Some clusterName \<Rightarrow>
         (case label_of (MachineDeploymentNameLabel L) m of None \<Rightarrow> ret [] | Some deploymentName \<Rightarrow>
         (case label_of (MachineSetNameLabel L) m of None \<Rightarrow> ret [] | Some machineSetName \<Rightarrow>
           list_machine_requests L E
             \<lparr>Limit = None, lo_Namespace = Namespace m,
              LabelSelector = [ClusterNameLabel L \<mapsto> clusterName,
                MachineDeploymentNameLabel L \<mapsto> deploymentName,
                MachineSetNameLabel L \<mapsto> machineSetName]\<rparr>)))
     | _ \<Rightarrow> ret [])"

subsection \<open>metalstackfirewalldeployment_controller.go\<close>

text \<open>The index the list call by template name relies on.\<close>

definition index_firewallTemplateRef :: "client_object \<Rightarrow> string list" where
  "index_firewallTemplateRef obj =
     (case obj of
       CFirewallDeployment fwdeploy \<Rightarrow> [ftrName (FirewallTemplateRef (msfd_Spec fwdeploy))]
     | _ \<Rightarrow> [])"

definition metalStackClusterToMetalStackFirewallDeployment :: "'r map_func" where
  "metalStackClusterToMetalStackFirewallDeployment obj =
     (case obj of
       CMetalStackCluster infraCluster \<Rightarrow>
         (case FirewallDeploymentRef (msc_Spec infraCluster) of
           None \<Rightarrow> ret []
         | Some ref \<Rightarrow> ret [\<lparr>nnNamespace = Namespace (msc_ObjectMeta infraCluster), nnName = fdrName ref\<rparr>])
     | _ \<Rightarrow> ret [])"

fun firewall_requests :: "MetalStackFirewallDeployment list \<Rightarrow> NamespacedName list" where
  "firewall_requests [] = []"
| "firewall_requests (fw # items) =
     \<lparr>nnNamespace = Namespace (msfd_ObjectMeta fw), nnName = Name (msfd_ObjectMeta fw)\<rparr>
       # firewall_requests items"

definition metalStackFirewallTemplateToMetalStackFirewallDeployment :: "env \<Rightarrow> 'r map_func" where
  "metalStackFirewallTemplateToMetalStackFirewallDeployment E obj =
     (case obj of
       CFirewallTemplate fwtemp \<Rightarrow>
         bnd (do_ListFirewallDeployments E (Namespace (msft_ObjectMeta fwtemp))
                (Name (msft_ObjectMeta fwtemp))) (\<lambda>resp.
         case resp of
           Inl err \<Rightarrow> ret []
         | Inr items \<Rightarrow> ret (firewall_requests items))
     | _ \<Rightarrow> ret [])"

section \<open>The contract of a map function that lists\<close>

text \<open>
  Such a map function makes one list call for the objects it knows a query for and enqueues
  the keys of the answer. What it promises the controller is stated against a server that
  keeps a set of objects and answers a query with those that match it.
\<close>

locale list_watch =
  fixes watch :: "'o \<Rightarrow> ('r st, 'k list) go"
    and query :: "'o \<Rightarrow> 'q option"
    and listing :: "history \<Rightarrow> 'q \<Rightarrow> go_error + 'i list"
    and logged :: "'q \<Rightarrow> go_error + 'i list \<Rightarrow> event"
    and key :: "'i \<Rightarrow> 'k"
  assumes watch_silent: "query obj = None \<Longrightarrow> watch obj s = (Some [], s)"
    and watch_lists: "query obj = Some q \<Longrightarrow> watch obj s =
      (Some (case listing (hist s) q of Inl e \<Rightarrow> [] | Inr items \<Rightarrow> map key items),
       s\<lparr>hist := hist s @ [logged q (listing (hist s) q)]\<rparr>)"
begin

lemma watch_total: "\<exists>ks s'. watch obj s = (Some ks, s') \<and> self s' = self s"
  by (cases "query obj") (simp_all add: watch_silent watch_lists)

lemma watch_exact:
  assumes "\<And>q. listing (hist s) q = Inr (filter (matches q) stored)"
  shows "\<exists>ks s'. watch obj s = (Some ks, s') \<and>
    set ks = key ` {i \<in> set stored. \<exists>q. query obj = Some q \<and> matches q i}"
  using assms by (cases "query obj") (auto simp: watch_silent watch_lists)

end

definition cluster_query :: "lib \<Rightarrow> client_object \<Rightarrow> ListOptions option" where
  "cluster_query L obj = (case obj of
       CCluster c \<Rightarrow> Some \<lparr>Limit = None, lo_Namespace = Namespace (cluster_ObjectMeta c),
         LabelSelector = [ClusterNameLabel L \<mapsto> Name (cluster_ObjectMeta c)]\<rparr>
     | _ \<Rightarrow> None)"

definition infra_query :: "lib \<Rightarrow> client_object \<Rightarrow> ListOptions option" where
  "infra_query L obj = (case obj of
       CMetalStackCluster ic \<Rightarrow> map_option (\<lambda>n. \<lparr>Limit = None,
           lo_Namespace = Namespace (msc_ObjectMeta ic), LabelSelector = [ClusterNameLabel L \<mapsto> n]\<rparr>)
         (label_of (ClusterNameLabel L) (msc_ObjectMeta ic))
     | _ \<Rightarrow> None)"

definition machine_query :: "lib \<Rightarrow> client_object \<Rightarrow> ListOptions option" where
  "machine_query L obj = (case obj of
       CMachine machine \<Rightarrow>
         let m = machine_ObjectMeta machine in
         Option.bind (label_of (ClusterNameLabel L) m) (\<lambda>c.
         Option.bind (label_of (MachineDeploymentNameLabel L) m) (\<lambda>d.
         Option.bind (label_of (MachineSetNameLabel L) m) (\<lambda>ms.
           Some \<lparr>Limit = None, lo_Namespace = Namespace m,
             LabelSelector = [ClusterNameLabel L \<mapsto> c, MachineDeploymentNameLabel L \<mapsto> d,
               MachineSetNameLabel L \<mapsto> ms]\<rparr>)))
     | _ \<Rightarrow> None)"

definition template_query :: "client_object \<Rightarrow> (string \<times> string) option" where
  "template_query obj = (case obj of
       CFirewallTemplate t \<Rightarrow> Some (Namespace (msft_ObjectMeta t), Name (msft_ObjectMeta t))
     | _ \<Rightarrow> None)"

lemma machine_requests_map:
  "machine_requests L items = map (\<lambda>m. ObjectKeyFromObject L (msm_ObjectMeta m)) items"
  by (induction items) auto

lemma firewall_requests_map:
  "firewall_requests items = map (\<lambda>d. \<lparr>nnNamespace = Namespace (msfd_ObjectMeta d),
     nnName = Name (msfd_ObjectMeta d)\<rparr>) items"
  by (induction items) auto

lemma list_machine_requests_run:
  "list_machine_requests L E q s =
     (Some (case kube_ListMachines E (hist s) q of Inl e \<Rightarrow> []
        | Inr items \<Rightarrow> map (\<lambda>m. ObjectKeyFromObject L (msm_ObjectMeta m)) items),
      s\<lparr>hist := hist s @ [Kube (ListMachines q (kube_ListMachines E (hist s) q))]\<rparr>)"
  by (simp add: list_machine_requests_def exec machine_requests_map split: sum.split)

interpretation cluster_machines: list_watch "clusterToMetalStackMachine L E" "cluster_query L"
    "kube_ListMachines E" "\<lambda>q r. Kube (ListMachines q r)"
    "\<lambda>m. ObjectKeyFromObject L (msm_ObjectMeta m)" for L E
  by unfold_locales
    (auto simp: clusterToMetalStackMachine_def cluster_query_def list_machine_requests_run exec
      split: client_object.splits)

interpretation infra_machines: list_watch "metalStackClusterToMetalStackMachine L E" "infra_query L"
    "kube_ListMachines E" "\<lambda>q r. Kube (ListMachines q r)"
    "\<lambda>m. ObjectKeyFromObject L (msm_ObjectMeta m)" for L E
  by unfold_locales
    (auto simp: metalStackClusterToMetalStackMachine_def infra_query_def list_machine_requests_run
      exec split: client_object.splits option.splits)

interpretation machine_machines: list_watch "machineToMetalStackMachine L E" "machine_query L"
    "kube_ListMachines E" "\<lambda>q r. Kube (ListMachines q r)"
    "\<lambda>m. ObjectKeyFromObject L (msm_ObjectMeta m)" for L E
  by unfold_locales
    (auto simp: machineToMetalStackMachine_def machine_query_def list_machine_requests_run
      exec Let_def split: client_object.splits option.splits)

interpretation template_deployments:
  list_watch "metalStackFirewallTemplateToMetalStackFirewallDeployment E" template_query
    "\<lambda>h (ns, t). kube_ListFirewallDeployments E h ns t"
    "\<lambda>(ns, t) r. Kube (ListFirewallDeployments ns t r)"
    "\<lambda>d. \<lparr>nnNamespace = Namespace (msfd_ObjectMeta d), nnName = Name (msfd_ObjectMeta d)\<rparr>" for E
  by unfold_locales
    (auto simp: metalStackFirewallTemplateToMetalStackFirewallDeployment_def template_query_def
      exec firewall_requests_map split: client_object.splits sum.split)

end
