(* ===== verification/WatchProperties.thy ===== *)
theory WatchProperties
  imports Watches Examples
begin

text \<open>
  Which objects a change enqueues, and the owner lookup. A server that stores objects answers
  a list call with those that match its options.
\<close>

section \<open>The owner of a resource\<close>

text \<open>The first owner reference that names a MetalStackCluster, or cannot be parsed.\<close>

definition first_owner :: "lib \<Rightarrow> OwnerReference list \<Rightarrow> OwnerReference option" where
  "first_owner L refs = find (\<lambda>r. \<not> skipped_ref L r) refs"

text \<open>The owner of a resource is decided by the first owner reference of the cluster kind whose
  API group is the provider's: references before it are passed over, whatever comes after it is
  not looked at, and the cluster is read in the resource's own namespace, once. Without such a
  reference there is no owner, no error and no call.\<close>

theorem owner_is_first_match:
  "GetOwnerMetalStackCluster L E m s =
     (case first_owner L (OwnerReferences m) of
       None \<Rightarrow> (Some (Inr None), s)
     | Some ref \<Rightarrow>
         (case ParseGroupVersion L (refAPIVersion ref) of
           Inl err \<Rightarrow> (Some (Inl (WithStack L err)), s)
         | Inr gv \<Rightarrow>
             let key = \<lparr>nnNamespace = Namespace m, nnName = refName ref\<rparr>;
                 resp = kube_GetMetalStackCluster E (hist s) key in
             (Some (case resp of
                 Inl err \<Rightarrow> Inl (Wrapf L err (''failed to get Cluster/'' @ refName ref))
               | Inr c \<Rightarrow> Inr (Some c)),
              s\<lparr>hist := hist s @ [Kube (GetMetalStackCluster key resp)]\<rparr>)))"
proof -
  have "owner_loop L E ns refs s =
     (case first_owner L refs of
       None \<Rightarrow> (Some (Inr None), s)
     | Some ref \<Rightarrow>
         (case ParseGroupVersion L (refAPIVersion ref) of
           Inl err \<Rightarrow> (Some (Inl (WithStack L err)), s)
         | Inr gv \<Rightarrow>
             let key = \<lparr>nnNamespace = ns, nnName = refName ref\<rparr>;
                 resp = kube_GetMetalStackCluster E (hist s) key in
             (Some (case resp of
                 Inl err \<Rightarrow> Inl (Wrapf L err (''failed to get Cluster/'' @ refName ref))
               | Inr c \<Rightarrow> Inr (Some c)),
              s\<lparr>hist := hist s @ [Kube (GetMetalStackCluster key resp)]\<rparr>)))" for ns refs
  proof (induction refs)
    case Nil
    show ?case by (simp add: first_owner_def exec)
  next
    case (Cons ref refs)
    show ?case
    proof (cases "skipped_ref L ref")
      case True
      then have e1: "owner_loop L E ns (ref # refs) = owner_loop L E ns refs"
        using owner_loop_skip [of L "[ref]" E ns refs] by (simp del: owner_loop.simps)
      have e2: "first_owner L (ref # refs) = first_owner L refs"
        using True by (simp add: first_owner_def)
      show ?thesis unfolding e1 e2 by (rule Cons.IH)
    next
      case False
      then have kind: "refKind ref = MetalStackClusterKind"
        unfolding skipped_ref_def by blast
      have f: "first_owner L (ref # refs) = Some ref"
        using False by (simp add: first_owner_def)
      show ?thesis
      proof (cases "ParseGroupVersion L (refAPIVersion ref)")
        case (Inl err)
        with kind f show ?thesis by (simp add: exec)
      next
        case (Inr gv)
        with False have "gvGroup gv = gvGroup GroupVersion_v1alpha1"
          unfolding skipped_ref_def by blast
        with Inr kind f show ?thesis
          by (simp add: exec GetInfraClusterByName_def Let_def split: sum.split)
      qed
    qed
  qed
  then show ?thesis by (simp add: GetOwnerMetalStackCluster_def)
qed

section \<open>What a change enqueues\<close>

definition selected :: "ListOptions \<Rightarrow> MetalStackMachine \<Rightarrow> bool" where
  "selected q m \<longleftrightarrow> Namespace (msm_ObjectMeta m) = lo_Namespace q \<and>
     (\<forall>k v. LabelSelector q k = Some v \<longrightarrow> label_of k (msm_ObjectMeta m) = Some v)"

lemma selected_label [simp]:
  "selected \<lparr>Limit = l, lo_Namespace = ns, LabelSelector = [k \<mapsto> v]\<rparr> m \<longleftrightarrow>
     Namespace (msm_ObjectMeta m) = ns \<and> label_of k (msm_ObjectMeta m) = Some v"
  by (simp add: selected_def)

abbreviation machine_key :: "lib \<Rightarrow> MetalStackMachine \<Rightarrow> NamespacedName" where
  "machine_key L m \<equiv> ObjectKeyFromObject L (msm_ObjectMeta m)"

text \<open>A change of a cluster enqueues exactly its infrastructure machines: the stored ones of its
  namespace that carry the cluster's name as their cluster label.\<close>

theorem cluster_change_enqueues_machines:
  assumes "\<And>h q. kube_ListMachines E h q = Inr (filter (selected q) stored)"
  shows "\<exists>ks s'. clusterToMetalStackMachine L E (CCluster c) s = (Some ks, s') \<and>
    set ks = machine_key L ` {m \<in> set stored.
      Namespace (msm_ObjectMeta m) = Namespace (cluster_ObjectMeta c) \<and>
      label_of (ClusterNameLabel L) (msm_ObjectMeta m) = Some (Name (cluster_ObjectMeta c))}"
  using cluster_machines.watch_exact [of E s selected stored L "CCluster c"] assms
  by (simp add: cluster_query_def)

theorem cluster_change_enqueues_machines_witness:
  "\<exists>ks s'. clusterToMetalStackMachine lib0
      (env0\<lparr>kube_ListMachines := \<lambda>h q. Inr (filter (selected q)
        [msm0\<lparr>msm_ObjectMeta := meta0\<lparr>Labels := Some [''cluster.x-k8s.io/cluster-name'' \<mapsto> ''c1'']\<rparr>\<rparr>])\<rparr>)
      (CCluster cluster0) \<lparr>hist = [], self = ()\<rparr> = (Some ks, s') \<and>
    \<lparr>nnNamespace = ''ns'', nnName = ''c1''\<rparr> \<in> set ks"
proof -
  let ?m = "msm0\<lparr>msm_ObjectMeta := meta0\<lparr>Labels := Some [''cluster.x-k8s.io/cluster-name'' \<mapsto> ''c1'']\<rparr>\<rparr>"
  let ?E = "env0\<lparr>kube_ListMachines := \<lambda>h q. Inr (filter (selected q) [?m])\<rparr>"
  have E: "kube_ListMachines ?E h q = Inr (filter (selected q) [?m])" for h q by simp
  have "Namespace (cluster_ObjectMeta cluster0) = ''ns''" "Name (cluster_ObjectMeta cluster0) = ''c1''"
    "machine_key lib0 ?m = \<lparr>nnNamespace = ''ns'', nnName = ''c1''\<rparr>"
    "Namespace (msm_ObjectMeta ?m) = ''ns''"
    "label_of ''cluster.x-k8s.io/cluster-name'' (msm_ObjectMeta ?m) = Some ''c1''"
    by (simp_all add: objects0 label_of_def)
  then have "\<lparr>nnNamespace = ''ns'', nnName = ''c1''\<rparr> \<in> machine_key lib0 ` {m \<in> set [?m].
      Namespace (msm_ObjectMeta m) = Namespace (cluster_ObjectMeta cluster0) \<and>
      label_of (ClusterNameLabel lib0) (msm_ObjectMeta m) = Some (Name (cluster_ObjectMeta cluster0))}"
    by (intro image_eqI [of _ _ ?m]) simp_all
  with cluster_change_enqueues_machines [of ?E "[?m]" lib0 cluster0 "\<lparr>hist = [], self = ()\<rparr>", OF E]
  show ?thesis by metis
qed

definition indexed :: "string \<Rightarrow> string \<Rightarrow> MetalStackFirewallDeployment \<Rightarrow> bool" where
  "indexed ns t d \<longleftrightarrow> Namespace (msfd_ObjectMeta d) = ns \<and>
     t \<in> set (index_firewallTemplateRef (CFirewallDeployment d))"

text \<open>A change of a firewall template enqueues exactly the deployments of its namespace that
  refer to it by name, through the index the controller registers.\<close>

theorem template_change_enqueues_deployments:
  assumes "\<And>h ns t. kube_ListFirewallDeployments E h ns t = Inr (filter (indexed ns t) stored)"
  shows "\<exists>ks s'. metalStackFirewallTemplateToMetalStackFirewallDeployment E (CFirewallTemplate tmpl) s =
      (Some ks, s') \<and>
    set ks = {\<lparr>nnNamespace = Namespace (msft_ObjectMeta tmpl), nnName = Name (msfd_ObjectMeta d)\<rparr> |d.
      d \<in> set stored \<and> Namespace (msfd_ObjectMeta d) = Namespace (msft_ObjectMeta tmpl) \<and>
      ftrName (FirewallTemplateRef (msfd_Spec d)) = Name (msft_ObjectMeta tmpl)}"
proof -
  have "\<exists>ks s'. metalStackFirewallTemplateToMetalStackFirewallDeployment E (CFirewallTemplate tmpl) s =
      (Some ks, s') \<and>
    set ks = (\<lambda>d. \<lparr>nnNamespace = Namespace (msfd_ObjectMeta d), nnName = Name (msfd_ObjectMeta d)\<rparr>) `
      {d \<in> set stored. \<exists>q. template_query (CFirewallTemplate tmpl) = Some q \<and> (case q of (ns, t) \<Rightarrow> indexed ns t d)}"
    by (rule template_deployments.watch_exact) (simp add: assms split: prod.split)
  moreover have "(\<lambda>d. \<lparr>nnNamespace = Namespace (msfd_ObjectMeta d), nnName = Name (msfd_ObjectMeta d)\<rparr>) `
      {d \<in> set stored. \<exists>q. template_query (CFirewallTemplate tmpl) = Some q \<and>
         (case q of (ns, t) \<Rightarrow> indexed ns t d)} =
    {\<lparr>nnNamespace = Namespace (msft_ObjectMeta tmpl), nnName = Name (msfd_ObjectMeta d)\<rparr> |d.
      d \<in> set stored \<and> Namespace (msfd_ObjectMeta d) = Namespace (msft_ObjectMeta tmpl) \<and>
      ftrName (FirewallTemplateRef (msfd_Spec d)) = Name (msft_ObjectMeta tmpl)}"
    by (auto simp: template_query_def indexed_def index_firewallTemplateRef_def)
  ultimately show ?thesis by simp
qed

theorem template_change_enqueues_deployments_witness:
  "\<exists>ks s'. metalStackFirewallTemplateToMetalStackFirewallDeployment
      (env0\<lparr>kube_ListFirewallDeployments := \<lambda>h ns t. Inr (filter (indexed ns t) [msfd0])\<rparr>)
      (CFirewallTemplate msft0) \<lparr>hist = [], self = ()\<rparr> = (Some ks, s') \<and>
    set ks = {\<lparr>nnNamespace = ''ns'', nnName = ''c1''\<rparr>}"
proof -
  let ?E = "env0\<lparr>kube_ListFirewallDeployments := \<lambda>h ns t. Inr (filter (indexed ns t) [msfd0])\<rparr>"
  have E: "kube_ListFirewallDeployments ?E h ns t = Inr (filter (indexed ns t) [msfd0])" for h ns t
    by simp
  from template_change_enqueues_deployments [of ?E "[msfd0]" msft0 "\<lparr>hist = [], self = ()\<rparr>", OF E]
  show ?thesis by (auto simp: objects0)
qed

text \<open>A change of an infrastructure machine enqueues at most one cluster, and only one that was
  read in the same run for the machine's own cluster, whose infrastructure is of the provider's
  kind and which is not managed externally.\<close>

theorem machine_change_enqueues_cluster:
  "\<exists>ks s' tr. metalStackMachineToMetalStackCluster L E obj s = (Some ks, s') \<and>
    hist s' = hist s @ tr \<and> list_all (\<lambda>e. \<not> is_metal e) tr \<and>
    (ks = [] \<or> (\<exists>c ic. ks = [ObjectKeyFromObject L (msc_ObjectMeta ic)] \<and>
       last tr = Kube (GetMetalStackCluster (infra_cluster_key L c) (Inr ic)) \<and>
       (\<exists>m. Kube (GetClusterFromMetadata m (Inr (Some c))) \<in> set tr) \<and>
       irKind (cluster_InfrastructureRef c) = MetalStackClusterKind \<and>
       \<not> IsExternallyManaged L (msc_ObjectMeta ic)))"
proof (cases "\<exists>im. obj = CMetalStackMachine im")
  case True
  then show ?thesis
    by (auto simp: metalStackMachineToMetalStackCluster_def exec split: sum.split option.split)
next
  case False
  then show ?thesis
    by (auto simp: metalStackMachineToMetalStackCluster_def exec split: client_object.split)
qed

text \<open>C40. A change of a cluster never enqueues the infrastructure cluster of a namespaced server: the
  map function looks it up and enqueues it by a key without the namespace, so a server that
  finds nothing in the empty namespace gives no key at all.\<close>

theorem cluster_change_loses_namespace:
  assumes "\<And>h n. \<exists>e. kube_GetMetalStackCluster E h \<lparr>nnNamespace = [], nnName = n\<rparr> = Inl e"
  shows "fst (clusterToMetalStackCluster L E (CCluster c) s) = Some []"
  using assms [of "hist s" "irName (cluster_InfrastructureRef c)"]
  by (auto simp: clusterToMetalStackCluster_def exec Let_def)

theorem cluster_change_loses_namespace_witness:
  "fst (clusterToMetalStackCluster lib0
      (env0\<lparr>kube_GetMetalStackCluster := \<lambda>h k. if nnNamespace k = [] then Inl not_found else Inr msc0\<rparr>)
      (CCluster cluster0) \<lparr>hist = [], self = ()\<rparr>) = Some []"
  by (rule cluster_change_loses_namespace) simp

end
