(* ===== verification/Lifetime.thy ===== *)
theory Lifetime
  imports External
begin

text \<open>
  The life of an object under a controller: a sequence of \<open>Reconcile\<close> runs on the stored
  object, with changes by other actors in between. A run starts from the stored object, in any
  history, and what it leaves in the object is stored when its last call is a successful
  patch. A run that panics, or whose patch fails, is lost: its calls have happened, but the
  stored object stays. The relation counts the lost runs, collects the calls of all runs, and
  logs the edits of the others as pairs of the object before and after.

  The locales are two contracts a controller's runs can keep, lifted to whole lives by rule
  induction. What the others do is no part of the contracts: it is read off the log.
\<close>

inductive lifetime ::
    "('r st, 'b) go set \<Rightarrow> ('r \<Rightarrow> 'o) \<Rightarrow> (event \<Rightarrow> 'o option) \<Rightarrow> ('o \<Rightarrow> 'o \<Rightarrow> bool) \<Rightarrow>
       'o \<Rightarrow> nat \<Rightarrow> ('o \<times> 'o) list \<Rightarrow> history \<Rightarrow> 'o \<Rightarrow> bool"
  for ms obj persisted edit "first" where
  born: "lifetime ms obj persisted edit first 0 [] [] first"
| edited: "lifetime ms obj persisted edit first k es tr cur \<Longrightarrow> edit cur cur' \<Longrightarrow>
     lifetime ms obj persisted edit first k (es @ [(cur, cur')]) tr cur'"
| reconciled: "lifetime ms obj persisted edit first k es tr cur \<Longrightarrow>
     m \<in> ms \<Longrightarrow> obj (self s) = cur \<Longrightarrow> m s = (Some x, s') \<Longrightarrow> hist s' = hist s @ tr' @ [e] \<Longrightarrow>
     persisted e = Some cur' \<Longrightarrow>
     lifetime ms obj persisted edit first k es (tr @ tr' @ [e]) cur'"
| lost: "lifetime ms obj persisted edit first k es tr cur \<Longrightarrow>
     m \<in> ms \<Longrightarrow> obj (self s) = cur \<Longrightarrow> m s = (y, s') \<Longrightarrow> hist s' = hist s @ tr' \<Longrightarrow>
     lifetime ms obj persisted edit first (Suc k) es (tr @ tr') cur"

lemma logged_edits:
  "lifetime ms obj persisted edit first k es tr cur \<Longrightarrow> (a, b) \<in> set es \<Longrightarrow> edit a b"
  by (induction rule: lifetime.induct) auto

text \<open>How many edits of the log established and how many ended a property of the object.\<close>

definition edits_to :: "('o \<Rightarrow> bool) \<Rightarrow> ('o \<times> 'o) list \<Rightarrow> nat" where
  "edits_to P es = length (filter (\<lambda>(a, b). \<not> P a \<and> P b) es)"

lemma edits_to_simps [simp]:
  "edits_to P [] = 0"
  "edits_to P (es @ [(a, b)]) = edits_to P es + of_bool (\<not> P a \<and> P b)"
  by (simp_all add: edits_to_def)

lemma edits_to_none: "(\<And>a b. (a, b) \<in> set es \<Longrightarrow> P b = P a) \<Longrightarrow> edits_to P es = 0"
  by (auto simp: edits_to_def filter_empty_conv)

text \<open>A property of the object that every stored run keeps: only an edit can end it.\<close>

locale kept =
  fixes ms :: "('r st, 'b) go set"
    and obj :: "'r \<Rightarrow> 'o"
    and persisted :: "event \<Rightarrow> 'o option"
    and safe :: "'o \<Rightarrow> bool"
  assumes run_safe: "m \<in> ms \<Longrightarrow> m s = (Some x, s') \<Longrightarrow> hist s' = hist s @ tr @ [e] \<Longrightarrow>
      persisted e = Some cur' \<Longrightarrow> safe (obj (self s)) \<Longrightarrow> safe cur'"
begin

lemma unsafe_by_others:
  assumes "lifetime ms obj persisted edit first k es tr cur" and "\<not> safe cur"
  shows "\<not> safe first \<or> (\<exists>(a, b) \<in> set es. safe a \<and> \<not> safe b)"
  using assms
proof (induction rule: lifetime.induct)
  case (reconciled k es tr cur m s x s' tr' e cur')
  then show ?case using run_safe by metis
qed auto

end

text \<open>
  Whether an object holds something, against what the calls acquired and released and what
  edits gave and took. A stored run balances them. A lost one can leak what it acquired, which
  is at most one thing.
\<close>

locale accounting =
  fixes ms :: "('r st, 'b) go set"
    and obj :: "'r \<Rightarrow> 'o"
    and persisted :: "event \<Rightarrow> 'o option"
    and holds :: "'o \<Rightarrow> bool"
    and acquires :: "event \<Rightarrow> bool"
    and releases :: "event \<Rightarrow> bool"
  assumes run_holds: "m \<in> ms \<Longrightarrow> m s = (Some x, s') \<Longrightarrow> hist s' = hist s @ tr @ [e] \<Longrightarrow>
      persisted e = Some cur' \<Longrightarrow>
      of_bool (holds (obj (self s))) + length (filter acquires (tr @ [e])) =
      of_bool (holds cur') + length (filter releases (tr @ [e]))"
    and run_acquires: "m \<in> ms \<Longrightarrow> emits_at_most 1 acquires m"
begin

definition gained :: "('o \<times> 'o) list \<Rightarrow> history \<Rightarrow> nat" where
  "gained es tr = length (filter acquires tr) + edits_to holds es"

definition given_up :: "('o \<times> 'o) list \<Rightarrow> history \<Rightarrow> nat" where
  "given_up es tr = length (filter releases tr) + edits_to (\<lambda>i. \<not> holds i) es"

lemma balance_run:
  assumes "m \<in> ms" and "m s = (Some x, s')" and "hist s' = hist s @ tr' @ [e]"
    and "persisted e = Some cur'"
  shows "of_bool (holds (obj (self s))) + gained es (tr @ tr' @ [e]) + given_up es tr =
    of_bool (holds cur') + given_up es (tr @ tr' @ [e]) + gained es tr"
proof -
  have "filter P (tr @ tr' @ [e]) = filter P tr @ filter P (tr' @ [e])" for P by simp
  with run_holds [OF assms] show ?thesis by (simp only: gained_def given_up_def length_append)
qed

lemma balance_edit:
  "of_bool (holds cur) + gained (es @ [(cur, cur')]) tr + given_up es tr =
   of_bool (holds cur') + given_up (es @ [(cur, cur')]) tr + gained es tr"
  by (simp add: gained_def given_up_def)

lemma balance:
  assumes "lifetime ms obj persisted edit first k es tr cur" and "k = 0"
  shows "of_bool (holds first) + gained es tr = of_bool (holds cur) + given_up es tr"
  using assms
proof (induction rule: lifetime.induct)
  case (reconciled k es tr cur m s x s' tr' e cur')
  from balance_run [OF reconciled.hyps(2,4-6), of es tr] reconciled.IH reconciled.prems
    reconciled.hyps(3) show ?case by simp
next
  case (edited k es tr cur cur')
  from balance_edit [of cur es cur' tr] edited.IH edited.prems show ?case by simp
qed (simp_all add: gained_def given_up_def)

lemma leaks:
  assumes "lifetime ms obj persisted edit first k es tr cur"
  shows "of_bool (holds first) + gained es tr \<le> of_bool (holds cur) + given_up es tr + k"
  using assms
proof (induction rule: lifetime.induct)
  case (reconciled k es tr cur m s x s' tr' e cur')
  from balance_run [OF reconciled.hyps(2,4-6), of es tr] reconciled.IH reconciled.hyps(3)
  show ?case by simp
next
  case (edited k es tr cur cur')
  from balance_edit [of cur es cur' tr] edited.IH show ?case by simp
next
  case (lost k es tr cur m s y s' tr')
  have "length (filter acquires tr') \<le> 1"
    using emits_at_mostD [OF run_acquires [OF lost.hyps(2)] lost.hyps(4,5)] .
  with lost.IH show ?case by (simp add: gained_def given_up_def)
qed (simp add: gained_def given_up_def)

end

end
