(* ===== verification/LifetimeProperties.thy ===== *)
theory LifetimeProperties
  imports Lifetime ClusterProperties MachineProperties FirewallProperties
begin

text \<open>
  The contracts of \<open>Lifetime\<close> for the cluster and the machine controller: what is held at the
  metal-stack API over the whole life of an object.
\<close>

section \<open>The node network of a cluster\<close>

fun stored_cluster :: "event \<Rightarrow> MetalStackCluster option" where
  "stored_cluster (Kube (PatchObject (OCluster before) (OCluster ic) None)) = Some ic"
| "stored_cluster _ = None"

fun acquires_network :: "event \<Rightarrow> bool" where
  "acquires_network (Metal (AllocateNetwork q (Inr nw))) = True"
| "acquires_network _ = False"

fun releases_network :: "event \<Rightarrow> bool" where
  "releases_network (Metal (FreeNetwork i None)) = True"
| "releases_network _ = False"

definition network_event :: "event \<Rightarrow> bool" where
  "network_event e \<longleftrightarrow> acquires_network e \<or> releases_network e"

definition names_network :: "MetalStackCluster \<Rightarrow> bool" where
  "names_network ic \<longleftrightarrow> NodeNetworkID (msc_Spec ic) \<noteq> None"

abbreviation networks_held :: "MetalStackCluster \<Rightarrow> nat" where
  "networks_held ic \<equiv> of_bool (names_network ic)"

lemmas networks_held_def = names_network_def

definition cluster_runs :: "lib \<Rightarrow> (clusterReconciler st, go_error option) go set" where
  "cluster_runs L = {cluster_dispatch L E |E. True}"

text \<open>The balance of a run, while it runs: \<open>accounts s\<close> holds after calls that changed what is held
  as the object says.\<close>

definition accounts :: "clusterReconciler st \<Rightarrow> clusterReconciler st \<Rightarrow> bool" where
  "accounts s s' \<longleftrightarrow> (\<exists>tr. hist s' = hist s @ tr \<and>
     networks_held (infra s) + length (filter acquires_network tr) =
     networks_held (infra s') + length (filter releases_network tr))"

lemma accounts_trans: "accounts s s' \<Longrightarrow> accounts s' s'' \<Longrightarrow> accounts s s''"
  unfolding accounts_def by (elim exE conjE) (rule exI, auto)

lemma accounts_quiet:
  assumes "hist s' = hist s @ tr" and "list_all (\<lambda>e. \<not> network_event e) tr"
    and "NodeNetworkID (spec s') = NodeNetworkID (spec s)"
  shows "accounts s s'"
proof -
  have "filter acquires_network tr = []" "filter releases_network tr = []"
    using assms(2) by (auto simp: list_all_iff network_event_def filter_empty_conv)
  with assms(1,3) show ?thesis by (simp add: accounts_def networks_held_def)
qed

lemma node_network_accounts:
  "wp (reconcile_node_network L E) (\<lambda>x s'. x = None \<or> accounts s s') s"
  unfolding reconcile_node_network_def ensureNodeNetwork_def Let_def
  by (auto simp: wp_simps accounts_def networks_held_def set_cluster_condition_def
      MetalStackCluster_SetConditions_def split: option.split sum.split)

lemma quiet_accounts:
  assumes "emits (\<lambda>e. \<not> network_event e) m"
    and "wp m (\<lambda>x s'. NodeNetworkID (spec s') = NodeNetworkID (spec s)) s"
  shows "wp m (\<lambda>x s'. accounts s s') s"
proof -
  obtain tr where "hist (snd (m s)) = hist s @ tr" "list_all (\<lambda>e. \<not> network_event e) tr"
    using assms(1) unfolding emits_def by blast
  with assms(2) show ?thesis by (auto simp: wp_def intro: accounts_quiet)
qed

lemma firewall_step_accounts:
  "wp (reconcile_firewall_deployment L E) (\<lambda>x s'. accounts s s') s"
proof (rule quiet_accounts)
  show "emits (\<lambda>e. \<not> network_event e) (reconcile_firewall_deployment L E)"
    unfolding reconcile_firewall_deployment_def by (intro emits_intros) (simp_all add: network_event_def)
  show "wp (reconcile_firewall_deployment L E) (\<lambda>x s'. NodeNetworkID (spec s') = NodeNetworkID (spec s)) s"
    unfolding reconcile_firewall_deployment_def cluster_ensureFirewallDeployment_def
      firewall_deployment_key_def Let_def
    by (simp add: wp_simps set_cluster_condition_def MetalStackCluster_SetConditions_def
        split: option.split sum.split)
qed

lemma control_plane_accounts:
  "wp (reconcile_control_plane L E) (\<lambda>x s'. accounts s s') s"
proof (rule quiet_accounts)
  show "emits (\<lambda>e. \<not> network_event e) (reconcile_control_plane L E)"
    unfolding reconcile_control_plane_def by (intro emits_intros) (simp_all add: network_event_def)
  show "wp (reconcile_control_plane L E) (\<lambda>x s'. NodeNetworkID (spec s') = NodeNetworkID (spec s)) s"
    unfolding reconcile_control_plane_def ensureControlPlaneIP_def Let_def
    by (simp add: wp_simps set_cluster_condition_def MetalStackCluster_SetConditions_def
        split: option.split sum.split list.split)
qed

lemma release_accounts:
  "wp (cluster_release L E) (\<lambda>x s'. accounts s s') s"
proof -
  have ip: "wp (deleteControlPlaneIP L E) (\<lambda>x s'. accounts s s') s"
  proof (rule quiet_accounts)
    show "emits (\<lambda>e. \<not> network_event e) (deleteControlPlaneIP L E)"
      by (intro emits_intros) (simp_all add: network_event_def)
    show "wp (deleteControlPlaneIP L E) (\<lambda>x s'. NodeNetworkID (spec s') = NodeNetworkID (spec s)) s"
      unfolding deleteControlPlaneIP_def by (simp add: wp_simps split: option.split sum.split)
  qed
  have net: "wp (bnd (deleteNodeNetwork E) (\<lambda>err.
      case err of Some e \<Rightarrow> ret (Some (ErrWrap ''unable to delete node network'' e)) | None \<Rightarrow>
      bnd (modify_cluster_spec (\<lambda>sp. sp\<lparr>NodeNetworkID := None\<rparr>)) (\<lambda>_.
      bnd (modify_cluster (remove_cluster_finalizer L)) (\<lambda>_. ret None))))
    (\<lambda>x s'. accounts t s') t" for t
    unfolding deleteNodeNetwork_def
    by (simp add: wp_simps accounts_def networks_held_def remove_cluster_finalizer_def
        split: option.split)
  have upd: "accounts t (t\<lparr>self := cr_infraCluster_update (msc_Spec_update (\<lambda>sp. sp\<lparr>ControlPlaneIP := None\<rparr>)) (self t)\<rparr>)" for t
    by (simp add: accounts_def networks_held_def)
  show ?thesis unfolding cluster_release_def
    by (simp add: wp_simps, rule wp_mono [OF ip])
      (auto simp: wp_simps split: option.split
         intro!: wp_mono [OF net [unfolded wp_bnd wp_case_option]] elim: accounts_trans [OF accounts_trans [OF _ upd]])
qed

text \<open>A program accounts for what it did, unless it panics.\<close>

definition accounted :: "'a cluster_prog \<Rightarrow> bool" where
  "accounted m \<longleftrightarrow> (\<forall>s. wp m (\<lambda>x s'. x = None \<or> accounts s s') s)"

lemma accounted_quiet: "(\<And>s. wp m (\<lambda>x s'. accounts s s') s) \<Longrightarrow> accounted m"
  unfolding accounted_def by (blast intro: wp_mono)

lemma accounted_simps [simp]:
  "accounted (ret x)" "accounted get_self"
  "(\<And>r. NodeNetworkID (msc_Spec (cr_infraCluster (f r))) = NodeNetworkID (msc_Spec (cr_infraCluster r))) \<Longrightarrow>
     accounted (mod_self f)"
  by (simp_all add: accounted_def wp_simps accounts_def networks_held_def)

lemma accounted_bnd:
  assumes "accounted m" and "\<And>y. accounted (f y)"
  shows "accounted (bnd m f)"
  unfolding accounted_def
proof
  fix s
  obtain x t where m: "m s = (x, t)" by fastforce
  have "x = None \<or> accounts s t"
    using assms(1) m wpD by (fastforce simp: accounted_def)
  moreover have "wp (f y) (\<lambda>x s'. x = None \<or> accounts t s') t" for y
    using assms(2) by (simp add: accounted_def)
  ultimately show "wp (bnd m f) (\<lambda>x s'. x = None \<or> accounts s s') s"
    using m by (auto simp: wp_def exec split: option.split prod.split intro: accounts_trans)
qed

lemma accounted_branches:
  "accounted m \<Longrightarrow> accounted n \<Longrightarrow> accounted (if b then m else n)"
  "accounted m \<Longrightarrow> (\<And>y. accounted (f y)) \<Longrightarrow>
     accounted (case z of None \<Rightarrow> m | Some y \<Rightarrow> f y)"
  by (simp_all split: option.split)

lemmas accounted_intros = accounted_bnd accounted_branches accounted_simps(1,2)

lemma accounted_steps:
  "accounted (reconcile_node_network L E)"
  "accounted (reconcile_firewall_deployment L E)"
  "accounted (reconcile_control_plane L E)"
  "accounted (cluster_release L E)"
  "accounted (cluster_ensureAllMetalStackMachinesAreGone L E)"
  "accounted (ensureFirewallDeploymentIsGone L E)"
proof -
  show "accounted (reconcile_node_network L E)"
    using node_network_accounts by (simp add: accounted_def)
  show "accounted (cluster_ensureAllMetalStackMachinesAreGone L E)"
    by (intro accounted_quiet quiet_accounts emits_intros)
      (auto simp: network_event_def intro: wp_mono [OF cluster_gate.gate_asks])
  show "accounted (ensureFirewallDeploymentIsGone L E)"
    by (intro accounted_quiet quiet_accounts emits_intros)
      (auto simp: network_event_def intro: wp_mono [OF firewall_gone_step])
qed (intro accounted_quiet firewall_step_accounts control_plane_accounts release_accounts)+

lemma accounted_switch: "accounted (cluster_switch L E)"
  unfolding cluster_switch_def cluster_reconcile_def cluster_delete_def
  by (intro accounted_intros accounted_steps accounted_simps(3))
    (simp_all add: mark_cluster_ready_def add_cluster_finalizer_def)

lemma cluster_dispatch_stored:
  assumes "cluster_dispatch L E s = (Some x, s')" and "hist s' = hist s @ tr @ [e]"
    and "stored_cluster e = Some ic"
  shows "\<exists>t y u helper. self t = mark_cluster_paused L (self s) \<and>
    hist t = hist s @ [helper] \<and> \<not> network_event helper \<and> \<not> network_event e \<and>
    cluster_switch L E t = (Some y, u) \<and> infra u = ic \<and> hist u = hist s @ tr"
proof -
  from cluster_rec.dispatch_runs [OF assms(1)] assms(2,3) obtain t y u where
    t: "do_NewHelper E (OCluster (infra s)) s = (Some None, t)"
    and b: "cluster_switch L E (t\<lparr>self := mark_cluster_paused L (self s)\<rparr>) = (Some y, u)"
    and p: "cluster_patch E (self s) y u = (Some x, s')"
    by (auto simp: exec)
  from p obtain v where
    "hist s' = hist u @ [Kube (PatchObject (OCluster (infra s)) (OCluster (infra u)) v)]"
    by (auto simp: cluster_patch_def exec split: option.splits)
  with assms(2) have e: "e = Kube (PatchObject (OCluster (infra s)) (OCluster (infra u)) v)"
    "hist u = hist s @ tr" by auto
  with assms(3) have "infra u = ic" by (cases v) simp_all
  with b t e show ?thesis
    by (intro exI [of _ "t\<lparr>self := mark_cluster_paused L (self s)\<rparr>"] exI [of _ y] exI [of _ u])
      (auto simp: network_event_def exec)
qed

text \<open>However a run ends, it has acquired at most one network.\<close>

lemma ensureNodeNetwork_acquires: "emits_at_most 1 acquires_network (ensureNodeNetwork L E)"
  unfolding ensureNodeNetwork_def Let_def
  by (intro emits_at_most_last emits_at_most_branches emits_at_most_first emits_at_most_call
      emits_intros) (auto intro!: emits_none emits_intros)

lemma cluster_reconcile_acquires: "emits_at_most 1 acquires_network (cluster_reconcile L E)"
  unfolding cluster_reconcile_def reconcile_node_network_def reconcile_firewall_deployment_def
    reconcile_control_plane_def
  by (intro emits_at_most_first ensureNodeNetwork_acquires) (intro emits_intros; simp)+

lemma cluster_delete_acquires: "emits (\<lambda>e. \<not> acquires_network e) (cluster_delete L E)"
  unfolding cluster_delete_def cluster_release_def by (intro emits_intros; simp)

lemma cluster_dispatch_acquires: "emits_at_most 1 acquires_network (cluster_dispatch L E)"
proof -
  have "emits_at_most 1 acquires_network (cluster_switch L E)"
    unfolding cluster_switch_def
    by (intro emits_at_most_last emits_at_most_branches cluster_reconcile_acquires)
      (auto intro!: emits_none emits_intros cluster_delete_acquires)
  then show ?thesis
    unfolding cluster_dispatch_def
    by (intro emits_at_most_last emits_at_most_branches emits_at_most_first)
      (auto intro!: emits_none emits_intros)
qed

interpretation network_accounting:
  accounting "cluster_runs L" cr_infraCluster stored_cluster names_network acquires_network
    releases_network for L
proof unfold_locales
  fix m s x s' tr e cur'
  assume "m \<in> cluster_runs L" and run: "m s = (Some x, s')" "hist s' = hist s @ tr @ [e]"
    "stored_cluster e = Some cur'"
  then obtain E where "m = cluster_dispatch L E" by (auto simp: cluster_runs_def)
  from cluster_dispatch_stored [OF run [unfolded this]] obtain t y u helper where
    d: "self t = mark_cluster_paused L (self s)" "hist t = hist s @ [helper]"
      "\<not> network_event helper" "\<not> network_event e" "cluster_switch L E t = (Some y, u)"
      "infra u = cur'" "hist u = hist s @ tr" by blast
  have "accounts t u"
    using accounted_switch [of L E] d(5) wpD by (fastforce simp: accounted_def)
  then obtain tr' where "hist u = hist t @ tr'"
    "networks_held (infra t) + length (filter acquires_network tr') =
     networks_held (infra u) + length (filter releases_network tr')" by (auto simp: accounts_def)
  with d show "networks_held (cr_infraCluster (self s)) + length (filter acquires_network (tr @ [e])) =
      networks_held cur' + length (filter releases_network (tr @ [e]))"
    by (auto simp: network_event_def networks_held_def)
next
  show "emits_at_most 1 acquires_network m" if "m \<in> cluster_runs L" for m
    using that cluster_dispatch_acquires by (auto simp: cluster_runs_def)
qed

text \<open>C2. Node networks are neither leaked nor freed twice while runs are stored. Over the whole life of
  a cluster object, with any number of runs and any edits by others, whether it is born with a
  network of the user or without: the networks it comes with, those allocated and those others
  enter are exactly the one it names in the end, those freed and those others take out. A run
  that is lost, by a panic or a failed patch, leaks at most one.\<close>

theorem cluster_networks_balance:
  assumes "lifetime (cluster_runs L) cr_infraCluster stored_cluster (\<lambda>_ _. True) ic0 lost_runs es tr ic"
  defines "allocated \<equiv> length (filter acquires_network tr)"
    and "freed \<equiv> length (filter releases_network tr)"
    and "entered \<equiv> edits_to names_network es"
    and "taken \<equiv> edits_to (\<lambda>i. \<not> names_network i) es"
  shows "of_bool (names_network ic0) + allocated + entered \<le>
      of_bool (names_network ic) + freed + taken + lost_runs \<and>
    (lost_runs = 0 \<longrightarrow> of_bool (names_network ic0) + allocated + entered =
      of_bool (names_network ic) + freed + taken)"
  using network_accounting.balance [OF assms(1)] network_accounting.leaks [OF assms(1)]
  unfolding network_accounting.gained_def network_accounting.given_up_def assms(2-) add.assoc
  by blast

text \<open>The finalizer protects what the object names.\<close>

definition cluster_protected :: "MetalStackCluster \<Rightarrow> bool" where
  "cluster_protected ic \<longleftrightarrow> NodeNetworkID (msc_Spec ic) = None \<or>
     ClusterFinalizer \<in> set (Finalizers (msc_ObjectMeta ic))"

lemma cluster_delete_protected:
  assumes "finalizer_laws L" and "cluster_delete L E s = (Some y, u)" and "cluster_protected (infra s)"
  shows "cluster_protected (infra u)"
proof (cases "cluster_has_finalizer L (self s)")
  case False
  with assms(2,3) show ?thesis by (simp add: cluster_rec.delete_guard)
next
  case True
  then have fin: "ClusterFinalizer \<in> set (Finalizers (msc_ObjectMeta (infra s)))"
    using assms(1) by (simp add: cluster_has_finalizer_def)
  from cluster_delete_gate [OF True assms(2)] show ?thesis
  proof (elim disjE exE conjE)
    fix s2 pre assume "self s2 = self s" and r: "cluster_release L E s2 = (Some y, u)"
    with wpD [OF cluster_release_step r] fin show ?thesis
      by (auto simp: cluster_protected_def)
  qed (use assms(3) in simp)
qed

lemma cluster_switch_protected:
  assumes "conditions_laws L" and "finalizer_laws L"
    and "cluster_switch L E s = (Some y, u)" and "cluster_protected (infra s)"
  shows "cluster_protected (infra u)"
proof -
  from assms(3) consider "self u = self s"
    | "cluster_delete L E s = (Some y, u)"
    | "self u = add_cluster_finalizer L (self s)"
    | "cluster_has_finalizer L (self s)" "cluster_reconcile L E s = (Some y, u)"
    by (auto simp: cluster_switch_def exec split: if_splits)
  then show ?thesis
  proof cases
    case 2
    then show ?thesis using cluster_delete_protected assms(2,4) by blast
  next
    case 3
    then show ?thesis using assms(2,4) by (simp add: cluster_protected_def add_cluster_finalizer_def)
  next
    case 4
    with cluster_reconcile_frame [OF assms(1) 4(2)] assms(2) show ?thesis
      by (simp add: cluster_protected_def cluster_has_finalizer_def same_frame_def)
  qed (use assms(4) in simp)
qed

interpretation network_protection:
  kept "cluster_runs L" cr_infraCluster stored_cluster
    "\<lambda>ic. conditions_laws L \<and> finalizer_laws L \<longrightarrow> cluster_protected ic" for L
proof unfold_locales
  fix m s x s' tr e cur'
  assume "m \<in> cluster_runs L" and run: "m s = (Some x, s')" "hist s' = hist s @ tr @ [e]"
    "stored_cluster e = Some cur'"
    and safe: "conditions_laws L \<and> finalizer_laws L \<longrightarrow> cluster_protected (cr_infraCluster (self s))"
  then obtain E where "m = cluster_dispatch L E" by (auto simp: cluster_runs_def)
  from cluster_dispatch_stored [OF run [unfolded this]] obtain t y u where
    d: "self t = mark_cluster_paused L (self s)" "cluster_switch L E t = (Some y, u)"
      "infra u = cur'" by blast
  have "cluster_protected (infra t) = cluster_protected (infra s)"
    by (simp add: d(1) cluster_protected_def)
  with safe d(2,3) show "conditions_laws L \<and> finalizer_laws L \<longrightarrow> cluster_protected cur'"
    using cluster_switch_protected [of L E t y u] by auto
qed

text \<open>A stored run on an object that is neither paused nor deleted leaves the finalizer on it.\<close>

lemma cluster_run_guards:
  assumes "conditions_laws L" and "finalizer_laws L"
    and "cluster_dispatch L E s = (Some x, s')" and "hist s' = hist s @ tr @ [e]"
    and "stored_cluster e = Some ic"
    and "IsZero L (DeletionTimestamp (msc_ObjectMeta (infra s)))"
    and "\<not> IsPaused L (cr_cluster (self s)) (msc_ObjectMeta (infra s))"
  shows "ClusterFinalizer \<in> set (Finalizers (msc_ObjectMeta ic))"
proof -
  from cluster_dispatch_stored [OF assms(3-5)] obtain t y u where
    d: "self t = mark_cluster_paused L (self s)" "cluster_switch L E t = (Some y, u)"
      "infra u = ic" by blast
  have "\<not> cluster_paused L (self t)" "\<not> cluster_deleting L (self t)"
    using assms(6,7) by (simp_all add: d(1) cluster_paused_def cluster_deleting_def)
  with d(2) consider "self u = add_cluster_finalizer L (self t)"
    | "cluster_has_finalizer L (self t)" "cluster_reconcile L E t = (Some y, u)"
    by (auto simp: cluster_switch_def exec split: if_splits)
  then show ?thesis
  proof cases
    case 1
    with d(3) assms(2) show ?thesis by (auto simp: add_cluster_finalizer_def)
  next
    case 2
    with cluster_reconcile_frame [OF assms(1) 2(2)] d(3) assms(2) show ?thesis
      by (simp add: cluster_has_finalizer_def same_frame_def)
  qed
qed

text \<open>C8. The controller never leaves a node network without the finalizer. Over any life of a cluster
  object, with failing patches, panics and any edits between the runs, an object that names a
  network and does not carry the finalizer was born so, or the log has the edit by which somebody
  else took the finalizer off or entered the network. And an object in that state gets the
  finalizer by the next stored run that finds it neither paused nor deleted.\<close>

theorem cluster_network_protected:
  assumes "conditions_laws L" and "finalizer_laws L"
    and "lifetime (cluster_runs L) cr_infraCluster stored_cluster (\<lambda>_ _. True) ic0 lost_runs es tr ic"
  defines "unguarded i \<equiv> NodeNetworkID (msc_Spec i) \<noteq> None \<and>
      ClusterFinalizer \<notin> set (Finalizers (msc_ObjectMeta i))"
  shows "(unguarded ic \<longrightarrow> unguarded ic0 \<or>
      (\<exists>(before, after) \<in> set es. \<not> unguarded before \<and> unguarded after)) \<and>
    (\<forall>E s x s' tr' e ic'. infra s = ic \<and> IsZero L (DeletionTimestamp (msc_ObjectMeta ic)) \<and>
       \<not> IsPaused L (cr_cluster (self s)) (msc_ObjectMeta ic) \<and>
       cluster_dispatch L E s = (Some x, s') \<and> hist s' = hist s @ tr' @ [e] \<and>
       stored_cluster e = Some ic' \<longrightarrow> ClusterFinalizer \<in> set (Finalizers (msc_ObjectMeta ic')))"
proof (intro conjI impI allI)
  assume "unguarded ic"
  then show "unguarded ic0 \<or> (\<exists>(before, after) \<in> set es. \<not> unguarded before \<and> unguarded after)"
    using network_protection.unsafe_by_others [OF assms(3)] assms(1,2,4)
    by (simp add: cluster_protected_def)
next
  fix E s x s' tr' e ic'
  assume "infra s = ic \<and> IsZero L (DeletionTimestamp (msc_ObjectMeta ic)) \<and>
     \<not> IsPaused L (cr_cluster (self s)) (msc_ObjectMeta ic) \<and>
     cluster_dispatch L E s = (Some x, s') \<and> hist s' = hist s @ tr' @ [e] \<and> stored_cluster e = Some ic'"
  then show "ClusterFinalizer \<in> set (Finalizers (msc_ObjectMeta ic'))"
    by (elim conjE) (rule cluster_run_guards [OF assms(1,2)], assumption+, simp_all)
qed

text \<open>A life of one stored run: the cluster with the finalizer gets its network and endpoint.\<close>

lemma cluster_run0:
  obtains x s' tr e ic where "cluster_dispatch lib0 env0 (state0 msc_auto) = (Some x, s')"
    "hist s' = hist (state0 msc_auto) @ tr @ [e]" "stored_cluster e = Some ic"
    "NodeNetworkID (msc_Spec ic) = Some ''net1''"
    "Host (ControlPlaneEndpoint (msc_Spec ic)) = ''10.0.0.1''"
    "ClusterFinalizer \<in> set (Finalizers (msc_ObjectMeta ic))"
    "FirewallDeploymentRef (msc_Spec ic) = FirewallDeploymentRef (msc_Spec msc_auto)"
proof -
  obtain y s' where run: "cluster_dispatch lib0 env0 (state0 msc_auto) = (y, s')" by fastforce
  have "\<exists>x tr e ic. y = Some x \<and> hist s' = hist (state0 msc_auto) @ tr @ [e] \<and>
      stored_cluster e = Some ic \<and> NodeNetworkID (msc_Spec ic) = Some ''net1'' \<and>
      Host (ControlPlaneEndpoint (msc_Spec ic)) = ''10.0.0.1'' \<and>
      ClusterFinalizer \<in> set (Finalizers (msc_ObjectMeta ic)) \<and>
      FirewallDeploymentRef (msc_Spec ic) = FirewallDeploymentRef (msc_Spec msc_auto)"
    using run by (auto simp: cluster_dispatch_def cluster_switch_def cluster_patch_def
        cluster_paused_def cluster_deleting_def cluster_has_finalizer_def run_reconcile_defs exec
        state0_def objects0 msc_auto_def own_firewall_deployment_def mark_cluster_paused_def
        mark_cluster_ready_def append_eq_Cons_conv)
  with that run show ?thesis by blast
qed

lemma cluster_life0:
  obtains tr ic where
    "lifetime (cluster_runs lib0) cr_infraCluster stored_cluster edit msc_auto 0 [] tr ic"
    "NodeNetworkID (msc_Spec ic) = Some ''net1''"
proof -
  obtain x s' tr e ic where r: "cluster_dispatch lib0 env0 (state0 msc_auto) = (Some x, s')"
    "hist s' = hist (state0 msc_auto) @ tr @ [e]" "stored_cluster e = Some ic"
    and n: "NodeNetworkID (msc_Spec ic) = Some ''net1''" by (rule cluster_run0)
  have "cluster_dispatch lib0 env0 \<in> cluster_runs lib0" by (auto simp: cluster_runs_def)
  moreover have "cr_infraCluster (self (state0 msc_auto)) = msc_auto" by (simp add: state0_def)
  ultimately have "lifetime (cluster_runs lib0) cr_infraCluster stored_cluster edit msc_auto 0 []
      ([] @ tr @ [e]) ic"
    by (rule lifetime.reconciled [OF lifetime.born]) (fact r)+
  from that [OF this n] show ?thesis .
qed

theorem cluster_networks_balance_witness:
  "\<exists>tr (ic :: MetalStackCluster). NodeNetworkID (msc_Spec ic) = Some ''net1'' \<and>
     length (filter acquires_network tr) = length (filter releases_network tr) + 1"
proof -
  obtain tr ic where life: "lifetime (cluster_runs lib0) cr_infraCluster stored_cluster (\<lambda>_ _. True)
      msc_auto 0 [] tr ic" "NodeNetworkID (msc_Spec ic) = Some ''net1''"
    by (rule cluster_life0)
  from cluster_networks_balance [OF life(1)] life(2) show ?thesis
    by (auto simp: names_network_def msc_auto_def objects0)
qed

text \<open>The controller's own network is guarded, and one a user enters at birth gets the finalizer.\<close>

abbreviation msc_users :: MetalStackCluster where
  "msc_users \<equiv> msc_Spec_update (\<lambda>sp. sp\<lparr>NodeNetworkID := Some ''user-net''\<rparr>) msc0"

lemma users_run0:
  obtains x s' tr e ic where "cluster_dispatch lib0 env0 (state0 msc_users) = (Some x, s')"
    "hist s' = hist (state0 msc_users) @ tr @ [e]" "stored_cluster e = Some ic"
proof -
  obtain y s' where run: "cluster_dispatch lib0 env0 (state0 msc_users) = (y, s')" by fastforce
  have "\<exists>x tr e ic. y = Some x \<and> hist s' = hist (state0 msc_users) @ tr @ [e] \<and> stored_cluster e = Some ic"
    using run by (auto simp: cluster_dispatch_def cluster_switch_def cluster_patch_def
        cluster_paused_def cluster_deleting_def cluster_has_finalizer_def exec state0_def objects0
        mark_cluster_paused_def add_cluster_finalizer_def append_eq_Cons_conv)
  with that run show ?thesis by blast
qed

theorem cluster_network_protected_witness:
  "(\<exists>ic :: MetalStackCluster. NodeNetworkID (msc_Spec ic) = Some ''net1'' \<and>
     ClusterFinalizer \<in> set (Finalizers (msc_ObjectMeta ic))) \<and>
   (\<exists>x s' tr e ic. cluster_dispatch lib0 env0 (state0 msc_users) = (Some x, s') \<and>
     hist s' = hist (state0 msc_users) @ tr @ [e] \<and> stored_cluster e = Some ic \<and>
     ClusterFinalizer \<in> set (Finalizers (msc_ObjectMeta ic)))"
proof -
  obtain tr ic where life: "lifetime (cluster_runs lib0) cr_infraCluster stored_cluster (\<lambda>_ _. True)
      msc_auto 0 [] tr ic" "NodeNetworkID (msc_Spec ic) = Some ''net1''"
    by (rule cluster_life0)
  have "NodeNetworkID (msc_Spec msc_auto) = None" by (simp add: msc_auto_def objects0)
  with cluster_network_protected [OF lib0_laws(1,2) life(1)] life(2)
  have guarded: "ClusterFinalizer \<in> set (Finalizers (msc_ObjectMeta ic))" by simp
  obtain x s' tr' e ic' where run: "cluster_dispatch lib0 env0 (state0 msc_users) = (Some x, s')"
    "hist s' = hist (state0 msc_users) @ tr' @ [e]" "stored_cluster e = Some ic'" by (rule users_run0)
  note born = lifetime.born [of "cluster_runs lib0" cr_infraCluster stored_cluster "\<lambda>_ _. True" msc_users]
  have "infra (state0 msc_users) = msc_users" "IsZero lib0 (DeletionTimestamp (msc_ObjectMeta msc_users))"
    "\<not> IsPaused lib0 (cr_cluster (self (state0 msc_users))) (msc_ObjectMeta msc_users)"
    by (simp_all add: state0_def objects0)
  with cluster_network_protected [OF lib0_laws(1,2) born] run
  have "ClusterFinalizer \<in> set (Finalizers (msc_ObjectMeta ic'))" by blast
  with guarded life(2) run show ?thesis by blast
qed

section \<open>The machine of a machine object\<close>

fun stored_machine :: "event \<Rightarrow> MetalStackMachine option" where
  "stored_machine (Kube (PatchObject (OMachine before) (OMachine im) None)) = Some im"
| "stored_machine _ = None"

text \<open>Every allocation that succeeds acquires a machine. An answer without an ID leaves the controller
  with a machine it cannot name.\<close>

fun acquires_machine :: "event \<Rightarrow> bool" where
  "acquires_machine (Metal (AllocateMachine q (Inr m))) = True"
| "acquires_machine _ = False"

fun acquires_anonymous :: "event \<Rightarrow> bool" where
  "acquires_anonymous (Metal (AllocateMachine q (Inr m))) = (mr_ID m = None)"
| "acquires_anonymous _ = False"

lemma anonymous_acquired: "acquires_anonymous e \<Longrightarrow> acquires_machine e"
  by (cases e rule: acquires_anonymous.cases) auto

definition names_machine :: "MetalStackMachine \<Rightarrow> bool" where
  "names_machine im \<longleftrightarrow> ProviderID (msm_Spec im) \<noteq> []"

definition machine_runs :: "lib \<Rightarrow> (machineReconciler st, Result \<times> go_error option) go set" where
  "machine_runs L = {machine_dispatch L E c |E c. True}"

definition allocations :: "go_error + V1MachineResponse \<Rightarrow> bool \<Rightarrow> history \<Rightarrow> bool" where
  "allocations x new tr \<longleftrightarrow> length (filter acquires_machine tr) = of_bool (new \<and> (\<exists>m. x = Inr m)) \<and>
     length (filter acquires_anonymous tr) = of_bool (new \<and> (\<exists>m. x = Inr m \<and> mr_ID m = None))"

lemma create_acquires:
  "wp (create L E) (\<lambda>x s'. self s' = self s \<and>
     (\<forall>z. x = Some z \<longrightarrow> (\<exists>tr. hist s' = hist s @ tr \<and> allocations z True tr))) s"
  unfolding create_def machineTags_def Let_def
  by (auto simp: wp_simps allocations_def split: sum.split option.split)

lemma provider_machine_acquires:
  "wp (provider_machine L E) (\<lambda>x s'. providerID s' = providerID s \<and> (\<forall>z. x = Some z \<longrightarrow>
     (\<exists>tr. hist s' = hist s @ tr \<and> allocations z (providerID s = []) tr))) s"
proof (cases "providerID s = []")
  case True
  show ?thesis unfolding provider_machine_def
    by (simp add: wp_simps True, rule wp_mono [OF create_acquires])
      (auto simp: wp_simps machine_object_defs allocations_def True split: sum.splits option.splits)
next
  case False
  show ?thesis unfolding provider_machine_def
    by (simp add: wp_simps False, rule wp_mono [OF find_step])
      (auto simp: wp_simps machine_object_defs allocations_def False split: sum.split option.split)
qed

definition names_what_it_got :: "machineReconciler st \<Rightarrow> machineReconciler st \<Rightarrow> bool" where
  "names_what_it_got s s' \<longleftrightarrow> (\<exists>tr. hist s' = hist s @ tr \<and>
     of_bool (names_machine (infraMachine s)) + length (filter acquires_machine tr) =
     of_bool (names_machine (infraMachine s')) + length (filter acquires_anonymous tr))"

lemma nothing_acquired:
  assumes "hist s' = hist s @ tr" and "list_all (\<lambda>e. \<not> acquires_machine e) tr"
    and "providerID s' = providerID s"
  shows "names_what_it_got s s'"
proof -
  have "filter acquires_machine tr = []" "filter acquires_anonymous tr = []"
    using assms(2) anonymous_acquired by (auto simp: list_all_iff filter_empty_conv)
  with assms(1,3) show ?thesis by (simp add: names_what_it_got_def names_machine_def)
qed

lemma apply_machine_names:
  assumes "apply_machine L m t = (Some y, u)"
  shows "hist u = hist t \<and> providerID u = (if mr_ID m = None then providerID t else encodeProviderID L m)"
  using assms
  by (auto simp: apply_machine_def exec getMachineAddresses_def Let_def set_machine_condition_def
      MetalStackMachine_SetConditions_def split: prod.splits option.splits if_splits)

lemma machine_reconcile_names:
  assumes "machine_reconcile L E s = (Some y, u)"
  shows "names_what_it_got s u"
proof -
  obtain x t where p: "provider_machine L E s = (x, t)" by fastforce
  from assms p consider "u = s" | e where "x = Some (Inl e)" "u = t"
    | m where "x = Some (Inr m)" "apply_machine L m t = (Some y, u)"
    by (auto simp: machine_reconcile_def Let_def exec split: if_splits option.splits sum.splits)
  then show ?thesis
  proof cases
    case 1
    then show ?thesis by (simp add: nothing_acquired)
  next
    case 2
    with wpD [OF provider_machine_acquires p] show ?thesis
      by (auto simp: names_what_it_got_def names_machine_def allocations_def)
  next
    case (3 m)
    have "encodeProviderID L m \<noteq> []" by (rule machine_id.encode_nonempty)
    with wpD [OF provider_machine_acquires p] 3(1) apply_machine_names [OF 3(2)] show ?thesis
      by (auto simp: names_what_it_got_def names_machine_def allocations_def)
  qed
qed

lemma machine_delete_names:
  assumes "machine_delete L E s = (Some y, u)"
  shows "names_what_it_got s u"
proof -
  have "emits (\<lambda>e. \<not> acquires_machine e) (machine_delete L E)"
    unfolding machine_delete_def Let_def by (intro emits_intros) simp_all
  then obtain tr where "hist u = hist s @ tr" "list_all (\<lambda>e. \<not> acquires_machine e) tr"
    using assms by (rule emitsD)
  moreover have "providerID u = providerID s"
  proof (cases "machine_has_finalizer L (self s)")
    case False
    with assms show ?thesis by (simp add: machine_delete_skip)
  next
    case F: True
    obtain z t where f: "findProviderMachine L E s = (Some z, t)" and so: "same_objects s t"
      by (rule find_outcome) blast
    have "providerID u = providerID t"
    proof (cases z)
      case (Inl e)
      with assms f F show ?thesis
        by (cases "errors_Is (Some e) errProviderMachineNotFound")
          (auto simp: machine_delete_gone machine_delete_failed Let_def split: option.splits if_splits)
    next
      case (Inr m)
      with assms f F show ?thesis
        by (auto simp: machine_delete_found Let_def split: option.splits if_splits)
    qed
    with so show ?thesis by (simp add: same_objects_def)
  qed
  ultimately show ?thesis by (rule nothing_acquired)
qed

lemma machine_switch_names:
  assumes "machine_switch L E c s = (Some y, u)"
  shows "names_what_it_got s u"
proof -
  from assms consider "hist u = hist s" "providerID u = providerID s"
    | "machine_delete L E s = (Some y, u)" | "machine_reconcile L E s = (Some y, u)"
    by (auto simp: machine_switch_def exec add_machine_finalizer_def split: if_splits)
  then show ?thesis
  proof cases
    case 1
    then show ?thesis by (simp add: nothing_acquired)
  qed (fact machine_delete_names machine_reconcile_names)+
qed

lemma machine_dispatch_stored:
  assumes "machine_dispatch L E c s = (Some x, s')" and "hist s' = hist s @ tr @ [e]"
    and "stored_machine e = Some im"
  shows "\<exists>t y u helper. self t = mark_machine_paused L c (self s) \<and>
    hist t = hist s @ [helper] \<and> \<not> acquires_machine helper \<and> \<not> acquires_machine e \<and>
    machine_switch L E c t = (Some y, u) \<and> infraMachine u = im \<and> hist u = hist s @ tr"
proof -
  from machine_rec.dispatch_runs [OF assms(1)] assms(2,3) obtain t y u where
    t: "do_NewHelper E (OMachine (infraMachine s)) s = (Some None, t)"
    and b: "machine_switch L E c (t\<lparr>self := mark_machine_paused L c (self s)\<rparr>) = (Some y, u)"
    and p: "machine_patch E (self s) y u = (Some x, s')"
    by (auto simp: exec)
  from p obtain v where
    "hist s' = hist u @ [Kube (PatchObject (OMachine (infraMachine s)) (OMachine (infraMachine u)) v)]"
    by (auto simp: machine_patch_def exec split: option.splits)
  with assms(2) have e: "e = Kube (PatchObject (OMachine (infraMachine s)) (OMachine (infraMachine u)) v)"
    "hist u = hist s @ tr" by auto
  with assms(3) have "infraMachine u = im" by (cases v) simp_all
  with b t e show ?thesis
    by (intro exI [of _ "t\<lparr>self := mark_machine_paused L c (self s)\<rparr>"] exI [of _ y] exI [of _ u])
      (auto simp: exec)
qed

lemma machine_reconcile_acquires: "emits_at_most 1 acquires_machine (machine_reconcile L E)"
proof -
  have "emits_at_most 1 acquires_machine (create L E)"
    unfolding create_def Let_def
    by (intro emits_at_most_last emits_at_most_branches emits_at_most_first emits_at_most_call)
      (auto intro!: emits_none emits_intros)
  then have "emits_at_most 1 acquires_machine (provider_machine L E)"
    unfolding provider_machine_def
    by (intro emits_at_most_last emits_at_most_branches emits_at_most_first)
      (auto intro!: emits_none emits_intros)
  then show ?thesis
    unfolding machine_reconcile_def Let_def
    by (intro emits_at_most_last emits_at_most_branches emits_at_most_first)
      (auto intro!: emits_none emits_intros)
qed

lemma machine_dispatch_acquires: "emits_at_most 1 acquires_machine (machine_dispatch L E c)"
proof -
  have "emits (\<lambda>e. \<not> acquires_machine e) (machine_delete L E)"
    unfolding machine_delete_def Let_def by (intro emits_intros) simp_all
  then have "emits_at_most 1 acquires_machine (machine_switch L E c)"
    unfolding machine_switch_def
    by (intro emits_at_most_last emits_at_most_branches machine_reconcile_acquires)
      (auto intro!: emits_none emits_intros)
  then show ?thesis
    unfolding machine_dispatch_def
    by (intro emits_at_most_last emits_at_most_branches emits_at_most_first)
      (auto intro!: emits_none emits_intros)
qed

interpretation machine_accounting:
  accounting "machine_runs L" mc_infraMachine stored_machine names_machine acquires_machine
    acquires_anonymous for L
proof unfold_locales
  fix m s x s' tr e cur'
  assume "m \<in> machine_runs L" and run: "m s = (Some x, s')" "hist s' = hist s @ tr @ [e]"
    "stored_machine e = Some cur'"
  then obtain E c where "m = machine_dispatch L E c" by (auto simp: machine_runs_def)
  from machine_dispatch_stored [OF run [unfolded this]] obtain t y u helper where
    d: "self t = mark_machine_paused L c (self s)" "hist t = hist s @ [helper]"
      "\<not> acquires_machine helper" "\<not> acquires_machine e" "machine_switch L E c t = (Some y, u)"
      "infraMachine u = cur'" "hist u = hist s @ tr" by blast
  from machine_switch_names [OF d(5)] obtain tr' where "hist u = hist t @ tr'"
    "of_bool (names_machine (infraMachine t)) + length (filter acquires_machine tr') =
     of_bool (names_machine (infraMachine u)) + length (filter acquires_anonymous tr')"
    by (auto simp: names_what_it_got_def)
  moreover have "\<not> acquires_anonymous helper" "\<not> acquires_anonymous e"
    using d(3,4) anonymous_acquired by blast+
  ultimately show "of_bool (names_machine (mc_infraMachine (self s))) + length (filter acquires_machine (tr @ [e])) =
      of_bool (names_machine cur') + length (filter acquires_anonymous (tr @ [e]))"
    using d by (auto simp: names_machine_def)
next
  show "emits_at_most 1 acquires_machine m" if "m \<in> machine_runs L" for m
    using that machine_dispatch_acquires by (auto simp: machine_runs_def)
qed

text \<open>C1. A machine object gets one machine and keeps it. Over its whole life, with any number of runs and
  any edits by others, every successful allocation is accounted for: with the provider ID the
  object is born with and those others enter, the machines allocated are exactly the one the
  object names in the end, those whose answer had no ID (no object can name them, and the next
  run allocates again) and the provider IDs others take out. Every run that is lost, by a panic
  or a failed patch, can leave at most one more machine behind.\<close>

theorem machine_allocated_once_in_life:
  assumes "lifetime (machine_runs L) mc_infraMachine stored_machine (\<lambda>_ _. True) im0 lost_runs es tr im"
  defines "allocated \<equiv> length (filter acquires_machine tr)"
    and "anonymous \<equiv> length (filter acquires_anonymous tr)"
    and "entered \<equiv> edits_to names_machine es"
    and "taken \<equiv> edits_to (\<lambda>i. \<not> names_machine i) es"
  shows "of_bool (names_machine im0) + allocated + entered \<le>
      of_bool (names_machine im) + anonymous + taken + lost_runs \<and>
    (lost_runs = 0 \<longrightarrow> of_bool (names_machine im0) + allocated + entered =
      of_bool (names_machine im) + anonymous + taken)"
  using machine_accounting.balance [OF assms(1)] machine_accounting.leaks [OF assms(1)]
  unfolding machine_accounting.gained_def machine_accounting.given_up_def assms(2-) add.assoc
  by blast

text \<open>Stored runs: the machine object with the finalizer gets its machine, one that has a machine is
  brought in line with it. The API finds a machine under its ID.\<close>

abbreviation msm_guarded :: MetalStackMachine where
  "msm_guarded \<equiv> msm0\<lparr>msm_ObjectMeta := meta0\<lparr>Finalizers := [MachineFinalizer]\<rparr>\<rparr>"

abbreviation env_found :: env where
  "env_found \<equiv> env0\<lparr>metal_FindMachine := \<lambda>h i. Inr (response0\<lparr>mr_ID := Some i\<rparr>)\<rparr>"

lemma machine_run0:
  assumes "im0 = msm_guarded \<or> im0 = msm_created"
  obtains x s' tr e im where
    "machine_dispatch lib0 env_found cluster0 (mstate0 msc_ready im0) = (Some x, s')"
    "hist s' = hist (mstate0 msc_ready im0) @ tr @ [e]"
    "stored_machine e = Some im" "ProviderID (msm_Spec im) \<noteq> []"
proof -
  let ?s = "mstate0 msc_ready im0"
  obtain y s' where run: "machine_dispatch lib0 env_found cluster0 ?s = (y, s')" by fastforce
  have "\<exists>x tr e im. y = Some x \<and> hist s' = hist ?s @ tr @ [e] \<and>
      stored_machine e = Some im \<and> ProviderID (msm_Spec im) \<noteq> []"
    using assms
  proof (elim disjE)
  qed (use run machine_id.encode_nonempty [of lib0] in
      \<open>auto simp: machine_dispatch_def machine_switch_def machine_patch_def
        machine_paused_def machine_deleting_def machine_has_finalizer_def mark_machine_paused_def
        set_machine_condition_def MetalStackMachine_SetConditions_def MetalStackMachine_GetConditions_def
        machine_reconcile_def provider_machine_def findProviderMachine_def msm_created_def
        create_def machineTags_def apply_machine_def
        getMachineAddresses_def getMachineStatus_def Let_def exec mstate0_def msc_ready_def objects0
        errors_Join_def map_filter_def append_eq_Cons_conv\<close>)
  with that run show ?thesis by blast
qed

lemma machine_life0:
  assumes "im0 = msm_guarded \<or> im0 = msm_created"
    and "machine_dispatch lib0 env_found cluster0 \<in> ms"
  obtains tr im where "lifetime ms mc_infraMachine stored_machine edit im0 0 [] tr im"
    "ProviderID (msm_Spec im) \<noteq> []"
proof -
  obtain x s' tr e im where
    r: "machine_dispatch lib0 env_found cluster0 (mstate0 msc_ready im0) = (Some x, s')"
      "hist s' = hist (mstate0 msc_ready im0) @ tr @ [e]" "stored_machine e = Some im"
    and p: "ProviderID (msm_Spec im) \<noteq> []" using assms(1) by (rule machine_run0)
  have "mc_infraMachine (self (mstate0 msc_ready im0)) = im0" by (simp add: mstate0_def)
  then have "lifetime ms mc_infraMachine stored_machine edit im0 0 [] ([] @ tr @ [e]) im"
    by (rule lifetime.reconciled [OF lifetime.born assms(2)]) (fact r)+
  from that [OF this p] show ?thesis .
qed

theorem machine_allocated_once_in_life_witness:
  "\<exists>tr (im :: MetalStackMachine). ProviderID (msm_Spec im) \<noteq> [] \<and>
     length (filter acquires_machine tr) = 1 + length (filter acquires_anonymous tr)"
proof -
  have ms: "machine_dispatch lib0 env_found cluster0 \<in> machine_runs lib0"
    unfolding machine_runs_def by blast
  obtain tr im where l: "lifetime (machine_runs lib0) mc_infraMachine stored_machine (\<lambda>_ _. True)
      msm_guarded 0 [] tr im" and p: "ProviderID (msm_Spec im) \<noteq> []"
    by (rule machine_life0 [OF disjI1 [OF refl] ms])
  from machine_allocated_once_in_life [OF l] p show ?thesis
    by (auto simp: names_machine_def objects0)
qed

section \<open>The firewall of a deployment\<close>

fun stored_deployment :: "event \<Rightarrow> MetalStackFirewallDeployment option" where
  "stored_deployment (Kube (PatchObject (OFirewallDeployment before) (OFirewallDeployment d) None)) = Some d"
| "stored_deployment _ = None"

fun acquires_firewall :: "event \<Rightarrow> bool" where
  "acquires_firewall (Metal (AllocateFirewall q (Inr fw))) = True"
| "acquires_firewall _ = False"

definition names_firewall :: "MetalStackFirewallDeployment \<Rightarrow> bool" where
  "names_firewall d \<longleftrightarrow> ManagedResourceRef (msfd_Spec d) \<noteq> None"

abbreviation firewalls_named :: "MetalStackFirewallDeployment \<Rightarrow> nat" where
  "firewalls_named d \<equiv> of_bool (names_firewall d)"

lemmas firewalls_named_def = names_firewall_def

definition deployment_edit :: "MetalStackFirewallDeployment \<Rightarrow> MetalStackFirewallDeployment \<Rightarrow> bool" where
  "deployment_edit d d' \<longleftrightarrow> ManagedResourceRef (msfd_Spec d') = ManagedResourceRef (msfd_Spec d)"

definition firewall_runs :: "lib \<Rightarrow> (firewallDeploymentReconciler st, go_error option) go set" where
  "firewall_runs L = {firewall_dispatch L E |E. True}"

definition deploys_what_it_got ::
    "firewallDeploymentReconciler st \<Rightarrow> firewallDeploymentReconciler st \<Rightarrow> bool" where
  "deploys_what_it_got s s' \<longleftrightarrow> (\<exists>tr. hist s' = hist s @ tr \<and>
     firewalls_named (deployment s) + length (filter acquires_firewall tr) =
     firewalls_named (deployment s'))"

lemma ensure_firewall_names:
  "wp (ensureFirewallDeployment L E) (\<lambda>x s'. x = None \<or> deploys_what_it_got s s') s"
  unfolding ensureFirewallDeployment_def Let_def
  by (auto simp: wp_simps deploys_what_it_got_def firewalls_named_def split: sum.split option.split)

lemma firewall_reconcile_names:
  assumes "firewall_reconcile L E s = (Some y, u)"
  shows "deploys_what_it_got s u"
proof -
  obtain x t where o: "ensureFirewallTemplateOwnerRefAndFinalizer L E s = (x, t)" by fastforce
  have o2: "deployment t = deployment s"
    using template_owner_quiet(2) [OF o] .
  obtain tr1 where tr1: "hist t = hist s @ tr1" "filter is_metal tr1 = []"
    using template_owner_quiet(3) [OF o] by blast
  have q: "filter acquires_firewall tr1 = []"
    using tr1(2) by (auto simp: filter_empty_conv elim!: acquires_firewall.elims)
  obtain z v where e: "ensureFirewallDeployment L E t = (z, v)" by fastforce
  from assms o e consider "hist u = hist s" "deployment u = deployment s"
    | "hist u = hist t" "deployment u = deployment t"
    | "z \<noteq> None" "hist u = hist v"
        "ManagedResourceRef (msfd_Spec (deployment u)) = ManagedResourceRef (msfd_Spec (deployment v))"
    by (auto simp: firewall_reconcile_def exec split: if_splits option.splits)
  then show ?thesis
  proof cases
    case 3
    from wpD [OF ensure_firewall_names e] 3(1) have "deploys_what_it_got t v" by simp
    with 3 o2 tr1(1) q show ?thesis
      by (auto simp: deploys_what_it_got_def firewalls_named_def split: if_splits)
  qed (use o2 tr1(1) q in \<open>simp_all add: deploys_what_it_got_def firewalls_named_def\<close>)
qed

lemma firewall_delete_names:
  assumes "firewall_delete L E s = (Some y, u)"
  shows "deploys_what_it_got s u"
proof -
  have "emits (\<lambda>e. \<not> acquires_firewall e) (firewall_delete L E)" by (intro emits_intros) simp_all
  then obtain tr where "hist u = hist s @ tr" "list_all (\<lambda>e. \<not> acquires_firewall e) tr"
    using assms by (rule emitsD)
  moreover have "ManagedResourceRef (msfd_Spec (deployment u)) = ManagedResourceRef (msfd_Spec (deployment s))"
  proof -
    obtain z t where g: "firewall_ensureAllMetalStackMachinesAreGone L E s = (z, t)" by fastforce
    obtain v w where d: "deleteFirewallDeployment L E t = (v, w)" by fastforce
    have "self t = self s" "self w = self t"
      using wpD [OF firewall_gate.gate_asks g] deleteFirewallDeployment_outcome [OF d] by simp_all
    with assms g d show ?thesis
      by (auto simp: firewall_delete_def exec remove_deployment_finalizer_def
          split: if_splits option.splits)
  qed
  ultimately show ?thesis
    by (auto simp: deploys_what_it_got_def firewalls_named_def list_all_iff filter_empty_conv)
qed

lemma firewall_switch_names:
  assumes "firewall_switch L E s = (Some y, u)"
  shows "deploys_what_it_got s u"
proof -
  from assms consider "hist u = hist s"
      "ManagedResourceRef (msfd_Spec (deployment u)) = ManagedResourceRef (msfd_Spec (deployment s))"
    | "firewall_delete L E s = (Some y, u)" | "firewall_reconcile L E s = (Some y, u)"
    by (auto simp: firewall_switch_def exec add_firewall_finalizer_def split: if_splits)
  then show ?thesis
  proof cases
    case 1
    then show ?thesis by (simp add: deploys_what_it_got_def firewalls_named_def)
  qed (fact firewall_delete_names firewall_reconcile_names)+
qed

lemma firewall_dispatch_stored:
  assumes "firewall_dispatch L E s = (Some x, s')" and "hist s' = hist s @ tr @ [e]"
    and "stored_deployment e = Some d"
  shows "\<exists>t y u helper. self t = mark_firewall_paused L (self s) \<and>
    hist t = hist s @ [helper] \<and> \<not> acquires_firewall helper \<and> \<not> acquires_firewall e \<and>
    firewall_switch L E t = (Some y, u) \<and> deployment u = d \<and> hist u = hist s @ tr"
proof -
  from firewall_rec.dispatch_runs [OF assms(1)] assms(2,3) obtain t y u where
    t: "do_NewHelper E (OFirewallDeployment (deployment s)) s = (Some None, t)"
    and b: "firewall_switch L E (t\<lparr>self := mark_firewall_paused L (self s)\<rparr>) = (Some y, u)"
    and p: "firewall_patch E (self s) y u = (Some x, s')"
    by (auto simp: exec)
  from p obtain v where
    "hist s' = hist u @ [Kube (PatchObject (OFirewallDeployment (deployment s)) (OFirewallDeployment (deployment u)) v)]"
    by (auto simp: firewall_patch_def Let_def exec split: option.splits)
  with assms(2) have e: "e = Kube (PatchObject (OFirewallDeployment (deployment s)) (OFirewallDeployment (deployment u)) v)"
    "hist u = hist s @ tr" by auto
  with assms(3) have "deployment u = d" by (cases v) simp_all
  with b t e show ?thesis
    by (intro exI [of _ "t\<lparr>self := mark_firewall_paused L (self s)\<rparr>"] exI [of _ y] exI [of _ u])
      (auto simp: exec)
qed

lemma firewall_dispatch_acquires: "emits_at_most 1 acquires_firewall (firewall_dispatch L E)"
proof -
  have "emits_at_most 1 acquires_firewall (ensureFirewallDeployment L E)"
    unfolding ensureFirewallDeployment_def Let_def
    by (intro emits_at_most_last emits_at_most_branches emits_at_most_first emits_at_most_call)
      (auto intro!: emits_none emits_intros)
  then have "emits_at_most 1 acquires_firewall (firewall_reconcile L E)"
    unfolding firewall_reconcile_def
    by (intro emits_at_most_last emits_at_most_branches emits_at_most_first)
      (auto intro!: emits_none emits_intros)
  moreover have "emits (\<lambda>e. \<not> acquires_firewall e) (firewall_delete L E)"
    by (intro emits_intros) simp_all
  ultimately have "emits_at_most 1 acquires_firewall (firewall_switch L E)"
    unfolding firewall_switch_def
    by (intro emits_at_most_last emits_at_most_branches) (auto intro!: emits_none emits_intros)
  then show ?thesis
    unfolding firewall_dispatch_def
    by (intro emits_at_most_last emits_at_most_branches emits_at_most_first)
      (auto intro!: emits_none emits_intros)
qed

interpretation firewall_accounting:
  accounting "firewall_runs L" fc_firewallDeployment stored_deployment names_firewall
    acquires_firewall "\<lambda>_. False" for L
proof unfold_locales
  fix m s x s' tr e cur'
  assume "m \<in> firewall_runs L" and run: "m s = (Some x, s')" "hist s' = hist s @ tr @ [e]"
    "stored_deployment e = Some cur'"
  then obtain E where "m = firewall_dispatch L E" by (auto simp: firewall_runs_def)
  from firewall_dispatch_stored [OF run [unfolded this]] obtain t y u helper where
    d: "self t = mark_firewall_paused L (self s)" "hist t = hist s @ [helper]"
      "\<not> acquires_firewall helper" "\<not> acquires_firewall e" "firewall_switch L E t = (Some y, u)"
      "deployment u = cur'" "hist u = hist s @ tr" by blast
  from firewall_switch_names [OF d(5)] obtain tr' where "hist u = hist t @ tr'"
    "firewalls_named (deployment t) + length (filter acquires_firewall tr') = firewalls_named (deployment u)"
    by (auto simp: deploys_what_it_got_def)
  with d show "firewalls_named (fc_firewallDeployment (self s)) + length (filter acquires_firewall (tr @ [e])) =
      firewalls_named cur' + length (filter (\<lambda>_. False) (tr @ [e]))"
    by (auto simp: firewalls_named_def split: if_splits)
next
  show "emits_at_most 1 acquires_firewall m" if "m \<in> firewall_runs L" for m
    using that firewall_dispatch_acquires by (auto simp: firewall_runs_def)
qed


text \<open>A stored run: the deployment with the finalizer gets its firewall.\<close>

lemma firewall_run0:
  obtains x s' tr e d where
    "firewall_dispatch lib0 env0 (fstate0 msc_net msfd_old) = (Some x, s')"
    "hist s' = hist (fstate0 msc_net msfd_old) @ tr @ [e]"
    "stored_deployment e = Some d" "ManagedResourceRef (msfd_Spec d) \<noteq> None"
proof -
  let ?s = "fstate0 msc_net msfd_old"
  obtain y s' where run: "firewall_dispatch lib0 env0 ?s = (y, s')" by fastforce
  have "\<exists>x tr e d. y = Some x \<and> hist s' = hist ?s @ tr @ [e] \<and>
      stored_deployment e = Some d \<and> ManagedResourceRef (msfd_Spec d) \<noteq> None"
    using run
    by (auto simp: run_firewall_Reconcile_defs run_firewall_defs exec objects0 Let_def
        mark_deployment_ready_def append_eq_Cons_conv)
  with that run show ?thesis by blast
qed

lemma firewall_life0:
  obtains tr d where
    "lifetime (firewall_runs lib0) fc_firewallDeployment stored_deployment edit msfd_old 0 [] tr d"
    "ManagedResourceRef (msfd_Spec d) \<noteq> None"
proof -
  obtain x s' tr e d where r: "firewall_dispatch lib0 env0 (fstate0 msc_net msfd_old) = (Some x, s')"
      "hist s' = hist (fstate0 msc_net msfd_old) @ tr @ [e]" "stored_deployment e = Some d"
    and p: "ManagedResourceRef (msfd_Spec d) \<noteq> None" by (rule firewall_run0)
  have "firewall_dispatch lib0 env0 \<in> firewall_runs lib0" by (auto simp: firewall_runs_def)
  moreover have "fc_firewallDeployment (self (fstate0 msc_net msfd_old)) = msfd_old"
    by (simp add: fstate0_def)
  ultimately have "lifetime (firewall_runs lib0) fc_firewallDeployment stored_deployment edit
      msfd_old 0 [] ([] @ tr @ [e]) d"
    by (rule lifetime.reconciled [OF lifetime.born]) (fact r)+
  from that [OF this p] show ?thesis .
qed


end
