(* ===== verification/Lifecycle.thy ===== *)
theory Lifecycle
  imports LifetimeProperties
begin

text \<open>
  What each controller promises, as an abstract life cycle of its object: the state is the few
  facts of the object other components rely on, a step is one thing the controller does to
  them, or one the others may do. The simulations show that nothing else happens: a stored run
  is a sequence of abstract steps and so is an allowed edit, so a whole life is one.
\<close>

locale simulation =
  fixes ms :: "('r st, 'b) go set"
    and obj :: "'r \<Rightarrow> 'o"
    and persisted :: "event \<Rightarrow> 'o option"
    and edit :: "'o \<Rightarrow> 'o \<Rightarrow> bool"
    and view :: "'o \<Rightarrow> 'v"
    and step :: "'v \<Rightarrow> 'v \<Rightarrow> bool"
  assumes edit_steps: "edit cur cur' \<Longrightarrow> step\<^sup>*\<^sup>* (view cur) (view cur')"
    and run_steps: "m \<in> ms \<Longrightarrow> m s = (Some x, s') \<Longrightarrow> hist s' = hist s @ tr @ [e] \<Longrightarrow>
      persisted e = Some cur' \<Longrightarrow> step\<^sup>*\<^sup>* (view (obj (self s))) (view cur')"
begin

lemma life_steps:
  assumes "lifetime ms obj persisted edit first k es tr cur"
  shows "step\<^sup>*\<^sup>* (view first) (view cur)"
  using assms
proof (induction rule: lifetime.induct)
  case (reconciled k es tr cur m s x s' tr' e cur')
  from run_steps [OF reconciled.hyps(2,4-6)] reconciled.hyps(3) reconciled.IH
  show ?case by (metis rtranclp_trans)
next
  case (edited k es tr cur cur')
  from edited.IH edit_steps [OF edited.hyps(2)] show ?case by (rule rtranclp_trans)
qed simp_all

text \<open>What every abstract step keeps, every life keeps.\<close>

lemma life_keeps:
  assumes "lifetime ms obj persisted edit first k es tr cur" and "P (view first)"
    and "\<And>v w. step v w \<Longrightarrow> P v \<Longrightarrow> P w"
  shows "P (view cur)"
  using life_steps [OF assms(1)] assms(2,3) by (induction rule: rtranclp_induct) auto

end

section \<open>The cluster\<close>

record cluster_view =
  guarded :: bool
  deleting :: bool
  network :: "string option"
  endpoint :: string
  ready :: bool

definition view_cluster :: "lib \<Rightarrow> MetalStackCluster \<Rightarrow> cluster_view" where
  "view_cluster L ic = \<lparr>guarded = ClusterFinalizer \<in> set (Finalizers (msc_ObjectMeta ic)),
     deleting = (\<not> IsZero L (DeletionTimestamp (msc_ObjectMeta ic))),
     network = NodeNetworkID (msc_Spec ic), endpoint = Host (ControlPlaneEndpoint (msc_Spec ic)),
     ready = mscs_Ready (msc_Status ic)\<rparr>"

text \<open>
  First the finalizer, then the network, then the endpoint, once; ready only with a network. The
  network is only given up in the deletion, together with the finalizer, and a deletion has no
  way back. Deleting is the one step of the environment.
\<close>

inductive cluster_step :: "cluster_view \<Rightarrow> cluster_view \<Rightarrow> bool" where
  guard: "\<not> deleting v \<Longrightarrow> \<not> guarded v \<Longrightarrow> cluster_step v (v\<lparr>guarded := True\<rparr>)"
| acquire: "\<not> deleting v \<Longrightarrow> guarded v \<Longrightarrow> network v = None \<Longrightarrow>
    cluster_step v (v\<lparr>network := Some n\<rparr>)"
| publish: "\<not> deleting v \<Longrightarrow> guarded v \<Longrightarrow> network v \<noteq> None \<Longrightarrow> endpoint v = [] \<Longrightarrow>
    cluster_step v (v\<lparr>endpoint := h\<rparr>)"
| announce: "\<not> deleting v \<Longrightarrow> guarded v \<Longrightarrow> network v \<noteq> None \<Longrightarrow>
    cluster_step v (v\<lparr>ready := True\<rparr>)"
| condemn: "cluster_step v (v\<lparr>deleting := True\<rparr>)"
| release: "deleting v \<Longrightarrow> guarded v \<Longrightarrow> cluster_step v (v\<lparr>guarded := False, network := None\<rparr>)"

text \<open>What others may do to a cluster here: delete it, and whatever the view does not show.\<close>

definition cluster_condemned :: "lib \<Rightarrow> MetalStackCluster \<Rightarrow> MetalStackCluster \<Rightarrow> bool" where
  "cluster_condemned L ic ic' \<longleftrightarrow> view_cluster L ic' = view_cluster L ic \<or>
     view_cluster L ic' = (view_cluster L ic)\<lparr>deleting := True\<rparr>"

inductive_simps cluster_step_iff: "cluster_step v w"

lemma cluster_step_if: "cluster_step v w \<Longrightarrow> cluster_step\<^sup>*\<^sup>* v w" by blast

lemma cluster_step_maybe: "v = w \<or> cluster_step v w \<Longrightarrow> cluster_step\<^sup>*\<^sup>* v w" by blast

abbreviation view_of :: "lib \<Rightarrow> clusterReconciler st \<Rightarrow> cluster_view" where
  "view_of L s \<equiv> view_cluster L (infra s)"

lemma view_network_step:
  "\<not> deleting (view_of L s) \<Longrightarrow> guarded (view_of L s) \<Longrightarrow> wp (reconcile_node_network L E) (\<lambda>x s'.
     cluster_step\<^sup>*\<^sup>* (view_of L s) (view_of L s') \<and> guarded (view_of L s') \<and> \<not> deleting (view_of L s') \<and>
     (x = Some None \<longrightarrow> network (view_of L s') \<noteq> None)) s"
  unfolding reconcile_node_network_def ensureNodeNetwork_def Let_def
  by (auto simp: wp_simps step_defs view_cluster_def cluster_step_iff
      intro!: cluster_step_maybe split: option.split sum.split)

lemma view_deployment_step:
  "wp (reconcile_firewall_deployment L E) (\<lambda>x s'. view_of L s' = view_of L s) s"
  unfolding reconcile_firewall_deployment_def cluster_ensureFirewallDeployment_def
    firewall_deployment_key_def Let_def
  by (auto simp: wp_simps step_defs view_cluster_def split: option.split sum.split)

lemma view_endpoint_step:
  "\<not> deleting (view_of L s) \<Longrightarrow> guarded (view_of L s) \<Longrightarrow> network (view_of L s) \<noteq> None \<Longrightarrow>
     wp (reconcile_control_plane L E) (\<lambda>x s'. cluster_step\<^sup>*\<^sup>* (view_of L s) (view_of L s') \<and>
       guarded (view_of L s') \<and> \<not> deleting (view_of L s') \<and>
       network (view_of L s') \<noteq> None) s"
  unfolding reconcile_control_plane_def ensureControlPlaneIP_def Let_def
  by (auto simp: wp_simps step_defs view_cluster_def cluster_step_iff
      intro!: cluster_step_maybe split: option.split sum.split list.split)

lemma view_reconcile:
  assumes "\<not> deleting (view_of L s)" and "guarded (view_of L s)" and "cluster_reconcile L E s = (Some y, u)"
  shows "cluster_step\<^sup>*\<^sup>* (view_of L s) (view_of L u)"
proof -
  obtain x1 s1 where r1: "reconcile_node_network L E s = (x1, s1)" by fastforce
  obtain x2 s2 where r2: "reconcile_firewall_deployment L E s1 = (x2, s2)" by fastforce
  obtain x3 s3 where r3: "reconcile_control_plane L E s2 = (x3, s3)" by fastforce
  note N = wpD [OF view_network_step [OF assms(1,2)] r1] and D = wpD [OF view_deployment_step r2]
  from assms(3) r1 r2 r3 consider "view_of L u = view_of L s1"
    | "x1 = Some None" "view_of L u = view_of L s2"
    | "x1 = Some None" "view_of L u = view_of L s3"
    | "x1 = Some None" "view_of L u = (view_of L s3)\<lparr>ready := True\<rparr>"
    by (auto simp: cluster_reconcile_def exec view_cluster_def mark_cluster_ready_def
        split: option.splits)
  then show ?thesis
  proof cases
    case 3
    from N D 3(1) wpD [OF view_endpoint_step r3] have "cluster_step\<^sup>*\<^sup>* (view_of L s1) (view_of L s3)" by simp
    with N 3 show ?thesis by (metis rtranclp_trans)
  next
    case 4
    from N D 4(1) wpD [OF view_endpoint_step r3] have "cluster_step\<^sup>*\<^sup>* (view_of L s1) (view_of L s3)"
      "cluster_step (view_of L s3) (view_of L u)" using 4(2) by (auto simp: announce)
    with N show ?thesis by (metis rtranclp.rtrancl_into_rtrancl rtranclp_trans)
  qed (use N D in simp_all)
qed

lemma view_release:
  assumes "finalizer_laws L" and "deleting (view_of L s)" and "guarded (view_of L s)"
  shows "wp (cluster_release L E) (\<lambda>x s'. cluster_step\<^sup>*\<^sup>* (view_of L s) (view_of L s')) s"
proof -
  obtain x t where d: "deleteControlPlaneIP L E s = (x, t)" by fastforce
  from wpD [OF deleteControlPlaneIP_step d] have t: "self t = self s" by simp
  obtain z u where n: "deleteNodeNetwork E (t\<lparr>self := cr_infraCluster_update
      (msc_Spec_update (\<lambda>sp. sp\<lparr>ControlPlaneIP := None\<rparr>)) (self t)\<rparr>) = (z, u)" by fastforce
  with wpD [OF deleteNodeNetwork_step n] d t assms show ?thesis
    by (auto simp: cluster_release_def wp_def exec view_cluster_def remove_cluster_finalizer_def
        cluster_step_iff intro!: cluster_step_maybe split: option.split)
qed

lemma view_switch:
  assumes "finalizer_laws L" and "cluster_switch L E s = (Some y, u)"
  shows "cluster_step\<^sup>*\<^sup>* (view_of L s) (view_of L u)"
proof -
  have facts: "guarded (view_of L s) \<longleftrightarrow> cluster_has_finalizer L (self s)"
    "deleting (view_of L s) \<longleftrightarrow> cluster_deleting L (self s)"
    using assms(1) by (simp_all add: view_cluster_def cluster_has_finalizer_def cluster_deleting_def)
  from assms(2) consider "self u = self s"
    | "cluster_delete L E s = (Some y, u)" "cluster_has_finalizer L (self s)" "cluster_deleting L (self s)"
    | "self u = add_cluster_finalizer L (self s)" "\<not> cluster_has_finalizer L (self s)"
      "\<not> cluster_deleting L (self s)"
    | "cluster_has_finalizer L (self s)" "\<not> cluster_deleting L (self s)"
      "cluster_reconcile L E s = (Some y, u)"
    using cluster_rec.delete_guard [of L s E]
    by (cases "cluster_has_finalizer L (self s)") (auto simp: cluster_switch_def exec split: if_splits)
  then show ?thesis
  proof cases
    case 2
    from cluster_delete_gate [OF 2(2,1)] show ?thesis
    proof (elim disjE exE conjE)
      fix s2 pre assume s2: "self s2 = self s" and r: "cluster_release L E s2 = (Some y, u)"
      with wpD [OF view_release [OF assms(1)] r] facts 2(2,3) show ?thesis by simp
    qed simp
  next
    case 3
    then have "cluster_step (view_of L s) (view_of L u)"
      using assms(1) facts by (simp add: cluster_step_iff view_cluster_def add_cluster_finalizer_def)
    then show ?thesis ..
  next
    case 4
    with facts view_reconcile show ?thesis by blast
  qed simp
qed

interpretation cluster_simulation:
  simulation "{cluster_dispatch L E |E. finalizer_laws L}" cr_infraCluster stored_cluster
    "cluster_condemned L" "view_cluster L" cluster_step for L
proof unfold_locales
  show "cluster_step\<^sup>*\<^sup>* (view_cluster L cur) (view_cluster L cur')" if "cluster_condemned L cur cur'" for cur cur'
    using that condemn [of "view_cluster L cur"] by (auto simp: cluster_condemned_def)
next
  fix m s x s' tr e cur'
  assume "m \<in> {cluster_dispatch L E |E. finalizer_laws L}"
    and run: "m s = (Some x, s')" "hist s' = hist s @ tr @ [e]" "stored_cluster e = Some cur'"
  then obtain E where m: "m = cluster_dispatch L E" and L: "finalizer_laws L" by blast
  from cluster_dispatch_stored [OF run [unfolded m]] obtain t y u where
    d: "self t = mark_cluster_paused L (self s)" "cluster_switch L E t = (Some y, u)"
      "infra u = cur'" by blast
  have "view_of L t = view_of L s"
    by (simp add: d(1) view_cluster_def mark_cluster_paused_def set_cluster_condition_def
        MetalStackCluster_SetConditions_def)
  with view_switch [OF L d(2)] d(3)
  show "cluster_step\<^sup>*\<^sup>* (view_cluster L (cr_infraCluster (self s))) (view_cluster L cur')" by simp
qed

text \<open>What a sequence of abstract steps cannot undo. A network is given up for good.\<close>

definition given_up :: "cluster_view \<Rightarrow> bool" where
  "given_up v \<longleftrightarrow> network v = None \<and> deleting v \<and> \<not> guarded v"

lemma cluster_step_keeps:
  assumes "cluster_step v w"
  shows "given_up v \<Longrightarrow> given_up w"
    "endpoint v \<noteq> [] \<Longrightarrow> endpoint w = endpoint v"
    "network v \<noteq> None \<Longrightarrow> network w = network v \<or> given_up w"
    "network v \<noteq> None \<Longrightarrow> guarded v \<Longrightarrow> guarded w \<or> given_up w"
    "network v = None \<Longrightarrow> network w \<noteq> None \<Longrightarrow> guarded w"
    "endpoint v = [] \<Longrightarrow> endpoint w \<noteq> [] \<Longrightarrow> network w \<noteq> None"
    "\<not> ready v \<Longrightarrow> ready w \<Longrightarrow> network w \<noteq> None"
    "deleting v \<Longrightarrow> deleting w \<and> endpoint w = endpoint v \<and> ready w = ready v \<and>
       (network w = network v \<or> given_up w)"
  using assms by (auto simp: cluster_step_iff given_up_def)

lemma cluster_steps_keep:
  assumes "cluster_step\<^sup>*\<^sup>* v w"
  shows "endpoint v \<noteq> [] \<Longrightarrow> endpoint w = endpoint v"
    "endpoint v = [] \<Longrightarrow> endpoint w \<noteq> [] \<Longrightarrow> network w \<noteq> None \<or> given_up w"
    "network v \<noteq> None \<Longrightarrow> network w = network v \<or> given_up w"
    "network v = None \<Longrightarrow> network w \<noteq> None \<Longrightarrow> guarded w"
    "\<not> ready v \<Longrightarrow> ready w \<Longrightarrow> network w \<noteq> None \<or> given_up w"
    "deleting v \<Longrightarrow> deleting w \<and> endpoint w = endpoint v \<and> ready w = ready v \<and>
       (network w = network v \<or> given_up w)"
  using assms by (induction rule: rtranclp_induct; metis cluster_step_keeps given_up_def)+

text \<open>C4. The cluster controller implements the abstract life cycle of a cluster. Provided that others
  delete the object at most and leave finalizer, network, endpoint and readiness alone, then
  whatever the services answer, its stored runs and that deletion are a sequence of the six
  abstract steps. So an endpoint that is set stays. A network is never exchanged for another
  one: it stays until it is given up, in the deletion and with the finalizer. A network that is
  new is held with the finalizer on, and readiness or an endpoint that is new comes with a network,
  unless the deletion has given it up since. An object under deletion gets nothing any more.\<close>

theorem cluster_life_refines:
  assumes "finalizer_laws L"
    and "lifetime (cluster_runs L) cr_infraCluster stored_cluster (cluster_condemned L) ic0 lost_runs
      es tr ic"
  defines "v \<equiv> view_cluster L ic0" and "w \<equiv> view_cluster L ic"
  shows "cluster_step\<^sup>*\<^sup>* v w \<and>
    (endpoint v \<noteq> [] \<longrightarrow> endpoint w = endpoint v) \<and>
    (endpoint v = [] \<and> endpoint w \<noteq> [] \<longrightarrow> network w \<noteq> None \<or> given_up w) \<and>
    (network v \<noteq> None \<longrightarrow> network w = network v \<or> given_up w) \<and>
    (network v = None \<and> network w \<noteq> None \<longrightarrow> guarded w) \<and>
    (\<not> ready v \<and> ready w \<longrightarrow> network w \<noteq> None \<or> given_up w) \<and>
    (deleting v \<longrightarrow> deleting w \<and> endpoint w = endpoint v \<and> ready w = ready v \<and>
       (network w = network v \<or> given_up w))"
proof -
  have ms: "cluster_runs L = {cluster_dispatch L E |E. finalizer_laws L}"
    using assms(1) by (auto simp: cluster_runs_def)
  have steps: "cluster_step\<^sup>*\<^sup>* v w"
    unfolding v_def w_def by (rule cluster_simulation.life_steps [OF assms(2) [unfolded ms]])
  show ?thesis using steps cluster_steps_keep [OF steps] by (intro conjI impI) (simp_all only: HOL.simp_thms)
qed

section \<open>The machine\<close>

record machine_view =
  mguarded :: bool
  provider :: "string option"
  mready :: bool

definition view_machine :: "MetalStackMachine \<Rightarrow> machine_view" where
  "view_machine im = \<lparr>mguarded = MachineFinalizer \<in> set (Finalizers (msm_ObjectMeta im)),
     provider = (if ProviderID (msm_Spec im) = [] then None
       else Some (decodeProviderID (ProviderID (msm_Spec im)))),
     mready = msms_Ready (msm_Status im)\<rparr>"

text \<open>A provider machine is set once, under the finalizer, and never changes.\<close>

inductive machine_step :: "machine_view \<Rightarrow> machine_view \<Rightarrow> bool" where
  mguard: "\<not> mguarded v \<Longrightarrow> machine_step v (v\<lparr>mguarded := True\<rparr>)"
| provision: "mguarded v \<Longrightarrow> provider v = None \<Longrightarrow> machine_step v (v\<lparr>provider := Some i\<rparr>)"
| mannounce: "mguarded v \<Longrightarrow> provider v \<noteq> None \<Longrightarrow> machine_step v (v\<lparr>mready := True\<rparr>)"
| mrelease: "mguarded v \<Longrightarrow> machine_step v (v\<lparr>mguarded := False\<rparr>)"

inductive_simps machine_step_iff: "machine_step v w"

abbreviation mview_of :: "machineReconciler st \<Rightarrow> machine_view" where
  "mview_of s \<equiv> view_machine (infraMachine s)"

text \<open>The API finds a machine under its own ID, and partition IDs have no slash.\<close>

definition machine_answers :: "lib \<Rightarrow> env \<Rightarrow> bool" where
  "machine_answers L E \<longleftrightarrow>
     (\<forall>h i m. metal_FindMachine E h i = Inr m \<longrightarrow>
        mr_ID m = Some i \<and> CHR ''/'' \<notin> set (machine_partition L m)) \<and>
     (\<forall>h q m. metal_AllocateMachine E h q = Inr m \<longrightarrow> CHR ''/'' \<notin> set (machine_partition L m))"

lemma find_answers:
  "wp (findProviderMachine L E) (\<lambda>x s'. \<forall>m. x = Some (Inr m) \<longrightarrow> providerID s \<noteq> [] \<and>
     (\<exists>h. metal_FindMachine E h (decodeProviderID (providerID s)) = Inr m)) s"
  unfolding findProviderMachine_def Let_def by (auto simp: wp_simps split: sum.split option.split)

lemma create_answers:
  "wp (create L E) (\<lambda>x s'. self s' = self s \<and>
     (\<forall>m. x = Some (Inr m) \<longrightarrow> (\<exists>h q. metal_AllocateMachine E h q = Inr m))) s"
  unfolding create_def machineTags_def Let_def
  by (auto simp: wp_simps split: sum.split option.split)

lemma provider_machine_answers:
  "wp (provider_machine L E) (\<lambda>x s'. \<forall>m. x = Some (Inr m) \<longrightarrow>
     (if providerID s = [] then \<exists>h q. metal_AllocateMachine E h q = Inr m
      else \<exists>h. metal_FindMachine E h (decodeProviderID (providerID s)) = Inr m)) s"
proof (cases "providerID s = []")
  case True
  show ?thesis unfolding provider_machine_def
    by (simp add: wp_simps True, rule wp_mono [OF create_answers])
      (auto simp: wp_simps split: sum.splits option.splits)
next
  case False
  show ?thesis unfolding provider_machine_def
    by (simp add: wp_simps False, rule wp_mono [OF find_answers])
      (auto simp: wp_simps split: sum.splits option.splits)
qed

lemma apply_machine_view:
  assumes "apply_machine L m t = (Some y, u)"
  shows "if mr_ID m = None then mview_of u = mview_of t
    else mview_of u = (mview_of t)\<lparr>provider := Some (decodeProviderID (encodeProviderID L m)),
      mready := mready (mview_of t) \<or> fst (getMachineStatus L m)\<rparr>"
  using assms machine_id.encode_nonempty [of L m]
  by (auto simp: apply_machine_def exec getMachineAddresses_def Let_def set_machine_condition_def
      MetalStackMachine_SetConditions_def view_machine_def split: prod.splits option.splits if_splits)

lemma mview_reconcile:
  assumes "pointer_laws L" and "machine_answers L E" and "mguarded (mview_of s)"
    and "machine_reconcile L E s = (Some y, u)"
  shows "machine_step\<^sup>*\<^sup>* (mview_of s) (mview_of u)"
proof -
  obtain x t where p: "provider_machine L E s = (x, t)" by fastforce
  from wpD [OF provider_machine_step p] have t: "mview_of t = mview_of s"
    by (simp add: same_objects_def view_machine_def)
  from assms(4) p consider "u = s" | e where "x = Some (Inl e)" "u = t"
    | m where "x = Some (Inr m)" "apply_machine L m t = (Some y, u)"
    by (auto simp: machine_reconcile_def Let_def exec split: if_splits option.splits sum.splits)
  then show ?thesis
  proof cases
    case (3 m)
    show ?thesis
    proof (cases "mr_ID m")
      case None
      with apply_machine_view [OF 3(2)] t show ?thesis by simp
    next
      case (Some i)
      note A = wpD [OF provider_machine_answers p, rule_format, OF 3(1)]
      have "CHR ''/'' \<notin> set (machine_partition L m)"
        using A assms(2) by (auto simp: machine_answers_def split: if_splits)
      from machine_id.decode_encode [OF this] have d: "decodeProviderID (encodeProviderID L m) = i"
        using Some assms(1) by (simp add: machine_ident_def)
      have "provider (mview_of s) = None \<or> provider (mview_of s) = Some i"
        using A assms(2) Some by (auto simp: machine_answers_def view_machine_def split: if_splits)
      then have "machine_step\<^sup>*\<^sup>* (mview_of s) ((mview_of s)\<lparr>provider := Some i\<rparr>)"
        using assms(3) provision [of "mview_of s" i] by (auto simp: view_machine_def)
      moreover have "machine_step\<^sup>*\<^sup>* ((mview_of s)\<lparr>provider := Some i\<rparr>) (mview_of u)"
      proof -
        have "mview_of u = (mview_of s)\<lparr>provider := Some i,
            mready := mready (mview_of s) \<or> fst (getMachineStatus L m)\<rparr>"
          using apply_machine_view [OF 3(2)] t Some d by simp
        then show ?thesis
          using mannounce [of "(mview_of s)\<lparr>provider := Some i\<rparr>"] assms(3)
          by (cases "mready (mview_of s)"; cases "fst (getMachineStatus L m)") (auto simp: view_machine_def)
      qed
      ultimately show ?thesis by (rule rtranclp_trans)
    qed
  qed (use t in simp_all)
qed

lemma mview_delete:
  assumes "finalizer_laws L" and "machine_delete L E s = (Some y, u)"
  shows "machine_step\<^sup>*\<^sup>* (mview_of s) (mview_of u)"
proof (cases "machine_has_finalizer L (self s)")
  case False
  with assms show ?thesis by (simp add: machine_delete_skip)
next
  case F: True
  then have g: "mguarded (mview_of s)"
    using assms(1) by (simp add: machine_has_finalizer_def view_machine_def)
  obtain z t where f: "findProviderMachine L E s = (Some z, t)" and so: "same_objects s t"
    by (rule find_outcome) blast
  have t: "mview_of t = mview_of s" using so by (simp add: same_objects_def view_machine_def)
  have "mview_of u = mview_of t \<or> mview_of u = mview_of (unfinalized L t)"
  proof (cases z)
    case (Inl e)
    with assms f F show ?thesis
      by (cases "errors_Is (Some e) errProviderMachineNotFound")
        (auto simp: machine_delete_gone machine_delete_failed Let_def view_machine_def
          split: option.splits if_splits)
  next
    case (Inr m)
    with assms f F show ?thesis
      by (auto simp: machine_delete_found Let_def view_machine_def split: option.splits if_splits)
  qed
  moreover have "mview_of (unfinalized L t) = (mview_of t)\<lparr>mguarded := False\<rparr>"
    using assms(1) by (simp add: view_machine_def)
  ultimately show ?thesis using g t mrelease [of "mview_of s"] by auto
qed

lemma mview_switch:
  assumes "finalizer_laws L" and "pointer_laws L" and "machine_answers L E"
    and "machine_switch L E c s = (Some y, u)"
  shows "machine_step\<^sup>*\<^sup>* (mview_of s) (mview_of u)"
proof -
  have guarded: "mguarded (mview_of s) \<longleftrightarrow> machine_has_finalizer L (self s)"
    using assms(1) by (simp add: view_machine_def machine_has_finalizer_def)
  from assms(4) consider "self u = self s" | "machine_delete L E s = (Some y, u)"
    | "self u = add_machine_finalizer L (self s)" "\<not> machine_has_finalizer L (self s)"
    | "machine_has_finalizer L (self s)" "machine_reconcile L E s = (Some y, u)"
    by (auto simp: machine_switch_def exec split: if_splits)
  then show ?thesis
  proof cases
    case 3
    then have "machine_step (mview_of s) (mview_of u)"
      using assms(1) guarded by (simp add: machine_step_iff view_machine_def add_machine_finalizer_def)
    then show ?thesis ..
  qed (use guarded assms mview_delete mview_reconcile in auto)
qed

definition answered_machine_runs :: "lib \<Rightarrow> (machineReconciler st, Result \<times> go_error option) go set" where
  "answered_machine_runs L = {machine_dispatch L E c |E c.
     finalizer_laws L \<and> pointer_laws L \<and> machine_answers L E}"

interpretation machine_simulation:
  simulation "answered_machine_runs L" mc_infraMachine stored_machine
    "\<lambda>im im'. view_machine im' = view_machine im" view_machine machine_step for L
proof unfold_locales
  fix m s x s' tr e cur'
  assume "m \<in> answered_machine_runs L"
    and run: "m s = (Some x, s')" "hist s' = hist s @ tr @ [e]" "stored_machine e = Some cur'"
  then obtain E c where m: "m = machine_dispatch L E c"
    and L: "finalizer_laws L" "pointer_laws L" "machine_answers L E"
    by (auto simp: answered_machine_runs_def)
  from machine_dispatch_stored [OF run [unfolded m]] obtain t y u where
    d: "self t = mark_machine_paused L c (self s)" "machine_switch L E c t = (Some y, u)"
      "infraMachine u = cur'" by blast
  have "mview_of t = mview_of s"
    by (simp add: d(1) view_machine_def mark_machine_paused_def set_machine_condition_def
        MetalStackMachine_SetConditions_def)
  with mview_switch [OF L d(2)] d(3)
  show "machine_step\<^sup>*\<^sup>* (view_machine (mc_infraMachine (self s))) (view_machine cur')" by simp
qed simp

text \<open>C5. A machine object never changes the machine it stands for: with an API that finds a machine
  under its ID, the life of the object is a sequence of the four abstract steps, so the provider
  machine is set at most once, under the finalizer, and every provider ID written later decodes
  to the same machine.\<close>

theorem machine_identity_stable:
  assumes "finalizer_laws L" and "pointer_laws L"
    and "lifetime {machine_dispatch L E c |E c. machine_answers L E} mc_infraMachine stored_machine
      (\<lambda>im im'. view_machine im' = view_machine im) im0 lost_runs es tr im"
  shows "machine_step\<^sup>*\<^sup>* (view_machine im0) (view_machine im) \<and>
    (ProviderID (msm_Spec im0) \<noteq> [] \<longrightarrow> ProviderID (msm_Spec im) \<noteq> [] \<and>
       decodeProviderID (ProviderID (msm_Spec im)) = decodeProviderID (ProviderID (msm_Spec im0)))"
proof -
  have ms: "{machine_dispatch L E c |E c. machine_answers L E} = answered_machine_runs L"
    using assms(1,2) by (auto simp: answered_machine_runs_def)
  note life = assms(3) [unfolded ms]
  have keep: "provider w = Some i" if "machine_step v w" "provider v = Some i" for v w i
    using that by (auto simp: machine_step_iff)
  have "provider (view_machine im) = Some i" if "provider (view_machine im0) = Some i" for i
    using machine_simulation.life_keeps [OF life, of "\<lambda>v. provider v = Some i"] that keep by blast
  then show ?thesis
    using machine_simulation.life_steps [OF life] by (auto simp: view_machine_def split: if_splits)
qed

section \<open>The firewall deployment\<close>

record deployment_view =
  dguarded :: bool
  resource :: "string option"
  dready :: bool

definition view_deployment :: "MetalStackFirewallDeployment \<Rightarrow> deployment_view" where
  "view_deployment d = \<lparr>
     dguarded = FirewallDeploymentFinalizer \<in> set (Finalizers (msfd_ObjectMeta d)),
     resource = map_option mrrName (ManagedResourceRef (msfd_Spec d)),
     dready = msfds_Ready (msfd_Status d)\<rparr>"

inductive deployment_step :: "deployment_view \<Rightarrow> deployment_view \<Rightarrow> bool" where
  dguard: "\<not> dguarded v \<Longrightarrow> deployment_step v (v\<lparr>dguarded := True\<rparr>)"
| deploy: "dguarded v \<Longrightarrow> resource v = None \<Longrightarrow> deployment_step v (v\<lparr>resource := Some i\<rparr>)"
| dannounce: "dguarded v \<Longrightarrow> resource v \<noteq> None \<Longrightarrow> deployment_step v (v\<lparr>dready := True\<rparr>)"
| drelease: "dguarded v \<Longrightarrow> deployment_step v (v\<lparr>dguarded := False\<rparr>)"

inductive_simps deployment_step_iff: "deployment_step v w"

abbreviation dview_of :: "firewallDeploymentReconciler st \<Rightarrow> deployment_view" where
  "dview_of s \<equiv> view_deployment (deployment s)"

lemma dview_ensure:
  "dguarded (dview_of s) \<Longrightarrow> wp (ensureFirewallDeployment L E) (\<lambda>x s'.
     deployment_step\<^sup>*\<^sup>* (dview_of s) (dview_of s') \<and> dguarded (dview_of s') \<and>
     (x = Some None \<longrightarrow> resource (dview_of s') \<noteq> None)) s"
  unfolding ensureFirewallDeployment_def Let_def
  by (auto simp: wp_simps view_deployment_def deployment_step_iff
      intro!: r_into_rtranclp split: option.split sum.split)

lemma dview_reconcile:
  assumes "dguarded (dview_of s)" and "firewall_reconcile L E s = (Some y, u)"
  shows "deployment_step\<^sup>*\<^sup>* (dview_of s) (dview_of u)"
proof -
  obtain x t where o: "ensureFirewallTemplateOwnerRefAndFinalizer L E s = (x, t)" by fastforce
  have t: "deployment t = deployment s" using template_owner_quiet(2) [OF o] .
  obtain z v where e: "ensureFirewallDeployment L E t = (z, v)" by fastforce
  note V = wpD [OF dview_ensure e]
  from assms(2) o e consider "deployment u = deployment s" | "deployment u = deployment t"
    | "deployment u = deployment v"
    | "z = Some None" "deployment u = mark_deployment_ready (deployment v)"
    by (auto simp: firewall_reconcile_def exec split: if_splits option.splits)
  then show ?thesis
  proof cases
    case 4
    have "dview_of u = (dview_of v)\<lparr>dready := True\<rparr>"
      by (simp add: 4(2) view_deployment_def mark_deployment_ready_def)
    moreover have "deployment_step (dview_of v) ((dview_of v)\<lparr>dready := True\<rparr>)"
      using V t assms(1) 4(1) by (simp add: dannounce)
    ultimately show ?thesis
      using V t assms(1) by (metis rtranclp.rtrancl_into_rtrancl)
  qed (use V t assms(1) in simp_all)
qed

lemma dview_delete:
  assumes "finalizer_laws L" and "dguarded (dview_of s)" and "firewall_delete L E s = (Some y, u)"
  shows "deployment_step\<^sup>*\<^sup>* (dview_of s) (dview_of u)"
proof -
  obtain z t where g: "firewall_ensureAllMetalStackMachinesAreGone L E s = (z, t)" by fastforce
  obtain v w where d: "deleteFirewallDeployment L E t = (v, w)" by fastforce
  have "self t = self s" "self w = self t"
    using wpD [OF firewall_gate.gate_asks g] deleteFirewallDeployment_outcome [OF d] by simp_all
  with assms(3) g d have "deployment u = deployment s \<or>
      deployment u = remove_deployment_finalizer L (deployment s)"
    by (auto simp: firewall_delete_def exec split: if_splits option.splits)
  moreover have "view_deployment (remove_deployment_finalizer L (deployment s)) =
      (dview_of s)\<lparr>dguarded := False\<rparr>"
    using assms(1) by (simp add: view_deployment_def remove_deployment_finalizer_def)
  ultimately show ?thesis using drelease [OF assms(2)] by auto
qed

lemma dview_switch:
  assumes "finalizer_laws L" and "firewall_switch L E s = (Some y, u)"
  shows "deployment_step\<^sup>*\<^sup>* (dview_of s) (dview_of u)"
proof -
  have guarded: "dguarded (dview_of s) \<longleftrightarrow> firewall_has_finalizer L (self s)"
    using assms(1) by (simp add: view_deployment_def firewall_has_finalizer_def)
  from assms(2) consider "self u = self s"
    | "firewall_has_finalizer L (self s)" "firewall_delete L E s = (Some y, u)"
    | "self u = add_firewall_finalizer L (self s)" "\<not> firewall_has_finalizer L (self s)"
    | "firewall_has_finalizer L (self s)" "firewall_reconcile L E s = (Some y, u)"
    using firewall_rec.delete_guard [of L s E]
    by (cases "firewall_has_finalizer L (self s)")
      (auto simp: firewall_switch_def exec split: if_splits)
  then show ?thesis
  proof cases
    case 3
    then have "deployment_step (dview_of s) (dview_of u)"
      using assms(1) guarded
      by (simp add: deployment_step_iff view_deployment_def add_firewall_finalizer_def)
    then show ?thesis ..
  qed (use guarded assms dview_delete dview_reconcile in auto)
qed

interpretation deployment_simulation:
  simulation "{firewall_dispatch L E |E. finalizer_laws L}" fc_firewallDeployment stored_deployment
    "\<lambda>d d'. view_deployment d' = view_deployment d" view_deployment deployment_step for L
proof unfold_locales
  fix m s x s' tr e cur'
  assume "m \<in> {firewall_dispatch L E |E. finalizer_laws L}"
    and run: "m s = (Some x, s')" "hist s' = hist s @ tr @ [e]" "stored_deployment e = Some cur'"
  then obtain E where m: "m = firewall_dispatch L E" and L: "finalizer_laws L" by blast
  from firewall_dispatch_stored [OF run [unfolded m]] obtain t y u where
    d: "self t = mark_firewall_paused L (self s)" "firewall_switch L E t = (Some y, u)"
      "deployment u = cur'" by blast
  have "dview_of t = dview_of s"
    by (simp add: d(1) view_deployment_def mark_firewall_paused_def set_deployment_condition_def
        MetalStackFirewallDeployment_SetConditions_def)
  with dview_switch [OF L d(2)] d(3)
  show "deployment_step\<^sup>*\<^sup>* (view_deployment (fc_firewallDeployment (self s))) (view_deployment cur')"
    by simp
qed simp


section \<open>Witnesses\<close>

theorem cluster_life_refines_witness:
  "\<exists>ic. network (view_cluster lib0 msc_auto) = None \<and>
     network (view_cluster lib0 ic) = Some ''net1'' \<and> guarded (view_cluster lib0 ic) \<and>
     cluster_step\<^sup>*\<^sup>* (view_cluster lib0 msc_auto) (view_cluster lib0 ic)"
proof -
  obtain tr ic where life: "lifetime (cluster_runs lib0) cr_infraCluster stored_cluster
      (cluster_condemned lib0) msc_auto 0 [] tr ic"
    and n: "NodeNetworkID (msc_Spec ic) = Some ''net1''"
    by (rule cluster_life0)
  have "network (view_cluster lib0 msc_auto) = None" "network (view_cluster lib0 ic) = Some ''net1''"
    using n by (simp_all add: view_cluster_def msc_auto_def objects0)
  with cluster_life_refines [OF lib0_laws(2) life] show ?thesis by auto
qed

lemma env_found_answers: "machine_answers lib0 env_found"
  by (simp add: machine_answers_def machine_partition_def response0_def)

theorem machine_identity_stable_witness:
  "\<exists>im. machine_step\<^sup>*\<^sup>* (view_machine msm_created) (view_machine im) \<and>
     decodeProviderID (ProviderID (msm_Spec im)) = ''m1''"
proof -
  let ?ms = "{machine_dispatch lib0 E c |E c. machine_answers lib0 E}"
  have ms: "machine_dispatch lib0 env_found cluster0 \<in> ?ms" using env_found_answers by blast
  obtain tr im where l: "lifetime ?ms mc_infraMachine stored_machine
      (\<lambda>im im'. view_machine im' = view_machine im) msm_created 0 [] tr im"
    by (rule machine_life0 [OF disjI2 [OF refl] ms])
  have "ProviderID (msm_Spec msm_created) \<noteq> []"
    "decodeProviderID (ProviderID (msm_Spec msm_created)) = ''m1''"
    by (simp_all add: msm_created_def decodeProviderID_def TrimPrefix_def Cut_def)
  with machine_identity_stable [OF lib0_laws(2,3) l] show ?thesis by blast
qed


end
