(* ===== verification/Returns.thy ===== *)
theory Returns
  imports ClusterController MachineController FirewallController Examples
begin

text \<open>
  Runs that return. A method of the controllers ends by returning or by a panic: the code
  dereferences pointers of the objects and of the API's answers, most of them without a check.
  This theory finds out what those pointers need for every run to return: \<open>returns v c m R\<close>
  says that \<open>m\<close>, started where the view \<open>v\<close> of the receiver is \<open>c\<close>, returns a result in \<open>R\<close> and
  leaves the view as it was.
\<close>

section \<open>Returning\<close>

definition returns :: "('r \<Rightarrow> 'v) \<Rightarrow> 'v \<Rightarrow> ('r st, 'a) go \<Rightarrow> ('a \<Rightarrow> bool) \<Rightarrow> bool" where
  "returns v c m R \<longleftrightarrow> (\<forall>s. v (self s) = c \<longrightarrow>
     wp m (\<lambda>x s'. pred_option R x \<and> x \<noteq> None \<and> v (self s') = c) s)"

named_theorems returning \<open>which programs return\<close>

lemma returnsD:
  assumes "returns v c m R" and "v (self s) = c"
  obtains x s' where "m s = (Some x, s')" and "R x" and "v (self s') = c"
  using assms by (cases "m s") (auto simp: returns_def wp_def)

lemma returnsI:
  assumes "\<And>s. v (self s) = c \<Longrightarrow> \<exists>x s'. m s = (Some x, s') \<and> R x \<and> v (self s') = c"
  shows "returns v c m R"
  using assms by (fastforce simp: returns_def wp_def)

lemma returns_mono: "returns v c m R \<Longrightarrow> (\<And>x. R x \<Longrightarrow> R' x) \<Longrightarrow> returns v c m R'"
  by (fastforce elim: returnsD intro: returnsI)

lemma returns_bnd:
  "returns v c m R \<Longrightarrow> (\<And>x. R x \<Longrightarrow> returns v c (f x) R') \<Longrightarrow> returns v c (bnd m f) R'"
  by (rule returnsI) (fastforce simp: exec elim: returnsD)

lemma returns_then:
  "returns v c m (\<lambda>_. True) \<Longrightarrow> (\<And>x. returns v c (f x) R) \<Longrightarrow> returns v c (bnd m f) R"
  by (rule returns_bnd)

lemma returns_ret [returning]: "R x \<Longrightarrow> returns v c (ret x) R"
  by (rule returnsI) (simp add: exec)

lemma returns_deref [returning]:
  "p \<noteq> None \<Longrightarrow> (\<And>x. p = Some x \<Longrightarrow> returns v c (f x) R) \<Longrightarrow> returns v c (bnd (deref p) f) R"
  by auto

lemma returns_get_self [returning]:
  "(\<And>r. v r = c \<Longrightarrow> returns v c (f r) R) \<Longrightarrow> returns v c (bnd get_self f) R"
  by (rule returnsI) (fastforce simp: exec elim: returnsD)

lemma returns_mod_self [returning]:
  "(\<And>r. v (g r) = v r) \<Longrightarrow> returns v c (f ()) R \<Longrightarrow> returns v c (bnd (mod_self g) f) R"
  by (rule returns_bnd [where R = "\<lambda>_. True"]) (auto intro: returnsI simp: exec)

lemma returns_call [returning]:
  assumes "\<And>h. returns v c (f (g h)) R"
  shows "returns v c (bnd (call g ev) f) R"
proof (rule returns_bnd)
  show "returns v c (call g ev) (\<lambda>x. \<exists>h. x = g h)"
    by (rule returnsI) (auto simp: exec)
  show "returns v c (f x) R" if "\<exists>h. x = g h" for x
    using assms that by blast
qed

lemma returns_with_self:
  assumes "returns w (w q) m (\<lambda>_. True)" and "\<And>a. returns v c (f a) R"
  shows "returns v c (bnd (with_self q m) f) R"
proof (rule returns_bnd)
  show "returns v c (with_self q m) (\<lambda>_. True)"
  proof (rule returnsI)
    fix s :: "'d st" assume "v (self s) = c"
    moreover obtain x t where "m \<lparr>hist = hist s, self = q\<rparr> = (Some x, t)"
      using assms(1) by (rule returnsD [where s = "\<lparr>hist = hist s, self = q\<rparr>"]) simp_all
    ultimately show "\<exists>x s'. with_self q m s = (Some x, s') \<and> True \<and> v (self s') = c"
      by (simp add: with_self_def)
  qed
qed (rule assms(2))

lemma returns_case_prod [returning]:
  "(\<And>x y. z = (x, y) \<Longrightarrow> returns v c (f x y) R) \<Longrightarrow> returns v c (case z of (x, y) \<Rightarrow> f x y) R"
  by (simp split: prod.split)

lemma returns_if [returning]:
  "(b \<Longrightarrow> returns v c m R) \<Longrightarrow> (\<not> b \<Longrightarrow> returns v c n R) \<Longrightarrow> returns v c (if b then m else n) R"
  by simp

lemma returns_case_option [returning]:
  "(z = None \<Longrightarrow> returns v c m R) \<Longrightarrow> (\<And>y. z = Some y \<Longrightarrow> returns v c (f y) R) \<Longrightarrow>
     returns v c (case z of None \<Rightarrow> m | Some y \<Rightarrow> f y) R"
  by (simp split: option.split)

lemma returns_case_sum [returning]:
  "(\<And>e. z = Inl e \<Longrightarrow> returns v c (m e) R) \<Longrightarrow> (\<And>y. z = Inr y \<Longrightarrow> returns v c (f y) R) \<Longrightarrow>
     returns v c (case z of Inl e \<Rightarrow> m e | Inr y \<Rightarrow> f y) R"
  by (simp split: sum.split)

lemma returns_case_list [returning]:
  "(z = [] \<Longrightarrow> returns v c m R) \<Longrightarrow> (\<And>y ys. z = y # ys \<Longrightarrow> returns v c (f y ys) R) \<Longrightarrow>
     returns v c (case z of [] \<Rightarrow> m | y # ys \<Rightarrow> f y ys) R"
  by (simp split: list.split)

text \<open>What the metal-stack API documents of its answers: what is allocated or looked up has an ID,
  and a machine that was allocated has its allocation.\<close>

definition complete_answers :: "env \<Rightarrow> bool" where
  "complete_answers E \<longleftrightarrow>
     (\<forall>h q r. metal_AllocateNetwork E h q = Inr r \<longrightarrow> nw_ID r \<noteq> None) \<and>
     (\<forall>h q r. metal_AllocateMachine E h q = Inr r \<longrightarrow> mr_ID r \<noteq> None \<and> mr_Allocation r \<noteq> None) \<and>
     (\<forall>h q r. metal_FindMachine E h q = Inr r \<longrightarrow> mr_ID r \<noteq> None) \<and>
     (\<forall>h q r. metal_AllocateFirewall E h q = Inr r \<longrightarrow> fw_ID r \<noteq> None)"

lemma answered:
  assumes "complete_answers E"
  shows "metal_AllocateNetwork E h q1 = Inr nw \<Longrightarrow> nw_ID nw \<noteq> None"
    and "metal_AllocateMachine E h q2 = Inr m \<Longrightarrow> mr_Allocation m \<noteq> None"
    and "metal_FindMachine E h i = Inr m \<Longrightarrow> mr_ID m \<noteq> None"
    and "metal_AllocateFirewall E h q3 = Inr fw \<Longrightarrow> fw_ID fw \<noteq> None"
  using assms unfolding complete_answers_def by metis+

section \<open>The cluster controller\<close>

definition cluster_view :: "clusterReconciler \<Rightarrow> MetalStackFirewallDeploymentRef option \<times> time option" where
  "cluster_view r = (FirewallDeploymentRef (msc_Spec (cr_infraCluster r)),
     DeletionTimestamp (msc_ObjectMeta (cr_infraCluster r)))"

lemma cluster_view_kept:
  "cluster_view (cr_infraCluster_update (set_cluster_condition L c) r) = cluster_view r"
  "cluster_view (cr_infraCluster_update (msc_Spec_update (\<lambda>sp. sp\<lparr>NodeNetworkID := n\<rparr>)) r) = cluster_view r"
  "cluster_view (cr_infraCluster_update (msc_Spec_update (\<lambda>sp. sp\<lparr>ControlPlaneIP := p\<rparr>)) r) = cluster_view r"
  "cluster_view (cr_infraCluster_update (msc_Spec_update (\<lambda>sp. sp\<lparr>ControlPlaneEndpoint := e\<rparr>)) r) = cluster_view r"
  "cluster_view (cr_infraCluster_update mark_cluster_ready r) = cluster_view r"
  "cluster_view (cr_infraCluster_update (remove_cluster_finalizer L) r) = cluster_view r"
  "cluster_view (add_cluster_finalizer L r) = cluster_view r"
  "cluster_view (mark_cluster_paused L r) = cluster_view r"
  by (simp_all add: cluster_view_def set_cluster_condition_def MetalStackCluster_SetConditions_def
      mark_cluster_ready_def remove_cluster_finalizer_def add_cluster_finalizer_def)

lemma ensureNodeNetwork_returns:
  assumes "complete_answers E"
  shows "returns cluster_view c (ensureNodeNetwork L E) (\<lambda>_. True)"
  unfolding ensureNodeNetwork_def Let_def
  by (intro returning answered [OF assms] TrueI)

lemma ensureControlPlaneIP_returns: "returns cluster_view c (ensureControlPlaneIP L E) (\<lambda>_. True)"
  unfolding ensureControlPlaneIP_def Let_def by (intro returning TrueI)

lemma deleteNodeNetwork_returns: "returns cluster_view c (deleteNodeNetwork E) (\<lambda>_. True)"
  unfolding deleteNodeNetwork_def by (intro returning TrueI)

lemma deleteControlPlaneIP_returns: "returns cluster_view c (deleteControlPlaneIP L E) (\<lambda>_. True)"
  unfolding deleteControlPlaneIP_def by (intro returning TrueI)

lemma cluster_gate_returns:
  "returns cluster_view c (cluster_ensureAllMetalStackMachinesAreGone L E) (\<lambda>_. True)"
  unfolding cluster_ensureAllMetalStackMachinesAreGone_def by (intro returning TrueI)

lemma viewed_ref: "fst c \<noteq> None \<Longrightarrow> cluster_view r = c \<Longrightarrow> FirewallDeploymentRef (msc_Spec (cr_infraCluster r)) \<noteq> None"
  by (auto simp: cluster_view_def)

lemma cluster_ensureFirewallDeployment_returns:
  assumes "fst c \<noteq> None"
  shows "returns cluster_view c (cluster_ensureFirewallDeployment L E) (\<lambda>_. True)"
  unfolding cluster_ensureFirewallDeployment_def firewall_deployment_key_def Let_def bnd_assoc bnd_ret
  by (intro returning viewed_ref [OF assms] TrueI)

lemma ensureFirewallDeploymentIsGone_returns:
  assumes "fst c \<noteq> None"
  shows "returns cluster_view c (ensureFirewallDeploymentIsGone L E) (\<lambda>_. True)"
  unfolding ensureFirewallDeploymentIsGone_def firewall_deployment_key_def bnd_assoc bnd_ret
  by (intro returning viewed_ref [OF assms] TrueI)

lemma reconcile_node_network_returns:
  "complete_answers E \<Longrightarrow> returns cluster_view c (reconcile_node_network L E) (\<lambda>_. True)"
  unfolding reconcile_node_network_def
  by (intro returning returns_then [OF ensureNodeNetwork_returns] cluster_view_kept TrueI)

lemma reconcile_firewall_deployment_returns:
  "returns cluster_view c (reconcile_firewall_deployment L E) (\<lambda>_. True)"
  unfolding reconcile_firewall_deployment_def
  by (intro returning returns_then [OF cluster_ensureFirewallDeployment_returns] cluster_view_kept TrueI)
    (auto simp: cluster_view_def)

lemma reconcile_control_plane_returns:
  "returns cluster_view c (reconcile_control_plane L E) (\<lambda>_. True)"
  unfolding reconcile_control_plane_def
  by (intro returning returns_then [OF ensureControlPlaneIP_returns] cluster_view_kept TrueI)

lemma cluster_reconcile_returns:
  "complete_answers E \<Longrightarrow> returns cluster_view c (cluster_reconcile L E) (\<lambda>_. True)"
  unfolding cluster_reconcile_def
  by (intro returning returns_then [OF reconcile_node_network_returns] returns_then [OF reconcile_firewall_deployment_returns]
      returns_then [OF reconcile_control_plane_returns] cluster_view_kept TrueI)

lemma cluster_delete_returns:
  "fst c \<noteq> None \<Longrightarrow> returns cluster_view c (cluster_delete L E) (\<lambda>_. True)"
  unfolding cluster_delete_def cluster_release_def
  by (intro returning returns_then [OF cluster_gate_returns] returns_then [OF ensureFirewallDeploymentIsGone_returns]
      returns_then [OF deleteControlPlaneIP_returns] returns_then [OF deleteNodeNetwork_returns] cluster_view_kept TrueI)

lemma cluster_switch_returns:
  assumes "complete_answers E" and "\<not> IsZero L (snd c) \<Longrightarrow> fst c \<noteq> None"
  shows "returns cluster_view c (cluster_switch L E) (\<lambda>_. True)"
  unfolding cluster_switch_def
  by (intro returning cluster_reconcile_returns cluster_delete_returns cluster_view_kept TrueI assms)
    (auto simp: cluster_view_def cluster_deleting_def)

lemma cluster_patch_returns: "returns cluster_view c (cluster_patch E r err) (\<lambda>_. True)"
  unfolding cluster_patch_def by (intro returning TrueI)

lemma cluster_dispatch_returns:
  assumes "complete_answers E" and "\<not> IsZero L (snd c) \<Longrightarrow> fst c \<noteq> None"
  shows "returns cluster_view c (cluster_dispatch L E) (\<lambda>_. True)"
  unfolding cluster_dispatch_def
  by (intro returning returns_then [OF cluster_switch_returns] cluster_patch_returns
      cluster_view_kept TrueI assms)

section \<open>The machine controller\<close>

definition machine_view :: "machineReconciler \<Rightarrow> MetalStackCluster \<times> Machine \<times> time option" where
  "machine_view r = (mc_infraCluster r, mc_clusterMachine r,
     DeletionTimestamp (msm_ObjectMeta (mc_infraMachine r)))"

lemma machine_view_kept:
  "machine_view (mc_infraMachine_update (set_machine_condition L c) r) = machine_view r"
  "machine_view (mc_infraMachine_update (msm_Status_update f) r) = machine_view r"
  "machine_view (mc_infraMachine_update (msm_Spec_update g) r) = machine_view r"
  "machine_view (mc_infraMachine_update (patchMachineLabels L m) r) = machine_view r"
  "machine_view (mc_infraMachine_update (remove_machine_finalizer L) r) = machine_view r"
  "machine_view (add_machine_finalizer L r) = machine_view r"
  "machine_view (mark_machine_paused L cluster r) = machine_view r"
  by (simp_all add: machine_view_def set_machine_condition_def MetalStackMachine_SetConditions_def
      patchMachineLabels_def Let_def remove_machine_finalizer_def add_machine_finalizer_def
      mark_machine_paused_def)

lemma viewed_network:
  "NodeNetworkID (msc_Spec (fst c)) \<noteq> None \<Longrightarrow> machine_view r = c \<Longrightarrow>
     NodeNetworkID (msc_Spec (mc_infraCluster r)) \<noteq> None"
  by (auto simp: machine_view_def)

lemma viewed_secret:
  "machine_DataSecretName (fst (snd c)) \<noteq> None \<Longrightarrow> machine_view r = c \<Longrightarrow>
     machine_DataSecretName (mc_clusterMachine r) \<noteq> None"
  by (auto simp: machine_view_def)

lemma viewed_deletion:
  "snd (snd c) \<noteq> None \<Longrightarrow> machine_view r = c \<Longrightarrow>
     DeletionTimestamp (msm_ObjectMeta (mc_infraMachine r)) \<noteq> None"
  by (auto simp: machine_view_def)

lemma findProviderMachine_returns:
  assumes "complete_answers E"
  shows "returns machine_view c (findProviderMachine L E)
    (\<lambda>x. \<forall>m. x = Inr m \<longrightarrow> mr_ID m \<noteq> None \<and> mr_Allocation m \<noteq> None)"
  unfolding findProviderMachine_def Let_def
  by (intro returning machine_view_kept; use assms in \<open>auto simp: complete_answers_def\<close>)

lemma machineTags_returns:
  assumes "NodeNetworkID (msc_Spec (fst c)) \<noteq> None"
  shows "returns machine_view c (machineTags L) (\<lambda>_. True)"
  unfolding machineTags_def Let_def by (intro returning viewed_network [OF assms] TrueI)

lemma create_returns:
  assumes "complete_answers E" and "NodeNetworkID (msc_Spec (fst c)) \<noteq> None"
    and "machine_DataSecretName (fst (snd c)) \<noteq> None"
  shows "returns machine_view c (create L E) (\<lambda>x. \<forall>m. x = Inr m \<longrightarrow> mr_Allocation m \<noteq> None)"
  unfolding create_def Let_def
  by (intro returning returns_then [OF machineTags_returns] viewed_secret [OF assms(3)] assms(2))
    (use answered(2) [OF assms(1)] in auto)

lemma provider_machine_returns:
  assumes "complete_answers E" and "NodeNetworkID (msc_Spec (fst c)) \<noteq> None"
    and "machine_DataSecretName (fst (snd c)) \<noteq> None"
  shows "returns machine_view c (provider_machine L E)
    (\<lambda>x. \<forall>m. x = Inr m \<longrightarrow> mr_Allocation m \<noteq> None)"
  unfolding provider_machine_def
  by (intro returning returns_bnd [OF create_returns [OF assms]]
      returns_bnd [OF findProviderMachine_returns [OF assms(1)]] machine_view_kept) auto

lemma apply_machine_returns:
  assumes "mr_Allocation m \<noteq> None"
  shows "returns machine_view c (apply_machine L m) (\<lambda>_. True)"
  using assms
  by (auto simp: apply_machine_def getMachineAddresses_def Let_def bnd_assoc
      intro!: returning machine_view_kept split: prod.split)

lemma machine_reconcile_returns:
  assumes "complete_answers E"
  shows "returns machine_view c (machine_reconcile L E) (\<lambda>_. True)"
  unfolding machine_reconcile_def Let_def
  by (intro returning returns_bnd [OF provider_machine_returns] apply_machine_returns assms)
    (auto simp: machine_view_def)

lemma machine_delete_returns:
  assumes "complete_answers E" and "snd (snd c) \<noteq> None"
  shows "returns machine_view c (machine_delete L E) (\<lambda>_. True)"
  unfolding machine_delete_def Let_def
  by (intro returning returns_bnd [OF findProviderMachine_returns [OF assms(1)]]
      viewed_deletion [OF assms(2)] machine_view_kept) auto

lemma machine_switch_returns:
  assumes "complete_answers E" and "IsZero L None"
  shows "returns machine_view c (machine_switch L E cluster) (\<lambda>_. True)"
  unfolding machine_switch_def
  by (intro returning machine_reconcile_returns machine_delete_returns machine_view_kept TrueI assms)
    (use assms(2) in \<open>auto simp: machine_view_def machine_deleting_def intro: ccontr\<close>)

lemma machine_patch_returns: "returns machine_view c (machine_patch E r res) (\<lambda>_. True)"
  unfolding machine_patch_def by (intro returning TrueI)

lemma machine_dispatch_returns:
  assumes "complete_answers E" and "IsZero L None"
  shows "returns machine_view c (machine_dispatch L E cluster) (\<lambda>_. True)"
  unfolding machine_dispatch_def
  by (intro returning returns_then [OF machine_switch_returns] machine_patch_returns
      machine_view_kept TrueI assms)

section \<open>The firewall deployment controller\<close>

definition firewall_view :: "firewallDeploymentReconciler \<Rightarrow> string option \<times> time option" where
  "firewall_view r = (NodeNetworkID (msc_Spec (fc_infraCluster r)),
     DeletionTimestamp (msfd_ObjectMeta (fc_firewallDeployment r)))"

lemma firewall_view_kept:
  "firewall_view (fc_firewallTemplate_update g r) = firewall_view r"
  "firewall_view (fc_infraCluster_update (set_cluster_condition L c) r) = firewall_view r"
  "firewall_view (fc_firewallDeployment_update (msfd_Spec_update h) r) = firewall_view r"
  "firewall_view (fc_firewallDeployment_update mark_deployment_ready r) = firewall_view r"
  "firewall_view (fc_firewallDeployment_update (remove_deployment_finalizer L) r) = firewall_view r"
  "firewall_view (add_firewall_finalizer L r) = firewall_view r"
  "firewall_view (mark_firewall_paused L r) = firewall_view r"
  by (simp_all add: firewall_view_def set_cluster_condition_def MetalStackCluster_SetConditions_def
      mark_deployment_ready_def remove_deployment_finalizer_def add_firewall_finalizer_def)

lemma viewed_node_network:
  "fst c \<noteq> None \<Longrightarrow> firewall_view r = c \<Longrightarrow> NodeNetworkID (msc_Spec (fc_infraCluster r)) \<noteq> None"
  by (auto simp: firewall_view_def)

lemma firewall_tags_returns:
  "NodeNetworkID (msc_Spec (fc_infraCluster r)) \<noteq> None \<Longrightarrow>
     returns firewall_view c (firewall_tags L r) (\<lambda>_. True)"
  unfolding firewall_tags_def Let_def by (intro returning TrueI)

lemma template_owner_returns:
  "returns firewall_view c (ensureFirewallTemplateOwnerRefAndFinalizer L E) (\<lambda>_. True)"
  unfolding ensureFirewallTemplateOwnerRefAndFinalizer_def Let_def
  by (intro returning firewall_view_kept TrueI)

lemma ensureFirewallDeployment_returns:
  assumes "complete_answers E" and "fst c \<noteq> None"
  shows "returns firewall_view c (ensureFirewallDeployment L E) (\<lambda>_. True)"
  unfolding ensureFirewallDeployment_def Let_def
  by (intro returning returns_then [OF firewall_tags_returns] viewed_node_network [OF assms(2)]
      answered(4) [OF assms(1)] firewall_view_kept TrueI)

lemma free_firewalls_returns: "returns firewall_view c (free_firewalls E errs fws) (\<lambda>_. True)"
proof (induction fws arbitrary: errs)
  case Nil
  show ?case by (simp add: returns_ret)
next
  case (Cons fw fws)
  show ?case unfolding free_firewalls.simps by (intro returning Cons.IH)
qed

lemma deleteFirewallDeployment_returns:
  assumes "fst c \<noteq> None"
  shows "returns firewall_view c (deleteFirewallDeployment L E) (\<lambda>_. True)"
  unfolding deleteFirewallDeployment_def
  by (intro returning returns_then [OF firewall_tags_returns] returns_then [OF free_firewalls_returns]
      viewed_node_network [OF assms] TrueI)

lemma firewall_gate_returns:
  "returns firewall_view c (firewall_ensureAllMetalStackMachinesAreGone L E) (\<lambda>_. True)"
  unfolding firewall_ensureAllMetalStackMachinesAreGone_def by (intro returning TrueI)

lemma firewall_reconcile_returns:
  assumes "complete_answers E"
  shows "returns firewall_view c (firewall_reconcile L E) (\<lambda>_. True)"
  unfolding firewall_reconcile_def
  by (intro returning returns_then [OF template_owner_returns]
      returns_then [OF ensureFirewallDeployment_returns] firewall_view_kept TrueI assms)
    (auto simp: firewall_view_def)

lemma firewall_delete_returns:
  assumes "fst c \<noteq> None"
  shows "returns firewall_view c (firewall_delete L E) (\<lambda>_. True)"
  unfolding firewall_delete_def
  by (intro returning returns_then [OF firewall_gate_returns]
      returns_then [OF deleteFirewallDeployment_returns] firewall_view_kept TrueI assms)

lemma firewall_switch_returns:
  assumes "complete_answers E" and "\<not> IsZero L (snd c) \<Longrightarrow> fst c \<noteq> None"
  shows "returns firewall_view c (firewall_switch L E) (\<lambda>_. True)"
  unfolding firewall_switch_def
  by (intro returning firewall_reconcile_returns firewall_delete_returns firewall_view_kept TrueI assms)
    (auto simp: firewall_view_def firewall_deleting_def)

lemma firewall_patch_returns: "returns firewall_view c (firewall_patch E r err) (\<lambda>_. True)"
  unfolding firewall_patch_def Let_def by (intro returning TrueI)

lemma firewall_dispatch_returns:
  assumes "complete_answers E" and "\<not> IsZero L (snd c) \<Longrightarrow> fst c \<noteq> None"
  shows "returns firewall_view c (firewall_dispatch L E) (\<lambda>_. True)"
  unfolding firewall_dispatch_def
  by (intro returning returns_then [OF firewall_switch_returns] firewall_patch_returns
      firewall_view_kept TrueI assms)

section \<open>The pointers a deletion needs\<close>

lemma returns_result:
  assumes "returns v (v (self s)) m R"
  shows "fst (m s) \<noteq> None"
  using assms by (auto elim: returnsD)

lemma cluster_delete_panics:
  assumes "ContainsFinalizer L (Finalizers (msc_ObjectMeta (cr_infraCluster (self s)))) ClusterFinalizer"
    and "kube_ListMachines E (hist s) (machines_of_cluster L (cr_cluster (self s))) = Inr []"
    and "FirewallDeploymentRef (msc_Spec (cr_infraCluster (self s))) = None"
  shows "fst (cluster_delete L E s) = None"
  using assms by (simp add: cluster_delete_def cluster_ensureAllMetalStackMachinesAreGone_def
      ensureFirewallDeploymentIsGone_def firewall_deployment_key_def exec)

lemma firewall_delete_panics:
  assumes "ContainsFinalizer L (Finalizers (msfd_ObjectMeta (fc_firewallDeployment (self s)))) FirewallDeploymentFinalizer"
    and "kube_ListMachines E (hist s) (machines_of_cluster L (fc_cluster (self s))) = Inr []"
    and "NodeNetworkID (msc_Spec (fc_infraCluster (self s))) = None"
  shows "fst (firewall_delete L E s) = None"
  using assms by (simp add: firewall_delete_def firewall_ensureAllMetalStackMachinesAreGone_def
      deleteFirewallDeployment_def firewall_tags_def Let_def exec)

lemma blocked_cluster_delete:
  assumes "\<not> ContainsFinalizer L (Finalizers (msc_ObjectMeta (cr_infraCluster (self s)))) ClusterFinalizer \<or>
    kube_ListMachines E (hist s) (machines_of_cluster L (cr_cluster (self s))) \<noteq> Inr []"
  shows "fst (cluster_delete L E s) \<noteq> None"
  using assms by (auto simp: cluster_delete_def cluster_ensureAllMetalStackMachinesAreGone_def
      exec split: sum.split)

lemma blocked_firewall_delete:
  assumes "\<not> ContainsFinalizer L (Finalizers (msfd_ObjectMeta (fc_firewallDeployment (self s)))) FirewallDeploymentFinalizer \<or>
    kube_ListMachines E (hist s) (machines_of_cluster L (fc_cluster (self s))) \<noteq> Inr []"
  shows "fst (firewall_delete L E s) \<noteq> None"
  using assms by (auto simp: firewall_delete_def firewall_ensureAllMetalStackMachinesAreGone_def
      exec split: sum.split)

text \<open>C27. When a deletion panics, exactly: once no machine is left, the deletion of a cluster
  panics if and only if the cluster names no firewall deployment, and that of a firewall
  deployment if and only if its cluster has no node network. Both fields are optional, and a
  cluster that never got its network has a deployment with a finalizer, so both can block a
  deletion forever.\<close>

theorem delete_panics_exactly:
  "(fst (cluster_delete L E s) = None \<longleftrightarrow>
      ContainsFinalizer L (Finalizers (msc_ObjectMeta (cr_infraCluster (self s)))) ClusterFinalizer \<and>
      kube_ListMachines E (hist s) (machines_of_cluster L (cr_cluster (self s))) = Inr [] \<and>
      FirewallDeploymentRef (msc_Spec (cr_infraCluster (self s))) = None) \<and>
   (fst (firewall_delete L E t) = None \<longleftrightarrow>
      ContainsFinalizer L (Finalizers (msfd_ObjectMeta (fc_firewallDeployment (self t)))) FirewallDeploymentFinalizer \<and>
      kube_ListMachines E (hist t) (machines_of_cluster L (fc_cluster (self t))) = Inr [] \<and>
      NodeNetworkID (msc_Spec (fc_infraCluster (self t))) = None)"
proof -
  have "fst (cluster_delete L E s) \<noteq> None"
    if "FirewallDeploymentRef (msc_Spec (cr_infraCluster (self s))) \<noteq> None"
    using returns_result [OF cluster_delete_returns [of "cluster_view (self s)"]] that
    by (simp add: cluster_view_def)
  moreover have "fst (firewall_delete L E t) \<noteq> None"
    if "NodeNetworkID (msc_Spec (fc_infraCluster (self t))) \<noteq> None"
    using returns_result [OF firewall_delete_returns [of "firewall_view (self t)"]] that
    by (simp add: firewall_view_def)
  ultimately show ?thesis
    using cluster_delete_panics [of L s E] firewall_delete_panics [of L t E]
      blocked_cluster_delete [of L s E] blocked_firewall_delete [of L t E] by blast
qed

section \<open>One Reconcile\<close>

abbreviation any :: "'r \<Rightarrow> unit" where
  "any \<equiv> \<lambda>_. ()"

lemma owner_returns:
  "returns any () (GetOwnerMetalStackCluster L E m)
     (\<lambda>x. \<forall>ic. x = Inr (Some ic) \<longrightarrow> (\<exists>h q. kube_GetMetalStackCluster E h q = Inr ic))"
proof -
  have "returns any () (owner_loop L E ns refs)
      (\<lambda>x. \<forall>ic. x = Inr (Some ic) \<longrightarrow> (\<exists>h q. kube_GetMetalStackCluster E h q = Inr ic))" for ns refs
  proof (induction refs)
    case Nil
    show ?case by (simp add: returns_ret)
  next
    case (Cons ref refs)
    show ?case unfolding owner_loop.simps GetInfraClusterByName_def Let_def bnd_assoc
      by (intro returning Cons.IH) (auto split: sum.split intro!: returns_ret)
  qed
  then show ?thesis by (simp add: GetOwnerMetalStackCluster_def)
qed

text \<open>If the cluster this run is for is under deletion, then it names its firewall deployment.\<close>

definition cluster_complete :: "lib \<Rightarrow> env \<Rightarrow> history \<Rightarrow> NamespacedName \<Rightarrow> bool" where
  "cluster_complete L E h req \<longleftrightarrow> (\<forall>ic. kube_GetMetalStackCluster E h req = Inr ic \<longrightarrow>
     \<not> IsZero L (DeletionTimestamp (msc_ObjectMeta ic)) \<longrightarrow> FirewallDeploymentRef (msc_Spec ic) \<noteq> None)"

text \<open>If the deployment this run is for is under deletion, then the cluster that owns it, looked up
  next by the name in the owner reference and in the namespace of the deployment, has its
  network.\<close>

definition deployment_complete :: "lib \<Rightarrow> env \<Rightarrow> history \<Rightarrow> NamespacedName \<Rightarrow> bool" where
  "deployment_complete L E h req \<longleftrightarrow> (\<forall>d ref ic.
     kube_GetFirewallDeployment E h req = Inr d \<longrightarrow>
     \<not> IsZero L (DeletionTimestamp (msfd_ObjectMeta d)) \<longrightarrow>
     ref \<in> set (OwnerReferences (msfd_ObjectMeta d)) \<longrightarrow> refKind ref = MetalStackClusterKind \<longrightarrow>
     kube_GetMetalStackCluster E (h @ [Kube (GetFirewallDeployment req (Inr d))])
       \<lparr>nnNamespace = Namespace (msfd_ObjectMeta d), nnName = refName ref\<rparr> = Inr ic \<longrightarrow>
     NodeNetworkID (msc_Spec ic) \<noteq> None)"

text \<open>The cluster controller after its first lookup.\<close>

definition cluster_rest ::
    "lib \<Rightarrow> env \<Rightarrow> MetalStackCluster \<Rightarrow> ('r st, Result \<times> go_error option) go" where
  "cluster_rest L E infraCluster =
     bnd (do_GetOwnerCluster E (msc_ObjectMeta infraCluster)) (\<lambda>resp.
     case resp of
       Inl err \<Rightarrow> ret (empty_Result, Some err)
     | Inr None \<Rightarrow> ret (empty_Result, None)
     | Inr (Some cluster) \<Rightarrow>
         bnd (with_self \<lparr>cr_cluster = cluster, cr_infraCluster = infraCluster\<rparr>
            (cluster_dispatch L E)) (\<lambda>(err, _).
         ret (empty_Result, err)))"

lemma cluster_rest_returns:
  assumes "complete_answers E"
    and "\<not> IsZero L (DeletionTimestamp (msc_ObjectMeta ic)) \<longrightarrow> FirewallDeploymentRef (msc_Spec ic) \<noteq> None"
  shows "returns any () (cluster_rest L E ic) (\<lambda>_. True)"
  unfolding cluster_rest_def
  by (intro returning returns_with_self [OF cluster_dispatch_returns] assms(1) TrueI)
    (use assms(2) in \<open>auto simp: cluster_view_def\<close>)

lemma cluster_Reconcile_returns:
  assumes "complete_answers E" and "cluster_complete L E (hist s) req"
  shows "wp (MetalStackClusterReconciler_Reconcile L E req) (\<lambda>x s'. x \<noteq> None) s"
proof (cases "kube_GetMetalStackCluster E (hist s) req")
  case (Inl err)
  then show ?thesis by (simp add: MetalStackClusterReconciler_Reconcile_def wp_def exec)
next
  case (Inr ic)
  with assms(2) have
    "\<not> IsZero L (DeletionTimestamp (msc_ObjectMeta ic)) \<longrightarrow> FirewallDeploymentRef (msc_Spec ic) \<noteq> None"
    by (simp add: cluster_complete_def)
  then have "fst (cluster_rest L E ic u) \<noteq> None" for u :: "'a st"
    using returns_result [OF cluster_rest_returns [OF assms(1)]] by blast
  with Inr show ?thesis
    unfolding MetalStackClusterReconciler_Reconcile_def cluster_rest_def [symmetric]
    by (auto simp: wp_def exec split: prod.split)
qed

lemma machine_Reconcile_returns:
  assumes "complete_answers E" and "IsZero L None"
  shows "returns any () (MetalStackMachineReconciler_Reconcile L E req) (\<lambda>_. True)"
  unfolding MetalStackMachineReconciler_Reconcile_def
  by (intro returning returns_with_self [OF machine_dispatch_returns] assms TrueI)

lemma returns_any: "returns any () m (\<lambda>_. True) \<Longrightarrow> wp m (\<lambda>x s'. x \<noteq> None) s"
  by (auto simp: returns_def elim: wp_mono)

text \<open>The deployment controller after its first two lookups.\<close>

definition firewall_rest ::
    "lib \<Rightarrow> env \<Rightarrow> MetalStackFirewallDeployment \<Rightarrow> MetalStackCluster \<Rightarrow> ('r st, Result \<times> go_error option) go" where
  "firewall_rest L E fwdeploy infraCluster =
     bnd (do_GetOwnerCluster E (msc_ObjectMeta infraCluster)) (\<lambda>resp.
     case resp of
       Inl err \<Rightarrow> ret (empty_Result, Some err)
     | Inr None \<Rightarrow> ret (empty_Result, None)
     | Inr (Some cluster) \<Rightarrow>
     bnd (do_GetFirewallTemplate E (template_key fwdeploy)) (\<lambda>resp.
     case resp of
       Inl err \<Rightarrow>
         if IsNotFound L (Some err) then ret (empty_Result, None)
         else ret (empty_Result, Some err)
     | Inr fwtemplate \<Rightarrow>
         bnd (with_self \<lparr>fc_cluster = cluster, fc_infraCluster = infraCluster,
                fc_firewallDeployment = fwdeploy, fc_firewallTemplate = fwtemplate\<rparr>
              (firewall_dispatch L E)) (\<lambda>(err, _).
         ret (empty_Result, err))))"

lemma firewall_rest_returns:
  assumes "complete_answers E"
    and "\<not> IsZero L (DeletionTimestamp (msfd_ObjectMeta d)) \<longrightarrow> NodeNetworkID (msc_Spec ic) \<noteq> None"
  shows "returns any () (firewall_rest L E d ic) (\<lambda>_. True)"
  unfolding firewall_rest_def
  by (intro returning returns_with_self [OF firewall_dispatch_returns] assms(1) TrueI)
    (use assms(2) in \<open>auto simp: firewall_view_def\<close>)

lemma firewall_Reconcile_returns:
  assumes "complete_answers E" and "deployment_complete L E (hist s) req"
  shows "wp (MetalStackFirewallDeploymentReconciler_Reconcile L E req) (\<lambda>x s'. x \<noteq> None) s"
proof (cases "kube_GetFirewallDeployment E (hist s) req")
  case (Inl err)
  then show ?thesis
    by (simp add: MetalStackFirewallDeploymentReconciler_Reconcile_def wp_def exec)
next
  case (Inr d)
  let ?t = "s\<lparr>hist := hist s @ [Kube (GetFirewallDeployment req (Inr d))]\<rparr>"
  obtain y u where o: "GetOwnerMetalStackCluster L E (msfd_ObjectMeta d) ?t = (y, u)" by fastforce
  have "y \<noteq> None" using returns_result [OF owner_returns [of L E "msfd_ObjectMeta d"], of ?t] o by simp
  moreover have "fst (firewall_rest L E d ic u) \<noteq> None" if "y = Some (Inr (Some ic))" for ic
  proof -
    have loop: "owner_loop L E (Namespace (msfd_ObjectMeta d)) (OwnerReferences (msfd_ObjectMeta d)) ?t =
        (Some (Inr (Some ic)), u)"
      using o that by (simp add: GetOwnerMetalStackCluster_def)
    from owner_loop_found [OF loop] obtain pre ref post where
      split: "OwnerReferences (msfd_ObjectMeta d) = pre @ ref # post" and
      found: "refKind ref = MetalStackClusterKind" "kube_GetMetalStackCluster E (hist ?t)
        \<lparr>nnNamespace = Namespace (msfd_ObjectMeta d), nnName = refName ref\<rparr> = Inr ic" by blast
    from split have "ref \<in> set (OwnerReferences (msfd_ObjectMeta d))" by simp
    with found assms(2) Inr have
      "\<not> IsZero L (DeletionTimestamp (msfd_ObjectMeta d)) \<longrightarrow> NodeNetworkID (msc_Spec ic) \<noteq> None"
      by (simp add: deployment_complete_def)
    then show ?thesis using returns_result [OF firewall_rest_returns [OF assms(1)]] by blast
  qed
  ultimately show ?thesis using Inr o
    by (auto simp: MetalStackFirewallDeploymentReconciler_Reconcile_def wp_def exec
        firewall_rest_def [symmetric] split: sum.split option.split)
qed

text \<open>C26. No run panics, and every run returns a result, if the metal-stack API answers with the IDs
  it documents, a cluster that is being deleted names its firewall deployment, and a firewall
  deployment that is being deleted is owned by a cluster that still has its node network. The code
  checks none of these pointers; the machine controller needs the answers alone.\<close>

theorem Reconcile_returns:
  assumes "complete_answers E" and "IsZero L None"
    and "cluster_complete L E (hist s) req" and "deployment_complete L E (hist s) req"
  shows "wp (MetalStackClusterReconciler_Reconcile L E req) (\<lambda>x s'. x \<noteq> None) s \<and>
    wp (MetalStackMachineReconciler_Reconcile L E req) (\<lambda>x s'. x \<noteq> None) s \<and>
    wp (MetalStackFirewallDeploymentReconciler_Reconcile L E req) (\<lambda>x s'. x \<noteq> None) s"
  using assms by (intro conjI returns_any cluster_Reconcile_returns machine_Reconcile_returns
      firewall_Reconcile_returns)

definition env_complete :: env where
  "env_complete = (let gone = meta0\<lparr>DeletionTimestamp := Some 5\<rparr> in env0\<lparr>
     kube_GetMetalStackCluster := \<lambda>h q. Inr (msc0\<lparr>msc_ObjectMeta := gone,
       msc_Spec := (msc_Spec msc0)\<lparr>NodeNetworkID := Some ''net1'',
         FirewallDeploymentRef := Some \<lparr>fdrName = ''fw''\<rparr>\<rparr>\<rparr>),
     kube_GetFirewallDeployment := \<lambda>h q. Inr (msfd0\<lparr>msfd_ObjectMeta := gone\<lparr>OwnerReferences :=
       [NewControllerRef lib0 gone GroupVersion_v1alpha1 MetalStackClusterKind]\<rparr>\<rparr>)\<rparr>)"

theorem Reconcile_returns_witness:
  "(let req = \<lparr>nnNamespace = ''ns'', nnName = ''c1''\<rparr>; s = \<lparr>hist = [], self = ()\<rparr> in
    wp (MetalStackClusterReconciler_Reconcile lib0 env_complete req) (\<lambda>x s'. x \<noteq> None) s \<and>
    wp (MetalStackMachineReconciler_Reconcile lib0 env_complete req) (\<lambda>x s'. x \<noteq> None) s \<and>
    wp (MetalStackFirewallDeploymentReconciler_Reconcile lib0 env_complete req) (\<lambda>x s'. x \<noteq> None) s)"
  unfolding Let_def
  by (rule Reconcile_returns)
    (simp_all add: complete_answers_def cluster_complete_def deployment_complete_def
      env_complete_def Let_def response0_def)

end
