(* ===== verification/System.thy ===== *)
theory System
  imports LifetimeProperties WatchProperties Returns
begin

text \<open>
  The three controllers together, on the objects of one cluster: the MetalStackCluster, its
  machines (by name) and its firewall deployment. A step is a stored run of one controller on
  the current objects, or a change by someone else. A run is atomic with respect to the
  objects: what it lists and reads of them is what is there. The metal-stack API answers
  whatever it likes. A run whose patch is not stored leaves the objects as they are, so it is
  no step.
\<close>

section \<open>The system\<close>

record system =
  sys_cluster :: "MetalStackCluster option"
  sys_machines :: "string \<Rightarrow> MetalStackMachine option"
  sys_deployment :: "MetalStackFirewallDeployment option"

definition empty_system :: system where
  "empty_system = \<lparr>sys_cluster = None, sys_machines = Map.empty, sys_deployment = None\<rparr>"

definition deployment_key :: "MetalStackFirewallDeployment \<Rightarrow> NamespacedName" where
  "deployment_key d = \<lparr>nnNamespace = Namespace (msfd_ObjectMeta d), nnName = Name (msfd_ObjectMeta d)\<rparr>"

text \<open>The machines of the cluster carry its label, and the deployment is the one it refers to.\<close>

definition machine_of :: "lib \<Rightarrow> Cluster \<Rightarrow> MetalStackMachine \<Rightarrow> bool" where
  "machine_of L c im = selected (machines_of_cluster L c) im"

definition deployment_of :: "Cluster \<Rightarrow> MetalStackCluster \<Rightarrow> MetalStackFirewallDeployment \<Rightarrow> bool" where
  "deployment_of c ic d \<longleftrightarrow> (\<exists>ref. FirewallDeploymentRef (msc_Spec ic) = Some ref \<and>
     deployment_key d = \<lparr>nnNamespace = Namespace (cluster_ObjectMeta c), nnName = fdrName ref\<rparr>)"

text \<open>What the API server tells of the objects: an empty list only when nothing matches, and no
  NotFound for an object it has.\<close>

definition serves :: "lib \<Rightarrow> system \<Rightarrow> env \<Rightarrow> bool" where
  "serves L S E \<longleftrightarrow>
     (\<forall>h q. kube_ListMachines E h q = Inr [] \<longrightarrow>
        (\<forall>n im. sys_machines S n = Some im \<longrightarrow> \<not> selected q im)) \<and>
     (\<forall>h d. sys_deployment S = Some d \<longrightarrow>
        \<not> IsNotFound L (err_of (kube_GetFirewallDeployment E h (deployment_key d))))"

text \<open>What other actors may change here: of a cluster everything but its node network, and its
  finalizers but the controller's; of a machine everything but its provider ID.\<close>

definition cluster_edit :: "MetalStackCluster \<Rightarrow> MetalStackCluster \<Rightarrow> bool" where
  "cluster_edit ic ic' \<longleftrightarrow> NodeNetworkID (msc_Spec ic') = NodeNetworkID (msc_Spec ic) \<and>
     (ClusterFinalizer \<in> set (Finalizers (msc_ObjectMeta ic')) \<longleftrightarrow>
      ClusterFinalizer \<in> set (Finalizers (msc_ObjectMeta ic)))"

definition machine_edit :: "MetalStackMachine \<Rightarrow> MetalStackMachine \<Rightarrow> bool" where
  "machine_edit im im' \<longleftrightarrow> ProviderID (msm_Spec im') = ProviderID (msm_Spec im)"

inductive system_step :: "lib \<Rightarrow> Cluster \<Rightarrow> system \<Rightarrow> system \<Rightarrow> bool" for L c where
  cluster_run: "sys_cluster S = Some ic \<Longrightarrow> serves L S E \<Longrightarrow>
    self s = \<lparr>cr_cluster = c, cr_infraCluster = ic\<rparr> \<Longrightarrow>
    cluster_dispatch L E s = (Some x, s') \<Longrightarrow> hist s' = hist s @ tr @ [e] \<Longrightarrow>
    stored_cluster e = Some ic' \<Longrightarrow> system_step L c S (S\<lparr>sys_cluster := Some ic'\<rparr>)"
| machine_run: "sys_cluster S = Some ic \<Longrightarrow> sys_machines S n = Some im \<Longrightarrow>
    self ms = \<lparr>mc_infraCluster = ic, mc_clusterMachine = cm, mc_infraMachine = im\<rparr> \<Longrightarrow>
    machine_dispatch L E c ms = (Some y, ms') \<Longrightarrow> hist ms' = hist ms @ tr @ [e] \<Longrightarrow>
    stored_machine e = Some im' \<Longrightarrow>
    system_step L c S (S\<lparr>sys_machines := (sys_machines S)(n \<mapsto> im')\<rparr>)"
| deployment_run: "sys_cluster S = Some ic \<Longrightarrow> sys_deployment S = Some d \<Longrightarrow> serves L S E \<Longrightarrow>
    self fs = \<lparr>fc_cluster = c, fc_infraCluster = ic, fc_firewallDeployment = d,
      fc_firewallTemplate = t\<rparr> \<Longrightarrow>
    firewall_dispatch L E fs = (Some z, fs') \<Longrightarrow> hist fs' = hist fs @ tr @ [e] \<Longrightarrow>
    stored_deployment e = Some d' \<Longrightarrow> system_step L c S (S\<lparr>sys_deployment := Some d'\<rparr>)"
| cluster_created: "sys_cluster S = None \<Longrightarrow> NodeNetworkID (msc_Spec ic) = None \<Longrightarrow>
    (\<And>d. sys_deployment S = Some d \<Longrightarrow> deployment_of c ic d) \<Longrightarrow>
    system_step L c S (S\<lparr>sys_cluster := Some ic\<rparr>)"
| cluster_edited: "sys_cluster S = Some ic \<Longrightarrow> cluster_edit ic ic' \<Longrightarrow>
    FirewallDeploymentRef (msc_Spec ic') = FirewallDeploymentRef (msc_Spec ic) \<Longrightarrow>
    system_step L c S (S\<lparr>sys_cluster := Some ic'\<rparr>)"
| cluster_collected: "sys_cluster S = Some ic \<Longrightarrow>
    ClusterFinalizer \<notin> set (Finalizers (msc_ObjectMeta ic)) \<Longrightarrow>
    system_step L c S (S\<lparr>sys_cluster := None\<rparr>)"
| machine_created: "sys_machines S n = None \<Longrightarrow> ProviderID (msm_Spec im) = [] \<Longrightarrow> machine_of L c im \<Longrightarrow>
    system_step L c S (S\<lparr>sys_machines := (sys_machines S)(n \<mapsto> im)\<rparr>)"
| machine_edited: "sys_machines S n = Some im \<Longrightarrow> machine_edit im im' \<Longrightarrow> machine_of L c im' \<Longrightarrow>
    system_step L c S (S\<lparr>sys_machines := (sys_machines S)(n \<mapsto> im')\<rparr>)"
| machine_collected: "sys_machines S n = Some im \<Longrightarrow>
    MachineFinalizer \<notin> set (Finalizers (msm_ObjectMeta im)) \<Longrightarrow>
    system_step L c S (S\<lparr>sys_machines := (sys_machines S)(n := None)\<rparr>)"
| deployment_created: "sys_deployment S = None \<Longrightarrow> sys_cluster S = Some ic \<Longrightarrow> deployment_of c ic d \<Longrightarrow>
    ManagedResourceRef (msfd_Spec d) = None \<Longrightarrow> system_step L c S (S\<lparr>sys_deployment := Some d\<rparr>)"
| deployment_edited: "sys_deployment S = Some d \<Longrightarrow> deployment_edit d d' \<Longrightarrow>
    deployment_key d' = deployment_key d \<Longrightarrow> system_step L c S (S\<lparr>sys_deployment := Some d'\<rparr>)"
| deployment_collected: "sys_deployment S = Some d \<Longrightarrow>
    FirewallDeploymentFinalizer \<notin> set (Finalizers (msfd_ObjectMeta d)) \<Longrightarrow>
    system_step L c S (S\<lparr>sys_deployment := None\<rparr>)"

abbreviation reachable :: "lib \<Rightarrow> Cluster \<Rightarrow> system \<Rightarrow> bool" where
  "reachable L c S \<equiv> (system_step L c)\<^sup>*\<^sup>* empty_system S"

section \<open>What one run does\<close>

text \<open>A run of the cluster controller that calls for the release of what the cluster holds has seen
  no machine and no deployment.\<close>

definition nothing_left :: "lib \<Rightarrow> env \<Rightarrow> clusterReconciler \<Rightarrow> bool" where
  "nothing_left L E r \<longleftrightarrow> (\<exists>h ref. kube_ListMachines E h (machines_of_cluster L (cr_cluster r)) = Inr [] \<and>
     FirewallDeploymentRef (msc_Spec (cr_infraCluster r)) = Some ref \<and>
     (\<exists>h'. IsNotFound L (err_of (kube_GetFirewallDeployment E h'
       \<lparr>nnNamespace = Namespace (cluster_ObjectMeta (cr_cluster r)), nnName = fdrName ref\<rparr>))))"

lemma deployment_gone:
  "wp (ensureFirewallDeploymentIsGone L E) (\<lambda>x s'. x = Some None \<longrightarrow> (\<exists>ref.
     FirewallDeploymentRef (spec s) = Some ref \<and>
     IsNotFound L (err_of (kube_GetFirewallDeployment E (hist s)
       \<lparr>nnNamespace = Namespace (cluster_ObjectMeta (cr_cluster (self s))), nnName = fdrName ref\<rparr>)))) s"
  unfolding ensureFirewallDeploymentIsGone_def firewall_deployment_key_def
  by (auto simp: wp_simps split: sum.split option.split)

lemma cluster_delete_seen:
  assumes "cluster_delete L E s = (x, s')"
  shows "self s' = self s \<and> (\<exists>tr. hist s' = hist s @ tr \<and> list_all (\<lambda>e. \<not> is_metal e) tr) \<or>
    nothing_left L E (self s)"
proof (cases "cluster_has_finalizer L (self s)")
  case False
  with assms cluster_rec.delete_guard [of L s E] show ?thesis by simp
next
  case True
  obtain y s1 where m: "cluster_ensureAllMetalStackMachinesAreGone L E s = (y, s1)" by fastforce
  obtain z s2 where f: "ensureFirewallDeploymentIsGone L E s1 = (z, s2)" by fastforce
  from cluster_gate.gate_law [of L E s] m have M: "self s1 = self s" "y \<noteq> None"
    "hist s1 = hist s @ [Kube (ListMachines (machines_of_cluster L (cr_cluster (self s)))
       (kube_ListMachines E (hist s) (machines_of_cluster L (cr_cluster (self s)))))]"
    "y = Some None \<Longrightarrow> kube_ListMachines E (hist s) (machines_of_cluster L (cr_cluster (self s))) = Inr []"
    by (auto simp: Let_def split: sum.splits if_splits)
  note F = wpD [OF firewall_gone_step f]
  show ?thesis
  proof (cases "y = Some None \<and> z = Some None")
    case True
    with M wpD [OF deployment_gone f] show ?thesis unfolding nothing_left_def by auto
  next
    case False
    have "(self s' = self s1 \<and> hist s' = hist s1) \<or> (self s' = self s2 \<and> hist s' = hist s2)"
      using assms m f \<open>cluster_has_finalizer L (self s)\<close> False M(2)
      by (auto simp: cluster_delete_def cluster_has_finalizer_def exec split: option.splits)
    then show ?thesis using F M by auto
  qed
qed

lemma nothing_left_serves:
  assumes "nothing_left L E r" and "serves L S E"
    and "\<And>n im. sys_machines S n = Some im \<Longrightarrow> machine_of L (cr_cluster r) im"
    and "\<And>d. sys_deployment S = Some d \<Longrightarrow> deployment_of (cr_cluster r) (cr_infraCluster r) d"
  shows "sys_machines S = Map.empty \<and> sys_deployment S = None"
proof -
  from assms(1) obtain h ref h' where
    m: "kube_ListMachines E h (machines_of_cluster L (cr_cluster r)) = Inr []" and
    d: "FirewallDeploymentRef (msc_Spec (cr_infraCluster r)) = Some ref"
      "IsNotFound L (err_of (kube_GetFirewallDeployment E h'
        \<lparr>nnNamespace = Namespace (cluster_ObjectMeta (cr_cluster r)), nnName = fdrName ref\<rparr>))"
    by (auto simp: nothing_left_def)
  have "sys_machines S n = None" for n
    using m assms(2,3) by (cases "sys_machines S n") (auto simp: serves_def machine_of_def)
  moreover have "sys_deployment S = None"
  proof (rule ccontr)
    assume "sys_deployment S \<noteq> None"
    then obtain d' where d': "sys_deployment S = Some d'" by auto
    from assms(4) [OF d'] d(1) have
      "deployment_key d' = \<lparr>nnNamespace = Namespace (cluster_ObjectMeta (cr_cluster r)), nnName = fdrName ref\<rparr>"
      by (auto simp: deployment_of_def)
    with assms(2) d' d(2) show False by (auto simp: serves_def)
  qed
  ultimately show ?thesis by auto
qed

lemma cluster_reconcile_keeps_network:
  assumes "conditions_laws L" and "cluster_reconcile L E s = (Some y, u)"
    and "NodeNetworkID (spec s) = Some n"
  shows "NodeNetworkID (spec u) = Some n"
proof -
  obtain x1 s1 where r1: "reconcile_node_network L E s = (x1, s1)" by fastforce
  obtain x2 s2 where r2: "reconcile_firewall_deployment L E s1 = (x2, s2)" by fastforce
  obtain x3 s3 where r3: "reconcile_control_plane L E s2 = (x3, s3)" by fastforce
  have "NodeNetworkID (spec s1) = Some n"
    using r1 assms(3) by (auto simp: reconcile_node_network_def ensureNodeNetwork_def exec)
  with wpD [OF firewall_deployment_step [OF assms(1)] r2]
    wpD [OF control_plane_step [OF assms(1)] r3] assms(2) r1 r2 r3
  show ?thesis by (auto simp: cluster_reconcile_def exec split: option.splits)
qed

lemma cluster_release_keeps_ref:
  "wp (cluster_release L E) (\<lambda>x s'. FirewallDeploymentRef (spec s') = FirewallDeploymentRef (spec s)) s"
proof -
  obtain x t where d: "deleteControlPlaneIP L E s = (x, t)" by fastforce
  from wpD [OF deleteControlPlaneIP_step d] have t: "self t = self s" by simp
  obtain z u where n: "deleteNodeNetwork E (t\<lparr>self := cr_infraCluster_update
      (msc_Spec_update (\<lambda>sp. sp\<lparr>ControlPlaneIP := None\<rparr>)) (self t)\<rparr>) = (z, u)" by fastforce
  with wpD [OF deleteNodeNetwork_step n] d t show ?thesis
    by (auto simp: cluster_release_def wp_def exec remove_cluster_finalizer_def split: option.split)
qed

lemma cluster_switch_keeps:
  assumes "conditions_laws L" and "cluster_switch L E s = (Some y, u)"
  shows "FirewallDeploymentRef (spec u) = FirewallDeploymentRef (spec s)"
    and "NodeNetworkID (spec s) \<noteq> None \<Longrightarrow>
      NodeNetworkID (spec u) \<noteq> None \<or> nothing_left L E (self s)"
proof -
  from assms(2) consider "spec u = spec s" | "cluster_delete L E s = (Some y, u)"
    | "cluster_reconcile L E s = (Some y, u)"
    by (auto simp: cluster_switch_def exec add_cluster_finalizer_def split: if_splits)
  note cases = this
  show "FirewallDeploymentRef (spec u) = FirewallDeploymentRef (spec s)"
    using cases
  proof cases
    case 2
    show ?thesis
    proof (cases "cluster_has_finalizer L (self s)")
      case False
      with 2 show ?thesis by (simp add: cluster_rec.delete_guard)
    next
      case True
      from cluster_delete_gate [OF True 2] show ?thesis
        by (auto dest: wpD [OF cluster_release_keeps_ref])
    qed
  next
    case 3
    with cluster_reconcile_frame [OF assms(1)] show ?thesis by (simp add: same_frame_def)
  qed simp
  show "NodeNetworkID (spec u) \<noteq> None \<or> nothing_left L E (self s)" if "NodeNetworkID (spec s) \<noteq> None"
    using cases
  proof cases
    case 2
    with cluster_delete_seen [OF 2] that show ?thesis by auto
  next
    case 3
    with cluster_reconcile_keeps_network [OF assms(1) 3] that show ?thesis by auto
  qed (use that in simp)
qed

text \<open>The labels the machine controller writes are not the cluster label.\<close>

definition label_laws :: "lib \<Rightarrow> bool" where
  "label_laws L \<longleftrightarrow> ClusterNameLabel L \<notin> {LabelHostname L, LabelTopologyZone L, tag_MachineRack L,
     tag_MachineNetworkPrimaryASN L, tag_MachineChassis L}"

lemma machine_of_iff:
  "machine_of L c im \<longleftrightarrow> Namespace (msm_ObjectMeta im) = Namespace (cluster_ObjectMeta c) \<and>
     label_of (ClusterNameLabel L) (msm_ObjectMeta im) = Some (Name (cluster_ObjectMeta c))"
  by (simp add: machine_of_def machines_of_cluster_def)

lemma machine_of_meta:
  "msm_ObjectMeta im' = msm_ObjectMeta im \<Longrightarrow> machine_of L c im' = machine_of L c im"
  by (simp add: machine_of_iff)

lemma machine_of_finalizers:
  "msm_ObjectMeta im' = (msm_ObjectMeta im)\<lparr>Finalizers := fs\<rparr> \<Longrightarrow> machine_of L c im' = machine_of L c im"
  by (simp add: machine_of_iff label_of_def)

lemma machine_of_labels:
  "label_laws L \<Longrightarrow> machine_of L c im \<Longrightarrow> machine_of L c (patchMachineLabels L m im)"
  by (auto simp: machine_of_iff label_of_def patchMachineLabels_def Let_def set_label_apply
      label_laws_def split: option.splits)

lemma apply_machine_of:
  assumes "label_laws L" and "apply_machine L m t = (Some y, u)" and "machine_of L c (infraMachine t)"
  shows "machine_of L c (infraMachine u)"
proof (cases "mr_ID m")
  case None
  with assms(2,3) show ?thesis
    by (auto simp: apply_machine_def exec set_machine_condition_def MetalStackMachine_SetConditions_def
        machine_of_iff)
next
  case (Some i)
  with assms(2) have "msm_ObjectMeta (infraMachine u) =
      msm_ObjectMeta (patchMachineLabels L m (infraMachine t))"
    by (auto simp: apply_machine_def exec getMachineAddresses_def Let_def set_machine_condition_def
        MetalStackMachine_SetConditions_def patchMachineLabels_def split: prod.splits option.splits if_splits)
  then have "machine_of L c (infraMachine u) = machine_of L c (patchMachineLabels L m (infraMachine t))"
    by (rule machine_of_meta)
  with machine_of_labels [OF assms(1,3)] show ?thesis by simp
qed

definition sound_machine_run :: "lib \<Rightarrow> Cluster \<Rightarrow> machineReconciler st \<Rightarrow> machineReconciler st \<Rightarrow> bool" where
  "sound_machine_run L c s u \<longleftrightarrow>
     (machine_of L c (infraMachine s) \<longrightarrow> machine_of L c (infraMachine u)) \<and>
     (providerID u = providerID s \<or> NodeNetworkID (msc_Spec (mc_infraCluster (self s))) \<noteq> None)"

lemma machine_switch_sound:
  assumes "label_laws L" and "machine_switch L E c s = (Some y, u)"
  shows "sound_machine_run L c s u"
proof -
  from assms(2) consider "infraMachine u = infraMachine s" | "machine_delete L E s = (Some y, u)"
    | "self u = add_machine_finalizer L (self s)" | "machine_reconcile L E s = (Some y, u)"
    by (auto simp: machine_switch_def exec split: if_splits)
  then show ?thesis
  proof cases
    case 1
    then show ?thesis by (simp add: sound_machine_run_def)
  next
    case 2
    show ?thesis
    proof (cases "machine_has_finalizer L (self s)")
      case False
      with 2 show ?thesis by (simp add: machine_delete_skip sound_machine_run_def)
    next
      case F: True
      obtain z t where f: "findProviderMachine L E s = (Some z, t)" and so: "same_objects s t"
        by (rule find_outcome) blast
      have "infraMachine u = infraMachine t \<or>
          infraMachine u = remove_machine_finalizer L (infraMachine t)"
      proof (cases z)
        case (Inl e)
        with 2 f F show ?thesis
          by (cases "errors_Is (Some e) errProviderMachineNotFound")
            (auto simp: machine_delete_gone machine_delete_failed Let_def split: option.splits if_splits)
      next
        case (Inr m)
        with 2 f F show ?thesis
          by (auto simp: machine_delete_found Let_def split: option.splits if_splits)
      qed
      with so show ?thesis
        by (auto simp: sound_machine_run_def same_objects_def machine_of_iff label_of_def
            remove_machine_finalizer_def)
    qed
  next
    case 3
    then show ?thesis
      by (simp add: sound_machine_run_def add_machine_finalizer_def machine_of_iff label_of_def)
  next
    case 4
    obtain x t where p: "provider_machine L E s = (x, t)" by fastforce
    from wpD [OF provider_machine_step p] have so: "same_objects s t" by simp
    from 4 p consider "u = s" | e where "u = t"
      | m where "NodeNetworkID (msc_Spec (mc_infraCluster (self s))) \<noteq> None"
          "apply_machine L m t = (Some y, u)"
      by (auto simp: machine_reconcile_def Let_def exec split: if_splits option.splits sum.splits)
    then show ?thesis
    proof cases
      case (3 m)
      with apply_machine_of [OF assms(1) 3(2)] so show ?thesis
        by (auto simp: sound_machine_run_def same_objects_def dest: machine_of_meta)
    qed (use so in \<open>auto simp: sound_machine_run_def same_objects_def machine_of_iff\<close>)
  qed
qed

definition sound_deployment_run ::
    "firewallDeploymentReconciler st \<Rightarrow> firewallDeploymentReconciler st \<Rightarrow> bool" where
  "sound_deployment_run s u \<longleftrightarrow> deployment_key (deployment u) = deployment_key (deployment s) \<and>
     (managed_ref u = managed_ref s \<or> NodeNetworkID (fw_cluster_spec s) \<noteq> None)"

lemma firewall_switch_sound:
  assumes "firewall_switch L E s = (Some y, u)"
  shows "sound_deployment_run s u"
proof -
  from assms consider "self u = self s" | "firewall_delete L E s = (Some y, u)"
    | "self u = add_firewall_finalizer L (self s)" | "firewall_reconcile L E s = (Some y, u)"
    by (auto simp: firewall_switch_def exec split: if_splits)
  then show ?thesis
  proof cases
    case 2
    obtain z t where g: "firewall_ensureAllMetalStackMachinesAreGone L E s = (z, t)" by fastforce
    obtain v w where d: "deleteFirewallDeployment L E t = (v, w)" by fastforce
    have "self t = self s" "self w = self t"
      using wpD [OF firewall_gate.gate_asks g] deleteFirewallDeployment_outcome [OF d] by simp_all
    with 2 g d show ?thesis
      by (auto simp: firewall_delete_def exec remove_deployment_finalizer_def sound_deployment_run_def
          deployment_key_def split: if_splits option.splits)
  next
    case 4
    obtain x t where o: "ensureFirewallTemplateOwnerRefAndFinalizer L E s = (x, t)" by fastforce
    have t: "deployment t = deployment s" using template_owner_quiet(2) [OF o] .
    obtain z v where e: "ensureFirewallDeployment L E t = (z, v)" by fastforce
    from wpD [OF ensure_firewall_step e] have "same_deployment t v" by simp
    with t have "msfd_ObjectMeta (deployment v) = msfd_ObjectMeta (deployment s)"
      by (simp add: same_deployment_def)
    with 4 o e t show ?thesis
      by (auto simp: firewall_reconcile_def exec sound_deployment_run_def deployment_key_def
          split: if_splits option.splits)
  qed (simp_all add: sound_deployment_run_def deployment_key_def add_firewall_finalizer_def)
qed

section \<open>The invariant\<close>

definition networked :: "system \<Rightarrow> bool" where
  "networked S \<longleftrightarrow> (\<exists>ic. sys_cluster S = Some ic \<and> NodeNetworkID (msc_Spec ic) \<noteq> None \<and>
     ClusterFinalizer \<in> set (Finalizers (msc_ObjectMeta ic)))"

definition system_inv :: "lib \<Rightarrow> Cluster \<Rightarrow> system \<Rightarrow> bool" where
  "system_inv L c S \<longleftrightarrow>
     (\<forall>ic. sys_cluster S = Some ic \<longrightarrow> cluster_protected ic) \<and>
     (\<forall>n im. sys_machines S n = Some im \<longrightarrow>
        machine_of L c im \<and> (ProviderID (msm_Spec im) \<noteq> [] \<longrightarrow> networked S)) \<and>
     (\<forall>d. sys_deployment S = Some d \<longrightarrow>
        (\<forall>ic. sys_cluster S = Some ic \<longrightarrow> deployment_of c ic d) \<and>
        (ManagedResourceRef (msfd_Spec d) \<noteq> None \<longrightarrow> networked S))"

lemma networked_cluster:
  "sys_cluster S = Some ic \<Longrightarrow> cluster_protected ic \<Longrightarrow>
     networked S \<longleftrightarrow> NodeNetworkID (msc_Spec ic) \<noteq> None"
  by (auto simp: networked_def cluster_protected_def)

lemma networked_unless:
  "sys_cluster S = Some ic \<Longrightarrow> ClusterFinalizer \<notin> set (Finalizers (msc_ObjectMeta ic)) \<Longrightarrow> \<not> networked S"
  by (auto simp: networked_def)

lemma networked_other [simp]:
  "networked (S\<lparr>sys_machines := f\<rparr>) = networked S" "networked (S\<lparr>sys_deployment := d\<rparr>) = networked S"
  by (simp_all add: networked_def)

lemma system_inv_empty: "system_inv L c empty_system"
  by (simp add: system_inv_def empty_system_def)

text \<open>A change of the cluster keeps the invariant when it keeps the network while something is left.\<close>

lemma system_inv_cluster:
  assumes "system_inv L c S" and "sys_cluster S = Some ic" and "cluster_protected ic'"
    and "FirewallDeploymentRef (msc_Spec ic') = FirewallDeploymentRef (msc_Spec ic)"
    and "NodeNetworkID (msc_Spec ic) \<noteq> None \<Longrightarrow> NodeNetworkID (msc_Spec ic') \<noteq> None \<or>
      sys_machines S = Map.empty \<and> sys_deployment S = None"
  shows "system_inv L c (S\<lparr>sys_cluster := Some ic'\<rparr>)"
proof -
  have p: "cluster_protected ic" using assms(1,2) by (simp add: system_inv_def)
  have n: "networked (S\<lparr>sys_cluster := Some ic'\<rparr>) \<longleftrightarrow> NodeNetworkID (msc_Spec ic') \<noteq> None"
    using assms(3) by (simp add: networked_cluster)
  show ?thesis
  proof (cases "sys_machines S = Map.empty \<and> sys_deployment S = None")
    case True
    with assms(3) show ?thesis by (simp add: system_inv_def)
  next
    case False
    then have "networked S \<Longrightarrow> networked (S\<lparr>sys_cluster := Some ic'\<rparr>)"
      using assms(2,5) n p by (auto simp: networked_cluster)
    with assms(1-4) show ?thesis by (auto simp: system_inv_def deployment_of_def)
  qed
qed

lemma system_inv_machine:
  "system_inv L c S \<Longrightarrow> machine_of L c im \<Longrightarrow> (ProviderID (msm_Spec im) \<noteq> [] \<Longrightarrow> networked S) \<Longrightarrow>
     system_inv L c (S\<lparr>sys_machines := (sys_machines S)(n \<mapsto> im)\<rparr>)"
  by (auto simp: system_inv_def)

lemma system_inv_deployment:
  "system_inv L c S \<Longrightarrow> (\<And>ic. sys_cluster S = Some ic \<Longrightarrow> deployment_of c ic d) \<Longrightarrow>
     (ManagedResourceRef (msfd_Spec d) \<noteq> None \<Longrightarrow> networked S) \<Longrightarrow>
     system_inv L c (S\<lparr>sys_deployment := Some d\<rparr>)"
  by (auto simp: system_inv_def)

lemma deployment_of_key: "deployment_key d' = deployment_key d \<Longrightarrow> deployment_of c ic d' = deployment_of c ic d"
  by (simp add: deployment_of_def)

lemma system_step_inv:
  assumes "conditions_laws L" and "finalizer_laws L" and "label_laws L"
    and "system_step L c S S'" and inv: "system_inv L c S"
  shows "system_inv L c S'"
  using assms(4) inv
proof (induction rule: system_step.induct)
  case (cluster_run S ic E s x s' tr e ic')
  from cluster_dispatch_stored [OF cluster_run.hyps(4-6)] obtain t y u where
    d: "self t = mark_cluster_paused L (self s)" "cluster_switch L E t = (Some y, u)" "infra u = ic'"
    by blast
  have t: "cluster_protected (infra t) = cluster_protected ic" "spec t = msc_Spec ic"
    "cr_cluster (self t) = c" "FirewallDeploymentRef (spec t) = FirewallDeploymentRef (msc_Spec ic)"
    using cluster_run.hyps(3) by (simp_all add: d(1) cluster_protected_def)
  have p: "cluster_protected ic" using cluster_run by (simp add: system_inv_def)
  have p': "cluster_protected ic'"
    using cluster_switch_protected [OF assms(1,2) d(2)] t(1) p d(3) by simp
  show ?case
  proof (rule system_inv_cluster [OF cluster_run.prems cluster_run.hyps(1) p'])
    show "FirewallDeploymentRef (msc_Spec ic') = FirewallDeploymentRef (msc_Spec ic)"
      using cluster_switch_keeps(1) [OF assms(1) d(2)] t(2) d(3) by simp
    show "NodeNetworkID (msc_Spec ic') \<noteq> None \<or> sys_machines S = Map.empty \<and> sys_deployment S = None"
      if "NodeNetworkID (msc_Spec ic) \<noteq> None"
    proof -
      from cluster_switch_keeps(2) [OF assms(1) d(2)] t(2) d(3) that
      consider "NodeNetworkID (msc_Spec ic') \<noteq> None" | "nothing_left L E (self t)" by auto
      then show ?thesis
      proof cases
        case 2
        have "deployment_of (cr_cluster (self t)) (infra t) d" if "sys_deployment S = Some d" for d
          using cluster_run.prems cluster_run.hyps(1) that t by (simp add: system_inv_def deployment_of_def)
        moreover have "machine_of L (cr_cluster (self t)) im" if "sys_machines S n = Some im" for n im
          using cluster_run.prems that t(3) by (simp add: system_inv_def)
        ultimately show ?thesis using nothing_left_serves [OF 2 cluster_run.hyps(2)] by blast
      qed simp
    qed
  qed
next
  case (machine_run S ic n im ms cm E y ms' tr e im')
  from machine_dispatch_stored [OF machine_run.hyps(4-6)] obtain t z u where
    d: "self t = mark_machine_paused L c (self ms)" "machine_switch L E c t = (Some z, u)"
      "infraMachine u = im'" by blast
  have t: "machine_of L c (infraMachine t) = machine_of L c im" "providerID t = ProviderID (msm_Spec im)"
    "mc_infraCluster (self t) = ic"
    using machine_run.hyps(3) by (simp_all add: d(1) machine_of_iff)
  have im: "machine_of L c im" "ProviderID (msm_Spec im) \<noteq> [] \<Longrightarrow> networked S"
    using machine_run.prems machine_run.hyps(2) by (simp_all add: system_inv_def)
  have ic: "networked S \<longleftrightarrow> NodeNetworkID (msc_Spec ic) \<noteq> None"
    using machine_run.prems machine_run.hyps(1) by (simp add: system_inv_def networked_cluster)
  from machine_switch_sound [OF assms(3) d(2)] t im ic d(3)
  show ?case by (intro system_inv_machine machine_run.prems) (auto simp: sound_machine_run_def)
next
  case (deployment_run S ic d E fs t0 z fs' tr e d')
  from firewall_dispatch_stored [OF deployment_run.hyps(5-7)] obtain t y u where
    r: "self t = mark_firewall_paused L (self fs)" "firewall_switch L E t = (Some y, u)"
      "deployment u = d'" by blast
  have t: "deployment_key (deployment t) = deployment_key d"
    "managed_ref t = ManagedResourceRef (msfd_Spec d)" "fw_cluster_spec t = msc_Spec ic"
    using deployment_run.hyps(4)
    by (simp_all add: r(1) mark_firewall_paused_def set_deployment_condition_def deployment_key_def
        MetalStackFirewallDeployment_SetConditions_def)
  have d: "deployment_of c ic d" "ManagedResourceRef (msfd_Spec d) \<noteq> None \<Longrightarrow> networked S"
    using deployment_run.prems deployment_run.hyps(1,2) by (simp_all add: system_inv_def)
  have ic: "networked S \<longleftrightarrow> NodeNetworkID (msc_Spec ic) \<noteq> None"
    using deployment_run.prems deployment_run.hyps(1) by (simp add: system_inv_def networked_cluster)
  from firewall_switch_sound [OF r(2)] r(3) t have
    k: "deployment_key d' = deployment_key d" and
    m: "ManagedResourceRef (msfd_Spec d') = ManagedResourceRef (msfd_Spec d) \<or>
      NodeNetworkID (msc_Spec ic) \<noteq> None"
    by (auto simp: sound_deployment_run_def)
  show ?case
    using k m d ic deployment_run.hyps(1) deployment_of_key [OF k, of c ic]
    by (intro system_inv_deployment deployment_run.prems) auto
next
  case (cluster_created S ic)
  have "\<not> networked S" using cluster_created.hyps(1) by (simp add: networked_def)
  with cluster_created show ?case by (auto simp: system_inv_def cluster_protected_def)
next
  case (cluster_edited S ic ic')
  then show ?case
    by (intro system_inv_cluster [of L c S ic])
      (auto simp: cluster_edit_def cluster_protected_def system_inv_def)
next
  case (cluster_collected S ic)
  from networked_unless [OF cluster_collected.hyps] cluster_collected.prems
  show ?case by (auto simp: system_inv_def)
next
  case (machine_created S n im)
  then show ?case by (intro system_inv_machine) simp_all
next
  case (machine_edited S n im im')
  then show ?case by (intro system_inv_machine) (auto simp: machine_edit_def system_inv_def)
next
  case (machine_collected S n im)
  then show ?case by (auto simp: system_inv_def)
next
  case (deployment_created S ic d)
  then show ?case by (intro system_inv_deployment) auto
next
  case (deployment_edited S d d')
  have d: "ManagedResourceRef (msfd_Spec d) \<noteq> None \<Longrightarrow> networked S"
    "\<And>ic. sys_cluster S = Some ic \<Longrightarrow> deployment_of c ic d"
    using deployment_edited.prems deployment_edited.hyps(1) by (simp_all add: system_inv_def)
  show ?case
    using d deployment_edited.hyps deployment_of_key [OF deployment_edited.hyps(3)]
    by (intro system_inv_deployment deployment_edited.prems) (auto simp: deployment_edit_def)
next
  case (deployment_collected S d)
  then show ?case by (simp add: system_inv_def)
qed

lemma reachable_inv:
  assumes "reachable L c S" and "conditions_laws L" and "finalizer_laws L" and "label_laws L"
  shows "system_inv L c S"
  using assms(1)
proof (induction rule: rtranclp_induct)
  case base
  show ?case by (rule system_inv_empty)
next
  case (step S S')
  from system_step_inv [OF assms(2-4) step.hyps(2) step.IH] show ?case .
qed

section \<open>Properties of the system\<close>

text \<open>C3. Across the controllers, in every order of their runs and with everybody else editing,
  creating and deleting objects: a machine object that names a provider machine is in a cluster
  whose object still exists, names its node network and carries the finalizer. So no machine is
  left in a network the controllers gave back.\<close>

theorem system_machines_have_network:
  assumes "conditions_laws L" and "finalizer_laws L" and "label_laws L" and "reachable L c S"
    and "sys_machines S n = Some im" and "ProviderID (msm_Spec im) \<noteq> []"
  shows "\<exists>ic nw. sys_cluster S = Some ic \<and> NodeNetworkID (msc_Spec ic) = Some nw \<and>
    ClusterFinalizer \<in> set (Finalizers (msc_ObjectMeta ic))"
  using reachable_inv [OF assms(4,1-3)] assms(5,6) by (auto simp: system_inv_def networked_def)

text \<open>C6. The network goes last: when a run of the cluster controller calls for the release of its IP
  or network, no machine object and no firewall deployment of the cluster is left, however the
  run ends.\<close>

theorem system_network_freed_last:
  assumes "conditions_laws L" and "finalizer_laws L" and "label_laws L" and "reachable L c S"
    and "sys_cluster S = Some ic" and "serves L S E"
    and "self s = \<lparr>cr_cluster = c, cr_infraCluster = ic\<rparr>"
    and "cluster_dispatch L E s = (x, s')" and "hist s' = hist s @ tr"
    and "e \<in> set tr" and "is_release e"
  shows "sys_machines S = Map.empty \<and> sys_deployment S = None"
proof -
  note inv = reachable_inv [OF assms(4,1-3)]
  have "nothing_left L E (self s)"
  proof (rule ccontr)
    assume no: "\<not> nothing_left L E (self s)"
    have "emits (\<lambda>e. \<not> is_release e) (cluster_reconcile L E)"
      unfolding cluster_reconcile_def reconcile_node_network_def reconcile_firewall_deployment_def
        reconcile_control_plane_def by (intro emits_intros; simp)
    then have reconcile: "\<exists>tr. hist (snd (cluster_reconcile L E t)) = hist t @ tr \<and>
        list_all (\<lambda>e. \<not> is_release e) tr" for t by (simp add: emits_def)
    have delete: "\<exists>tr. hist (snd (cluster_delete L E t)) = hist t @ tr \<and>
        list_all (\<lambda>e. \<not> is_release e) tr" if "self t = mark_cluster_paused L (self s)" for t
    proof -
      obtain y u where d: "cluster_delete L E t = (y, u)" by fastforce
      have "\<not> nothing_left L E (self t)" using no that by (simp add: nothing_left_def)
      with cluster_delete_seen [OF d] obtain tr' where "hist u = hist t @ tr'"
        "list_all (\<lambda>e. \<not> is_metal e) tr'" by blast
      then show ?thesis using d by (auto simp: list_all_iff elim!: is_release.elims)
    qed
    have switch: "\<exists>tr. hist (snd (cluster_switch L E t)) = hist t @ tr \<and>
        list_all (\<lambda>e. \<not> is_release e) tr" if "self t = mark_cluster_paused L (self s)" for t
      using reconcile [of t] delete [OF that] by (auto simp: cluster_switch_def exec)
    have "\<exists>tr. hist (snd (cluster_dispatch L E s)) = hist s @ tr \<and> list_all (\<lambda>e. \<not> is_release e) tr"
      by (rule cluster_rec.dispatch_appends [OF _ _ switch]) (intro emits_intros; simp)+
    with assms(8-11) show False by (auto simp: list_all_iff)
  qed
  moreover have "deployment_of (cr_cluster (self s)) (cr_infraCluster (self s)) d"
    if "sys_deployment S = Some d" for d
    using inv assms(5,7) that by (simp add: system_inv_def)
  moreover have "machine_of L (cr_cluster (self s)) im" if "sys_machines S n = Some im" for n im
    using inv assms(7) that by (simp add: system_inv_def)
  ultimately show ?thesis using nothing_left_serves [OF _ assms(6)] by blast
qed

text \<open>What the deletion of a deployment dereferences is there when the network is.\<close>

lemma deployment_delete_returns:
  assumes "NodeNetworkID (fw_cluster_spec s) = Some n"
  shows "fst (firewall_delete L E s) \<noteq> None"
  using returns_result [OF firewall_delete_returns [of "firewall_view (self s)"]] assms
  by (simp add: firewall_view_def)

lemma deployment_reconcile_returns:
  assumes "managed_ref s \<noteq> None"
  shows "fst (firewall_reconcile L E s) \<noteq> None"
proof -
  obtain x t where o: "ensureFirewallTemplateOwnerRefAndFinalizer L E s = (x, t)" by fastforce
  have t: "x \<noteq> None" "fc_infraCluster (self t) = fc_infraCluster (self s)" "deployment t = deployment s"
    using o template_owner_quiet(2) [OF o]
    by (auto simp: ensureFirewallTemplateOwnerRefAndFinalizer_def exec Let_def split: if_splits option.splits)
  then have "fst (ensureFirewallDeployment L E t) \<noteq> None" if "NodeNetworkID (fw_cluster_spec s) = Some n" for n
    using assms that by (auto simp: ensureFirewallDeployment_def exec Let_def firewall_tags_def)
  with o t show ?thesis
    by (cases "NodeNetworkID (fw_cluster_spec s)"; cases "ensureFirewallDeployment L E t")
      (auto simp: firewall_reconcile_def exec split: option.split)
qed

text \<open>C23. A deployment that has a firewall can always be processed: in every reachable state no run on
  it panics, so the nil network its deletion dereferences without a check cannot stop it.\<close>

theorem system_deployment_deletable:
  assumes "conditions_laws L" and "finalizer_laws L" and "label_laws L" and "reachable L c S"
    and "sys_cluster S = Some ic" and "sys_deployment S = Some d"
    and "ManagedResourceRef (msfd_Spec d) \<noteq> None"
    and "self s = \<lparr>fc_cluster = c, fc_infraCluster = ic, fc_firewallDeployment = d,
      fc_firewallTemplate = t\<rparr>"
  shows "fst (firewall_dispatch L E s) \<noteq> None"
proof -
  from reachable_inv [OF assms(4,1-3)] assms(5-7) obtain n where n: "NodeNetworkID (msc_Spec ic) = Some n"
    by (auto simp: system_inv_def networked_def)
  have "fst (firewall_switch L E u) \<noteq> None" if u: "self u = mark_firewall_paused L (self s)" for u
  proof -
    have "NodeNetworkID (fw_cluster_spec u) = Some n" "managed_ref u \<noteq> None"
      using n assms(7,8) by (simp_all add: u)
    with deployment_delete_returns [of u n L E] deployment_reconcile_returns [of u L E] show ?thesis
      by (auto simp: firewall_switch_def exec)
  qed
  note switch = this
  define u where "u = s\<lparr>hist := hist s @ [Kube (NewHelper (OFirewallDeployment d)
      (kube_NewHelper E (hist s) (OFirewallDeployment d)))], self := mark_firewall_paused L (self s)\<rparr>"
  obtain y v where y: "firewall_switch L E u = (y, v)" by fastforce
  with switch [of u] have "y \<noteq> None" by (simp add: u_def)
  moreover have "fst (firewall_patch E b r v) \<noteq> None" for b r
    by (auto simp: firewall_patch_def exec Let_def split: option.split)
  ultimately show ?thesis
    using y assms(8) by (auto simp: firewall_dispatch_def exec u_def split: option.split)
qed

section \<open>Reached states\<close>

lemma lib0_labels [simp]: "label_laws lib0"
  by (simp add: label_laws_def)

text \<open>A cluster that got its network, and that somebody deletes.\<close>

abbreviation system_old :: system where
  "system_old \<equiv> empty_system\<lparr>sys_cluster := Some msc_old\<rparr>"

lemma reachable_then: "reachable L c S \<Longrightarrow> system_step L c S S' \<Longrightarrow> reachable L c S'"
  by (rule rtranclp.rtrancl_into_rtrancl)

lemma reachable_old: "reachable lib0 cluster0 system_old"
proof -
  let ?S1 = "empty_system\<lparr>sys_cluster := Some msc_auto\<rparr>"
  have "system_step lib0 cluster0 empty_system ?S1"
    by (rule cluster_created) (simp_all add: empty_system_def msc_auto_def objects0)
  then have r1: "reachable lib0 cluster0 ?S1" by (rule reachable_then [OF rtranclp.rtrancl_refl])
  obtain x s' tr e ic where run: "cluster_dispatch lib0 env0 (state0 msc_auto) = (Some x, s')"
      "hist s' = hist (state0 msc_auto) @ tr @ [e]" "stored_cluster e = Some ic"
    and ic: "NodeNetworkID (msc_Spec ic) = Some ''net1''"
      "ClusterFinalizer \<in> set (Finalizers (msc_ObjectMeta ic))"
      "FirewallDeploymentRef (msc_Spec ic) = FirewallDeploymentRef (msc_Spec msc_auto)"
    by (rule cluster_run0) blast
  have "serves lib0 ?S1 env0" by (simp add: serves_def empty_system_def)
  then have "system_step lib0 cluster0 ?S1 (?S1\<lparr>sys_cluster := Some ic\<rparr>)"
    by (rule cluster_run [where s = "state0 msc_auto", rotated]) (use run in \<open>simp_all add: state0_def\<close>)
  with r1 have "reachable lib0 cluster0 (?S1\<lparr>sys_cluster := Some ic\<rparr>)" by (rule reachable_then)
  moreover have "system_step lib0 cluster0 (?S1\<lparr>sys_cluster := Some ic\<rparr>)
      (?S1\<lparr>sys_cluster := Some ic, sys_cluster := Some msc_old\<rparr>)"
    by (rule cluster_edited)
      (use ic in \<open>auto simp: cluster_edit_def msc_old_def msc_steady_def msc_auto_def objects0\<close>)
  ultimately show ?thesis by (auto dest: reachable_then)
qed

theorem system_network_freed_last_witness:
  "\<exists>S x s' e. reachable lib0 cluster0 S \<and>
     cluster_dispatch lib0 env_unstored (state0 msc_old) = (x, s') \<and> e \<in> set (hist s') \<and> is_release e \<and>
     sys_machines S = Map.empty \<and> sys_deployment S = None"
proof -
  obtain y s1 where run: "cluster_dispatch lib0 env_unstored (state0 msc_old) = (Some (Some y), s1)"
    and r: "Metal (FreeNetwork ''net1'' None) \<in> set (hist s1)" by (rule env_unstored_run)
  have "serves lib0 system_old env_unstored" by (simp add: serves_def empty_system_def)
  moreover have "self (state0 msc_old) = \<lparr>cr_cluster = cluster0, cr_infraCluster = msc_old\<rparr>"
    "hist s1 = hist (state0 msc_old) @ hist s1" by (simp_all add: state0_def)
  ultimately show ?thesis
    using system_network_freed_last [OF lib0_laws(1,2) lib0_labels reachable_old _ _ _ run _ r]
      run r reachable_old by fastforce
qed

definition msm_labelled :: MetalStackMachine where
  "msm_labelled = msm0\<lparr>msm_ObjectMeta := meta0\<lparr>Finalizers := [MachineFinalizer],
     Labels := Some [''cluster.x-k8s.io/cluster-name'' \<mapsto> ''c1'']\<rparr>\<rparr>"

theorem system_machines_have_network_witness:
  "\<exists>S im nw ic. reachable lib0 cluster0 S \<and> sys_machines S ''m'' = Some im \<and>
     ProviderID (msm_Spec im) \<noteq> [] \<and> sys_cluster S = Some ic \<and> NodeNetworkID (msc_Spec ic) = Some nw"
proof -
  let ?S = "system_old\<lparr>sys_machines := (sys_machines system_old)(''m'' \<mapsto> msm_labelled)\<rparr>"
  let ?s = "mstate0 msc_old msm_labelled"
  have "system_step lib0 cluster0 system_old ?S"
    by (rule machine_created)
      (simp_all add: empty_system_def msm_labelled_def machine_of_iff label_of_def objects0)
  with reachable_old have r1: "reachable lib0 cluster0 ?S" by (rule reachable_then)
  obtain y s' where run: "machine_dispatch lib0 env_found cluster0 ?s = (y, s')" by fastforce
  then have "\<exists>x tr e im. y = Some x \<and> hist s' = hist ?s @ tr @ [e] \<and>
      stored_machine e = Some im \<and> ProviderID (msm_Spec im) \<noteq> []"
    using machine_id.encode_nonempty [of lib0]
    by (auto simp: machine_dispatch_def machine_switch_def machine_patch_def
        machine_paused_def machine_deleting_def machine_has_finalizer_def mark_machine_paused_def
        set_machine_condition_def MetalStackMachine_SetConditions_def MetalStackMachine_GetConditions_def
        machine_reconcile_def provider_machine_def msm_labelled_def create_def machineTags_def
        apply_machine_def getMachineAddresses_def getMachineStatus_def Let_def exec mstate0_def
        msc_old_def msc_steady_def objects0 errors_Join_def map_filter_def append_eq_Cons_conv)
  with run obtain x tr e im where m: "machine_dispatch lib0 env_found cluster0 ?s = (Some x, s')"
      "hist s' = hist ?s @ tr @ [e]" "stored_machine e = Some im" and p: "ProviderID (msm_Spec im) \<noteq> []"
    by blast
  have "system_step lib0 cluster0 ?S (?S\<lparr>sys_machines := (sys_machines ?S)(''m'' \<mapsto> im)\<rparr>)"
    by (rule machine_run [where ms = ?s]) (use m in \<open>simp_all add: mstate0_def\<close>)
  with r1 have r: "reachable lib0 cluster0 (?S\<lparr>sys_machines := (sys_machines ?S)(''m'' \<mapsto> im)\<rparr>)"
    by (rule reachable_then)
  have i: "sys_machines (?S\<lparr>sys_machines := (sys_machines ?S)(''m'' \<mapsto> im)\<rparr>) ''m'' = Some im" by simp
  from system_machines_have_network [OF lib0_laws(1,2) lib0_labels r i p] r i p show ?thesis by blast
qed

definition msfd_fw :: MetalStackFirewallDeployment where
  "msfd_fw = msfd0\<lparr>msfd_ObjectMeta := meta0\<lparr>Name := ''fw'', Finalizers := [FirewallDeploymentFinalizer]\<rparr>\<rparr>"

theorem system_deployment_deletable_witness:
  "\<exists>S d. reachable lib0 cluster0 S \<and> sys_deployment S = Some d \<and>
     ManagedResourceRef (msfd_Spec d) \<noteq> None \<and> fst (firewall_dispatch lib0 env_gone (fstate0 msc_old d)) \<noteq> None"
proof -
  let ?S = "system_old\<lparr>sys_deployment := Some msfd_fw\<rparr>"
  let ?s = "fstate0 msc_old msfd_fw"
  have "system_step lib0 cluster0 system_old ?S"
    by (rule deployment_created)
      (auto simp: empty_system_def msfd_fw_def deployment_of_def deployment_key_def msc_old_def
        msc_steady_def objects0)
  with reachable_old have r1: "reachable lib0 cluster0 ?S" by (rule reachable_then)
  obtain y s' where run: "firewall_dispatch lib0 env0 ?s = (y, s')" by fastforce
  then have "\<exists>x tr e d. y = Some x \<and> hist s' = hist ?s @ tr @ [e] \<and>
      stored_deployment e = Some d \<and> ManagedResourceRef (msfd_Spec d) \<noteq> None"
    by (auto simp: run_firewall_Reconcile_defs run_firewall_defs exec objects0 Let_def msfd_fw_def
        msc_old_def msc_steady_def mark_deployment_ready_def append_eq_Cons_conv)
  with run obtain x tr e d where f: "firewall_dispatch lib0 env0 ?s = (Some x, s')"
      "hist s' = hist ?s @ tr @ [e]" "stored_deployment e = Some d"
    and p: "ManagedResourceRef (msfd_Spec d) \<noteq> None" by blast
  have "serves lib0 ?S env0" by (simp add: serves_def empty_system_def)
  then have "system_step lib0 cluster0 ?S (?S\<lparr>sys_deployment := Some d\<rparr>)"
    by (rule deployment_run [where fs = ?s, rotated 2]) (use f in \<open>simp_all add: fstate0_def\<close>)
  with r1 have r: "reachable lib0 cluster0 (?S\<lparr>sys_deployment := Some d\<rparr>)" by (rule reachable_then)
  have d: "sys_cluster (?S\<lparr>sys_deployment := Some d\<rparr>) = Some msc_old"
    "sys_deployment (?S\<lparr>sys_deployment := Some d\<rparr>) = Some d" by simp_all
  have "self (fstate0 msc_old d) = \<lparr>fc_cluster = cluster0, fc_infraCluster = msc_old,
      fc_firewallDeployment = d, fc_firewallTemplate = msft0\<rparr>" by (simp add: fstate0_def)
  from system_deployment_deletable [OF lib0_laws(1,2) lib0_labels r d p this] r d p show ?thesis by blast
qed

end
