(* ===== verification/Progress.thy ===== *)
theory Progress
  imports System
begin

text \<open>
  The progress of a deletion, and where it stops. Where the services are willing (they answer with
  what is there, and every call to free or to store something succeeds), one run of the right
  controller takes the deletion of a cluster a stage further, until the cluster is gone, but for
  the two nil pointers that make every run panic.
\<close>

section \<open>Willing services\<close>

text \<open>A machine or an address the API is asked for exists, or it does not and the answer is 404.\<close>

definition willing :: "lib \<Rightarrow> Cluster \<Rightarrow> system \<Rightarrow> env \<Rightarrow> bool" where
  "willing L c S E \<longleftrightarrow> serves L S E \<and>
     (\<forall>h x. kube_NewHelper E h x = None) \<and> (\<forall>h a b. kube_PatchObject E h a b = None) \<and>
     (sys_machines S = Map.empty \<longrightarrow> (\<forall>h. kube_ListMachines E h (machines_of_cluster L c) = Inr [])) \<and>
     (\<forall>h k. case sys_deployment S of
        None \<Rightarrow> IsNotFound L (err_of (kube_GetFirewallDeployment E h k))
      | Some d \<Rightarrow> k = deployment_key d \<longrightarrow> kube_GetFirewallDeployment E h k = Inr d) \<and>
     (\<forall>h d. kube_DeleteFirewallDeployment E h d = None) \<and>
     (\<forall>h i. case metal_FindIP E h i of
        Inl err \<Rightarrow> errors_As (Some err) ''FindIPDefault'' = Some 404
      | Inr ip \<Rightarrow> ip_Ipaddress ip \<noteq> None) \<and>
     (\<forall>h i. metal_FreeIP E h i = None) \<and> (\<forall>h i. metal_FreeNetwork E h i = None) \<and>
     (\<forall>h q. \<exists>fws. metal_FindFirewalls E h q = Inr fws) \<and>
     (\<forall>h i. case metal_FindMachine E h i of
        Inl err \<Rightarrow> errors_As (Some err) ''FindMachineDefault'' = Some 404
      | Inr m \<Rightarrow> mr_ID m \<noteq> None) \<and>
     (\<forall>h i. metal_FreeMachine E h i = None)"

lemma willing_helper:
  assumes "willing L c S E"
  shows "serves L S E" "kube_NewHelper E h x = None" "kube_PatchObject E h a b = None"
    "kube_DeleteFirewallDeployment E h d = None" "metal_FreeIP E h i = None"
    "metal_FreeNetwork E h i = None" "metal_FreeMachine E h i = None"
    "sys_machines S = Map.empty \<Longrightarrow> kube_ListMachines E h (machines_of_cluster L c) = Inr []"
    "sys_deployment S = None \<Longrightarrow> IsNotFound L (err_of (kube_GetFirewallDeployment E h k))"
    "sys_deployment S = Some e \<Longrightarrow> kube_GetFirewallDeployment E h (deployment_key e) = Inr e"
  using assms by (auto simp: willing_def)

lemma willing_answers:
  assumes "willing L c S E"
  shows "metal_FindIP E h i = Inl err \<Longrightarrow> errors_As (Some err) ''FindIPDefault'' = Some 404"
    "metal_FindIP E h i = Inr ip \<Longrightarrow> \<exists>a. ip_Ipaddress ip = Some a"
    "metal_FindMachine E h i = Inl err \<Longrightarrow> errors_As (Some err) ''FindMachineDefault'' = Some 404"
    "metal_FindMachine E h i = Inr m \<Longrightarrow> \<exists>j. mr_ID m = Some j"
    "\<exists>fws. metal_FindFirewalls E h q = Inr fws"
proof -
  from assms have "case metal_FindIP E h i of Inl err \<Rightarrow> errors_As (Some err) ''FindIPDefault'' = Some 404
      | Inr ip \<Rightarrow> ip_Ipaddress ip \<noteq> None"
    "case metal_FindMachine E h i of Inl err \<Rightarrow> errors_As (Some err) ''FindMachineDefault'' = Some 404
      | Inr m \<Rightarrow> mr_ID m \<noteq> None"
    "\<exists>fws. metal_FindFirewalls E h q = Inr fws"
    unfolding willing_def by blast+
  then show "metal_FindIP E h i = Inl err \<Longrightarrow> errors_As (Some err) ''FindIPDefault'' = Some 404"
    "metal_FindIP E h i = Inr ip \<Longrightarrow> \<exists>a. ip_Ipaddress ip = Some a"
    "metal_FindMachine E h i = Inl err \<Longrightarrow> errors_As (Some err) ''FindMachineDefault'' = Some 404"
    "metal_FindMachine E h i = Inr m \<Longrightarrow> \<exists>j. mr_ID m = Some j"
    "\<exists>fws. metal_FindFirewalls E h q = Inr fws" by auto
qed

section \<open>A dispatch whose helper and patch succeed\<close>

definition helped :: "lib \<Rightarrow> clusterReconciler st \<Rightarrow> clusterReconciler st" where
  "helped L s = s\<lparr>hist := hist s @ [Kube (NewHelper (OCluster (infra s)) None)],
     self := mark_cluster_paused L (self s)\<rparr>"

lemma cluster_dispatch_willing:
  assumes "willing L c S E" and "cluster_switch L E (helped L s) = (Some y, u)"
  shows "cluster_dispatch L E s =
    (Some y, u\<lparr>hist := hist u @ [Kube (PatchObject (OCluster (infra s)) (OCluster (infra u)) None)]\<rparr>)"
  using assms(2)
  by (simp add: cluster_dispatch_def cluster_patch_def exec willing_helper [OF assms(1)] helped_def)

lemma cluster_dispatch_panics:
  assumes "willing L c S E" and "fst (cluster_switch L E (helped L s)) = None"
  shows "fst (cluster_dispatch L E s) = None"
  using assms(2)
  by (auto simp: cluster_dispatch_def exec willing_helper [OF assms(1)] helped_def split: prod.split)

definition firewall_helped :: "lib \<Rightarrow> firewallDeploymentReconciler st \<Rightarrow> firewallDeploymentReconciler st" where
  "firewall_helped L s = s\<lparr>hist := hist s @ [Kube (NewHelper (OFirewallDeployment (deployment s)) None)],
     self := mark_firewall_paused L (self s)\<rparr>"

lemma firewall_dispatch_willing:
  assumes "willing L c S E" and "firewall_switch L E (firewall_helped L s) = (Some y, u)"
  shows "firewall_dispatch L E s = (Some y, u\<lparr>hist := hist u @
      [Kube (PatchObject (OFirewallDeployment (deployment s)) (OFirewallDeployment (deployment u)) None)]\<rparr>)"
  using assms(2)
  by (simp add: firewall_dispatch_def firewall_patch_def exec Let_def willing_helper [OF assms(1)]
      firewall_helped_def)

lemma firewall_dispatch_panics:
  assumes "willing L c S E" and "fst (firewall_switch L E (firewall_helped L s)) = None"
  shows "fst (firewall_dispatch L E s) = None"
  using assms(2)
  by (auto simp: firewall_dispatch_def exec willing_helper [OF assms(1)] firewall_helped_def
      split: prod.split)

definition machine_helped :: "lib \<Rightarrow> Cluster \<Rightarrow> machineReconciler st \<Rightarrow> machineReconciler st" where
  "machine_helped L c s = s\<lparr>hist := hist s @ [Kube (NewHelper (OMachine (infraMachine s)) None)],
     self := mark_machine_paused L c (self s)\<rparr>"

lemma machine_dispatch_willing:
  assumes "willing L c S E" and "machine_switch L E c (machine_helped L c s) = (Some y, u)"
  shows "machine_dispatch L E c s = (Some y, u\<lparr>hist := hist u @
      [Kube (PatchObject (OMachine (infraMachine s)) (OMachine (infraMachine u)) None)]\<rparr>)"
  using assms(2)
  by (simp add: machine_dispatch_def machine_patch_def exec willing_helper [OF assms(1)] machine_helped_def)

section \<open>The stages\<close>

text \<open>A run succeeds and stores the object without its finalizer.\<close>

definition lets_go ::
    "('r st, 'b) go \<Rightarrow> 'b \<Rightarrow> (event \<Rightarrow> 'o option) \<Rightarrow> ('o \<Rightarrow> ObjectMeta) \<Rightarrow> string \<Rightarrow> 'r st \<Rightarrow> bool" where
  "lets_go run ok stored meta fin s \<longleftrightarrow> (\<exists>s' tr e ob. run s = (Some ok, s') \<and>
     hist s' = hist s @ tr @ [e] \<and> stored e = Some ob \<and> fin \<notin> set (Finalizers (meta ob)))"

lemma lets_goI:
  "run s = (Some ok, s') \<Longrightarrow> hist s' = hist s @ tr @ [e] \<Longrightarrow> stored e = Some ob \<Longrightarrow>
     fin \<notin> set (Finalizers (meta ob)) \<Longrightarrow> lets_go run ok stored meta fin s"
  by (auto simp: lets_go_def)

lemma release_willing:
  assumes "willing L c S E"
  obtains u where "cluster_release L E s = (Some None, u)"
proof -
  obtain x t where d: "deleteControlPlaneIP L E s = (x, t)" by fastforce
  have x: "x = Some None"
  proof (cases "ControlPlaneIP (spec s)")
    case None
    with d show ?thesis by (auto simp: deleteControlPlaneIP_def exec)
  next
    case (Some a)
    with d willing_answers(1,2) [OF assms] show ?thesis
      by (cases "metal_FindIP E (hist s) a")
        (fastforce simp: deleteControlPlaneIP_def exec StatusNotFound_def willing_helper [OF assms]
          split: if_splits)+
  qed
  let ?t = "t\<lparr>self := cr_infraCluster_update (msc_Spec_update (\<lambda>sp. sp\<lparr>ControlPlaneIP := None\<rparr>)) (self t)\<rparr>"
  obtain y w where n: "deleteNodeNetwork E ?t = (y, w)" by fastforce
  then have "y = Some None"
    by (auto simp: deleteNodeNetwork_def exec willing_helper [OF assms] split: option.splits)
  with d x n that show ?thesis by (simp add: cluster_release_def exec)
qed

lemma gone_willing:
  assumes "willing L c S E" and "cr_cluster (self s) = c" and "cluster_has_finalizer L (self s)"
    and "sys_machines S = Map.empty" and "FirewallDeploymentRef (spec s) \<noteq> None"
    and "sys_deployment S = None"
  obtains t u where "cluster_delete L E s = (Some None, u)" "cluster_release L E t = (Some None, u)"
    "self t = self s"
proof -
  obtain ref where ref: "FirewallDeploymentRef (spec s) = Some ref" using assms(5) by auto
  obtain t where g: "ensureFirewallDeploymentIsGone L E (s\<lparr>hist := hist s @
      [Kube (ListMachines (machines_of_cluster L c) (Inr []))]\<rparr>) = (Some None, t)" and t: "self t = self s"
    using ref by (simp add: ensureFirewallDeploymentIsGone_def firewall_deployment_key_def exec
        willing_helper(9) [OF assms(1,6)])
  obtain u where u: "cluster_release L E t = (Some None, u)" by (rule release_willing [OF assms(1)])
  have "cluster_delete L E s = (Some None, u)"
    using assms(2,3) g u by (simp add: cluster_delete_def cluster_has_finalizer_def
        cluster_ensureAllMetalStackMachinesAreGone_def exec willing_helper(8) [OF assms(1,4)])
  with u t that show ?thesis by blast
qed

text \<open>The cluster, once its deployment is gone.\<close>

lemma cluster_stage:
  assumes "finalizer_laws L" and "willing L c S E" and "self s = \<lparr>cr_cluster = c, cr_infraCluster = ic\<rparr>"
    and "\<not> cluster_paused L (self s)" and "cluster_deleting L (self s)" and "cluster_has_finalizer L (self s)"
    and "sys_machines S = Map.empty" and "FirewallDeploymentRef (msc_Spec ic) \<noteq> None"
    and "sys_deployment S = None"
  shows "lets_go (cluster_dispatch L E) None stored_cluster msc_ObjectMeta ClusterFinalizer s"
proof -
  let ?h = "helped L s"
  have h: "cr_cluster (self ?h) = c" "cluster_has_finalizer L (self ?h)" "spec ?h = msc_Spec ic"
    "\<not> cluster_paused L (self ?h)" "cluster_deleting L (self ?h)"
    using assms(3-6) by (simp_all add: helped_def cluster_has_finalizer_def cluster_paused_def cluster_deleting_def)
  obtain t u where d: "cluster_delete L E ?h = (Some None, u)" "cluster_release L E t = (Some None, u)"
    "self t = self ?h"
    using gone_willing [OF assms(2) h(1,2) assms(7) _ assms(9)] assms(8) h(3) by metis
  from wpD [OF cluster_release_step d(2)] have u:
    "Finalizers (msc_ObjectMeta (infra u)) = RemoveFinalizer L (Finalizers (msc_ObjectMeta (infra t))) ClusterFinalizer"
    by auto
  have "cluster_switch L E ?h = (Some None, u)" using d(1) h(4,5) by (simp add: cluster_switch_def exec)
  note run = cluster_dispatch_willing [OF assms(2) this]
  have "emits (\<lambda>_. True) (cluster_delete L E)"
    unfolding cluster_delete_def cluster_release_def by (intro emits_intros) simp_all
  then obtain tr where "hist u = hist ?h @ tr" using d(1) by (rule emitsD)
  then have "hist u = hist s @ [Kube (NewHelper (OCluster (infra s)) None)] @ tr" by (simp add: helped_def)
  note facts = this u assms(1)
  show ?thesis
    by (rule lets_goI [where tr = "Kube (NewHelper (OCluster (infra s)) None) # tr"
          and e = "Kube (PatchObject (OCluster (infra s)) (OCluster (infra u)) None)" and ob = "infra u"], rule run)
      (use facts in \<open>simp_all\<close>)
qed

text \<open>A deployment nobody deletes yet: the cluster controller asks for it.\<close>

lemma ask_stage:
  assumes "willing L c S E" and "self s = \<lparr>cr_cluster = c, cr_infraCluster = ic\<rparr>"
    and "\<not> cluster_paused L (self s)" and "cluster_deleting L (self s)" and "cluster_has_finalizer L (self s)"
    and "sys_machines S = Map.empty" and "sys_deployment S = Some d" and "deployment_of c ic d"
    and "IsZero L (DeletionTimestamp (msfd_ObjectMeta d))"
  obtains s' where "cluster_dispatch L E s = (Some None, s')"
    "Kube (DeleteFirewallDeployment d None) \<in> set (hist s')"
proof -
  let ?h = "helped L s"
  have h: "cr_cluster (self ?h) = c" "cluster_has_finalizer L (self ?h)" "spec ?h = msc_Spec ic"
    "\<not> cluster_paused L (self ?h)" "cluster_deleting L (self ?h)"
    using assms(2-5) by (simp_all add: helped_def cluster_has_finalizer_def cluster_paused_def cluster_deleting_def)
  obtain ref where ref: "FirewallDeploymentRef (msc_Spec ic) = Some ref"
    "deployment_key d = \<lparr>nnNamespace = Namespace (cluster_ObjectMeta c), nnName = fdrName ref\<rparr>"
    using assms(8) by (auto simp: deployment_of_def)
  have get: "kube_GetFirewallDeployment E k \<lparr>nnNamespace = Namespace (cluster_ObjectMeta c),
      nnName = fdrName ref\<rparr> = Inr d" for k
    using willing_helper(10) [OF assms(1,7)] ref(2) by simp
  moreover have "\<not> IsNotFound L None"
    using willing_helper(1) [OF assms(1)] assms(7) get ref(2) by (force simp: serves_def)
  ultimately have "\<exists>u. cluster_delete L E ?h = (Some None, u) \<and>
      Kube (DeleteFirewallDeployment d None) \<in> set (hist u)"
    using h ref(1) assms(9) by (simp add: cluster_delete_def cluster_has_finalizer_def exec
        cluster_ensureAllMetalStackMachinesAreGone_def ensureFirewallDeploymentIsGone_def
        firewall_deployment_key_def willing_helper(4) [OF assms(1)] willing_helper(8) [OF assms(1,6)])
  then obtain u where u: "cluster_delete L E ?h = (Some None, u)"
    "Kube (DeleteFirewallDeployment d None) \<in> set (hist u)" by blast
  then have "cluster_switch L E ?h = (Some None, u)" using h(4,5) by (simp add: cluster_switch_def exec)
  from that [OF cluster_dispatch_willing [OF assms(1) this]] u(2) show ?thesis by simp
qed

text \<open>A deployment under deletion.\<close>

lemma free_willing:
  assumes "willing L c S E"
  obtains u where "free_firewalls E errs fws s = (Some errs, u)"
proof -
  have "\<exists>u. free_firewalls E errs fws s = (Some errs, u)"
    by (induction fws arbitrary: s) (simp_all add: exec willing_helper [OF assms] split: option.split)
  with that show ?thesis by blast
qed

lemma deployment_stage:
  assumes "finalizer_laws L" and "willing L c S E"
    and "self s = \<lparr>fc_cluster = c, fc_infraCluster = ic, fc_firewallDeployment = d, fc_firewallTemplate = t\<rparr>"
    and "\<not> firewall_paused L (self s)" and "firewall_deleting L (self s)" and "firewall_has_finalizer L (self s)"
    and "sys_machines S = Map.empty" and "NodeNetworkID (msc_Spec ic) \<noteq> None"
  shows "lets_go (firewall_dispatch L E) None stored_deployment msfd_ObjectMeta FirewallDeploymentFinalizer s"
proof -
  let ?h = "firewall_helped L s"
  have h: "fc_cluster (self ?h) = c" "firewall_has_finalizer L (self ?h)" "fw_cluster_spec ?h = msc_Spec ic"
    "\<not> firewall_paused L (self ?h)" "firewall_deleting L (self ?h)"
    using assms(3-6) by (simp_all add: firewall_helped_def firewall_has_finalizer_def firewall_paused_def
        firewall_deleting_def)
  let ?g = "?h\<lparr>hist := hist ?h @ [Kube (ListMachines (machines_of_cluster L c) (Inr []))]\<rparr>"
  obtain nw where nw: "NodeNetworkID (msc_Spec ic) = Some nw" using assms(8) by auto
  obtain fws where fws: "metal_FindFirewalls E (hist ?g) (find_request L nw ?g) = Inr fws"
    using willing_answers(5) [OF assms(2)] by blast
  obtain v where free: "free_firewalls E [] fws (?g\<lparr>hist := hist ?g @
      [Metal (FindFirewalls (find_request L nw ?g) (Inr fws))]\<rparr>) = (Some [], v)"
    by (rule free_willing [OF assms(2)])
  have f: "\<exists>w. deleteFirewallDeployment L E ?g = (Some None, w)"
    using h(3) nw fws free by (auto simp: deleteFirewallDeployment_def exec)
  then obtain w where f: "deleteFirewallDeployment L E ?g = (Some None, w)" by blast
  let ?u = "w\<lparr>self := fc_firewallDeployment_update (remove_deployment_finalizer L) (self w)\<rparr>"
  have "firewall_delete L E ?h = (Some None, ?u)"
    using h(1,2) f by (simp add: firewall_delete_def firewall_has_finalizer_def exec
        firewall_ensureAllMetalStackMachinesAreGone_def willing_helper(8) [OF assms(2,7)])
  then have d: "firewall_switch L E ?h = (Some None, ?u)" "firewall_delete L E ?h = (Some None, ?u)"
    using h(4,5) by (simp_all add: firewall_switch_def exec)
  note run = firewall_dispatch_willing [OF assms(2) d(1)]
  have "emits (\<lambda>_. True) (firewall_delete L E)" by (intro emits_intros) simp_all
  then obtain tr where "hist ?u = hist ?h @ tr" using d(2) by (rule emitsD)
  then have "hist w = hist s @ [Kube (NewHelper (OFirewallDeployment (deployment s)) None)] @ tr"
    by (simp add: firewall_helped_def)
  note facts = this assms(1)
  show ?thesis
    by (rule lets_goI [where tr = "Kube (NewHelper (OFirewallDeployment (deployment s)) None) # tr"
          and e = "Kube (PatchObject (OFirewallDeployment (deployment s)) (OFirewallDeployment (deployment ?u)) None)"
          and ob = "deployment ?u"], rule run)
      (use facts in \<open>simp_all add: remove_deployment_finalizer_def\<close>)
qed

text \<open>A machine under deletion.\<close>

lemma find_willing:
  assumes "willing L c S E"
  obtains y t tr where "findProviderMachine L E s = (Some y, t)" "self t = self s" "hist t = hist s @ tr"
    "y = Inl errProviderMachineNotFound \<and> seen_gone s tr \<or>
     (\<exists>m i. y = Inr m \<and> mr_ID m = Some i \<and> providerID s \<noteq> [] \<and> in_project (project s) m \<and>
        tr = [Metal (FindMachine (decodeProviderID (providerID s)) (Inr m))])"
proof (cases "providerID s = []")
  case True
  then have "findProviderMachine L E s = (Some (Inl errProviderMachineNotFound), s)" "seen_gone s []"
    by (simp_all add: findProviderMachine_def exec seen_gone_def)
  with that [of _ s "[]"] show ?thesis by simp
next
  case False
  let ?a = "metal_FindMachine E (hist s) (decodeProviderID (providerID s))"
  let ?tr = "[Metal (FindMachine (decodeProviderID (providerID s)) ?a)]"
  let ?y = "case ?a of Inl err \<Rightarrow> Inl errProviderMachineNotFound
    | Inr m \<Rightarrow> if in_project (project s) m then Inr m else Inl errProviderMachineNotFound"
  have "findProviderMachine L E s = (Some ?y, s\<lparr>hist := hist s @ ?tr\<rparr>)"
    using False willing_answers(3) [OF assms]
    by (cases ?a) (auto simp: findProviderMachine_def exec Let_def StatusNotFound_def in_project_def
        split: option.split)
  moreover have "?y = Inl errProviderMachineNotFound \<and> seen_gone s ?tr \<or>
     (\<exists>m i. ?y = Inr m \<and> mr_ID m = Some i \<and> providerID s \<noteq> [] \<and> in_project (project s) m \<and>
        ?tr = [Metal (FindMachine (decodeProviderID (providerID s)) (Inr m))])"
    using False willing_answers(3,4) [OF assms] by (cases ?a) (auto simp: seen_gone_def)
  ultimately show ?thesis using that [of ?y "s\<lparr>hist := hist s @ ?tr\<rparr>" ?tr] by simp
qed

lemma machine_stage:
  assumes "finalizer_laws L" and "willing L c S E"
    and "\<not> machine_paused L c (self s)" and "machine_deleting L (self s)" and "machine_has_finalizer L (self s)"
    and "worker L s"
  shows "lets_go (machine_dispatch L E c) (empty_Result, None) stored_machine msm_ObjectMeta MachineFinalizer s"
proof -
  let ?h = "machine_helped L c s"
  have h: "machine_has_finalizer L (self ?h)" "worker L ?h"
    "\<not> machine_paused L c (self ?h)" "machine_deleting L (self ?h)"
    using assms(3-6) by (simp_all add: machine_helped_def machine_has_finalizer_def machine_paused_def
        machine_deleting_def)
  obtain y t where f: "findProviderMachine L E ?h = (Some y, t)"
    "y = Inl errProviderMachineNotFound \<or> (\<exists>m i. y = Inr m \<and> mr_ID m = Some i)"
    by (rule find_willing [OF assms(2)]) blast
  from f(2) have "\<exists>u. machine_delete L E ?h = (Some (empty_Result, None), unfinalized L u)"
  proof (elim disjE exE conjE)
    assume "y = Inl errProviderMachineNotFound"
    with f(1) h(2) machine_delete_gone [OF h(1)] show ?thesis
      by (auto simp: errProviderMachineNotFound_def)
  next
    fix m i assume "y = Inr m" "mr_ID m = Some i"
    with f(1) h(2) machine_delete_found [OF h(1)] show ?thesis
      by (intro exI [of _ "t\<lparr>hist := hist t @ [Metal (FreeMachine i None)]\<rparr>"])
        (simp add: Let_def willing_helper [OF assms(2)])
  qed
  then obtain u where d: "machine_delete L E ?h = (Some (empty_Result, None), unfinalized L u)" by blast
  then have "machine_switch L E c ?h = (Some (empty_Result, None), unfinalized L u)"
    using h(3,4) by (simp add: machine_switch_def exec)
  note run = machine_dispatch_willing [OF assms(2) this]
  have "emits (\<lambda>_. True) (machine_delete L E)"
    unfolding machine_delete_def Let_def by (intro emits_intros) simp_all
  then obtain tr where "hist (unfinalized L u) = hist ?h @ tr" using d by (rule emitsD)
  then have "hist u = hist s @ [Kube (NewHelper (OMachine (infraMachine s)) None)] @ tr"
    by (simp add: machine_helped_def)
  note facts = this assms(1)
  show ?thesis
    by (rule lets_goI [where tr = "Kube (NewHelper (OMachine (infraMachine s)) None) # tr"
          and e = "Kube (PatchObject (OMachine (infraMachine s)) (OMachine (infraMachine (unfinalized L u))) None)"
          and ob = "infraMachine (unfinalized L u)"], rule run)
      (use facts in \<open>simp_all add: remove_machine_finalizer_def\<close>)
qed

text \<open>A control plane machine is freed while it is there and looked at again after a minute. Once it is
  gone, and 30 seconds have passed since the deletion, its object is let go; before that, the
  run asks to be repeated after 15 seconds.\<close>

definition control_plane_outcome ::
    "machineReconciler st \<Rightarrow> Result \<Rightarrow> history \<Rightarrow> MetalStackMachine \<Rightarrow> bool" where
  "control_plane_outcome s x tr im \<longleftrightarrow>
     (if seen_gone s tr
      then \<exists>d now. deleted_at s = Some d \<and> Now now \<in> set tr \<and>
        (if d + 30000000000 < now
         then x = empty_Result \<and> MachineFinalizer \<notin> set (Finalizers (msm_ObjectMeta im))
         else x = \<lparr>RequeueAfter = 15000000000\<rparr> \<and> MachineFinalizer \<in> set (Finalizers (msm_ObjectMeta im)))
      else (\<exists>i. Metal (FreeMachine i None) \<in> set tr) \<and> x = \<lparr>RequeueAfter = 60000000000\<rparr> \<and>
        MachineFinalizer \<in> set (Finalizers (msm_ObjectMeta im)))"

definition control_plane_moves :: "lib \<Rightarrow> env \<Rightarrow> Cluster \<Rightarrow> machineReconciler st \<Rightarrow> bool" where
  "control_plane_moves L E c s \<longleftrightarrow> (\<exists>x s' tr e im. machine_dispatch L E c s = (Some (x, None), s') \<and>
     hist s' = hist s @ tr @ [e] \<and> stored_machine e = Some im \<and> control_plane_outcome s x tr im)"

lemma control_plane_deletes:
  assumes "finalizer_laws L" and "willing L c S E" and "machine_has_finalizer L (self s)"
    and "\<not> worker L s" and "deleted_at s = Some d"
  obtains x u tr where "machine_delete L E s = (Some (x, None), u)" "hist u = hist s @ tr"
    "control_plane_outcome s x tr (infraMachine u)"
proof -
  have fin: "MachineFinalizer \<in> set (Finalizers (msm_ObjectMeta (infraMachine s)))"
    using assms(1,3) by (simp add: machine_has_finalizer_def)
  obtain y t tr where f: "findProviderMachine L E s = (Some y, t)" "self t = self s" "hist t = hist s @ tr"
    "y = Inl errProviderMachineNotFound \<and> seen_gone s tr \<or>
     (\<exists>m i. y = Inr m \<and> mr_ID m = Some i \<and> providerID s \<noteq> [] \<and> in_project (project s) m \<and>
        tr = [Metal (FindMachine (decodeProviderID (providerID s)) (Inr m))])"
    by (rule find_willing [OF assms(2)])
  from f(4) show ?thesis
  proof (elim disjE exE conjE)
    assume y: "y = Inl errProviderMachineNotFound" and g: "seen_gone s tr"
    let ?n = "time_Now E (hist t)"
    let ?u = "t\<lparr>hist := hist t @ [Now ?n]\<rparr>"
    have "seen_gone s (tr @ [Now ?n])" using g by (auto simp: seen_gone_def)
    then have "if d + 30000000000 < ?n
      then control_plane_outcome s empty_Result (tr @ [Now ?n]) (infraMachine (unfinalized L ?u))
      else control_plane_outcome s \<lparr>RequeueAfter = 15000000000\<rparr> (tr @ [Now ?n]) (infraMachine ?u)"
      using assms(1,5) f(2) fin by (auto simp: control_plane_outcome_def remove_machine_finalizer_def)
    moreover have "machine_delete L E s = (if d + 30000000000 < ?n
      then (Some (empty_Result, None), unfinalized L ?u)
      else (Some (\<lparr>RequeueAfter = 15000000000\<rparr>, None), ?u))"
      using machine_delete_gone [OF assms(3) f(1) [unfolded y]] assms(4,5)
      by (simp add: errProviderMachineNotFound_def)
    ultimately show ?thesis
      using that [of _ "unfinalized L ?u" "tr @ [Now ?n]"] that [of _ ?u "tr @ [Now ?n]"] f(3)
      by (cases "d + 30000000000 < ?n") simp_all
  next
    fix m i assume y: "y = Inr m" "mr_ID m = Some i" and p: "providerID s \<noteq> []" "in_project (project s) m"
      and tr: "tr = [Metal (FindMachine (decodeProviderID (providerID s)) (Inr m))]"
    let ?u = "t\<lparr>hist := hist t @ [Metal (FreeMachine i None)]\<rparr>"
    have "control_plane_outcome s \<lparr>RequeueAfter = 60000000000\<rparr> (tr @ [Metal (FreeMachine i None)]) (infraMachine ?u)"
      using p tr f(2) fin by (auto simp: control_plane_outcome_def seen_gone_def)
    moreover have "machine_delete L E s = (Some (\<lparr>RequeueAfter = 60000000000\<rparr>, None), ?u)"
      using machine_delete_found [OF assms(3) f(1) [unfolded y(1)]] assms(4) y(2)
      by (simp add: Let_def willing_helper [OF assms(2)])
    ultimately show ?thesis using that f(3) by simp
  qed
qed

lemma control_plane_stage:
  assumes "finalizer_laws L" and "willing L c S E"
    and "\<not> machine_paused L c (self s)" and "machine_deleting L (self s)" and "machine_has_finalizer L (self s)"
    and "\<not> worker L s" and "deleted_at s = Some d"
  shows "control_plane_moves L E c s"
proof -
  let ?h = "machine_helped L c s"
  let ?new = "Kube (NewHelper (OMachine (infraMachine s)) None)"
  have h: "machine_has_finalizer L (self ?h)" "\<not> worker L ?h" "deleted_at ?h = Some d"
    "\<not> machine_paused L c (self ?h)" "machine_deleting L (self ?h)"
    using assms(3-7) by (simp_all add: machine_helped_def machine_has_finalizer_def machine_paused_def
        machine_deleting_def)
  obtain x u tr where d: "machine_delete L E ?h = (Some (x, None), u)" "hist u = hist ?h @ tr"
    "control_plane_outcome ?h x tr (infraMachine u)"
    by (rule control_plane_deletes [OF assms(1,2) h(1-3)])
  have "project ?h = project s" by (simp add: machine_helped_def mark_machine_paused_def)
  moreover have "providerID ?h = providerID s" by (simp add: machine_helped_def)
  ultimately have seen: "seen_gone ?h tr = seen_gone s (?new # tr)"
    by (simp add: seen_gone_def cong: sum.case_cong)
  have "control_plane_outcome ?h x tr (infraMachine u) = control_plane_outcome s x (?new # tr) (infraMachine u)"
    by (simp add: control_plane_outcome_def seen h(3) assms(7))
  with d(3) have "control_plane_outcome s x (?new # tr) (infraMachine u)" by simp
  moreover have "machine_switch L E c ?h = (Some (x, None), u)"
    using d(1) h(4,5) by (simp add: machine_switch_def exec)
  then have "machine_dispatch L E c s = (Some (x, None), u\<lparr>hist := hist u @
      [Kube (PatchObject (OMachine (infraMachine s)) (OMachine (infraMachine u)) None)]\<rparr>)"
    by (rule machine_dispatch_willing [OF assms(2)])
  moreover have "hist u = hist s @ ?new # tr" using d(2) by (simp add: machine_helped_def)
  ultimately show ?thesis
    unfolding control_plane_moves_def
    by (intro exI [of _ x] exI [of _ "u\<lparr>hist := hist u @
        [Kube (PatchObject (OMachine (infraMachine s)) (OMachine (infraMachine u)) None)]\<rparr>"]
      exI [of _ "?new # tr"] exI [of _ "Kube (PatchObject (OMachine (infraMachine s)) (OMachine (infraMachine u)) None)"]
      exI [of _ "infraMachine u"]) simp
qed

section \<open>Deletion moves on, or panics\<close>

text \<open>Without the pointers its deletion needs, a run panics.\<close>

lemma cluster_stuck:
  assumes "willing L c S E" and "self s = \<lparr>cr_cluster = c, cr_infraCluster = ic\<rparr>"
    and "\<not> cluster_paused L (self s)" and "cluster_deleting L (self s)" and "cluster_has_finalizer L (self s)"
    and "sys_machines S = Map.empty" and "FirewallDeploymentRef (msc_Spec ic) = None"
  shows "fst (cluster_dispatch L E s) = None"
proof (rule cluster_dispatch_panics [OF assms(1)])
  have "fst (cluster_delete L E (helped L s)) = None"
    by (rule cluster_delete_panics)
      (use assms in \<open>simp_all add: helped_def cluster_has_finalizer_def willing_helper(8) [OF assms(1,6)]\<close>)
  then show "fst (cluster_switch L E (helped L s)) = None"
    using assms(3,4) by (simp add: cluster_switch_def exec helped_def cluster_paused_def cluster_deleting_def)
qed

lemma deployment_stuck:
  assumes "willing L c S E"
    and "self s = \<lparr>fc_cluster = c, fc_infraCluster = ic, fc_firewallDeployment = d, fc_firewallTemplate = t\<rparr>"
    and "\<not> firewall_paused L (self s)" and "firewall_deleting L (self s)" and "firewall_has_finalizer L (self s)"
    and "sys_machines S = Map.empty" and "NodeNetworkID (msc_Spec ic) = None"
  shows "fst (firewall_dispatch L E s) = None"
proof (rule firewall_dispatch_panics [OF assms(1)])
  have "fst (firewall_delete L E (firewall_helped L s)) = None"
    by (rule firewall_delete_panics)
      (use assms in \<open>simp_all add: firewall_helped_def firewall_has_finalizer_def willing_helper(8) [OF assms(1,6)]\<close>)
  then show "fst (firewall_switch L E (firewall_helped L s)) = None"
    using assms(3,4)
    by (simp add: firewall_switch_def exec firewall_helped_def firewall_paused_def firewall_deleting_def)
qed

text \<open>An object under deletion that its controller holds and works on.\<close>

definition held :: "lib \<Rightarrow> Cluster \<Rightarrow> string \<Rightarrow> ObjectMeta \<Rightarrow> bool" where
  "held L c fin m \<longleftrightarrow> \<not> IsZero L (DeletionTimestamp m) \<and> fin \<in> set (Finalizers m) \<and> \<not> IsPaused L c m"

lemma networked_managed:
  assumes "system_inv L c S" and "sys_cluster S = Some ic" and "sys_deployment S = Some d"
    and "ManagedResourceRef (msfd_Spec d) \<noteq> None"
  shows "NodeNetworkID (msc_Spec ic) \<noteq> None"
  using assms by (auto simp: system_inv_def networked_def)

text \<open>C7. Where the deletion of a cluster moves on and where it is stuck. In every reachable state in
  which the cluster is being deleted, with services that answer truly, let things be freed and
  store what they are given, and for the runs that got past the lookups in front of the dispatch:
  a run on a worker machine under deletion takes its finalizer off, whether the machine still
  exists or not; a run on a control plane machine frees it and asks to be repeated after a minute
  as long as it exists, and once it is gone takes the finalizer off, or asks to be repeated until
  30 seconds have passed. Without machines, every run on a cluster without reference to a firewall
  deployment panics. With one, a run on the cluster asks for the deletion of the deployment; a run
  on that deployment takes its finalizer off if the cluster has its network, which it has whenever
  the deployment has a firewall, and otherwise panics, every time; and when the deployment is
  gone, a run on the cluster takes the finalizer of the cluster off.\<close>

theorem deletion_progresses:
  assumes "conditions_laws L" and "finalizer_laws L" and "label_laws L" and "IsZero L None"
    and "reachable L c S" and "willing L c S E" and "sys_cluster S = Some ic"
    and "held L c ClusterFinalizer (msc_ObjectMeta ic)"
  shows "(\<forall>n im ms. sys_machines S n = Some im \<longrightarrow> held L c MachineFinalizer (msm_ObjectMeta im) \<longrightarrow>
      mc_infraMachine (self ms) = im \<longrightarrow>
      (if worker L ms
       then lets_go (machine_dispatch L E c) (empty_Result, None) stored_machine msm_ObjectMeta MachineFinalizer ms
       else control_plane_moves L E c ms)) \<and>
    (sys_machines S = Map.empty \<longrightarrow> FirewallDeploymentRef (msc_Spec ic) = None \<longrightarrow>
      (\<forall>s. self s = \<lparr>cr_cluster = c, cr_infraCluster = ic\<rparr> \<longrightarrow> fst (cluster_dispatch L E s) = None)) \<and>
    (sys_machines S = Map.empty \<longrightarrow> FirewallDeploymentRef (msc_Spec ic) \<noteq> None \<longrightarrow>
     (case sys_deployment S of
        None \<Rightarrow> \<forall>s. self s = \<lparr>cr_cluster = c, cr_infraCluster = ic\<rparr> \<longrightarrow>
          lets_go (cluster_dispatch L E) None stored_cluster msc_ObjectMeta ClusterFinalizer s
      | Some d \<Rightarrow>
          (IsZero L (DeletionTimestamp (msfd_ObjectMeta d)) \<longrightarrow>
            (\<forall>s. self s = \<lparr>cr_cluster = c, cr_infraCluster = ic\<rparr> \<longrightarrow>
              Kube (DeleteFirewallDeployment d None) \<in> set (hist (snd (cluster_dispatch L E s))))) \<and>
          (ManagedResourceRef (msfd_Spec d) \<noteq> None \<longrightarrow> NodeNetworkID (msc_Spec ic) \<noteq> None) \<and>
          (held L c FirewallDeploymentFinalizer (msfd_ObjectMeta d) \<longrightarrow>
            (\<forall>t fs. self fs = \<lparr>fc_cluster = c, fc_infraCluster = ic, fc_firewallDeployment = d,
                fc_firewallTemplate = t\<rparr> \<longrightarrow>
              (if NodeNetworkID (msc_Spec ic) = None then fst (firewall_dispatch L E fs) = None
               else lets_go (firewall_dispatch L E) None stored_deployment msfd_ObjectMeta
                 FirewallDeploymentFinalizer fs)))))"
proof -
  note inv = reachable_inv [OF assms(5,1-3)]
  have machine: "if worker L ms
      then lets_go (machine_dispatch L E c) (empty_Result, None) stored_machine msm_ObjectMeta MachineFinalizer ms
      else control_plane_moves L E c ms"
    if dying: "held L c MachineFinalizer (msm_ObjectMeta (infraMachine ms))" for ms
  proof -
    have m: "\<not> machine_paused L c (self ms)" "machine_deleting L (self ms)" "machine_has_finalizer L (self ms)"
      using that assms(2) by (simp_all add: held_def machine_paused_def machine_deleting_def machine_has_finalizer_def)
    obtain d where "deleted_at ms = Some d" using dying assms(4) by (cases "deleted_at ms") (auto simp: held_def)
    with machine_stage [OF assms(2,6) m] control_plane_stage [OF assms(2,6) m] show ?thesis by auto
  qed
  have cluster: "\<not> cluster_paused L (self s)" "cluster_deleting L (self s)" "cluster_has_finalizer L (self s)"
    if "self s = \<lparr>cr_cluster = c, cr_infraCluster = ic\<rparr>" for s :: "clusterReconciler st"
    using assms(2,8) that
    by (simp_all add: held_def cluster_paused_def cluster_deleting_def cluster_has_finalizer_def)
  note stuck = cluster_stuck [OF assms(6) _ cluster]
  note last = cluster_stage [OF assms(2,6) _ cluster]
  have ask: "Kube (DeleteFirewallDeployment d None) \<in> set (hist (snd (cluster_dispatch L E s)))"
    if "sys_machines S = Map.empty" "sys_deployment S = Some d" "IsZero L (DeletionTimestamp (msfd_ObjectMeta d))"
      "self s = \<lparr>cr_cluster = c, cr_infraCluster = ic\<rparr>" for d s
  proof -
    have "deployment_of c ic d" using inv assms(7) that(2) by (simp add: system_inv_def)
    note stage = ask_stage [OF assms(6) that(4) cluster [OF that(4)] that(1,2) this that(3)]
    obtain s' where "cluster_dispatch L E s = (Some None, s')"
      "Kube (DeleteFirewallDeployment d None) \<in> set (hist s')" by (rule stage) blast
    then show ?thesis by simp
  qed
  have deployment: "if NodeNetworkID (msc_Spec ic) = None then fst (firewall_dispatch L E fs) = None
      else lets_go (firewall_dispatch L E) None stored_deployment msfd_ObjectMeta FirewallDeploymentFinalizer fs"
    if "sys_machines S = Map.empty" "held L c FirewallDeploymentFinalizer (msfd_ObjectMeta d)"
      "self fs = \<lparr>fc_cluster = c, fc_infraCluster = ic, fc_firewallDeployment = d, fc_firewallTemplate = t\<rparr>"
    for d t fs
  proof -
    have "\<not> firewall_paused L (self fs)" "firewall_deleting L (self fs)" "firewall_has_finalizer L (self fs)"
      using assms(2,8) that(2,3)
      by (simp_all add: held_def firewall_paused_def firewall_deleting_def firewall_has_finalizer_def)
    with deployment_stage [OF assms(2,6) that(3) _ _ _ that(1)] deployment_stuck [OF assms(6) that(3) _ _ _ that(1)]
    show ?thesis by simp
  qed
  show ?thesis
    using machine stuck last ask deployment networked_managed [OF inv assms(7)]
    by (intro conjI impI allI) (auto split: option.split)
qed

theorem deletion_progresses_witness:
  "lets_go (cluster_dispatch lib0 env_gone) None stored_cluster msc_ObjectMeta ClusterFinalizer (state0 msc_old)"
proof -
  have w: "willing lib0 cluster0 system_old env_gone"
    by (simp add: willing_def serves_def empty_system_def objects0 errors_As_def)
  have ic: "sys_cluster system_old = Some msc_old" by simp
  have h: "held lib0 cluster0 ClusterFinalizer (msc_ObjectMeta msc_old)"
    by (simp add: held_def msc_old_def cluster0_def)
  have z: "IsZero lib0 None" by simp
  have ref: "FirewallDeploymentRef (msc_Spec msc_old) \<noteq> None" by (simp add: msc_old_def msc_steady_def)
  have s: "self (state0 msc_old) = \<lparr>cr_cluster = cluster0, cr_infraCluster = msc_old\<rparr>"
    by (simp add: state0_def)
  from deletion_progresses [OF lib0_laws(1,2) lib0_labels z reachable_old w ic h] s ref
  show ?thesis by (simp add: empty_system_def)
qed

end
