(* ===== verification/Bounds.thy ===== *)
theory Bounds
  imports ClusterController MachineController FirewallProperties
begin

text \<open>
  How much one \<open>Reconcile\<close> does: how many calls of the two APIs it can make, and how soon it can
  ask to be run again. A controller runs as often as objects change, so these are the bounds of
  the load it puts on the APIs.
\<close>

section \<open>Counting calls\<close>

lemma at_most_mono: "emits_at_most n P m \<Longrightarrow> n \<le> N \<Longrightarrow> emits_at_most N P m"
  unfolding emits_at_most_def by (meson order.trans)

lemma at_most_zero: "emits_at_most n P (ret x)"
  by (intro emits_none emits_intros)

lemma at_most_self:
  assumes "emits_at_most n P m"
  shows "emits_at_most n P (with_self q m :: ('r st, _) go)"
  unfolding emits_at_most_def
proof
  fix s :: "'r st"
  have "\<exists>tr. hist (snd (m \<lparr>hist = hist s, self = q\<rparr>)) = hist s @ tr \<and> length (filter P tr) \<le> n"
    using assms unfolding emits_at_most_def by (auto dest: spec [of _ "\<lparr>hist = hist s, self = q\<rparr>"])
  then show "\<exists>tr. hist (snd (with_self q m s)) = hist s @ tr \<and> length (filter P tr) \<le> n"
    by (cases "m \<lparr>hist = hist s, self = q\<rparr>") (simp add: with_self_def)
qed

lemma at_most_prod:
  "(\<And>a b. emits_at_most n P (f a b)) \<Longrightarrow> emits_at_most n P (case z of (a, b) \<Rightarrow> f a b)"
  by (cases z) simp

text \<open>A method is counted by running it, a sequence by adding up.\<close>

lemmas run_counts = emits_at_most_def exec Let_def
lemmas counting = emits_at_most_add emits_at_most_branches at_most_zero at_most_prod at_most_self

definition any_call :: "event \<Rightarrow> bool" where
  "any_call e = True"

lemma any_call [simp]: "any_call e"
  by (simp add: any_call_def)

text \<open>Assignments and reads of the receiver count nothing.\<close>

lemma count_self:
  "(\<And>x. emits_at_most n P (f x)) \<Longrightarrow> emits_at_most n P (bnd get_self f)"
  "(\<And>x. emits_at_most n P (g x)) \<Longrightarrow> emits_at_most n P (bnd (mod_self h) g)"
  by (rule emits_at_most_last, intro emits_intros, assumption)+

text \<open>The counts of a whole run from those of its two handlers.\<close>

context reconciler
begin

lemma body_count:
  assumes "emits_at_most n P delete" and "emits_at_most n P reconcile"
  shows "emits_at_most n P body"
  unfolding emits_at_most_def
proof
  fix s :: "'r st"
  consider "body s = (Some skip, s)" | "body s = delete s" | "body s = reconcile s"
    | "body s = (Some skip, s\<lparr>self := add_finalizer (self s)\<rparr>)"
    using body_paused body_delete body_finalizer body_reconcile by metis
  then show "\<exists>tr. hist (snd (body s)) = hist s @ tr \<and> length (filter P tr) \<le> n"
    using assms unfolding emits_at_most_def by cases simp_all
qed

lemma dispatch_count:
  assumes "emits_at_most n P delete" and "emits_at_most n P reconcile"
    and "\<And>r. emits_at_most a P (prepare r)" and "\<And>r b. emits_at_most k P (finish r b)"
  shows "emits_at_most (a + (n + k)) P dispatch"
  unfolding dispatch_law
  by (intro count_self emits_at_most_add emits_at_most_branches at_most_zero body_count assms)

end

section \<open>The cluster controller\<close>

lemma cluster_method_counts:
  "emits_at_most 1 P (ensureNodeNetwork L E)"
  "emits_at_most 2 any_call (cluster_ensureFirewallDeployment L E)"
  "emits_at_most 0 is_metal (cluster_ensureFirewallDeployment L E)"
  "emits_at_most 2 P (ensureControlPlaneIP L E)"
  "emits_at_most 1 any_call (cluster_ensureAllMetalStackMachinesAreGone L E)"
  "emits_at_most 0 is_metal (cluster_ensureAllMetalStackMachinesAreGone L E)"
  "emits_at_most 2 any_call (ensureFirewallDeploymentIsGone L E)"
  "emits_at_most 0 is_metal (ensureFirewallDeploymentIsGone L E)"
  "emits_at_most 2 P (deleteControlPlaneIP L E)"
  "emits_at_most 1 P (deleteNodeNetwork E)"
  by (auto simp: run_counts ensureNodeNetwork_def cluster_ensureFirewallDeployment_def
      firewall_deployment_key_def ensureControlPlaneIP_def cluster_ensureAllMetalStackMachinesAreGone_def
      ensureFirewallDeploymentIsGone_def deleteControlPlaneIP_def deleteNodeNetwork_def
      split: option.split sum.split list.split)

lemma cluster_step_counts:
  "emits_at_most 1 P (reconcile_node_network L E)"
  "emits_at_most 2 any_call (reconcile_firewall_deployment L E)"
  "emits_at_most 0 is_metal (reconcile_firewall_deployment L E)"
  "emits_at_most 2 P (reconcile_control_plane L E)"
  unfolding reconcile_node_network_def reconcile_firewall_deployment_def reconcile_control_plane_def
  by (intro count_self emits_at_most_branches emits_at_most_first cluster_method_counts at_most_zero
      emits_intros)+

lemma cluster_counts:
  "emits_at_most 5 any_call (cluster_reconcile L E)" "emits_at_most 3 is_metal (cluster_reconcile L E)"
  "emits_at_most 6 any_call (cluster_delete L E)" "emits_at_most 3 is_metal (cluster_delete L E)"
proof -
  have zero: "emits_at_most n P (bnd (mod_self f) (\<lambda>_. ret x))" for n P f and x :: 'a
    by (intro count_self at_most_zero)
  have "emits_at_most (1 + (2 + (2 + 0))) any_call (cluster_reconcile L E)"
    unfolding cluster_reconcile_def by (intro counting cluster_step_counts zero)
  then show "emits_at_most 5 any_call (cluster_reconcile L E)" by (rule at_most_mono) simp
  have "emits_at_most (1 + (0 + (2 + 0))) is_metal (cluster_reconcile L E)"
    unfolding cluster_reconcile_def by (intro counting cluster_step_counts zero)
  then show "emits_at_most 3 is_metal (cluster_reconcile L E)" by (rule at_most_mono) simp
  have "emits_at_most (2 + (1 + 0)) P (cluster_release L E)" for P
    unfolding cluster_release_def by (intro count_self counting cluster_method_counts)
  then have r: "emits_at_most 3 P (cluster_release L E)" for P by (rule at_most_mono) simp
  have "emits_at_most (1 + (2 + 3)) any_call (cluster_delete L E)"
    unfolding cluster_delete_def by (intro count_self counting cluster_method_counts r)
  then show "emits_at_most 6 any_call (cluster_delete L E)" by (rule at_most_mono) simp
  have "emits_at_most (0 + (0 + 3)) is_metal (cluster_delete L E)"
    unfolding cluster_delete_def by (intro count_self counting cluster_method_counts r)
  then show "emits_at_most 3 is_metal (cluster_delete L E)" by (rule at_most_mono) simp
qed

lemma patch_counts:
  "emits_at_most 1 P (cluster_patch E r err)" "emits_at_most 0 is_metal (cluster_patch E r err)"
  "emits_at_most 1 P (machine_patch E q res)" "emits_at_most 0 is_metal (machine_patch E q res)"
  "emits_at_most 1 P (firewall_patch E d err)" "emits_at_most 0 is_metal (firewall_patch E d err)"
  by (auto simp: run_counts cluster_patch_def machine_patch_def firewall_patch_def split: option.split)

lemma call_counts:
  "emits_at_most 1 P (call f ev)" "(\<And>r. \<not> P (ev r)) \<Longrightarrow> emits_at_most 0 P (call f ev)"
  by (rule emits_at_most_call) (intro emits_none emits_intros; simp)

lemma cluster_dispatch_counts:
  "emits_at_most 8 any_call (cluster_dispatch L E)" "emits_at_most 3 is_metal (cluster_dispatch L E)"
proof -
  have "emits_at_most (1 + (6 + 1)) any_call (cluster_dispatch L E)"
    by (intro cluster_rec.dispatch_count cluster_counts at_most_mono [OF cluster_counts(1)] patch_counts
        call_counts) simp
  then show "emits_at_most 8 any_call (cluster_dispatch L E)" by (rule at_most_mono) simp
  have "emits_at_most (0 + (3 + 0)) is_metal (cluster_dispatch L E)"
    by (intro cluster_rec.dispatch_count cluster_counts patch_counts call_counts(2)) simp
  then show "emits_at_most 3 is_metal (cluster_dispatch L E)" by (rule at_most_mono) simp
qed

section \<open>The machine controller\<close>

lemma machine_method_counts:
  "emits_at_most 2 any_call (create L E)" "emits_at_most 1 is_metal (create L E)"
  "emits_at_most 1 P (findProviderMachine L E)"
  by (auto simp: run_counts create_def machineTags_def findProviderMachine_def
      split: option.split sum.split)

lemma apply_machine_count: "emits_at_most 0 P (apply_machine L m)"
  by (intro emits_none emits_intros)

lemma provider_machine_counts:
  "emits_at_most 2 any_call (provider_machine L E)" "emits_at_most 1 is_metal (provider_machine L E)"
  unfolding provider_machine_def
  by (intro count_self emits_at_most_branches emits_at_most_first machine_method_counts
      at_most_mono [OF machine_method_counts(3)] at_most_zero emits_intros; simp)+

lemma machine_counts:
  "emits_at_most 3 any_call (machine_reconcile L E)" "emits_at_most 2 is_metal (machine_reconcile L E)"
  "emits_at_most 3 any_call (machine_delete L E)" "emits_at_most 2 is_metal (machine_delete L E)"
proof -
  have "emits_at_most (2 + 0) any_call (machine_reconcile L E)" "emits_at_most (1 + 0) is_metal (machine_reconcile L E)"
    unfolding machine_reconcile_def Let_def
    by (intro count_self counting provider_machine_counts apply_machine_count)+
  then show "emits_at_most 3 any_call (machine_reconcile L E)" "emits_at_most 2 is_metal (machine_reconcile L E)"
    by (auto elim: at_most_mono)
  show "emits_at_most 3 any_call (machine_delete L E)" "emits_at_most 2 is_metal (machine_delete L E)"
    by (auto simp: run_counts machine_delete_def findProviderMachine_def split: option.split sum.split)
qed

lemma machine_dispatch_counts:
  "emits_at_most 5 any_call (machine_dispatch L E c)" "emits_at_most 2 is_metal (machine_dispatch L E c)"
proof -
  have "emits_at_most (1 + (3 + 1)) any_call (machine_dispatch L E c)"
    by (intro machine_rec.dispatch_count machine_counts patch_counts call_counts)
  then show "emits_at_most 5 any_call (machine_dispatch L E c)" by (rule at_most_mono) simp
  have "emits_at_most (0 + (2 + 0)) is_metal (machine_dispatch L E c)"
    by (intro machine_rec.dispatch_count machine_counts patch_counts call_counts(2)) simp
  then show "emits_at_most 2 is_metal (machine_dispatch L E c)" by (rule at_most_mono) simp
qed

section \<open>The firewall deployment controller\<close>

text \<open>The deletion frees every firewall it has found; these calls are counted apart.\<close>

definition not_free :: "event \<Rightarrow> bool" where
  "not_free e \<longleftrightarrow> \<not> (\<exists>i r. e = Metal (FreeMachine i r))"

definition metal_not_free :: "event \<Rightarrow> bool" where
  "metal_not_free e \<longleftrightarrow> is_metal e \<and> not_free e"

lemma free_firewalls_count:
  "emits_at_most n not_free (free_firewalls E errs fws)" "emits_at_most n metal_not_free (free_firewalls E errs fws)"
  by (intro emits_none emits_free_firewalls; simp add: not_free_def metal_not_free_def)+

lemma firewall_method_counts:
  "emits_at_most 2 P (ensureFirewallTemplateOwnerRefAndFinalizer L E)"
  "emits_at_most 0 metal_not_free (ensureFirewallTemplateOwnerRefAndFinalizer L E)"
  "emits_at_most 1 P (ensureFirewallDeployment L E)"
  "emits_at_most 1 P (firewall_ensureAllMetalStackMachinesAreGone L E)"
  "emits_at_most 0 metal_not_free (firewall_ensureAllMetalStackMachinesAreGone L E)"
  by (auto simp: run_counts ensureFirewallTemplateOwnerRefAndFinalizer_def ensureFirewallDeployment_def
      firewall_tags_def firewall_ensureAllMetalStackMachinesAreGone_def metal_not_free_def
      split: option.split sum.split)

lemma deleteFirewallDeployment_counts:
  "emits_at_most 1 not_free (deleteFirewallDeployment L E)" "emits_at_most 1 metal_not_free (deleteFirewallDeployment L E)"
proof -
  have "emits_at_most (1 + (0 + 0)) P (deleteFirewallDeployment L E)"
    if "\<And>errs fws. emits_at_most 0 P (free_firewalls E errs fws)" for P
    unfolding deleteFirewallDeployment_def
    by (intro count_self emits_at_most_last [of P "firewall_tags L _"] counting call_counts that emits_intros)
  from this [OF free_firewalls_count(1)] this [OF free_firewalls_count(2)]
  show "emits_at_most 1 not_free (deleteFirewallDeployment L E)"
    "emits_at_most 1 metal_not_free (deleteFirewallDeployment L E)" by (auto elim: at_most_mono)
qed

lemma firewall_counts:
  "emits_at_most 3 not_free (firewall_reconcile L E)" "emits_at_most 1 metal_not_free (firewall_reconcile L E)"
  "emits_at_most 3 not_free (firewall_delete L E)" "emits_at_most 1 metal_not_free (firewall_delete L E)"
proof -
  have zero: "emits_at_most n P (bnd (mod_self f) (\<lambda>_. ret x))" for n P f and x :: 'a
    by (intro count_self at_most_zero)
  have "emits_at_most (2 + (1 + 0)) not_free (firewall_reconcile L E)"
    "emits_at_most (0 + (1 + 0)) metal_not_free (firewall_reconcile L E)"
    unfolding firewall_reconcile_def
    by (intro count_self zero counting firewall_method_counts; simp add: zero)+
  moreover have "emits_at_most (1 + (1 + 0)) not_free (firewall_delete L E)"
    "emits_at_most (0 + (1 + 0)) metal_not_free (firewall_delete L E)"
    unfolding firewall_delete_def
    by (intro count_self zero counting firewall_method_counts deleteFirewallDeployment_counts)+
  ultimately show "emits_at_most 3 not_free (firewall_reconcile L E)"
    "emits_at_most 1 metal_not_free (firewall_reconcile L E)"
    "emits_at_most 3 not_free (firewall_delete L E)" "emits_at_most 1 metal_not_free (firewall_delete L E)"
    by (auto elim: at_most_mono)
qed

lemma firewall_dispatch_counts:
  "emits_at_most 5 not_free (firewall_dispatch L E)" "emits_at_most 1 metal_not_free (firewall_dispatch L E)"
proof -
  have "emits_at_most (1 + (3 + 1)) not_free (firewall_dispatch L E)"
    by (intro firewall_rec.dispatch_count firewall_counts patch_counts call_counts)
  then show "emits_at_most 5 not_free (firewall_dispatch L E)" by (rule at_most_mono) simp
  have "emits_at_most 0 metal_not_free (firewall_patch E d err)" for d err
    by (intro emits_none emits_intros) (simp add: metal_not_free_def)
  then have "emits_at_most (0 + (1 + 0)) metal_not_free (firewall_dispatch L E)"
    by (intro firewall_rec.dispatch_count firewall_counts call_counts(2)) (simp add: metal_not_free_def)
  then show "emits_at_most 1 metal_not_free (firewall_dispatch L E)" by (rule at_most_mono) simp
qed

section \<open>One Reconcile\<close>

lemma owner_counts:
  "emits_at_most 1 P (GetOwnerMetalStackCluster L E m)" "emits_at_most 0 metal_not_free (GetOwnerMetalStackCluster L E m)"
proof -
  have "emits_at_most 1 P (owner_loop L E ns refs)" for ns refs
    by (induction refs) (auto simp: run_counts GetInfraClusterByName_def split: sum.split)
  then show "emits_at_most 1 P (GetOwnerMetalStackCluster L E m)"
    by (simp add: GetOwnerMetalStackCluster_def)
  show "emits_at_most 0 metal_not_free (GetOwnerMetalStackCluster L E m)"
    by (intro emits_none emits_intros) (simp add: metal_not_free_def)
qed

text \<open>C28. What one run can ask of the two APIs is bounded whatever they answer: at most 10 calls for a
  cluster, 9 for a machine and 9 for a firewall deployment, of which at most 3, 2 and 1 go to the
  metal-stack API. Only the firewalls that a deletion has found add to this, with one call each.\<close>

theorem Reconcile_calls_bounded:
  "emits_at_most 10 any_call (MetalStackClusterReconciler_Reconcile L E req) \<and>
   emits_at_most 3 is_metal (MetalStackClusterReconciler_Reconcile L E req) \<and>
   emits_at_most 9 any_call (MetalStackMachineReconciler_Reconcile L E req) \<and>
   emits_at_most 2 is_metal (MetalStackMachineReconciler_Reconcile L E req) \<and>
   emits_at_most 9 not_free (MetalStackFirewallDeploymentReconciler_Reconcile L E req) \<and>
   emits_at_most 1 metal_not_free (MetalStackFirewallDeploymentReconciler_Reconcile L E req)"
proof (intro conjI)
  have "emits_at_most (1 + (1 + (8 + 0))) any_call (MetalStackClusterReconciler_Reconcile L E req)"
    unfolding MetalStackClusterReconciler_Reconcile_def
    by (intro counting call_counts cluster_dispatch_counts)
  then show "emits_at_most 10 any_call (MetalStackClusterReconciler_Reconcile L E req)"
    by (rule at_most_mono) simp
  have "emits_at_most (0 + (0 + (3 + 0))) is_metal (MetalStackClusterReconciler_Reconcile L E req)"
    unfolding MetalStackClusterReconciler_Reconcile_def
    by (intro counting call_counts(2) cluster_dispatch_counts) simp_all
  then show "emits_at_most 3 is_metal (MetalStackClusterReconciler_Reconcile L E req)"
    by (rule at_most_mono) simp
  have "emits_at_most (1 + (1 + (1 + (1 + (5 + 0))))) any_call (MetalStackMachineReconciler_Reconcile L E req)"
    unfolding MetalStackMachineReconciler_Reconcile_def
    by (intro counting call_counts machine_dispatch_counts)
  then show "emits_at_most 9 any_call (MetalStackMachineReconciler_Reconcile L E req)"
    by (rule at_most_mono) simp
  have "emits_at_most (0 + (0 + (0 + (0 + (2 + 0))))) is_metal (MetalStackMachineReconciler_Reconcile L E req)"
    unfolding MetalStackMachineReconciler_Reconcile_def
    by (intro counting call_counts(2) machine_dispatch_counts) simp_all
  then show "emits_at_most 2 is_metal (MetalStackMachineReconciler_Reconcile L E req)"
    by (rule at_most_mono) simp
  have "emits_at_most (1 + (1 + (1 + (1 + (5 + 0))))) not_free
      (MetalStackFirewallDeploymentReconciler_Reconcile L E req)"
    unfolding MetalStackFirewallDeploymentReconciler_Reconcile_def
    by (intro counting call_counts owner_counts firewall_dispatch_counts)
  then show "emits_at_most 9 not_free (MetalStackFirewallDeploymentReconciler_Reconcile L E req)"
    by (rule at_most_mono) simp
  have "emits_at_most (0 + (0 + (0 + (0 + (1 + 0))))) metal_not_free
      (MetalStackFirewallDeploymentReconciler_Reconcile L E req)"
    unfolding MetalStackFirewallDeploymentReconciler_Reconcile_def
    by (intro counting call_counts(2) owner_counts firewall_dispatch_counts) (simp_all add: metal_not_free_def)
  then show "emits_at_most 1 metal_not_free (MetalStackFirewallDeploymentReconciler_Reconcile L E req)"
    by (rule at_most_mono) simp
qed

section \<open>The next run\<close>

definition requeues :: "duration set \<Rightarrow> (Result \<times> go_error option) option \<Rightarrow> bool" where
  "requeues D x = pred_option (\<lambda>(r, err). RequeueAfter r \<in> D) x"

lemma requeues_simps [simp]:
  "requeues D None" "requeues D (Some (r, err)) = (RequeueAfter r \<in> D)"
  by (simp_all add: requeues_def)

abbreviation waits :: "duration set" where
  "waits \<equiv> {0, 15 * second, 30 * second, 60 * second}"

lemma empty_requeue [simp]: "RequeueAfter empty_Result = 0"
  by (simp add: empty_Result_def)

lemma machine_handlers_requeue:
  "wp (machine_delete L E) (\<lambda>x s'. requeues waits x) s" "wp (machine_reconcile L E) (\<lambda>x s'. requeues waits x) s"
proof -
  show "wp (machine_delete L E) (\<lambda>x s'. requeues waits x) s"
    by (auto simp: machine_delete_def findProviderMachine_def wp_simps Let_def minute_def
        defaultControlPlaneMachineFreeRequeueTime_def second_def split: option.split sum.split)
  have a: "wp (apply_machine L m) (\<lambda>x s'. requeues waits x) t" for m t
    by (auto simp: apply_machine_def wp_simps Let_def getMachineAddresses_def
        defaultProviderMachineRequeueTime_def second_def split: prod.split option.split)
  have "wp (provider_machine L E) (\<lambda>x s'. case x of None \<Rightarrow> requeues waits None
      | Some y \<Rightarrow> wp (case y of Inl err \<Rightarrow> ret (empty_Result, Some err) | Inr m \<Rightarrow> apply_machine L m)
          (\<lambda>x s'. requeues waits x) s') s"
    using a by (simp add: wp_def exec split: option.split sum.split)
  then show "wp (machine_reconcile L E) (\<lambda>x s'. requeues waits x) s"
    by (simp add: machine_reconcile_def Let_def wp_bnd wp_get_self wp_ret)
qed

lemma machine_dispatch_requeues: "wp (machine_dispatch L E c) (\<lambda>x s'. requeues waits x) s"
proof -
  have "wp (machine_switch L E c) (\<lambda>x s'. requeues waits x) t" for t
    using machine_handlers_requeue by (simp add: machine_switch_def wp_simps)
  then have "wp (machine_switch L E c) (\<lambda>x s'. case x of None \<Rightarrow> requeues waits None
      | Some res \<Rightarrow> wp (machine_patch E r res) (\<lambda>x s'. requeues waits x) s') t" for r t
    by (rule wp_mono) (auto simp: machine_patch_def wp_simps requeues_def split: option.split prod.splits)
  then show ?thesis
    by (simp add: machine_dispatch_def wp_bnd wp_get_self wp_mod_self wp_call wp_ret split: option.split)
qed

text \<open>A run asks to be repeated after a quarter of a minute at the earliest and a minute at the
  latest, or not at all: a machine that is not ready after 30 seconds, a freed control plane
  machine after a minute and then every 15 seconds. The other two controllers never ask for it,
  they rely on errors and on their watches.\<close>

theorem Reconcile_requeue_bounded:
  "wp (MetalStackMachineReconciler_Reconcile L E req) (\<lambda>x s'. requeues waits x) s \<and>
   wp (MetalStackClusterReconciler_Reconcile L E req) (\<lambda>x s'. requeues {0} x) s \<and>
   wp (MetalStackFirewallDeploymentReconciler_Reconcile L E req) (\<lambda>x s'. requeues {0} x) s"
proof (intro conjI)
  have m: "RequeueAfter r \<in> waits" if "fst (machine_dispatch L E c t) = Some (r, err)" for c t r err
    using machine_dispatch_requeues [of L E c t] that by (simp add: wp_def)
  show "wp (MetalStackMachineReconciler_Reconcile L E req) (\<lambda>x s'. requeues waits x) s"
    by (auto simp: MetalStackMachineReconciler_Reconcile_def wp_simps wp_def [of "machine_dispatch _ _ _"]
        split: option.split sum.split dest!: m)
  show "wp (MetalStackClusterReconciler_Reconcile L E req) (\<lambda>x s'. requeues {0} x) s"
    by (simp add: MetalStackClusterReconciler_Reconcile_def wp_simps wp_def [of "cluster_dispatch _ _"]
        split: option.split sum.split)
  show "wp (MetalStackFirewallDeploymentReconciler_Reconcile L E req) (\<lambda>x s'. requeues {0} x) s"
    by (simp add: MetalStackFirewallDeploymentReconciler_Reconcile_def wp_simps
        wp_def [of "firewall_dispatch _ _"] wp_def [of "GetOwnerMetalStackCluster _ _ _"]
        split: option.split sum.split)
qed

end
