(* ===== verification/Manager.thy ===== *)
theory Manager
  imports ClusterController MachineController FirewallController Watches
begin

text \<open>
  The process: \<open>cmd/main.go\<close> and the \<open>SetupWithManager\<close> methods of the controllers. The flags
  are parsed the way the \<open>flag\<close> package does it. What the program hands to controller-runtime
  (the options of the manager, the configuration of each controller) is data; each call of a
  library is an event with its arguments and its error, in the order of the program. The exit
  code of the process is the result of \<open>main\<close>, a panic is \<open>None\<close>.
\<close>

section \<open>The controllers' registration\<close>

datatype object_kind =
    KCluster | KMachine | KMetalStackCluster | KMetalStackMachine
  | KFirewallDeployment | KFirewallTemplate | KSecret

text \<open>The predicates of Cluster API a controller names; what they accept is up to the library.\<close>

datatype event_filter = ResourceIsNotExternallyManaged | ResourceNotPaused | ClusterUnpaused

record 'r watch =
  watch_object :: object_kind
  watch_map :: "'r map_func"
  watch_predicates :: "event_filter list"

text \<open>What the calls on \<open>NewControllerManagedBy\<close> collect.\<close>

record 'r controller =
  ctl_For :: object_kind
  ctl_Named :: string
  ctl_EventFilters :: "event_filter list"
  ctl_Watches :: "'r watch list"

definition cluster_controller :: "lib \<Rightarrow> env \<Rightarrow> 'r controller" where
  "cluster_controller L E =
     \<lparr>ctl_For = KMetalStackCluster,
      ctl_Named = ''metalstackcluster'',
      ctl_EventFilters = [ResourceIsNotExternallyManaged, ResourceNotPaused],
      ctl_Watches =
       [\<lparr>watch_object = KCluster, watch_map = clusterToMetalStackCluster L E,
         watch_predicates = [ClusterUnpaused]\<rparr>,
        \<lparr>watch_object = KMetalStackMachine, watch_map = metalStackMachineToMetalStackCluster L E,
         watch_predicates = [ResourceNotPaused]\<rparr>,
        \<lparr>watch_object = KFirewallDeployment, watch_map = metalStackFirewallToMetalStackCluster L E,
         watch_predicates = [ResourceNotPaused]\<rparr>]\<rparr>"

definition machine_controller :: "lib \<Rightarrow> env \<Rightarrow> 'r controller" where
  "machine_controller L E =
     \<lparr>ctl_For = KMetalStackMachine,
      ctl_Named = ''metalstackmachine'',
      ctl_EventFilters = [ResourceIsNotExternallyManaged, ResourceNotPaused],
      ctl_Watches =
       [\<lparr>watch_object = KCluster, watch_map = clusterToMetalStackMachine L E,
         watch_predicates = [ClusterUnpaused]\<rparr>,
        \<lparr>watch_object = KMetalStackCluster, watch_map = metalStackClusterToMetalStackMachine L E,
         watch_predicates = [ResourceNotPaused]\<rparr>,
        \<lparr>watch_object = KMachine, watch_map = machineToMetalStackMachine L E,
         watch_predicates = [ResourceNotPaused]\<rparr>]\<rparr>"

definition firewall_controller :: "lib \<Rightarrow> env \<Rightarrow> 'r controller" where
  "firewall_controller L E =
     \<lparr>ctl_For = KFirewallDeployment,
      ctl_Named = ''metalstackfirewalldeployment'',
      ctl_EventFilters = [ResourceIsNotExternallyManaged, ResourceNotPaused],
      ctl_Watches =
       [\<lparr>watch_object = KMetalStackCluster,
         watch_map = metalStackClusterToMetalStackFirewallDeployment,
         watch_predicates = [ClusterUnpaused]\<rparr>,
        \<lparr>watch_object = KFirewallTemplate,
         watch_map = metalStackFirewallTemplateToMetalStackFirewallDeployment E,
         watch_predicates = [ResourceNotPaused]\<rparr>]\<rparr>"

section \<open>The registered types\<close>

text \<open>What the \<open>init\<close> function of each file of \<open>api/v1alpha1\<close> registers with the scheme builder, by
  the names of the types, and what \<open>AddToScheme\<close> then adds.\<close>

definition cluster_types_init :: "string list" where
  "cluster_types_init = [''MetalStackCluster'', ''MetalStackClusterList'']"

definition machine_types_init :: "string list" where
  "machine_types_init = [''MetalStackMachine'', ''MetalStackMachineList'']"

definition machine_template_types_init :: "string list" where
  "machine_template_types_init = [''MetalStackMachineTemplate'', ''MetalStackMachineTemplateList'']"

definition firewall_deployment_types_init :: "string list" where
  "firewall_deployment_types_init = [''MetalStackFirewallDeployment'', ''MetalStackFirewallDeploymentList'']"

definition firewall_template_types_init :: "string list" where
  "firewall_template_types_init = [''MetalStackFirewallTemplate'', ''MetalStackFirewallTemplateList'']"

definition SchemeBuilder_types :: "string list" where
  "SchemeBuilder_types = cluster_types_init @ firewall_deployment_types_init @
     firewall_template_types_init @ machine_types_init @ machine_template_types_init"

section \<open>Flags\<close>

record flags =
  metricsAddr :: string
  enableLeaderElection :: bool
  probeAddr :: string
  namespace :: string
  secureMetrics :: bool
  enableHTTP2 :: bool

definition default_flags :: flags where
  "default_flags = \<lparr>metricsAddr = ''0'', enableLeaderElection = False, probeAddr = '':8081'',
     namespace = [], secureMetrics = True, enableHTTP2 = False\<rparr>"

text \<open>\<open>strconv.ParseBool\<close>.\<close>

definition ParseBool :: "string \<Rightarrow> bool option" where
  "ParseBool v =
     (if v \<in> {''1'', ''t'', ''T'', ''TRUE'', ''true'', ''True''} then Some True
      else if v \<in> {''0'', ''f'', ''F'', ''FALSE'', ''false'', ''False''} then Some False
      else None)"

text \<open>The flags \<open>main\<close> declares: which are boolean, and what setting one does. The flags zap binds
  are a parameter: whether a flag is boolean, and which values it accepts.\<close>

type_synonym zap_flags = "string \<Rightarrow> (bool \<times> (string \<Rightarrow> bool)) option"

definition string_flags :: "string list" where
  "string_flags = [''metrics-bind-address'', ''health-probe-bind-address'', ''namespace'']"

definition bool_flags :: "string list" where
  "bool_flags = [''leader-elect'', ''metrics-secure'', ''enable-http2'']"

definition flag_is_bool :: "zap_flags \<Rightarrow> string \<Rightarrow> bool option" where
  "flag_is_bool Z name =
     (if name \<in> set string_flags then Some False
      else if name \<in> set bool_flags then Some True
      else map_option fst (Z name))"

definition set_flag :: "zap_flags \<Rightarrow> string \<Rightarrow> string \<Rightarrow> flags \<Rightarrow> flags option" where
  "set_flag Z name v fl =
     (if name = ''metrics-bind-address'' then Some (fl\<lparr>metricsAddr := v\<rparr>)
      else if name = ''health-probe-bind-address'' then Some (fl\<lparr>probeAddr := v\<rparr>)
      else if name = ''namespace'' then Some (fl\<lparr>namespace := v\<rparr>)
      else if name = ''leader-elect'' then
        map_option (\<lambda>b. fl\<lparr>enableLeaderElection := b\<rparr>) (ParseBool v)
      else if name = ''metrics-secure'' then map_option (\<lambda>b. fl\<lparr>secureMetrics := b\<rparr>) (ParseBool v)
      else if name = ''enable-http2'' then map_option (\<lambda>b. fl\<lparr>enableHTTP2 := b\<rparr>) (ParseBool v)
      else (case Z name of
          None \<Rightarrow> None
        | Some (_, accepts) \<Rightarrow> if accepts v then Some fl else None))"

text \<open>\<open>flag.Parse\<close> on the arguments, with the exit code where it ends the process: 2 for a wrong flag
  and 0 for a call for help. It stops at the first argument that is no flag, and after \<open>--\<close>.\<close>

fun flag_Parse :: "zap_flags \<Rightarrow> string list \<Rightarrow> flags \<Rightarrow> nat + flags" where
  "flag_Parse Z [] fl = Inr fl"
| "flag_Parse Z (s # args) fl =
     (if length s < 2 \<or> hd s \<noteq> CHR ''-'' \<or> s = ''--'' then Inr fl
      else
        let text = (if s ! 1 = CHR ''-'' then drop 2 s else drop 1 s) in
        if text = [] \<or> hd text = CHR ''-'' \<or> hd text = CHR ''='' then Inl 2
        else
          let (name, v, hasValue) = Cut text (CHR ''='') in
          case flag_is_bool Z name of
            None \<Rightarrow> Inl (if name = ''help'' \<or> name = ''h'' then 0 else 2)
          | Some True \<Rightarrow>
              (case set_flag Z name (if hasValue then v else ''true'') fl of
                None \<Rightarrow> Inl 2 | Some fl' \<Rightarrow> flag_Parse Z args fl')
          | Some False \<Rightarrow>
              if hasValue then
                (case set_flag Z name v fl of None \<Rightarrow> Inl 2 | Some fl' \<Rightarrow> flag_Parse Z args fl')
              else
                (case args of
                  [] \<Rightarrow> Inl 2
                | v' # args' \<Rightarrow>
                    (case set_flag Z name v' fl of
                      None \<Rightarrow> Inl 2 | Some fl' \<Rightarrow> flag_Parse Z args' fl')))"

section \<open>The options of the manager\<close>

record tls_config =
  NextProtos :: "string list"

record metrics_options =
  BindAddress :: string
  SecureServing :: bool
  metrics_TLSOpts :: "(tls_config \<Rightarrow> tls_config) list"
  FilterProvider :: "string option"

record manager_options =
  Metrics :: metrics_options
  webhook_TLSOpts :: "(tls_config \<Rightarrow> tls_config) list"
  HealthProbeBindAddress :: string
  LeaderElection :: bool
  LeaderElectionID :: string
  DefaultNamespaces :: "string list"

definition disableHTTP2 :: "tls_config \<Rightarrow> tls_config" where
  "disableHTTP2 c = c\<lparr>NextProtos := [''http/1.1'']\<rparr>"

definition tls_opts :: "flags \<Rightarrow> (tls_config \<Rightarrow> tls_config) list" where
  "tls_opts fl = (if \<not> enableHTTP2 fl then [disableHTTP2] else [])"

definition metrics_server_options :: "flags \<Rightarrow> metrics_options" where
  "metrics_server_options fl =
     (let o1 = \<lparr>BindAddress = metricsAddr fl, SecureServing = secureMetrics fl,
        metrics_TLSOpts = tls_opts fl, FilterProvider = None\<rparr> in
      if secureMetrics fl
      then o1\<lparr>FilterProvider := Some ''WithAuthenticationAndAuthorization''\<rparr> else o1)"

definition manager_options_of :: "flags \<Rightarrow> manager_options" where
  "manager_options_of fl =
     \<lparr>Metrics = metrics_server_options fl,
      webhook_TLSOpts = tls_opts fl,
      HealthProbeBindAddress = probeAddr fl,
      LeaderElection = enableLeaderElection fl,
      LeaderElectionID = ''6fca141d.cluster.x-k8s.io'',
      DefaultNamespaces = (if namespace fl \<noteq> [] then [namespace fl] else [])\<rparr>"

section \<open>The start of the process\<close>

text \<open>The libraries and the operating system, and the events of a start.\<close>

record process =
  os_Args :: "string list"
  os_Getenv :: "string \<Rightarrow> string"
  zap_BindFlags :: zap_flags
  scheme_Add :: "string \<Rightarrow> go_error option"
  metalgo_NewDriver :: "string \<Rightarrow> string \<Rightarrow> string \<Rightarrow> string \<Rightarrow> go_error option"
  ctrl_GetConfig :: "go_error option"
  ctrl_NewManager :: "manager_options \<Rightarrow> go_error option"
  mgr_IndexField :: "object_kind \<Rightarrow> string \<Rightarrow> go_error option"
  builder_Complete :: "unit controller \<Rightarrow> go_error option"
  mgr_AddHealthzCheck :: "string \<Rightarrow> go_error option"
  mgr_AddReadyzCheck :: "string \<Rightarrow> go_error option"
  mgr_Start :: "go_error option"

datatype setup_event =
    SchemeAdded string "go_error option"
  | NewDriver string string string string "go_error option"
  | GetConfig "go_error option"
  | NewManager manager_options "go_error option"
  | IndexField object_kind string "client_object \<Rightarrow> string list" "go_error option"
  | Completed "unit controller" "go_error option"
  | AddHealthzCheck string "go_error option"
  | AddReadyzCheck string "go_error option"
  | StartManager "go_error option"
  | LogError string go_error

record startup =
  log :: "setup_event list"

type_synonym 'a setup_prog = "(startup, 'a) go"

definition occurs :: "setup_event \<Rightarrow> unit setup_prog" where
  "occurs ev = (\<lambda>s. (Some (), s\<lparr>log := log s @ [ev]\<rparr>))"

text \<open>A call of a library: its error is recorded and returned.\<close>

definition calls :: "(go_error option \<Rightarrow> setup_event) \<Rightarrow> go_error option \<Rightarrow> go_error option setup_prog" where
  "calls ev r = bnd (occurs (ev r)) (\<lambda>_. ret r)"

text \<open>The block after a failed call: the error is logged and the process ends with code 1.\<close>

definition or_exit :: "string \<Rightarrow> go_error option \<Rightarrow> nat setup_prog \<Rightarrow> nat setup_prog" where
  "or_exit msg err rest =
     (case err of
       Some e \<Rightarrow> bnd (occurs (LogError msg e)) (\<lambda>_. ret 1)
     | None \<Rightarrow> rest)"

text \<open>\<open>utilruntime.Must\<close> panics on an error.\<close>

definition Must :: "go_error option \<Rightarrow> unit setup_prog" where
  "Must err = (case err of Some e \<Rightarrow> panic | None \<Rightarrow> ret ())"

definition scheme_init :: "process \<Rightarrow> unit setup_prog" where
  "scheme_init W =
     bnd (calls (SchemeAdded ''clientgo'') (scheme_Add W ''clientgo'')) (\<lambda>err.
     bnd (Must err) (\<lambda>_.
     bnd (calls (SchemeAdded ''clusterv1'') (scheme_Add W ''clusterv1'')) (\<lambda>err.
     bnd (Must err) (\<lambda>_.
     bnd (calls (SchemeAdded ''fcmv2'') (scheme_Add W ''fcmv2'')) (\<lambda>err.
     bnd (Must err) (\<lambda>_.
     bnd (calls (SchemeAdded ''v1alpha1'') (scheme_Add W ''v1alpha1'')) (\<lambda>err.
     Must err)))))))"

definition newMetalClient :: "process \<Rightarrow> go_error option setup_prog" where
  "newMetalClient W =
     (let url = os_Getenv W ''METAL_API_URL'' in
      if url = [] then ret (Some (ErrNew ''METAL_API_URL environment variable must be set'')) else
      let hmac = os_Getenv W ''METAL_API_HMAC'' in
      if hmac = [] then ret (Some (ErrNew ''METAL_API_HMAC environment variable must be set'')) else
      let hmacAuthType = os_Getenv W ''METAL_API_HMAC_AUTH_TYPE'' in
      if hmacAuthType = [] then
        ret (Some (ErrNew ''METAL_API_HMAC_AUTH_TYPE environment variable must be set''))
      else calls (NewDriver url [] hmac hmacAuthType) (metalgo_NewDriver W url [] hmac hmacAuthType))"

text \<open>The three methods \<open>SetupWithManager\<close>.\<close>

definition cluster_SetupWithManager :: "lib \<Rightarrow> env \<Rightarrow> process \<Rightarrow> go_error option setup_prog" where
  "cluster_SetupWithManager L E W =
     calls (Completed (cluster_controller L E)) (builder_Complete W (cluster_controller L E))"

definition machine_SetupWithManager :: "lib \<Rightarrow> env \<Rightarrow> process \<Rightarrow> go_error option setup_prog" where
  "machine_SetupWithManager L E W =
     calls (Completed (machine_controller L E)) (builder_Complete W (machine_controller L E))"

definition firewall_SetupWithManager :: "lib \<Rightarrow> env \<Rightarrow> process \<Rightarrow> go_error option setup_prog" where
  "firewall_SetupWithManager L E W =
     bnd (calls (IndexField KFirewallDeployment ''spec.firewallTemplateRef.name'' index_firewallTemplateRef)
            (mgr_IndexField W KFirewallDeployment ''spec.firewallTemplateRef.name'')) (\<lambda>err.
     case err of
       Some e \<Rightarrow> ret (Some (ErrWrap
         ''failed to index metal-stack firewall deployments by firewall template ref'' e))
     | None \<Rightarrow> calls (Completed (firewall_controller L E)) (builder_Complete W (firewall_controller L E)))"

definition start_controllers :: "lib \<Rightarrow> env \<Rightarrow> process \<Rightarrow> nat setup_prog" where
  "start_controllers L E W =
     bnd (cluster_SetupWithManager L E W) (\<lambda>err.
     or_exit ''unable to create controller MetalStackCluster'' err (
     bnd (machine_SetupWithManager L E W) (\<lambda>err.
     or_exit ''unable to create controller MetalStackMachine'' err (
     bnd (firewall_SetupWithManager L E W) (\<lambda>err.
     or_exit ''unable to create controller MetalStackFirewallDeployment'' err (
     bnd (calls (AddHealthzCheck ''healthz'') (mgr_AddHealthzCheck W ''healthz'')) (\<lambda>err.
     or_exit ''unable to set up health check'' err (
     bnd (calls (AddReadyzCheck ''readyz'') (mgr_AddReadyzCheck W ''readyz'')) (\<lambda>err.
     or_exit ''unable to set up ready check'' err (
     bnd (calls StartManager (mgr_Start W)) (\<lambda>err.
     or_exit ''problem running manager'' err (ret 0))))))))))))"

text \<open>\<open>GetConfigOrDie\<close> ends the process itself when there is no configuration.\<close>

definition main :: "lib \<Rightarrow> env \<Rightarrow> process \<Rightarrow> nat setup_prog" where
  "main L E W =
     (case flag_Parse (zap_BindFlags W) (os_Args W) default_flags of
       Inl code \<Rightarrow> ret code
     | Inr fl \<Rightarrow>
         bnd (newMetalClient W) (\<lambda>err.
         or_exit ''unable to initialize metal-api client'' err (
         bnd (calls GetConfig (ctrl_GetConfig W)) (\<lambda>err.
         or_exit ''unable to get kubeconfig'' err (
         bnd (calls (NewManager (manager_options_of fl)) (ctrl_NewManager W (manager_options_of fl))) (\<lambda>err.
         or_exit ''unable to start manager'' err (
         start_controllers L E W)))))))"

definition process_run :: "lib \<Rightarrow> env \<Rightarrow> process \<Rightarrow> nat setup_prog" where
  "process_run L E W = bnd (scheme_init W) (\<lambda>_. main L E W)"

end
