(* ===== verification/ManagerProperties.thy ===== *)
theory ManagerProperties
  imports Manager Examples
begin

text \<open>
  What the start of the process guarantees: the order of its steps and its exit code, what the
  manager is given, and how the registrations of the controllers fit the map functions they
  register and the objects their \<open>Reconcile\<close> reads.
\<close>

section \<open>Running the setup\<close>

lemma occurs_apply [exec]: "occurs ev s = (Some (), s\<lparr>log := log s @ [ev]\<rparr>)"
  by (simp add: occurs_def)

lemma calls_apply [exec]: "calls ev r s = (Some r, s\<lparr>log := log s @ [ev r]\<rparr>)"
  by (simp add: calls_def exec)

lemma or_exit_apply [exec]:
  "or_exit msg err rest s =
     (case err of None \<Rightarrow> rest s | Some e \<Rightarrow> (Some 1, s\<lparr>log := log s @ [LogError msg e]\<rparr>))"
  by (simp add: or_exit_def exec split: option.split)

lemma Must_apply [exec]: "Must err s = (case err of None \<Rightarrow> Some () | Some e \<Rightarrow> None, s)"
  by (simp add: Must_def exec split: option.split)

text \<open>A start as a list of steps: the events of a step, the message of its failure, its error.\<close>

type_synonym setup_step = "setup_event list \<times> string \<times> go_error option"

fun run_plan :: "setup_step list \<Rightarrow> setup_event list \<times> nat" where
  "run_plan [] = ([], 0)"
| "run_plan ((evs, msg, err) # steps) =
     (case err of
       Some e \<Rightarrow> (evs @ [LogError msg e], 1)
     | None \<Rightarrow> (evs @ fst (run_plan steps), snd (run_plan steps)))"

definition missing_variable :: "process \<Rightarrow> string option" where
  "missing_variable W = find (\<lambda>v. os_Getenv W v = [])
     [''METAL_API_URL'', ''METAL_API_HMAC'', ''METAL_API_HMAC_AUTH_TYPE'']"

definition driver_step :: "process \<Rightarrow> setup_event list \<times> go_error option" where
  "driver_step W =
     (case missing_variable W of
       Some v \<Rightarrow> ([], Some (ErrNew (v @ '' environment variable must be set'')))
     | None \<Rightarrow>
         let url = os_Getenv W ''METAL_API_URL''; hmac = os_Getenv W ''METAL_API_HMAC'';
             auth = os_Getenv W ''METAL_API_HMAC_AUTH_TYPE''; r = metalgo_NewDriver W url [] hmac auth
         in ([NewDriver url [] hmac auth r], r))"

definition firewall_step :: "lib \<Rightarrow> env \<Rightarrow> process \<Rightarrow> setup_event list \<times> go_error option" where
  "firewall_step L E W =
     (let i = mgr_IndexField W KFirewallDeployment ''spec.firewallTemplateRef.name'';
          r = builder_Complete W (firewall_controller L E);
          ev = IndexField KFirewallDeployment ''spec.firewallTemplateRef.name'' index_firewallTemplateRef i in
      case i of
        Some e \<Rightarrow> ([ev], Some (ErrWrap
          ''failed to index metal-stack firewall deployments by firewall template ref'' e))
      | None \<Rightarrow> ([ev, Completed (firewall_controller L E) r], r))"

definition startup_plan :: "lib \<Rightarrow> env \<Rightarrow> process \<Rightarrow> flags \<Rightarrow> setup_step list" where
  "startup_plan L E W fl =
     (let opts = manager_options_of fl; mgr = ctrl_NewManager W opts;
          cc = cluster_controller L E; mc = machine_controller L E;
          h = mgr_AddHealthzCheck W ''healthz''; r = mgr_AddReadyzCheck W ''readyz'' in
      [(fst (driver_step W), ''unable to initialize metal-api client'', snd (driver_step W)),
       ([GetConfig (ctrl_GetConfig W)], ''unable to get kubeconfig'', ctrl_GetConfig W),
       ([NewManager opts mgr], ''unable to start manager'', mgr),
       ([Completed cc (builder_Complete W cc)],
        ''unable to create controller MetalStackCluster'', builder_Complete W cc),
       ([Completed mc (builder_Complete W mc)],
        ''unable to create controller MetalStackMachine'', builder_Complete W mc),
       (fst (firewall_step L E W),
        ''unable to create controller MetalStackFirewallDeployment'', snd (firewall_step L E W)),
       ([AddHealthzCheck ''healthz'' h], ''unable to set up health check'', h),
       ([AddReadyzCheck ''readyz'' r], ''unable to set up ready check'', r),
       ([StartManager (mgr_Start W)], ''problem running manager'', mgr_Start W)])"

lemma newMetalClient_run:
  "newMetalClient W s = (Some (snd (driver_step W)), s\<lparr>log := log s @ fst (driver_step W)\<rparr>)"
  by (simp add: newMetalClient_def driver_step_def missing_variable_def exec Let_def)

lemma cluster_SetupWithManager_run:
  "cluster_SetupWithManager L E W s = (Some (builder_Complete W (cluster_controller L E)),
     s\<lparr>log := log s @ [Completed (cluster_controller L E) (builder_Complete W (cluster_controller L E))]\<rparr>)"
  by (simp add: cluster_SetupWithManager_def exec)

lemma machine_SetupWithManager_run:
  "machine_SetupWithManager L E W s = (Some (builder_Complete W (machine_controller L E)),
     s\<lparr>log := log s @ [Completed (machine_controller L E) (builder_Complete W (machine_controller L E))]\<rparr>)"
  by (simp add: machine_SetupWithManager_def exec)

lemma firewall_SetupWithManager_run:
  "firewall_SetupWithManager L E W s =
     (Some (snd (firewall_step L E W)), s\<lparr>log := log s @ fst (firewall_step L E W)\<rparr>)"
  by (simp add: firewall_SetupWithManager_def firewall_step_def exec Let_def split: option.split)

lemmas setup_runs = newMetalClient_run cluster_SetupWithManager_run machine_SetupWithManager_run
  firewall_SetupWithManager_run

text \<open>The rest of a plan, as a program: what each failing call of the code leaves out.\<close>

lemma run_plan_step:
  assumes "m s = (Some err, s\<lparr>log := log s @ evs\<rparr>)"
    and "\<And>t. rest t = (Some (snd (run_plan steps)), t\<lparr>log := log t @ fst (run_plan steps)\<rparr>)"
  shows "bnd m (\<lambda>err. or_exit msg err rest) s =
    (Some (snd (run_plan ((evs, msg, err) # steps))),
     s\<lparr>log := log s @ fst (run_plan ((evs, msg, err) # steps))\<rparr>)"
  by (simp add: exec assms split: option.split)

lemma main_plan:
  assumes "flag_Parse (zap_BindFlags W) (os_Args W) default_flags = Inr fl"
  shows "main L E W s = (Some (snd (run_plan (startup_plan L E W fl))),
    s\<lparr>log := log s @ fst (run_plan (startup_plan L E W fl))\<rparr>)"
  unfolding main_def assms sum.case startup_plan_def start_controllers_def Let_def
  by (intro run_plan_step) (simp_all add: setup_runs exec)

text \<open>C33. A start is its steps in order up to the first that fails: \<open>main\<close> builds the client, the
  manager and the three controllers, adds the checks and runs the manager, and each failure is
  logged and ends the process with exit code 1 before the next step. The client is built only
  when all three environment variables are set, and the error names the first that is not.\<close>

theorem main_runs_plan:
  "main L E W s =
     (case flag_Parse (zap_BindFlags W) (os_Args W) default_flags of
       Inl code \<Rightarrow> (Some code, s)
     | Inr fl \<Rightarrow> (Some (snd (run_plan (startup_plan L E W fl))),
         s\<lparr>log := log s @ fst (run_plan (startup_plan L E W fl))\<rparr>))"
  by (cases "flag_Parse (zap_BindFlags W) (os_Args W) default_flags")
    (simp_all add: main_plan, simp add: main_def exec)

section \<open>A manager that runs\<close>

lemma driver_step_ok:
  assumes "snd (driver_step W) = None"
  shows "fst (driver_step W) = [NewDriver (os_Getenv W ''METAL_API_URL'') []
      (os_Getenv W ''METAL_API_HMAC'') (os_Getenv W ''METAL_API_HMAC_AUTH_TYPE'') None]"
    and "v \<in> {''METAL_API_URL'', ''METAL_API_HMAC'', ''METAL_API_HMAC_AUTH_TYPE''} \<Longrightarrow> os_Getenv W v \<noteq> []"
  using assms by (auto simp: driver_step_def missing_variable_def Let_def split: if_splits)

lemma firewall_step_ok:
  "snd (firewall_step L E W) = None \<Longrightarrow> fst (firewall_step L E W) =
     [IndexField KFirewallDeployment ''spec.firewallTemplateRef.name'' index_firewallTemplateRef None,
      Completed (firewall_controller L E) None]"
  by (simp add: firewall_step_def Let_def split: option.splits)

fun is_start :: "setup_event \<Rightarrow> bool" where
  "is_start (StartManager r) = True"
| "is_start _ = False"

lemma steps_not_start:
  "\<not> list_ex is_start (fst (driver_step W))" "\<not> list_ex is_start (fst (firewall_step L E W))"
  by (auto simp: driver_step_def firewall_step_def Let_def split: option.split)

text \<open>A step that is no start, before a plan in which one happens, has succeeded.\<close>

lemma run_plan_start:
  assumes "list_ex is_start (fst (run_plan ((evs, msg, err) # steps)))" and "\<not> list_ex is_start evs"
  shows "err = None \<and> list_ex is_start (fst (run_plan steps)) \<and>
    fst (run_plan ((evs, msg, err) # steps)) = evs @ fst (run_plan steps)"
  using assms by (auto split: option.splits)

definition manager_end :: "go_error option \<Rightarrow> setup_event list" where
  "manager_end r = (case r of None \<Rightarrow> [] | Some e \<Rightarrow> [LogError ''problem running manager'' e])"

lemma plan_starts:
  assumes "list_ex is_start (fst (run_plan (startup_plan L E W fl)))"
  shows "snd (driver_step W) = None \<and> fst (run_plan (startup_plan L E W fl)) =
    fst (driver_step W) @
    [GetConfig None, NewManager (manager_options_of fl) None,
     Completed (cluster_controller L E) None, Completed (machine_controller L E) None,
     IndexField KFirewallDeployment ''spec.firewallTemplateRef.name'' index_firewallTemplateRef None,
     Completed (firewall_controller L E) None,
     AddHealthzCheck ''healthz'' None, AddReadyzCheck ''readyz'' None, StartManager (mgr_Start W)] @
    manager_end (mgr_Start W)"
  using assms unfolding startup_plan_def Let_def
  by (auto dest!: run_plan_start simp: steps_not_start firewall_step_ok simp del: run_plan.simps)
    (auto simp: manager_end_def split: option.split)

text \<open>The schemes are registered first, each with an error that is none, or the process panics.\<close>

lemma scheme_init_run:
  "scheme_init W s = (Some (), t) \<Longrightarrow> t = s\<lparr>log := log s @ [SchemeAdded ''clientgo'' None,
     SchemeAdded ''clusterv1'' None, SchemeAdded ''fcmv2'' None, SchemeAdded ''v1alpha1'' None]\<rparr>"
  by (auto simp: scheme_init_def exec split: option.splits)

lemma scheme_init_no_start:
  "scheme_init W s = (x, t) \<Longrightarrow> \<exists>tr. log t = log s @ tr \<and> \<not> list_ex is_start tr"
  by (auto simp: scheme_init_def exec split: option.splits)

text \<open>C30. The controllers run only in a process that is complete: when the manager is started, the
  types are registered, the metal-stack client was built from three nonempty variables, and
  all three controllers, the index of deployments by template and both checks are registered
  without an error, in this order and with nothing in between.\<close>

theorem manager_starts_complete:
  assumes "process_run L E W s = (x, s')" and "log s' = log s @ tr" and "StartManager r \<in> set tr"
  shows "\<exists>fl url hmac auth. flag_Parse (zap_BindFlags W) (os_Args W) default_flags = Inr fl \<and>
    url \<noteq> [] \<and> hmac \<noteq> [] \<and> auth \<noteq> [] \<and>
    tr = [SchemeAdded ''clientgo'' None, SchemeAdded ''clusterv1'' None, SchemeAdded ''fcmv2'' None,
       SchemeAdded ''v1alpha1'' None, NewDriver url [] hmac auth None, GetConfig None,
       NewManager (manager_options_of fl) None,
       Completed (cluster_controller L E) None, Completed (machine_controller L E) None,
       IndexField KFirewallDeployment ''spec.firewallTemplateRef.name'' index_firewallTemplateRef None,
       Completed (firewall_controller L E) None,
       AddHealthzCheck ''healthz'' None, AddReadyzCheck ''readyz'' None, StartManager r] @
      manager_end r"
proof -
  obtain y t where i: "scheme_init W s = (y, t)" by fastforce
  have start: "list_ex is_start tr" using assms(3) by (force simp: list_ex_iff)
  show ?thesis
  proof (cases "y = Some ()")
    case False
    then have "s' = t" using assms(1) i by (simp add: process_run_def exec split: option.splits)
    with scheme_init_no_start [OF i] assms(2) start show ?thesis by simp
  next
    case True
    then have i': "scheme_init W s = (Some (), t)" using i by simp
    have m: "main L E W t = (x, s')" using assms(1) i' by (simp add: process_run_def exec)
    note t = scheme_init_run [OF i']
    show ?thesis
    proof (cases "flag_Parse (zap_BindFlags W) (os_Args W) default_flags")
      case (Inl code)
      with m have "s' = t" by (simp add: main_def exec)
      with t assms(2) start show ?thesis by auto
    next
      case (Inr fl)
      with m main_plan [OF Inr, of L E t] have s': "log s' = log t @ fst (run_plan (startup_plan L E W fl))"
        by auto
      then have tr: "tr = [SchemeAdded ''clientgo'' None, SchemeAdded ''clusterv1'' None,
          SchemeAdded ''fcmv2'' None, SchemeAdded ''v1alpha1'' None] @ fst (run_plan (startup_plan L E W fl))"
        using t assms(2) by simp
      with start have "list_ex is_start (fst (run_plan (startup_plan L E W fl)))" by simp
      from plan_starts [OF this] have d: "snd (driver_step W) = None" and
        p: "fst (run_plan (startup_plan L E W fl)) = fst (driver_step W) @
          [GetConfig None, NewManager (manager_options_of fl) None,
           Completed (cluster_controller L E) None, Completed (machine_controller L E) None,
           IndexField KFirewallDeployment ''spec.firewallTemplateRef.name'' index_firewallTemplateRef None,
           Completed (firewall_controller L E) None,
           AddHealthzCheck ''healthz'' None, AddReadyzCheck ''readyz'' None, StartManager (mgr_Start W)] @
          manager_end (mgr_Start W)" by simp_all
      note D = driver_step_ok [OF d]
      have "mgr_Start W = r" using assms(3) unfolding tr p D(1)
        by (auto simp: manager_end_def split: option.splits)
      then show ?thesis
        unfolding tr p D(1) using Inr D(2)
        by (intro exI [of _ fl] exI [of _ "os_Getenv W ''METAL_API_URL''"]
            exI [of _ "os_Getenv W ''METAL_API_HMAC''"] exI [of _ "os_Getenv W ''METAL_API_HMAC_AUTH_TYPE''"]) simp
    qed
  qed
qed

section \<open>Flags and what the servers get\<close>

text \<open>The arguments that ask for a flag setting.\<close>

definition bool_text :: "bool \<Rightarrow> string" where
  "bool_text b = (if b then ''true'' else ''false'')"

definition flag_args :: "flags \<Rightarrow> string list" where
  "flag_args fl =
     [''--metrics-bind-address='' @ metricsAddr fl, ''-health-probe-bind-address'', probeAddr fl,
      ''--namespace='' @ namespace fl, ''--leader-elect='' @ bool_text (enableLeaderElection fl),
      ''-metrics-secure='' @ bool_text (secureMetrics fl),
      ''--enable-http2='' @ bool_text (enableHTTP2 fl)]"

lemma ParseBool_text [simp]: "ParseBool (bool_text b) = Some b"
  by (simp add: ParseBool_def bool_text_def)

text \<open>Every setting of the flags can be asked for and is what \<open>main\<close> works with, whatever flags
  zap adds: the declared names and types fit, and a value may hold any text.\<close>

theorem flags_roundtrip: "flag_Parse Z (flag_args fl) default_flags = Inr fl"
  by (simp add: flag_args_def Cut_def flag_is_bool_def string_flags_def bool_flags_def set_flag_def
      default_flags_def)

text \<open>HTTP/2 is off unless it is asked for: the TLS configuration of the metrics server and of
  the webhook server offers only HTTP/1.1, whatever it was before, exactly when the flag is not
  set, and the metrics are served with authentication exactly when they are served over HTTPS.
  Without arguments both protections are on.\<close>

theorem manager_hardened:
  "(NextProtos (fold (\<lambda>f. f) (metrics_TLSOpts (Metrics (manager_options_of fl))) c) =
     (if enableHTTP2 fl then NextProtos c else [''http/1.1''])) \<and>
   (NextProtos (fold (\<lambda>f. f) (webhook_TLSOpts (manager_options_of fl)) c) =
     (if enableHTTP2 fl then NextProtos c else [''http/1.1''])) \<and>
   ((FilterProvider (Metrics (manager_options_of fl)) \<noteq> None) = SecureServing (Metrics (manager_options_of fl))) \<and>
   (\<exists>fl0. flag_Parse Z [] default_flags = Inr fl0 \<and> \<not> enableHTTP2 fl0 \<and>
     SecureServing (Metrics (manager_options_of fl0)))"
  by (simp add: manager_options_of_def metrics_server_options_def tls_opts_def disableHTTP2_def
      default_flags_def Let_def)

section \<open>Registrations\<close>

fun kind_of :: "client_object \<Rightarrow> object_kind option" where
  "kind_of (CCluster c) = Some KCluster"
| "kind_of (CMachine m) = Some KMachine"
| "kind_of (CMetalStackCluster ic) = Some KMetalStackCluster"
| "kind_of (CMetalStackMachine im) = Some KMetalStackMachine"
| "kind_of (CFirewallDeployment d) = Some KFirewallDeployment"
| "kind_of (CFirewallTemplate t) = Some KFirewallTemplate"
| "kind_of (COther k) = None"

text \<open>A map function that does nothing for objects of any other kind than the one it is
  registered for.\<close>

definition fits :: "'r watch \<Rightarrow> bool" where
  "fits w \<longleftrightarrow> (\<forall>obj s. kind_of obj \<noteq> Some (watch_object w) \<longrightarrow> watch_map w obj s = (Some [], s))"

lemma cluster_watches_fit: "list_all fits (ctl_Watches (cluster_controller L E))"
  by (auto simp: cluster_controller_def fits_def exec clusterToMetalStackCluster_def
      metalStackMachineToMetalStackCluster_def metalStackFirewallToMetalStackCluster_def
      split: client_object.split)

lemma machine_watches_fit: "list_all fits (ctl_Watches (machine_controller L E))"
  by (auto simp: machine_controller_def fits_def exec clusterToMetalStackMachine_def
      metalStackClusterToMetalStackMachine_def machineToMetalStackMachine_def split: client_object.split)

lemma firewall_watches_fit: "list_all fits (ctl_Watches (firewall_controller L E))"
  by (auto simp: firewall_controller_def fits_def exec metalStackClusterToMetalStackFirewallDeployment_def
      metalStackFirewallTemplateToMetalStackFirewallDeployment_def split: client_object.split)

text \<open>The kinds a controller gets objects of from its cache, and their types in the scheme.\<close>

definition cached_kinds :: "'r controller \<Rightarrow> object_kind list" where
  "cached_kinds c = ctl_For c # map watch_object (ctl_Watches c)"

fun type_name :: "object_kind \<Rightarrow> string option" where
  "type_name KMetalStackCluster = Some ''MetalStackCluster''"
| "type_name KMetalStackMachine = Some ''MetalStackMachine''"
| "type_name KFirewallDeployment = Some ''MetalStackFirewallDeployment''"
| "type_name KFirewallTemplate = Some ''MetalStackFirewallTemplate''"
| "type_name k = None"

lemmas registered_types = SchemeBuilder_types_def cluster_types_init_def machine_types_init_def
  machine_template_types_init_def firewall_deployment_types_init_def firewall_template_types_init_def

definition in_scheme :: "object_kind \<Rightarrow> bool" where
  "in_scheme k = pred_option (\<lambda>n. n \<in> set SchemeBuilder_types \<and> n @ ''List'' \<in> set SchemeBuilder_types)
     (type_name k)"

text \<open>C39. Every map function is registered for the kind of object its type assertion expects: on
  any other object it makes no call and enqueues nothing, so a map function at the wrong watch
  would never enqueue anything. The three controllers have three names and reconcile three
  kinds, as controller-runtime requires, and every type of the API they reconcile or watch is
  registered with the scheme together with its list type, no type twice.\<close>

theorem watches_fit:
  "list_all fits (ctl_Watches (cluster_controller L E)) \<and>
   list_all fits (ctl_Watches (machine_controller L E)) \<and>
   list_all fits (ctl_Watches (firewall_controller L E)) \<and>
   distinct [ctl_Named (cluster_controller L E), ctl_Named (machine_controller L E),
     ctl_Named (firewall_controller L E)] \<and>
   distinct [ctl_For (cluster_controller L E), ctl_For (machine_controller L E),
     ctl_For (firewall_controller L E)] \<and>
   list_all in_scheme (cached_kinds (cluster_controller L E) @ cached_kinds (machine_controller L E) @
     cached_kinds (firewall_controller L E)) \<and>
   distinct SchemeBuilder_types"
  by (intro conjI cluster_watches_fit machine_watches_fit firewall_watches_fit)
    (simp_all add: cluster_controller_def machine_controller_def firewall_controller_def cached_kinds_def
      in_scheme_def registered_types)

text \<open>An event of a watch reaches the map function when the filters of the controller and the
  predicates of the watch accept it; \<open>accepts\<close> is the library's.\<close>

definition handled ::
    "(event_filter \<Rightarrow> client_object \<Rightarrow> bool) \<Rightarrow> 'r controller \<Rightarrow> 'r watch \<Rightarrow> 'r map_func" where
  "handled accepts c w obj =
     (if list_all (\<lambda>p. accepts p obj) (ctl_EventFilters c @ watch_predicates w)
      then watch_map w obj else ret [])"

text \<open>C32. The watch of the firewall deployment controller on MetalStackClusters is dead: its predicate
  \<open>ClusterUnpaused\<close> accepts, as Cluster API documents it, only events of Clusters, and its map
  function does nothing for them, so no change of a MetalStackCluster (its node network being
  set, for one) enqueues a deployment. The predicate is used on Clusters by the other two
  controllers.\<close>

theorem firewall_cluster_watch_dead:
  assumes "\<And>obj. accepts ClusterUnpaused obj \<Longrightarrow> kind_of obj = Some KCluster"
  shows "list_all (\<lambda>w. watch_object w = KMetalStackCluster \<longrightarrow>
        (\<forall>obj. handled accepts (firewall_controller L E) w obj s = (Some [], s)))
      (ctl_Watches (firewall_controller L E)) \<and>
    list_all (\<lambda>w. ClusterUnpaused \<in> set (watch_predicates w) \<longrightarrow> watch_object w = KCluster)
      (ctl_Watches (cluster_controller L E) @ ctl_Watches (machine_controller L E))"
proof -
  have "handled accepts (firewall_controller L E)
      \<lparr>watch_object = KMetalStackCluster, watch_map = metalStackClusterToMetalStackFirewallDeployment,
       watch_predicates = [ClusterUnpaused]\<rparr> obj s = (Some [], s)" for obj
    using assms [of obj] by (cases obj) (auto simp: handled_def exec
        metalStackClusterToMetalStackFirewallDeployment_def)
  then show ?thesis
    by (simp add: firewall_controller_def cluster_controller_def machine_controller_def)
qed

theorem firewall_cluster_watch_dead_witness:
  "list_all (\<lambda>w. watch_object w = KMetalStackCluster \<longrightarrow>
      handled (\<lambda>p obj. p \<noteq> ClusterUnpaused \<or> kind_of obj = Some KCluster) (firewall_controller lib0 env0) w
        (CMetalStackCluster (msc0\<lparr>msc_Spec := (msc_Spec msc0)\<lparr>FirewallDeploymentRef := Some \<lparr>fdrName = ''fw''\<rparr>\<rparr>\<rparr>))
        \<lparr>hist = [], self = ()\<rparr> = (Some [], \<lparr>hist = [], self = ()\<rparr>))
    (ctl_Watches (firewall_controller lib0 env0))"
proof -
  have "list_all (\<lambda>w. watch_object w = KMetalStackCluster \<longrightarrow>
      (\<forall>obj. handled (\<lambda>p obj. p \<noteq> ClusterUnpaused \<or> kind_of obj = Some KCluster)
        (firewall_controller lib0 env0) w obj \<lparr>hist = [], self = ()\<rparr> = (Some [], \<lparr>hist = [], self = ()\<rparr>)))
      (ctl_Watches (firewall_controller lib0 env0))"
    by (rule firewall_cluster_watch_dead [THEN conjunct1]) simp
  then show ?thesis by (rule list.pred_mono_strong) blast
qed

fun reads :: "kube_call \<Rightarrow> object_kind option" where
  "reads (GetMetalStackCluster _ _) = Some KMetalStackCluster"
| "reads (GetMetalStackMachine _ _) = Some KMetalStackMachine"
| "reads (GetFirewallDeployment _ _) = Some KFirewallDeployment"
| "reads (GetFirewallTemplate _ _) = Some KFirewallTemplate"
| "reads (GetSecret _ _) = Some KSecret"
| "reads (GetOwnerCluster _ _) = Some KCluster"
| "reads (GetOwnerMachine _ _) = Some KMachine"
| "reads (GetClusterFromMetadata _ _) = Some KCluster"
| "reads (ListMachines _ _) = Some KMetalStackMachine"
| "reads (ListFirewallDeployments _ _ _) = Some KFirewallDeployment"
| "reads _ = None"

text \<open>The kinds a change of which can trigger a controller.\<close>

definition triggers :: "'r controller \<Rightarrow> object_kind set" where
  "triggers C = insert (ctl_For C) (watch_object ` set (ctl_Watches C))"

definition reads_only :: "object_kind set \<Rightarrow> event \<Rightarrow> bool" where
  "reads_only K e = (case e of Kube c \<Rightarrow> (case reads c of None \<Rightarrow> True | Some k \<Rightarrow> k \<in> K) | _ \<Rightarrow> True)"

lemma reads_only_simps [simp]:
  "reads_only K (Kube c) = (case reads c of None \<Rightarrow> True | Some k \<Rightarrow> k \<in> K)"
  "reads_only K (Metal m)" "reads_only K (Now t)"
  by (simp_all add: reads_only_def)

lemma triggers_simps:
  "triggers (cluster_controller L E) = {KMetalStackCluster, KCluster, KMetalStackMachine, KFirewallDeployment}"
  "triggers (machine_controller L E) = {KMetalStackMachine, KCluster, KMetalStackCluster, KMachine}"
  "triggers (firewall_controller L E) = {KFirewallDeployment, KMetalStackCluster, KFirewallTemplate}"
  by (auto simp: triggers_def cluster_controller_def machine_controller_def firewall_controller_def)

lemma cluster_reads:
  "emits (reads_only (triggers (cluster_controller L E'))) (MetalStackClusterReconciler_Reconcile L E req)"
  unfolding MetalStackClusterReconciler_Reconcile_def cluster_dispatch_def cluster_switch_def
    cluster_reconcile_def reconcile_node_network_def reconcile_firewall_deployment_def
    reconcile_control_plane_def cluster_delete_def cluster_release_def Let_def
  by (intro emits_intros) (simp_all add: triggers_simps)

lemma machine_reads:
  "emits (reads_only (insert KSecret (triggers (machine_controller L E'))))
     (MetalStackMachineReconciler_Reconcile L E req)"
  unfolding MetalStackMachineReconciler_Reconcile_def machine_dispatch_def machine_switch_def
    machine_reconcile_def machine_delete_def Let_def
  by (intro emits_intros) (simp_all add: triggers_simps)

lemma firewall_reads:
  "emits (reads_only ({KCluster, KMetalStackMachine} \<union> triggers (firewall_controller L E')))
     (MetalStackFirewallDeploymentReconciler_Reconcile L E req)"
  unfolding MetalStackFirewallDeploymentReconciler_Reconcile_def firewall_dispatch_def firewall_switch_def
    Let_def
  by (intro emits_intros) (simp_all add: triggers_simps)

text \<open>C31. A controller is triggered by what it reads: every kind of object a \<open>Reconcile\<close> reads is
  the one it reconciles or one it watches, except the bootstrap secret of a machine, and the
  cluster and the machines of a firewall deployment, on which its pause and its deletion
  depend: their changes reach it through no watch.\<close>

theorem reads_are_watched:
  "emits (reads_only (triggers (cluster_controller L E'))) (MetalStackClusterReconciler_Reconcile L E req) \<and>
   emits (reads_only (insert KSecret (triggers (machine_controller L E'))))
     (MetalStackMachineReconciler_Reconcile L E req) \<and>
   emits (reads_only ({KCluster, KMetalStackMachine} \<union> triggers (firewall_controller L E')))
     (MetalStackFirewallDeploymentReconciler_Reconcile L E req)"
  using cluster_reads machine_reads firewall_reads by blast

section \<open>A start\<close>

definition process0 :: process where
  "process0 = \<lparr>os_Args = [''--leader-elect''],
     os_Getenv = (\<lambda>v. if v = ''METAL_API_HMAC_AUTH_TYPE'' then ''Metal-Admin'' else ''x''),
     zap_BindFlags = (\<lambda>f. None), scheme_Add = (\<lambda>n. None),
     metalgo_NewDriver = (\<lambda>u t h a. None), ctrl_GetConfig = None, ctrl_NewManager = (\<lambda>opts. None),
     mgr_IndexField = (\<lambda>k f. None), builder_Complete = (\<lambda>c. None),
     mgr_AddHealthzCheck = (\<lambda>n. None), mgr_AddReadyzCheck = (\<lambda>n. None),
     mgr_Start = Some (ErrNew ''leader election lost'')\<rparr>"

lemma process0_simps:
  "os_Args process0 = [''--leader-elect'']"
  "os_Getenv process0 = (\<lambda>v. if v = ''METAL_API_HMAC_AUTH_TYPE'' then ''Metal-Admin'' else ''x'')"
  "zap_BindFlags process0 = (\<lambda>f. None)" "scheme_Add process0 = (\<lambda>n. None)"
  "metalgo_NewDriver process0 = (\<lambda>u t h a. None)" "ctrl_GetConfig process0 = None"
  "ctrl_NewManager process0 = (\<lambda>opts. None)" "mgr_IndexField process0 = (\<lambda>k f. None)"
  "builder_Complete process0 = (\<lambda>c. None)" "mgr_AddHealthzCheck process0 = (\<lambda>n. None)"
  "mgr_AddReadyzCheck process0 = (\<lambda>n. None)"
  "mgr_Start process0 = Some (ErrNew ''leader election lost'')"
  by (simp_all add: process0_def)

theorem manager_starts_complete_witness:
  "\<exists>s' fl url. process_run lib0 env0 process0 \<lparr>log = []\<rparr> = (Some 1, s') \<and>
     flag_Parse (zap_BindFlags process0) (os_Args process0) default_flags = Inr fl \<and>
     enableLeaderElection fl \<and> url \<noteq> [] \<and>
     log s' ! 4 = NewDriver url [] ''x'' ''Metal-Admin'' None \<and>
     log s' ! 13 = StartManager (Some (ErrNew ''leader election lost''))"
proof -
  obtain x s' where run: "process_run lib0 env0 process0 \<lparr>log = []\<rparr> = (x, s')" by fastforce
  have fl: "flag_Parse (zap_BindFlags process0) (os_Args process0) default_flags =
      Inr (default_flags\<lparr>enableLeaderElection := True\<rparr>)"
    by (simp add: process0_simps default_flags_def Cut_def flag_is_bool_def string_flags_def bool_flags_def
        set_flag_def ParseBool_def)
  have x: "x = Some 1" "StartManager (Some (ErrNew ''leader election lost'')) \<in> set (log s')"
    using run by (auto simp: process_run_def scheme_init_def main_plan [OF fl] startup_plan_def
        driver_step_def firewall_step_def missing_variable_def exec process0_simps Let_def)
  from manager_starts_complete [OF run _ x(2)] obtain fl' url hmac auth where
    s: "url \<noteq> []" "log s' = [SchemeAdded ''clientgo'' None, SchemeAdded ''clusterv1'' None,
       SchemeAdded ''fcmv2'' None, SchemeAdded ''v1alpha1'' None, NewDriver url [] hmac auth None, GetConfig None,
       NewManager (manager_options_of fl') None,
       Completed (cluster_controller lib0 env0) None, Completed (machine_controller lib0 env0) None,
       IndexField KFirewallDeployment ''spec.firewallTemplateRef.name'' index_firewallTemplateRef None,
       Completed (firewall_controller lib0 env0) None,
       AddHealthzCheck ''healthz'' None, AddReadyzCheck ''readyz'' None,
       StartManager (Some (ErrNew ''leader election lost''))] @
       manager_end (Some (ErrNew ''leader election lost''))" by auto
  have "log s' ! 4 = NewDriver ''x'' [] ''x'' ''Metal-Admin'' None"
    using run by (auto simp: process_run_def scheme_init_def main_plan [OF fl] startup_plan_def
        driver_step_def firewall_step_def missing_variable_def exec process0_simps Let_def)
  with run fl x s show ?thesis by fastforce
qed

end
