(* ===== verification/Memory.thy ===== *)
theory Memory
  imports Types
begin

text \<open>
  Go's memory, as far as deep copies need it: a heap of cells, which only grows, with what a
  pointer leads to (a value or the elements of a slice) at each address. The struct a method
  gets or fills is a value of its own. What a deep copy promises is the contract
  \<open>deep_copies\<close>, and copying is composed of copies of fields, pointers and slices.
\<close>

section \<open>The heap\<close>

type_synonym addr = nat
type_synonym 'c heap = "'c list"

text \<open>\<open>new\<close> and \<open>make\<close>, reading and writing through a pointer.\<close>

definition new :: "'c \<Rightarrow> ('c heap, addr) go" where
  "new z = (\<lambda>h. (Some (length h), h @ [z]))"

definition load :: "addr \<Rightarrow> ('c heap, 'c) go" where
  "load a = (\<lambda>h. if a < length h then (Some (h ! a), h) else (None, h))"

definition store :: "addr \<Rightarrow> 'c \<Rightarrow> ('c heap, unit) go" where
  "store a c = (\<lambda>h. if a < length h then (Some (), h[a := c]) else (None, h))"

lemma heap_apply [exec]:
  "new z h = (Some (length h), h @ [z])"
  "load a h = (if a < length h then (Some (h ! a), h) else (None, h))"
  "store a c h = (if a < length h then (Some (), h[a := c]) else (None, h))"
  by (simp_all add: new_def load_def store_def)

text \<open>A heap agrees with another on some addresses.\<close>

definition agrees :: "addr set \<Rightarrow> 'c heap \<Rightarrow> 'c heap \<Rightarrow> bool" where
  "agrees A h h' \<longleftrightarrow> (\<forall>a \<in> A. a < length h' \<and> h' ! a = h ! a)"

lemma agrees_prefix: "prefix h h' \<Longrightarrow> A \<subseteq> {..<length h} \<Longrightarrow> agrees A h h'"
  by (auto simp: agrees_def prefix_def nth_append)

lemma agrees_mono: "agrees B h h' \<Longrightarrow> A \<subseteq> B \<Longrightarrow> agrees A h h'"
  by (auto simp: agrees_def)

section \<open>What a deep copy promises\<close>

text \<open>
  How values of a type lie in the heap: the value they stand for, the addresses it depends on,
  and whether what they point to is there and of the right type.
\<close>

record ('c, 'v, 'a) layout =
  view :: "'c heap \<Rightarrow> 'v \<Rightarrow> 'a"
  reach :: "'c heap \<Rightarrow> 'v \<Rightarrow> addr set"
  sound :: "'c heap \<Rightarrow> 'v \<Rightarrow> bool"

text \<open>A layout depends on nothing but the addresses it reaches.\<close>

definition local_layout :: "('c, 'v, 'a) layout \<Rightarrow> bool" where
  "local_layout T \<longleftrightarrow> (\<forall>h v. sound T h v \<longrightarrow> reach T h v \<subseteq> {..<length h} \<and>
     (\<forall>h'. agrees (reach T h v) h h' \<longrightarrow>
        sound T h' v \<and> view T h' v = view T h v \<and> reach T h' v = reach T h v))"

text \<open>The copy stands for the same value, what it points to is new, and nothing else changes.\<close>

definition copied :: "('c, 'v, 'a) layout \<Rightarrow> 'c heap \<Rightarrow> 'v \<Rightarrow> 'c heap \<Rightarrow> 'v \<Rightarrow> bool" where
  "copied T h v h' w \<longleftrightarrow> prefix h h' \<and> sound T h' w \<and> view T h' w = view T h v \<and>
     reach T h' w \<subseteq> {length h..<length h'}"

definition deep_copies :: "('c, 'v, 'a) layout \<Rightarrow> ('v \<Rightarrow> ('c heap, 'v) go) \<Rightarrow> bool" where
  "deep_copies T f \<longleftrightarrow> local_layout T \<and>
     (\<forall>h v. sound T h v \<longrightarrow> (\<exists>w h'. f v h = (Some w, h') \<and> copied T h v h' w))"

lemma deep_copiesE:
  assumes "deep_copies T f" and "sound T h v"
  obtains w h' where "f v h = (Some w, h')" and "copied T h v h' w"
  using assms unfolding deep_copies_def by blast

lemma layout_frame:
  assumes "local_layout T" and "sound T h v" and "agrees (reach T h v) h h'"
  shows "sound T h' v" "view T h' v = view T h v" "reach T h' v = reach T h v"
  using assms unfolding local_layout_def by blast+

lemma layout_bound: "local_layout T \<Longrightarrow> sound T h v \<Longrightarrow> reach T h v \<subseteq> {..<length h}"
  unfolding local_layout_def by blast

lemma layout_grows:
  assumes "local_layout T" and "sound T h v" and "prefix h h'"
  shows "sound T h' v" "view T h' v = view T h v" "reach T h' v = reach T h v"
  using layout_frame [OF assms(1,2)] agrees_prefix [OF assms(3) layout_bound [OF assms(1,2)]] by blast+

section \<open>Copies of parts\<close>

text \<open>A value without pointers is copied by its assignment.\<close>

definition plain :: "('c, 'v, 'v) layout" where
  "plain = \<lparr>view = (\<lambda>h v. v), reach = (\<lambda>h v. {}), sound = (\<lambda>h v. True)\<rparr>"

lemma local_plain: "local_layout plain"
  by (simp add: local_layout_def plain_def)

lemma deep_copies_plain: "deep_copies plain ret"
  by (simp add: deep_copies_def local_plain, simp add: plain_def copied_def exec)

text \<open>A pointer to a value without pointers of its own: \<open>get\<close> reads the value in a cell.\<close>

definition pointer :: "('c \<Rightarrow> 'a option) \<Rightarrow> ('c, addr option, 'a option) layout" where
  "pointer get = \<lparr>view = (\<lambda>h p. case p of None \<Rightarrow> None | Some a \<Rightarrow> get (h ! a)),
     reach = (\<lambda>h p. set_option p),
     sound = (\<lambda>h p. \<forall>a. p = Some a \<longrightarrow> a < length h \<and> get (h ! a) \<noteq> None)\<rparr>"

text \<open>\<open>if in != nil { *out = new(T); **out = **in }\<close>; the argument is the zero value of the type.\<close>

definition copy_pointer :: "'c \<Rightarrow> addr option \<Rightarrow> ('c heap, addr option) go" where
  "copy_pointer z p =
     (case p of
       None \<Rightarrow> ret None
     | Some a \<Rightarrow>
         bnd (new z) (\<lambda>b.
         bnd (load a) (\<lambda>c.
         bnd (store b c) (\<lambda>_.
         ret (Some b)))))"

lemma deep_copies_pointer: "deep_copies (pointer get) (copy_pointer z)"
  unfolding deep_copies_def
proof (intro conjI allI impI)
  show "local_layout (pointer get)"
    by (auto simp: local_layout_def pointer_def agrees_def split: option.split)
next
  fix h p assume s: "sound (pointer get) h p"
  show "\<exists>w h'. copy_pointer z p h = (Some w, h') \<and> copied (pointer get) h p h' w"
  proof (cases p)
    case None
    then show ?thesis by (simp add: copy_pointer_def copied_def pointer_def exec)
  next
    case (Some a)
    with s have "a < length h" "get (h ! a) \<noteq> None" by (simp_all add: pointer_def)
    with Some show ?thesis
      by (auto simp: copy_pointer_def copied_def pointer_def exec nth_append list_update_append)
  qed
qed

text \<open>Two fields one after the other.\<close>

definition both :: "('c, 'v, 'a) layout \<Rightarrow> ('c, 'w, 'b) layout \<Rightarrow> ('c, 'v \<times> 'w, 'a \<times> 'b) layout" where
  "both T U = \<lparr>view = (\<lambda>h (v, w). (view T h v, view U h w)),
     reach = (\<lambda>h (v, w). reach T h v \<union> reach U h w),
     sound = (\<lambda>h (v, w). sound T h v \<and> sound U h w)\<rparr>"

definition copy_both ::
    "('v \<Rightarrow> ('c heap, 'v) go) \<Rightarrow> ('w \<Rightarrow> ('c heap, 'w) go) \<Rightarrow> 'v \<times> 'w \<Rightarrow> ('c heap, 'v \<times> 'w) go" where
  "copy_both f g = (\<lambda>(v, w). bnd (f v) (\<lambda>v'. bnd (g w) (\<lambda>w'. ret (v', w'))))"

lemma local_both:
  assumes "local_layout T" and "local_layout U"
  shows "local_layout (both T U)"
  unfolding local_layout_def
proof (intro allI impI conjI)
  fix h and p :: "'b \<times> 'd"
  assume s: "sound (both T U) h p"
  obtain v w where p: "p = (v, w)" by fastforce
  with s have vw: "sound T h v" "sound U h w" by (simp_all add: both_def)
  with p show "reach (both T U) h p \<subseteq> {..<length h}"
    using layout_bound [OF assms(1)] layout_bound [OF assms(2)] by (auto simp: both_def)
  fix h' assume "agrees (reach (both T U) h p) h h'"
  then have "agrees (reach T h v) h h'" "agrees (reach U h w) h h'"
    by (simp_all add: agrees_def both_def p)
  from layout_frame [OF assms(1) vw(1) this(1)] layout_frame [OF assms(2) vw(2) this(2)]
  show "sound (both T U) h' p" "view (both T U) h' p = view (both T U) h p"
    "reach (both T U) h' p = reach (both T U) h p" by (simp_all add: both_def p)
qed

lemma copied_grows:
  assumes "local_layout T" and "copied T h v h1 w" and "prefix h1 h2"
  shows "copied T h v h2 w"
proof -
  have s: "sound T h1 w" using assms(2) by (simp add: copied_def)
  from assms layout_grows [OF assms(1) s assms(3)] prefix_length_le [OF assms(3)] show ?thesis
    by (auto simp: copied_def dest: prefix_order.trans)
qed

lemma deep_copies_both:
  assumes "deep_copies T f" and "deep_copies U g"
  shows "deep_copies (both T U) (copy_both f g)"
  unfolding deep_copies_def
proof (intro conjI allI impI)
  have T: "local_layout T" and U: "local_layout U" using assms by (simp_all add: deep_copies_def)
  then show "local_layout (both T U)" by (rule local_both)
  fix h and p :: "'b \<times> 'd"
  assume s: "sound (both T U) h p"
  obtain v w where p: "p = (v, w)" by fastforce
  with s have v: "sound T h v" and w: "sound U h w" by (simp_all add: both_def)
  from assms(1) v obtain v' h1 where f: "f v h = (Some v', h1)" "copied T h v h1 v'"
    by (rule deep_copiesE)
  then have "prefix h h1" by (simp add: copied_def)
  note W = layout_grows [OF U w this]
  from assms(2) W(1) obtain w' h2 where g: "g w h1 = (Some w', h2)" "copied U h1 w h2 w'"
    by (rule deep_copiesE)
  then have "prefix h1 h2" by (simp add: copied_def)
  note V = copied_grows [OF T f(2) this]
  have "copied (both T U) h p h2 (v', w')"
    using V g(2) W(2) prefix_length_le [OF \<open>prefix h h1\<close>] unfolding copied_def p
    by (auto simp: both_def)
  with f g p show "\<exists>q h'. copy_both f g p h = (Some q, h') \<and> copied (both T U) h p h' q"
    by (auto simp: copy_both_def exec)
qed

text \<open>A struct is its parts and the update that puts copies of them in place.\<close>

definition struct :: "('s \<Rightarrow> 'v) \<Rightarrow> ('s \<Rightarrow> 'a \<Rightarrow> 'b) \<Rightarrow> ('c, 'v, 'a) layout \<Rightarrow> ('c, 's, 'b) layout" where
  "struct parts build T = \<lparr>view = (\<lambda>h x. build x (view T h (parts x))),
     reach = (\<lambda>h x. reach T h (parts x)), sound = (\<lambda>h x. sound T h (parts x))\<rparr>"

lemma deep_copies_struct:
  assumes "deep_copies T f"
    and "\<And>x h. copy x h = bnd (f (parts x)) (\<lambda>v. ret (put x v)) h"
    and "\<And>x v. parts (put x v) = v" and "\<And>x v a. build (put x v) a = build x a"
  shows "deep_copies (struct parts build T) copy"
  unfolding deep_copies_def
proof (intro conjI allI impI)
  have T: "local_layout T" using assms(1) by (simp add: deep_copies_def)
  then show "local_layout (struct parts build T)"
    unfolding local_layout_def struct_def layout.simps by metis
  fix h x assume "sound (struct parts build T) h x"
  then have "sound T h (parts x)" by (simp add: struct_def)
  with assms(1) obtain v h' where "f (parts x) h = (Some v, h')" "copied T h (parts x) h' v"
    by (rule deep_copiesE)
  then have "copy x h = (Some (put x v), h')" "copied (struct parts build T) h x h' (put x v)"
    by (simp_all add: assms(2-4) exec copied_def struct_def)
  then show "\<exists>y h'. copy x h = (Some y, h') \<and> copied (struct parts build T) h x h' y" by blast
qed

text \<open>
  A slice: nil or the address of a cell with its elements; \<open>get\<close> reads them, \<open>cell\<close> makes a
  cell of them. The copy makes an array of zero values and fills it from left to right.
\<close>

definition elements :: "('c \<Rightarrow> 'e list option) \<Rightarrow> 'c heap \<Rightarrow> addr option \<Rightarrow> 'e list" where
  "elements get h p = (case p of None \<Rightarrow> [] | Some a \<Rightarrow> the (get (h ! a)))"

definition slice :: "('c \<Rightarrow> 'e list option) \<Rightarrow> ('c, 'e, 'a) layout \<Rightarrow> ('c, addr option, 'a list option) layout" where
  "slice get T = \<lparr>view = (\<lambda>h p. map_option (\<lambda>a. map (view T h) (elements get h p)) p),
     reach = (\<lambda>h p. set_option p \<union> (\<Union>x \<in> set (elements get h p). reach T h x)),
     sound = (\<lambda>h p. (\<forall>a. p = Some a \<longrightarrow> a < length h \<and> get (h ! a) \<noteq> None) \<and>
       (\<forall>x \<in> set (elements get h p). sound T h x))\<rparr>"

fun copy_range ::
    "('e list \<Rightarrow> 'c) \<Rightarrow> 'e \<Rightarrow> ('e \<Rightarrow> ('c heap, 'e) go) \<Rightarrow> addr \<Rightarrow> 'e list \<Rightarrow> 'e list \<Rightarrow> ('c heap, unit) go" where
  "copy_range cell z f b done [] = ret ()"
| "copy_range cell z f b done (x # xs) =
     bnd (f x) (\<lambda>y.
     bnd (store b (cell (done @ [y] @ replicate (length xs) z))) (\<lambda>_.
     copy_range cell z f b (done @ [y]) xs))"

definition copy_slice ::
    "('c \<Rightarrow> 'e list option) \<Rightarrow> ('e list \<Rightarrow> 'c) \<Rightarrow> 'e \<Rightarrow> ('e \<Rightarrow> ('c heap, 'e) go) \<Rightarrow> addr option \<Rightarrow>
       ('c heap, addr option) go" where
  "copy_slice get cell z f p =
     (case p of
       None \<Rightarrow> ret None
     | Some a \<Rightarrow>
         bnd (load a) (\<lambda>c.
         bnd (deref (get c)) (\<lambda>xs.
         bnd (new (cell (replicate (length xs) z))) (\<lambda>b.
         bnd (copy_range cell z f b [] xs) (\<lambda>_.
         ret (Some b))))))"

text \<open>The state of the loop: the old heap is unchanged and the new array holds what is done.\<close>

definition range_inv ::
    "('e list \<Rightarrow> 'c) \<Rightarrow> 'e \<Rightarrow> ('c, 'e, 'a) layout \<Rightarrow> 'c heap \<Rightarrow> 'c heap \<Rightarrow> 'e list \<Rightarrow> 'e list \<Rightarrow> 'e list \<Rightarrow> bool" where
  "range_inv cell z T h0 h src done rest \<longleftrightarrow> prefix h0 h \<and> length h0 < length h \<and>
     h ! length h0 = cell (done @ replicate (length rest) z) \<and>
     (\<forall>y \<in> set done. sound T h y \<and> reach T h y \<subseteq> {length h0<..<length h}) \<and>
     map (view T h) done = map (view T h0) src"

lemma prefix_update: "prefix h0 h \<Longrightarrow> length h0 \<le> a \<Longrightarrow> prefix h0 (h[a := c])"
  by (auto simp: prefix_def list_update_append)

lemma range_step:
  assumes T: "local_layout T" and inv: "range_inv cell z T h0 h src done (x # rest)"
    and x: "sound T h0 x" and c: "copied T h x h1 y"
  shows "range_inv cell z T h0 (h1[length h0 := cell (done @ [y] @ replicate (length rest) z)])
    (src @ [x]) (done @ [y]) rest" (is "range_inv _ _ _ _ ?h2 _ _ _")
proof -
  let ?b = "length h0"
  have p: "prefix h0 h" "?b < length h" "prefix h h1" using inv c by (simp_all add: range_inv_def copied_def)
  have same: "agrees {?b<..<length h1} h1 ?h2" by (simp add: agrees_def)
  have len: "length h \<le> length h1" using p(3) by (rule prefix_length_le)
  then have b: "?b < length h1" using p(2) by simp
  have d: "sound T ?h2 v \<and> reach T ?h2 v \<subseteq> {?b<..<length ?h2} \<and> view T ?h2 v = view T h1 v"
    if "sound T h1 v" "reach T h1 v \<subseteq> {?b<..<length h1}" for v
    using layout_frame [OF T that(1) agrees_mono [OF same that(2)]] that(2) by simp
  have old: "sound T h1 v \<and> reach T h1 v \<subseteq> {?b<..<length h1} \<and> view T h1 v = view T h v"
    if "v \<in> set done" for v
  proof -
    from inv that have v: "sound T h v" "reach T h v \<subseteq> {?b<..<length h}" by (simp_all add: range_inv_def)
    from layout_grows [OF T v(1) p(3)] v(2) len show ?thesis by auto
  qed
  have y: "sound T h1 y" "reach T h1 y \<subseteq> {?b<..<length h1}" "view T h1 y = view T h0 x"
    using c p layout_grows(2) [OF T x p(1)] by (auto simp: copied_def)
  have "map (view T ?h2) done = map (view T h) done" using d old by simp
  with inv y d old p b show ?thesis
    unfolding range_inv_def
    by (auto simp: prefix_update prefix_order.trans [OF p(1,3)])
qed

lemma copy_range_run:
  assumes "deep_copies T f" and "\<forall>x \<in> set xs. sound T h0 x" and "range_inv cell z T h0 h src done xs"
  shows "\<exists>h' ys. copy_range cell z f (length h0) done xs h = (Some (), h') \<and>
    range_inv cell z T h0 h' (src @ xs) ys []"
  using assms(2,3)
proof (induction xs arbitrary: h src "done")
  case Nil
  then show ?case by (auto simp: exec)
next
  case (Cons x xs)
  have T: "local_layout T" using assms(1) by (simp add: deep_copies_def)
  have p: "prefix h0 h" using Cons.prems(2) by (simp add: range_inv_def)
  have x: "sound T h0 x" using Cons.prems(1) by simp
  from assms(1) layout_grows(1) [OF T x p] obtain y h1 where f: "f x h = (Some y, h1)" "copied T h x h1 y"
    by (rule deep_copiesE)
  have "length h0 < length h" using Cons.prems(2) by (simp add: range_inv_def)
  then have b: "length h0 < length h1"
    using f(2) prefix_length_le [of h h1] by (simp add: copied_def)
  have "\<forall>x \<in> set xs. sound T h0 x" using Cons.prems(1) by simp
  from Cons.IH [OF this range_step [OF T Cons.prems(2) x f(2)]] obtain h' ys where
    "copy_range cell z f (length h0) (done @ [y]) xs
       (h1[length h0 := cell (done @ [y] @ replicate (length xs) z)]) = (Some (), h')"
    "range_inv cell z T h0 h' ((src @ [x]) @ xs) ys []" by blast
  with f(1) b have "copy_range cell z f (length h0) done (x # xs) h = (Some (), h')"
    "range_inv cell z T h0 h' (src @ x # xs) ys []" by (simp_all add: exec)
  then show ?case by blast
qed

lemma local_slice:
  assumes "local_layout T"
  shows "local_layout (slice get T)"
  unfolding local_layout_def
proof (intro allI impI conjI)
  fix h p assume s: "sound (slice get T) h p"
  have xs: "sound T h x \<and> reach T h x \<subseteq> {..<length h}" if "x \<in> set (elements get h p)" for x
    using s that layout_bound [OF assms] by (simp add: slice_def)
  then show "reach (slice get T) h p \<subseteq> {..<length h}"
    using s by (auto simp: slice_def)
  fix h' assume a: "agrees (reach (slice get T) h p) h h'"
  have e: "elements get h' p = elements get h p"
    using a by (auto simp: elements_def slice_def agrees_def split: option.split)
  have "agrees (reach T h x) h h'" if "x \<in> set (elements get h p)" for x
    using a that by (auto simp: slice_def agrees_def)
  then have f: "sound T h' x \<and> view T h' x = view T h x \<and> reach T h' x = reach T h x"
    if "x \<in> set (elements get h p)" for x
    using layout_frame [OF assms, of h x h'] xs that by simp
  have "\<forall>a. p = Some a \<longrightarrow> a < length h' \<and> h' ! a = h ! a"
    using a by (auto simp: agrees_def slice_def)
  with s f e show "sound (slice get T) h' p" "reach (slice get T) h' p = reach (slice get T) h p"
    by (auto simp: slice_def)
  have "map (view T h') (elements get h p) = map (view T h) (elements get h p)" using f by simp
  then show "view (slice get T) h' p = view (slice get T) h p"
    by (simp only: slice_def layout.simps e)
qed

lemma deep_copies_slice:
  assumes "deep_copies T f" and "\<And>xs. get (cell xs) = Some xs"
  shows "deep_copies (slice get T) (copy_slice get cell z f)"
  unfolding deep_copies_def
proof (intro conjI allI impI)
  have T: "local_layout T" using assms(1) by (simp add: deep_copies_def)
  then show "local_layout (slice get T)" by (rule local_slice)
  fix h p assume s: "sound (slice get T) h p"
  show "\<exists>w h'. copy_slice get cell z f p h = (Some w, h') \<and> copied (slice get T) h p h' w"
  proof (cases p)
    case None
    then show ?thesis by (simp add: copy_slice_def copied_def slice_def elements_def exec)
  next
    case (Some a)
    with s obtain xs where xs: "a < length h" "get (h ! a) = Some xs" "\<forall>x \<in> set xs. sound T h x"
      by (auto simp: slice_def elements_def)
    have "range_inv cell z T h (h @ [cell (replicate (length xs) z)]) [] [] xs"
      by (simp add: range_inv_def)
    from copy_range_run [OF assms(1) xs(3) this] obtain h' ys where
      r: "copy_range cell z f (length h) [] xs (h @ [cell (replicate (length xs) z)]) = (Some (), h')"
      and i: "range_inv cell z T h h' xs ys []" by auto
    have e: "elements get h' (Some (length h)) = ys"
      using i assms(2) by (simp add: range_inv_def elements_def)
    have e0: "elements get h p = xs" using Some xs by (simp add: elements_def)
    from i assms(2) have ys: "prefix h h'" "length h < length h'" "get (h' ! length h) \<noteq> None"
      "\<forall>y \<in> set ys. sound T h' y \<and> reach T h' y \<subseteq> {length h<..<length h'}"
      "map (view T h') ys = map (view T h) xs" by (simp_all add: range_inv_def)
    have "(\<Union>y \<in> set ys. reach T h' y) \<subseteq> {length h<..<length h'}" using ys(4) by blast
    then have "copied (slice get T) h p h' (Some (length h))"
      using ys e e0 Some unfolding copied_def slice_def by auto
    with Some xs r show ?thesis by (auto simp: copy_slice_def exec)
  qed
qed

text \<open>A slice of values without pointers: \<open>make\<close> and the built-in \<open>copy\<close>.\<close>

definition copy_array ::
    "('c \<Rightarrow> 'e list option) \<Rightarrow> ('e list \<Rightarrow> 'c) \<Rightarrow> 'e \<Rightarrow> addr option \<Rightarrow> ('c heap, addr option) go" where
  "copy_array get cell z p =
     (case p of
       None \<Rightarrow> ret None
     | Some a \<Rightarrow>
         bnd (load a) (\<lambda>c.
         bnd (deref (get c)) (\<lambda>xs.
         bnd (new (cell (replicate (length xs) z))) (\<lambda>b.
         bnd (store b (cell xs)) (\<lambda>_.
         ret (Some b))))))"

lemma deep_copies_array:
  assumes "\<And>xs. get (cell xs) = Some xs"
  shows "deep_copies (slice get plain) (copy_array get cell z)"
  unfolding deep_copies_def
proof (intro conjI allI impI)
  show "local_layout (slice get plain)"
    by (rule local_slice [OF local_plain])
  fix h p assume s: "sound (slice get plain) h p"
  show "\<exists>w h'. copy_array get cell z p h = (Some w, h') \<and> copied (slice get plain) h p h' w"
  proof (cases p)
    case None
    then show ?thesis by (simp add: copy_array_def copied_def slice_def elements_def exec)
  next
    case (Some a)
    with s obtain xs where xs: "a < length h" "get (h ! a) = Some xs" by (auto simp: slice_def)
    then have "copy_array get cell z p h = (Some (Some (length h)), h @ [cell xs])"
      by (simp add: Some copy_array_def exec)
    moreover have "copied (slice get plain) h p (h @ [cell xs]) (Some (length h))"
      using assms xs Some by (auto simp: copied_def slice_def plain_def elements_def)
    ultimately show ?thesis by blast
  qed
qed

section \<open>Copies are apart\<close>

text \<open>Whatever is written later to what was there before does not change the copy, and whatever is
  written to what is new does not change the original.\<close>

lemma copied_apart:
  assumes "local_layout T" and "sound T h v" and "copied T h v h' w"
  shows "agrees {..<length h} h' h2 \<Longrightarrow> sound T h2 v \<and> view T h2 v = view T h v"
    and "agrees {length h..<length h'} h' h2 \<Longrightarrow> sound T h2 w \<and> view T h2 w = view T h v"
proof -
  have p: "prefix h h'" "sound T h' w" "view T h' w = view T h v" "reach T h' w \<subseteq> {length h..<length h'}"
    using assms(3) by (simp_all add: copied_def)
  note g = layout_grows [OF assms(1,2) p(1)]
  show "sound T h2 v \<and> view T h2 v = view T h v" if "agrees {..<length h} h' h2"
    using layout_frame [OF assms(1) g(1) agrees_mono [OF that]] g layout_bound [OF assms(1,2)] by simp
  show "sound T h2 w \<and> view T h2 w = view T h v" if "agrees {length h..<length h'} h' h2"
    using layout_frame [OF assms(1) p(2) agrees_mono [OF that p(4)]] p(3) by simp
qed

end
