(* ===== verification/DeepCopy.thy ===== *)
theory DeepCopy
  imports Memory
begin

text \<open>
  \<open>api/v1alpha1/zz_generated.deepcopy.go\<close>: the deep copies of the API types. Each struct with
  pointers has a form for the memory, \<open><Type>_mem\<close>, with addresses where the struct has pointers
  and slices, and a layout that says which value of \<open>Types\<close> it stands for. \<open>DeepCopyInto(out)\<close>
  is a function from the struct \<open>in\<close> to what is in \<open>out\<close> afterwards; it is only ever called with
  an \<open>out\<close> of its own. The structs of libraries (\<open>ObjectMeta\<close>, \<open>ListMeta\<close>, \<open>FirewallSpec\<close>) lie in
  memory in a form of their own, of type \<open>'x\<close>, and their \<open>DeepCopyInto\<close> is a parameter.
\<close>

section \<open>The structs in memory\<close>

record TypeMeta =
  tmKind :: string
  tmAPIVersion :: string

record ListMeta =
  lmResourceVersion :: string
  lmContinue :: string
  lmRemainingItemCount :: "int option"

record MetalStackClusterInitializationStatus_mem =
  Provisioned_p :: "addr option"

record MetalStackClusterSpec_mem =
  mcs_ControlPlaneEndpoint :: APIEndpoint
  mcs_ProjectID :: string
  mcs_NodeNetworkID :: "addr option"
  mcs_ControlPlaneIP :: "addr option"
  mcs_Partition :: string
  mcs_FirewallDeploymentRef :: "addr option"

record MetalStackClusterStatus_mem =
  mct_Ready :: bool
  mct_Initialization :: MetalStackClusterInitializationStatus_mem
  mct_FailureReason :: "addr option"
  mct_FailureMessage :: "addr option"
  mct_Conditions :: "addr option"

record 'x MetalStackCluster_mem =
  mc_TypeMeta :: TypeMeta
  mc_ObjectMeta :: 'x
  mc_Spec :: MetalStackClusterSpec_mem
  mc_Status :: MetalStackClusterStatus_mem

record MetalStackMachineInitializationStatus_mem =
  Provisioned_m :: "addr option"

record MetalStackMachineStatus_mem =
  mmt_Ready :: bool
  mmt_Initialization :: MetalStackMachineInitializationStatus_mem
  mmt_FailureReason :: "addr option"
  mmt_FailureMessage :: "addr option"
  mmt_Conditions :: "addr option"
  mmt_Addresses :: "addr option"

record 'x MetalStackMachine_mem =
  mm_TypeMeta :: TypeMeta
  mm_ObjectMeta :: 'x
  mm_Spec :: MetalStackMachineSpec
  mm_Status :: MetalStackMachineStatus_mem

record MetalStackFirewallDeploymentInitializationStatus_mem =
  Provisioned_d :: "addr option"

record MetalStackFirewallDeploymentSpec_mem =
  mds_FirewallTemplateRef :: MetalStackFirewallTemplateRef
  mds_ManagedResourceRef :: "addr option"
  mds_AutoUpdate :: "addr option"

record MetalStackFirewallDeploymentStatus_mem =
  mdt_Ready :: bool
  mdt_Initialization :: MetalStackClusterInitializationStatus_mem
  mdt_Conditions :: "addr option"

record 'x MetalStackFirewallDeployment_mem =
  md_TypeMeta :: TypeMeta
  md_ObjectMeta :: 'x
  md_Spec :: MetalStackFirewallDeploymentSpec_mem
  md_Status :: MetalStackFirewallDeploymentStatus_mem

record 'x MetalStackFirewallTemplate_mem =
  mt_TypeMeta :: TypeMeta
  mt_ObjectMeta :: 'x
  mt_Spec :: 'x

record 'x MetalStackMachineTemplateSpec_mem =
  mts_Template :: "'x MetalStackMachine_mem"

record 'x MetalStackMachineTemplate_mem =
  mmtp_TypeMeta :: TypeMeta
  mmtp_ObjectMeta :: 'x
  mmtp_Spec :: "'x MetalStackMachineTemplateSpec_mem"

record MetalStackMachineTemplateResource =
  mtr_Spec :: MetalStackMachineSpec

text \<open>The list types, for a type of items.\<close>

record 'x MetalStackClusterList_mem =
  mcl_TypeMeta :: TypeMeta
  mcl_ListMeta :: 'x
  mcl_Items :: "addr option"

record 'x MetalStackMachineList_mem =
  mml_TypeMeta :: TypeMeta
  mml_ListMeta :: 'x
  mml_Items :: "addr option"

record 'x MetalStackFirewallDeploymentList_mem =
  mdl_TypeMeta :: TypeMeta
  mdl_ListMeta :: 'x
  mdl_Items :: "addr option"

record 'x MetalStackFirewallTemplateList_mem =
  mtl_TypeMeta :: TypeMeta
  mtl_ListMeta :: 'x
  mtl_Items :: "addr option"

record 'x MetalStackMachineTemplateList_mem =
  mmtl_TypeMeta :: TypeMeta
  mmtl_ListMeta :: 'x
  mmtl_Items :: "addr option"

text \<open>What a pointer or a slice of these structs leads to. The named string types of Cluster API's
  failure reasons are strings.\<close>

datatype 'x cell =
    StringCell string
  | BoolCell bool
  | DeploymentRefCell MetalStackFirewallDeploymentRef
  | ManagedResourceRefCell MetalStackManagedResourceRef
  | AutoUpdateCell MetalStackFirewallAutoUpdate
  | ConditionsCell "Condition list"
  | AddressesCell "MachineAddress list"
  | ClustersCell "'x MetalStackCluster_mem list"
  | MachinesCell "'x MetalStackMachine_mem list"
  | DeploymentsCell "'x MetalStackFirewallDeployment_mem list"
  | TemplatesCell "'x MetalStackFirewallTemplate_mem list"
  | MachineTemplatesCell "'x MetalStackMachineTemplate_mem list"
  | ForeignCell 'x

fun string_in :: "'x cell \<Rightarrow> string option" where
  "string_in (StringCell v) = Some v"
| "string_in _ = None"

fun bool_in :: "'x cell \<Rightarrow> bool option" where
  "bool_in (BoolCell v) = Some v"
| "bool_in _ = None"

fun deployment_ref_in :: "'x cell \<Rightarrow> MetalStackFirewallDeploymentRef option" where
  "deployment_ref_in (DeploymentRefCell v) = Some v"
| "deployment_ref_in _ = None"

fun managed_resource_ref_in :: "'x cell \<Rightarrow> MetalStackManagedResourceRef option" where
  "managed_resource_ref_in (ManagedResourceRefCell v) = Some v"
| "managed_resource_ref_in _ = None"

fun auto_update_in :: "'x cell \<Rightarrow> MetalStackFirewallAutoUpdate option" where
  "auto_update_in (AutoUpdateCell v) = Some v"
| "auto_update_in _ = None"

fun conditions_in :: "'x cell \<Rightarrow> Condition list option" where
  "conditions_in (ConditionsCell v) = Some v"
| "conditions_in _ = None"

fun addresses_in :: "'x cell \<Rightarrow> MachineAddress list option" where
  "addresses_in (AddressesCell v) = Some v"
| "addresses_in _ = None"

fun clusters_in :: "'x cell \<Rightarrow> ('x MetalStackCluster_mem list) option" where
  "clusters_in (ClustersCell v) = Some v"
| "clusters_in _ = None"

fun machines_in :: "'x cell \<Rightarrow> ('x MetalStackMachine_mem list) option" where
  "machines_in (MachinesCell v) = Some v"
| "machines_in _ = None"

fun deployments_in :: "'x cell \<Rightarrow> ('x MetalStackFirewallDeployment_mem list) option" where
  "deployments_in (DeploymentsCell v) = Some v"
| "deployments_in _ = None"

fun templates_in :: "'x cell \<Rightarrow> ('x MetalStackFirewallTemplate_mem list) option" where
  "templates_in (TemplatesCell v) = Some v"
| "templates_in _ = None"

fun machine_templates_in :: "'x cell \<Rightarrow> ('x MetalStackMachineTemplate_mem list) option" where
  "machine_templates_in (MachineTemplatesCell v) = Some v"
| "machine_templates_in _ = None"

text \<open>The copies of the libraries' structs and how these lie in memory, and their zero values.\<close>

record 'x foreign =
  ObjectMeta_DeepCopyInto :: "'x \<Rightarrow> ('x cell heap, 'x) go"
  ObjectMeta_layout :: "('x cell, 'x, ObjectMeta) layout"
  ObjectMeta_zero :: 'x
  ListMeta_DeepCopyInto :: "'x \<Rightarrow> ('x cell heap, 'x) go"
  ListMeta_layout :: "('x cell, 'x, ListMeta) layout"
  FirewallSpec_DeepCopyInto :: "'x \<Rightarrow> ('x cell heap, 'x) go"
  FirewallSpec_layout :: "('x cell, 'x, FirewallSpec) layout"
  FirewallSpec_zero :: 'x
  Condition_DeepCopyInto :: "Condition \<Rightarrow> ('x cell heap, Condition) go"

text \<open>They are deep copies too.\<close>

definition foreign_laws :: "'x foreign \<Rightarrow> bool" where
  "foreign_laws F \<longleftrightarrow> deep_copies (ObjectMeta_layout F) (ObjectMeta_DeepCopyInto F) \<and>
     deep_copies (ListMeta_layout F) (ListMeta_DeepCopyInto F) \<and>
     deep_copies (FirewallSpec_layout F) (FirewallSpec_DeepCopyInto F) \<and>
     deep_copies plain (Condition_DeepCopyInto F)"

section \<open>The copies\<close>

text \<open>\<open>DeepCopy\<close>: nil for nil, or a new struct filled by \<open>DeepCopyInto\<close>. The structs a pointer leads to
  outside of any other struct are given and returned themselves.\<close>

definition new_copy :: "('v \<Rightarrow> ('c heap, 'v) go) \<Rightarrow> 'v option \<Rightarrow> ('c heap, 'v option) go" where
  "new_copy into p =
     (case p of
       None \<Rightarrow> ret None
     | Some inp \<Rightarrow> bnd (into inp) (\<lambda>out. ret (Some out)))"

text \<open>What a new array holds before it is filled. (The zero value of a condition's status and of an
  address type is the empty string, which is none of their constants; no one reads it.)\<close>

abbreviation no_condition :: Condition where
  "no_condition \<equiv> \<lparr>condType = [], condStatus = ConditionUnknown, condReason = [], condMessage
      = []\<rparr>"

abbreviation no_address :: MachineAddress where
  "no_address \<equiv> \<lparr>maType = MachineHostName, maAddress = []\<rparr>"

definition copy_conditions :: "'x foreign \<Rightarrow> addr option \<Rightarrow> ('x cell heap, addr option) go" where
  "copy_conditions F = copy_slice conditions_in ConditionsCell no_condition (Condition_DeepCopyInto F)"

subsection \<open>MetalStackCluster\<close>

definition APIEndpoint_DeepCopyInto ::
    "APIEndpoint \<Rightarrow> ('c heap, APIEndpoint) go" where
  "APIEndpoint_DeepCopyInto inp = ret inp"

definition APIEndpoint_DeepCopy ::
    "APIEndpoint option \<Rightarrow> ('c heap, APIEndpoint option) go" where
  "APIEndpoint_DeepCopy = new_copy APIEndpoint_DeepCopyInto"

definition MetalStackFirewallDeploymentRef_DeepCopyInto ::
    "MetalStackFirewallDeploymentRef \<Rightarrow> ('c heap, MetalStackFirewallDeploymentRef) go" where
  "MetalStackFirewallDeploymentRef_DeepCopyInto inp = ret inp"

definition MetalStackFirewallDeploymentRef_DeepCopy ::
    "MetalStackFirewallDeploymentRef option \<Rightarrow> ('c heap, MetalStackFirewallDeploymentRef option)
        go" where
  "MetalStackFirewallDeploymentRef_DeepCopy = new_copy MetalStackFirewallDeploymentRef_DeepCopyInto"

definition MetalStackClusterInitializationStatus_DeepCopyInto ::
    "MetalStackClusterInitializationStatus_mem \<Rightarrow> ('x cell heap,
        MetalStackClusterInitializationStatus_mem) go" where
  "MetalStackClusterInitializationStatus_DeepCopyInto inp =
     (let out = inp in
     bnd (copy_pointer (BoolCell False) (Provisioned_p inp)) (\<lambda>p.
     let out = out\<lparr>Provisioned_p := p\<rparr> in
     ret out))"

definition MetalStackClusterInitializationStatus_DeepCopy ::
    "MetalStackClusterInitializationStatus_mem option \<Rightarrow> ('x cell heap,
        MetalStackClusterInitializationStatus_mem option) go" where
  "MetalStackClusterInitializationStatus_DeepCopy = new_copy
      MetalStackClusterInitializationStatus_DeepCopyInto"

definition MetalStackClusterSpec_DeepCopyInto ::
    "MetalStackClusterSpec_mem \<Rightarrow> ('x cell heap, MetalStackClusterSpec_mem) go" where
  "MetalStackClusterSpec_DeepCopyInto inp =
     (let out = inp\<lparr>mcs_ControlPlaneEndpoint := mcs_ControlPlaneEndpoint inp\<rparr> in
     bnd (copy_pointer (StringCell []) (mcs_NodeNetworkID inp)) (\<lambda>p.
     let out = out\<lparr>mcs_NodeNetworkID := p\<rparr> in
     bnd (copy_pointer (StringCell []) (mcs_ControlPlaneIP inp)) (\<lambda>p.
     let out = out\<lparr>mcs_ControlPlaneIP := p\<rparr> in
     bnd (copy_pointer (DeploymentRefCell \<lparr>fdrName = []\<rparr>) (mcs_FirewallDeploymentRef inp)) (\<lambda>p.
     let out = out\<lparr>mcs_FirewallDeploymentRef := p\<rparr> in
     ret out))))"

definition MetalStackClusterSpec_DeepCopy ::
    "MetalStackClusterSpec_mem option \<Rightarrow> ('x cell heap, MetalStackClusterSpec_mem option) go" where
  "MetalStackClusterSpec_DeepCopy = new_copy MetalStackClusterSpec_DeepCopyInto"

definition MetalStackClusterStatus_DeepCopyInto ::
    "'x foreign \<Rightarrow> MetalStackClusterStatus_mem \<Rightarrow> ('x cell heap,
        MetalStackClusterStatus_mem) go" where
  "MetalStackClusterStatus_DeepCopyInto F inp =
     (let out = inp in
     bnd (MetalStackClusterInitializationStatus_DeepCopyInto (mct_Initialization inp)) (\<lambda>p.
     let out = out\<lparr>mct_Initialization := p\<rparr> in
     bnd (copy_pointer (StringCell []) (mct_FailureReason inp)) (\<lambda>p.
     let out = out\<lparr>mct_FailureReason := p\<rparr> in
     bnd (copy_pointer (StringCell []) (mct_FailureMessage inp)) (\<lambda>p.
     let out = out\<lparr>mct_FailureMessage := p\<rparr> in
     bnd (copy_conditions F (mct_Conditions inp)) (\<lambda>p.
     let out = out\<lparr>mct_Conditions := p\<rparr> in
     ret out)))))"

definition MetalStackClusterStatus_DeepCopy ::
    "'x foreign \<Rightarrow> MetalStackClusterStatus_mem option \<Rightarrow> ('x cell heap,
        MetalStackClusterStatus_mem option) go" where
  "MetalStackClusterStatus_DeepCopy F = new_copy (MetalStackClusterStatus_DeepCopyInto F)"

definition MetalStackCluster_DeepCopyInto ::
    "'x foreign \<Rightarrow> 'x MetalStackCluster_mem \<Rightarrow> ('x cell heap, 'x MetalStackCluster_mem) go" where
  "MetalStackCluster_DeepCopyInto F inp =
     (let out = inp\<lparr>mc_TypeMeta := mc_TypeMeta inp\<rparr> in
     bnd (ObjectMeta_DeepCopyInto F (mc_ObjectMeta inp)) (\<lambda>p.
     let out = out\<lparr>mc_ObjectMeta := p\<rparr> in
     bnd (MetalStackClusterSpec_DeepCopyInto (mc_Spec inp)) (\<lambda>p.
     let out = out\<lparr>mc_Spec := p\<rparr> in
     bnd (MetalStackClusterStatus_DeepCopyInto F (mc_Status inp)) (\<lambda>p.
     let out = out\<lparr>mc_Status := p\<rparr> in
     ret out))))"

definition MetalStackCluster_DeepCopy ::
    "'x foreign \<Rightarrow> 'x MetalStackCluster_mem option \<Rightarrow> ('x cell heap, 'x
        MetalStackCluster_mem option) go" where
  "MetalStackCluster_DeepCopy F = new_copy (MetalStackCluster_DeepCopyInto F)"

text \<open>The zero values of the items of lists.\<close>

abbreviation no_type :: TypeMeta where
  "no_type \<equiv> \<lparr>tmKind = [], tmAPIVersion = []\<rparr>"

definition MetalStackCluster_zero :: "'x foreign \<Rightarrow> 'x MetalStackCluster_mem" where
  "MetalStackCluster_zero F = \<lparr>mc_TypeMeta = no_type, mc_ObjectMeta = ObjectMeta_zero F,
     mc_Spec = \<lparr>mcs_ControlPlaneEndpoint = \<lparr>Host = [], Port = 0\<rparr>, mcs_ProjectID = [],
       mcs_NodeNetworkID = None, mcs_ControlPlaneIP = None, mcs_Partition = [],
       mcs_FirewallDeploymentRef = None\<rparr>,
     mc_Status = \<lparr>mct_Ready = False, mct_Initialization = \<lparr>Provisioned_p = None\<rparr>,
       mct_FailureReason = None, mct_FailureMessage = None, mct_Conditions = None\<rparr>\<rparr>"

definition MetalStackClusterList_DeepCopyInto ::
    "'x foreign \<Rightarrow> 'x MetalStackClusterList_mem \<Rightarrow> ('x cell heap, 'x
        MetalStackClusterList_mem) go" where
  "MetalStackClusterList_DeepCopyInto F inp =
     (let out = inp\<lparr>mcl_TypeMeta := mcl_TypeMeta inp\<rparr> in
     bnd (ListMeta_DeepCopyInto F (mcl_ListMeta inp)) (\<lambda>p.
     let out = out\<lparr>mcl_ListMeta := p\<rparr> in
     bnd (copy_slice clusters_in ClustersCell (MetalStackCluster_zero F)
       (MetalStackCluster_DeepCopyInto F) (mcl_Items inp)) (\<lambda>p.
     let out = out\<lparr>mcl_Items := p\<rparr> in
     ret out)))"

definition MetalStackClusterList_DeepCopy ::
    "'x foreign \<Rightarrow> 'x MetalStackClusterList_mem option \<Rightarrow> ('x cell heap, 'x
        MetalStackClusterList_mem option) go" where
  "MetalStackClusterList_DeepCopy F = new_copy (MetalStackClusterList_DeepCopyInto F)"

subsection \<open>MetalStackMachine\<close>

definition MetalStackMachineSpec_DeepCopyInto ::
    "MetalStackMachineSpec \<Rightarrow> ('c heap, MetalStackMachineSpec) go" where
  "MetalStackMachineSpec_DeepCopyInto inp = ret inp"

definition MetalStackMachineSpec_DeepCopy ::
    "MetalStackMachineSpec option \<Rightarrow> ('c heap, MetalStackMachineSpec option) go" where
  "MetalStackMachineSpec_DeepCopy = new_copy MetalStackMachineSpec_DeepCopyInto"

definition MetalStackMachineInitializationStatus_DeepCopyInto ::
    "MetalStackMachineInitializationStatus_mem \<Rightarrow> ('x cell heap,
        MetalStackMachineInitializationStatus_mem) go" where
  "MetalStackMachineInitializationStatus_DeepCopyInto inp =
     (let out = inp in
     bnd (copy_pointer (BoolCell False) (Provisioned_m inp)) (\<lambda>p.
     let out = out\<lparr>Provisioned_m := p\<rparr> in
     ret out))"

definition MetalStackMachineInitializationStatus_DeepCopy ::
    "MetalStackMachineInitializationStatus_mem option \<Rightarrow> ('x cell heap,
        MetalStackMachineInitializationStatus_mem option) go" where
  "MetalStackMachineInitializationStatus_DeepCopy = new_copy
      MetalStackMachineInitializationStatus_DeepCopyInto"

definition MetalStackMachineStatus_DeepCopyInto ::
    "'x foreign \<Rightarrow> MetalStackMachineStatus_mem \<Rightarrow> ('x cell heap,
        MetalStackMachineStatus_mem) go" where
  "MetalStackMachineStatus_DeepCopyInto F inp =
     (let out = inp in
     bnd (MetalStackMachineInitializationStatus_DeepCopyInto (mmt_Initialization inp)) (\<lambda>p.
     let out = out\<lparr>mmt_Initialization := p\<rparr> in
     bnd (copy_pointer (StringCell []) (mmt_FailureReason inp)) (\<lambda>p.
     let out = out\<lparr>mmt_FailureReason := p\<rparr> in
     bnd (copy_pointer (StringCell []) (mmt_FailureMessage inp)) (\<lambda>p.
     let out = out\<lparr>mmt_FailureMessage := p\<rparr> in
     bnd (copy_conditions F (mmt_Conditions inp)) (\<lambda>p.
     let out = out\<lparr>mmt_Conditions := p\<rparr> in
     bnd (copy_array addresses_in AddressesCell no_address (mmt_Addresses inp)) (\<lambda>p.
     let out = out\<lparr>mmt_Addresses := p\<rparr> in
     ret out))))))"

definition MetalStackMachineStatus_DeepCopy ::
    "'x foreign \<Rightarrow> MetalStackMachineStatus_mem option \<Rightarrow> ('x cell heap,
        MetalStackMachineStatus_mem option) go" where
  "MetalStackMachineStatus_DeepCopy F = new_copy (MetalStackMachineStatus_DeepCopyInto F)"

definition MetalStackMachine_DeepCopyInto ::
    "'x foreign \<Rightarrow> 'x MetalStackMachine_mem \<Rightarrow> ('x cell heap, 'x MetalStackMachine_mem) go" where
  "MetalStackMachine_DeepCopyInto F inp =
     (let out = inp\<lparr>mm_TypeMeta := mm_TypeMeta inp, mm_Spec := mm_Spec inp\<rparr> in
     bnd (ObjectMeta_DeepCopyInto F (mm_ObjectMeta inp)) (\<lambda>p.
     let out = out\<lparr>mm_ObjectMeta := p\<rparr> in
     bnd (MetalStackMachineStatus_DeepCopyInto F (mm_Status inp)) (\<lambda>p.
     let out = out\<lparr>mm_Status := p\<rparr> in
     ret out)))"

definition MetalStackMachine_DeepCopy ::
    "'x foreign \<Rightarrow> 'x MetalStackMachine_mem option \<Rightarrow> ('x cell heap, 'x
        MetalStackMachine_mem option) go" where
  "MetalStackMachine_DeepCopy F = new_copy (MetalStackMachine_DeepCopyInto F)"

definition MetalStackMachine_zero :: "'x foreign \<Rightarrow> 'x MetalStackMachine_mem" where
  "MetalStackMachine_zero F = \<lparr>mm_TypeMeta = no_type, mm_ObjectMeta = ObjectMeta_zero F,
     mm_Spec = \<lparr>ProviderID = [], Image = [], Size = []\<rparr>,
     mm_Status = \<lparr>mmt_Ready = False, mmt_Initialization = \<lparr>Provisioned_m = None\<rparr>,
       mmt_FailureReason = None, mmt_FailureMessage = None, mmt_Conditions = None,
       mmt_Addresses = None\<rparr>\<rparr>"

definition MetalStackMachineList_DeepCopyInto ::
    "'x foreign \<Rightarrow> 'x MetalStackMachineList_mem \<Rightarrow> ('x cell heap, 'x
        MetalStackMachineList_mem) go" where
  "MetalStackMachineList_DeepCopyInto F inp =
     (let out = inp\<lparr>mml_TypeMeta := mml_TypeMeta inp\<rparr> in
     bnd (ListMeta_DeepCopyInto F (mml_ListMeta inp)) (\<lambda>p.
     let out = out\<lparr>mml_ListMeta := p\<rparr> in
     bnd (copy_slice machines_in MachinesCell (MetalStackMachine_zero F)
       (MetalStackMachine_DeepCopyInto F) (mml_Items inp)) (\<lambda>p.
     let out = out\<lparr>mml_Items := p\<rparr> in
     ret out)))"

definition MetalStackMachineList_DeepCopy ::
    "'x foreign \<Rightarrow> 'x MetalStackMachineList_mem option \<Rightarrow> ('x cell heap, 'x
        MetalStackMachineList_mem option) go" where
  "MetalStackMachineList_DeepCopy F = new_copy (MetalStackMachineList_DeepCopyInto F)"

subsection \<open>MetalStackMachineTemplate\<close>

definition MetalStackMachineTemplateSpec_DeepCopyInto ::
    "'x foreign \<Rightarrow> 'x MetalStackMachineTemplateSpec_mem \<Rightarrow> ('x cell heap, 'x
        MetalStackMachineTemplateSpec_mem) go" where
  "MetalStackMachineTemplateSpec_DeepCopyInto F inp =
     (let out = inp in
     bnd (MetalStackMachine_DeepCopyInto F (mts_Template inp)) (\<lambda>p.
     let out = out\<lparr>mts_Template := p\<rparr> in
     ret out))"

definition MetalStackMachineTemplateSpec_DeepCopy ::
    "'x foreign \<Rightarrow> 'x MetalStackMachineTemplateSpec_mem option \<Rightarrow> ('x cell heap, 'x
        MetalStackMachineTemplateSpec_mem option) go" where
  "MetalStackMachineTemplateSpec_DeepCopy F = new_copy (MetalStackMachineTemplateSpec_DeepCopyInto F)"

definition MetalStackMachineTemplate_DeepCopyInto ::
    "'x foreign \<Rightarrow> 'x MetalStackMachineTemplate_mem \<Rightarrow> ('x cell heap, 'x
        MetalStackMachineTemplate_mem) go" where
  "MetalStackMachineTemplate_DeepCopyInto F inp =
     (let out = inp\<lparr>mmtp_TypeMeta := mmtp_TypeMeta inp\<rparr> in
     bnd (ObjectMeta_DeepCopyInto F (mmtp_ObjectMeta inp)) (\<lambda>p.
     let out = out\<lparr>mmtp_ObjectMeta := p\<rparr> in
     bnd (MetalStackMachineTemplateSpec_DeepCopyInto F (mmtp_Spec inp)) (\<lambda>p.
     let out = out\<lparr>mmtp_Spec := p\<rparr> in
     ret out)))"

definition MetalStackMachineTemplate_DeepCopy ::
    "'x foreign \<Rightarrow> 'x MetalStackMachineTemplate_mem option \<Rightarrow> ('x cell heap, 'x
        MetalStackMachineTemplate_mem option) go" where
  "MetalStackMachineTemplate_DeepCopy F = new_copy (MetalStackMachineTemplate_DeepCopyInto F)"

definition MetalStackMachineTemplate_zero :: "'x foreign \<Rightarrow> 'x MetalStackMachineTemplate_mem" where
  "MetalStackMachineTemplate_zero F = \<lparr>mmtp_TypeMeta = no_type, mmtp_ObjectMeta = ObjectMeta_zero F,
     mmtp_Spec = \<lparr>mts_Template = MetalStackMachine_zero F\<rparr>\<rparr>"

definition MetalStackMachineTemplateList_DeepCopyInto ::
    "'x foreign \<Rightarrow> 'x MetalStackMachineTemplateList_mem \<Rightarrow> ('x cell heap, 'x
        MetalStackMachineTemplateList_mem) go" where
  "MetalStackMachineTemplateList_DeepCopyInto F inp =
     (let out = inp\<lparr>mmtl_TypeMeta := mmtl_TypeMeta inp\<rparr> in
     bnd (ListMeta_DeepCopyInto F (mmtl_ListMeta inp)) (\<lambda>p.
     let out = out\<lparr>mmtl_ListMeta := p\<rparr> in
     bnd (copy_slice machine_templates_in MachineTemplatesCell (MetalStackMachineTemplate_zero F)
       (MetalStackMachineTemplate_DeepCopyInto F) (mmtl_Items inp)) (\<lambda>p.
     let out = out\<lparr>mmtl_Items := p\<rparr> in
     ret out)))"

definition MetalStackMachineTemplateList_DeepCopy ::
    "'x foreign \<Rightarrow> 'x MetalStackMachineTemplateList_mem option \<Rightarrow> ('x cell heap, 'x
        MetalStackMachineTemplateList_mem option) go" where
  "MetalStackMachineTemplateList_DeepCopy F = new_copy (MetalStackMachineTemplateList_DeepCopyInto F)"

definition MetalStackMachineTemplateResource_DeepCopyInto ::
    "MetalStackMachineTemplateResource \<Rightarrow> ('c heap, MetalStackMachineTemplateResource) go" where
  "MetalStackMachineTemplateResource_DeepCopyInto inp = ret (inp\<lparr>mtr_Spec := mtr_Spec inp\<rparr>)"

definition MetalStackMachineTemplateResource_DeepCopy ::
    "MetalStackMachineTemplateResource option \<Rightarrow> ('c heap, MetalStackMachineTemplateResource
        option) go" where
  "MetalStackMachineTemplateResource_DeepCopy = new_copy MetalStackMachineTemplateResource_DeepCopyInto"

subsection \<open>MetalStackFirewallDeployment\<close>

definition MetalStackFirewallAutoUpdate_DeepCopyInto ::
    "MetalStackFirewallAutoUpdate \<Rightarrow> ('c heap, MetalStackFirewallAutoUpdate) go" where
  "MetalStackFirewallAutoUpdate_DeepCopyInto inp = ret inp"

definition MetalStackFirewallAutoUpdate_DeepCopy ::
    "MetalStackFirewallAutoUpdate option \<Rightarrow> ('c heap, MetalStackFirewallAutoUpdate option) go" where
  "MetalStackFirewallAutoUpdate_DeepCopy = new_copy MetalStackFirewallAutoUpdate_DeepCopyInto"

definition MetalStackManagedResourceRef_DeepCopyInto ::
    "MetalStackManagedResourceRef \<Rightarrow> ('c heap, MetalStackManagedResourceRef) go" where
  "MetalStackManagedResourceRef_DeepCopyInto inp = ret inp"

definition MetalStackManagedResourceRef_DeepCopy ::
    "MetalStackManagedResourceRef option \<Rightarrow> ('c heap, MetalStackManagedResourceRef option) go" where
  "MetalStackManagedResourceRef_DeepCopy = new_copy MetalStackManagedResourceRef_DeepCopyInto"

definition MetalStackFirewallTemplateRef_DeepCopyInto ::
    "MetalStackFirewallTemplateRef \<Rightarrow> ('c heap, MetalStackFirewallTemplateRef) go" where
  "MetalStackFirewallTemplateRef_DeepCopyInto inp = ret inp"

definition MetalStackFirewallTemplateRef_DeepCopy ::
    "MetalStackFirewallTemplateRef option \<Rightarrow> ('c heap, MetalStackFirewallTemplateRef option) go"
        where
  "MetalStackFirewallTemplateRef_DeepCopy = new_copy MetalStackFirewallTemplateRef_DeepCopyInto"

definition MetalStackFirewallDeploymentInitializationStatus_DeepCopyInto ::
    "MetalStackFirewallDeploymentInitializationStatus_mem \<Rightarrow> ('x cell heap,
        MetalStackFirewallDeploymentInitializationStatus_mem) go" where
  "MetalStackFirewallDeploymentInitializationStatus_DeepCopyInto inp =
     (let out = inp in
     bnd (copy_pointer (BoolCell False) (Provisioned_d inp)) (\<lambda>p.
     let out = out\<lparr>Provisioned_d := p\<rparr> in
     ret out))"

definition MetalStackFirewallDeploymentInitializationStatus_DeepCopy ::
    "MetalStackFirewallDeploymentInitializationStatus_mem option \<Rightarrow> ('x cell heap,
        MetalStackFirewallDeploymentInitializationStatus_mem option) go" where
  "MetalStackFirewallDeploymentInitializationStatus_DeepCopy = new_copy
      MetalStackFirewallDeploymentInitializationStatus_DeepCopyInto"

definition MetalStackFirewallDeploymentSpec_DeepCopyInto ::
    "MetalStackFirewallDeploymentSpec_mem \<Rightarrow> ('x cell heap, MetalStackFirewallDeploymentSpec_mem)
        go" where
  "MetalStackFirewallDeploymentSpec_DeepCopyInto inp =
     (let out = inp\<lparr>mds_FirewallTemplateRef := mds_FirewallTemplateRef inp\<rparr> in
     bnd (copy_pointer (ManagedResourceRefCell \<lparr>mrrName = []\<rparr>) (mds_ManagedResourceRef inp)) (\<lambda>p.
     let out = out\<lparr>mds_ManagedResourceRef := p\<rparr> in
     bnd (copy_pointer (AutoUpdateCell \<lparr>MachineImage = False\<rparr>) (mds_AutoUpdate inp)) (\<lambda>p.
     let out = out\<lparr>mds_AutoUpdate := p\<rparr> in
     ret out)))"

definition MetalStackFirewallDeploymentSpec_DeepCopy ::
    "MetalStackFirewallDeploymentSpec_mem option \<Rightarrow> ('x cell heap,
        MetalStackFirewallDeploymentSpec_mem option) go" where
  "MetalStackFirewallDeploymentSpec_DeepCopy = new_copy MetalStackFirewallDeploymentSpec_DeepCopyInto"

definition MetalStackFirewallDeploymentStatus_DeepCopyInto ::
    "'x foreign \<Rightarrow> MetalStackFirewallDeploymentStatus_mem \<Rightarrow> ('x cell heap,
        MetalStackFirewallDeploymentStatus_mem) go" where
  "MetalStackFirewallDeploymentStatus_DeepCopyInto F inp =
     (let out = inp in
     bnd (MetalStackClusterInitializationStatus_DeepCopyInto (mdt_Initialization inp)) (\<lambda>p.
     let out = out\<lparr>mdt_Initialization := p\<rparr> in
     bnd (copy_conditions F (mdt_Conditions inp)) (\<lambda>p.
     let out = out\<lparr>mdt_Conditions := p\<rparr> in
     ret out)))"

definition MetalStackFirewallDeploymentStatus_DeepCopy ::
    "'x foreign \<Rightarrow> MetalStackFirewallDeploymentStatus_mem option \<Rightarrow> ('x cell heap,
        MetalStackFirewallDeploymentStatus_mem option) go" where
  "MetalStackFirewallDeploymentStatus_DeepCopy F = new_copy (MetalStackFirewallDeploymentStatus_DeepCopyInto
      F)"

definition MetalStackFirewallDeployment_DeepCopyInto ::
    "'x foreign \<Rightarrow> 'x MetalStackFirewallDeployment_mem \<Rightarrow> ('x cell heap, 'x
        MetalStackFirewallDeployment_mem) go" where
  "MetalStackFirewallDeployment_DeepCopyInto F inp =
     (let out = inp\<lparr>md_TypeMeta := md_TypeMeta inp\<rparr> in
     bnd (ObjectMeta_DeepCopyInto F (md_ObjectMeta inp)) (\<lambda>p.
     let out = out\<lparr>md_ObjectMeta := p\<rparr> in
     bnd (MetalStackFirewallDeploymentSpec_DeepCopyInto (md_Spec inp)) (\<lambda>p.
     let out = out\<lparr>md_Spec := p\<rparr> in
     bnd (MetalStackFirewallDeploymentStatus_DeepCopyInto F (md_Status inp)) (\<lambda>p.
     let out = out\<lparr>md_Status := p\<rparr> in
     ret out))))"

definition MetalStackFirewallDeployment_DeepCopy ::
    "'x foreign \<Rightarrow> 'x MetalStackFirewallDeployment_mem option \<Rightarrow> ('x cell heap, 'x
        MetalStackFirewallDeployment_mem option) go" where
  "MetalStackFirewallDeployment_DeepCopy F = new_copy (MetalStackFirewallDeployment_DeepCopyInto F)"

definition MetalStackFirewallDeployment_zero :: "'x foreign \<Rightarrow> 'x
    MetalStackFirewallDeployment_mem" where
  "MetalStackFirewallDeployment_zero F = \<lparr>md_TypeMeta = no_type, md_ObjectMeta = ObjectMeta_zero F,
     md_Spec = \<lparr>mds_FirewallTemplateRef = \<lparr>ftrName = []\<rparr>, mds_ManagedResourceRef = None,
       mds_AutoUpdate = None\<rparr>,
     md_Status = \<lparr>mdt_Ready = False, mdt_Initialization = \<lparr>Provisioned_p = None\<rparr>,
       mdt_Conditions = None\<rparr>\<rparr>"

definition MetalStackFirewallDeploymentList_DeepCopyInto ::
    "'x foreign \<Rightarrow> 'x MetalStackFirewallDeploymentList_mem \<Rightarrow> ('x cell heap, 'x
        MetalStackFirewallDeploymentList_mem) go" where
  "MetalStackFirewallDeploymentList_DeepCopyInto F inp =
     (let out = inp\<lparr>mdl_TypeMeta := mdl_TypeMeta inp\<rparr> in
     bnd (ListMeta_DeepCopyInto F (mdl_ListMeta inp)) (\<lambda>p.
     let out = out\<lparr>mdl_ListMeta := p\<rparr> in
     bnd (copy_slice deployments_in DeploymentsCell (MetalStackFirewallDeployment_zero F)
       (MetalStackFirewallDeployment_DeepCopyInto F) (mdl_Items inp)) (\<lambda>p.
     let out = out\<lparr>mdl_Items := p\<rparr> in
     ret out)))"

definition MetalStackFirewallDeploymentList_DeepCopy ::
    "'x foreign \<Rightarrow> 'x MetalStackFirewallDeploymentList_mem option \<Rightarrow> ('x cell heap, 'x
        MetalStackFirewallDeploymentList_mem option) go" where
  "MetalStackFirewallDeploymentList_DeepCopy F = new_copy (MetalStackFirewallDeploymentList_DeepCopyInto F)"

subsection \<open>MetalStackFirewallTemplate\<close>

definition MetalStackFirewallTemplate_DeepCopyInto ::
    "'x foreign \<Rightarrow> 'x MetalStackFirewallTemplate_mem \<Rightarrow> ('x cell heap, 'x
        MetalStackFirewallTemplate_mem) go" where
  "MetalStackFirewallTemplate_DeepCopyInto F inp =
     (let out = inp\<lparr>mt_TypeMeta := mt_TypeMeta inp\<rparr> in
     bnd (ObjectMeta_DeepCopyInto F (mt_ObjectMeta inp)) (\<lambda>p.
     let out = out\<lparr>mt_ObjectMeta := p\<rparr> in
     bnd (FirewallSpec_DeepCopyInto F (mt_Spec inp)) (\<lambda>p.
     let out = out\<lparr>mt_Spec := p\<rparr> in
     ret out)))"

definition MetalStackFirewallTemplate_DeepCopy ::
    "'x foreign \<Rightarrow> 'x MetalStackFirewallTemplate_mem option \<Rightarrow> ('x cell heap, 'x
        MetalStackFirewallTemplate_mem option) go" where
  "MetalStackFirewallTemplate_DeepCopy F = new_copy (MetalStackFirewallTemplate_DeepCopyInto F)"

definition MetalStackFirewallTemplate_zero :: "'x foreign \<Rightarrow> 'x MetalStackFirewallTemplate_mem" where
  "MetalStackFirewallTemplate_zero F = \<lparr>mt_TypeMeta = no_type, mt_ObjectMeta = ObjectMeta_zero F,
     mt_Spec = FirewallSpec_zero F\<rparr>"

definition MetalStackFirewallTemplateList_DeepCopyInto ::
    "'x foreign \<Rightarrow> 'x MetalStackFirewallTemplateList_mem \<Rightarrow> ('x cell heap, 'x
        MetalStackFirewallTemplateList_mem) go" where
  "MetalStackFirewallTemplateList_DeepCopyInto F inp =
     (let out = inp\<lparr>mtl_TypeMeta := mtl_TypeMeta inp\<rparr> in
     bnd (ListMeta_DeepCopyInto F (mtl_ListMeta inp)) (\<lambda>p.
     let out = out\<lparr>mtl_ListMeta := p\<rparr> in
     bnd (copy_slice templates_in TemplatesCell (MetalStackFirewallTemplate_zero F)
       (MetalStackFirewallTemplate_DeepCopyInto F) (mtl_Items inp)) (\<lambda>p.
     let out = out\<lparr>mtl_Items := p\<rparr> in
     ret out)))"

definition MetalStackFirewallTemplateList_DeepCopy ::
    "'x foreign \<Rightarrow> 'x MetalStackFirewallTemplateList_mem option \<Rightarrow> ('x cell heap, 'x
        MetalStackFirewallTemplateList_mem option) go" where
  "MetalStackFirewallTemplateList_DeepCopy F = new_copy (MetalStackFirewallTemplateList_DeepCopyInto F)"

section \<open>Copies as objects\<close>

text \<open>The interface \<open>runtime.Object\<close> holds one of the ten kinds the program registers, or nothing.\<close>

datatype 'x runtime_object =

    Object_MetalStackCluster "'x MetalStackCluster_mem"
  | Object_MetalStackClusterList "'x MetalStackClusterList_mem"
  | Object_MetalStackFirewallDeployment "'x MetalStackFirewallDeployment_mem"
  | Object_MetalStackFirewallDeploymentList "'x MetalStackFirewallDeploymentList_mem"
  | Object_MetalStackFirewallTemplate "'x MetalStackFirewallTemplate_mem"
  | Object_MetalStackFirewallTemplateList "'x MetalStackFirewallTemplateList_mem"
  | Object_MetalStackMachine "'x MetalStackMachine_mem"
  | Object_MetalStackMachineList "'x MetalStackMachineList_mem"
  | Object_MetalStackMachineTemplate "'x MetalStackMachineTemplate_mem"
  | Object_MetalStackMachineTemplateList "'x MetalStackMachineTemplateList_mem"
text \<open>A nil pointer becomes the nil interface, not an interface that holds a nil pointer.\<close>

definition as_object :: "('v \<Rightarrow> 'x runtime_object) \<Rightarrow> 'v option \<Rightarrow> 'x runtime_object option" where
  "as_object obj c = (case c of Some d \<Rightarrow> Some (obj d) | None \<Rightarrow> None)"

definition MetalStackCluster_DeepCopyObject ::
    "'x foreign \<Rightarrow> 'x MetalStackCluster_mem option \<Rightarrow> ('x cell heap, 'x runtime_object
        option) go" where
  "MetalStackCluster_DeepCopyObject F p =
     bnd (MetalStackCluster_DeepCopy F p) (\<lambda>c. ret (as_object Object_MetalStackCluster c))"

definition MetalStackClusterList_DeepCopyObject ::
    "'x foreign \<Rightarrow> 'x MetalStackClusterList_mem option \<Rightarrow> ('x cell heap, 'x
        runtime_object option) go" where
  "MetalStackClusterList_DeepCopyObject F p =
     bnd (MetalStackClusterList_DeepCopy F p) (\<lambda>c. ret (as_object Object_MetalStackClusterList c))"

definition MetalStackFirewallDeployment_DeepCopyObject ::
    "'x foreign \<Rightarrow> 'x MetalStackFirewallDeployment_mem option \<Rightarrow> ('x cell heap, 'x
        runtime_object option) go" where
  "MetalStackFirewallDeployment_DeepCopyObject F p =
     bnd (MetalStackFirewallDeployment_DeepCopy F p) (\<lambda>c. ret (as_object
         Object_MetalStackFirewallDeployment c))"

definition MetalStackFirewallDeploymentList_DeepCopyObject ::
    "'x foreign \<Rightarrow> 'x MetalStackFirewallDeploymentList_mem option \<Rightarrow> ('x cell heap, 'x
        runtime_object option) go" where
  "MetalStackFirewallDeploymentList_DeepCopyObject F p =
     bnd (MetalStackFirewallDeploymentList_DeepCopy F p) (\<lambda>c. ret (as_object
         Object_MetalStackFirewallDeploymentList c))"

definition MetalStackFirewallTemplate_DeepCopyObject ::
    "'x foreign \<Rightarrow> 'x MetalStackFirewallTemplate_mem option \<Rightarrow> ('x cell heap, 'x
        runtime_object option) go" where
  "MetalStackFirewallTemplate_DeepCopyObject F p =
     bnd (MetalStackFirewallTemplate_DeepCopy F p) (\<lambda>c. ret (as_object
         Object_MetalStackFirewallTemplate c))"

definition MetalStackFirewallTemplateList_DeepCopyObject ::
    "'x foreign \<Rightarrow> 'x MetalStackFirewallTemplateList_mem option \<Rightarrow> ('x cell heap, 'x
        runtime_object option) go" where
  "MetalStackFirewallTemplateList_DeepCopyObject F p =
     bnd (MetalStackFirewallTemplateList_DeepCopy F p) (\<lambda>c. ret (as_object
         Object_MetalStackFirewallTemplateList c))"

definition MetalStackMachine_DeepCopyObject ::
    "'x foreign \<Rightarrow> 'x MetalStackMachine_mem option \<Rightarrow> ('x cell heap, 'x runtime_object
        option) go" where
  "MetalStackMachine_DeepCopyObject F p =
     bnd (MetalStackMachine_DeepCopy F p) (\<lambda>c. ret (as_object Object_MetalStackMachine c))"

definition MetalStackMachineList_DeepCopyObject ::
    "'x foreign \<Rightarrow> 'x MetalStackMachineList_mem option \<Rightarrow> ('x cell heap, 'x
        runtime_object option) go" where
  "MetalStackMachineList_DeepCopyObject F p =
     bnd (MetalStackMachineList_DeepCopy F p) (\<lambda>c. ret (as_object Object_MetalStackMachineList c))"

definition MetalStackMachineTemplate_DeepCopyObject ::
    "'x foreign \<Rightarrow> 'x MetalStackMachineTemplate_mem option \<Rightarrow> ('x cell heap, 'x
        runtime_object option) go" where
  "MetalStackMachineTemplate_DeepCopyObject F p =
     bnd (MetalStackMachineTemplate_DeepCopy F p) (\<lambda>c. ret (as_object
         Object_MetalStackMachineTemplate c))"

definition MetalStackMachineTemplateList_DeepCopyObject ::
    "'x foreign \<Rightarrow> 'x MetalStackMachineTemplateList_mem option \<Rightarrow> ('x cell heap, 'x
        runtime_object option) go" where
  "MetalStackMachineTemplateList_DeepCopyObject F p =
     bnd (MetalStackMachineTemplateList_DeepCopy F p) (\<lambda>c. ret (as_object
         Object_MetalStackMachineTemplateList c))"

end
