(* ===== verification/DeepCopyProperties.thy ===== *)
theory DeepCopyProperties
  imports DeepCopy Examples
begin

text \<open>
  The generated copies keep the contract \<open>deep_copies\<close>: a copy stands for the same value, and
  what it points to is new. The layout of a type lists its fields with pointers in the order
  they are copied, and builds the value of \<open>Types\<close> it stands for; a nil slice stands for no
  elements. The contract of a type follows from those of its parts.
\<close>

section \<open>Layouts and contracts\<close>

lemma foreign_copies:
  assumes "foreign_laws F"
  shows "deep_copies (ObjectMeta_layout F) (ObjectMeta_DeepCopyInto F)"
    and "deep_copies (ListMeta_layout F) (ListMeta_DeepCopyInto F)"
    and "deep_copies (FirewallSpec_layout F) (FirewallSpec_DeepCopyInto F)"
    and "deep_copies plain (Condition_DeepCopyInto F)"
  using assms by (simp_all add: foreign_laws_def)

definition conditions_layout :: "('x cell, addr option, Condition list option) layout" where
  "conditions_layout = slice conditions_in plain"

lemma copy_conditions_deep:
  "foreign_laws F \<Longrightarrow> deep_copies conditions_layout (copy_conditions F)"
  unfolding conditions_layout_def copy_conditions_def
  by (intro deep_copies_slice foreign_copies) simp_all

definition items_of :: "'a list option \<Rightarrow> 'a list" where
  "items_of xs = (case xs of None \<Rightarrow> [] | Some ys \<Rightarrow> ys)"

lemmas part_copies =
  deep_copies_both deep_copies_pointer deep_copies_plain foreign_copies copy_conditions_deep

lemmas copy_unfolds = Let_def copy_both_def bnd_assoc

definition MetalStackClusterInitializationStatus_layout :: "('x cell,
    MetalStackClusterInitializationStatus_mem, MetalStackClusterInitializationStatus) layout" where
  "MetalStackClusterInitializationStatus_layout = struct (\<lambda>s. Provisioned_p s)
     (\<lambda>s a. \<lparr>Provisioned = a\<rparr>)
     (pointer bool_in)"

lemma MetalStackClusterInitializationStatus_deep:
  "deep_copies MetalStackClusterInitializationStatus_layout
      MetalStackClusterInitializationStatus_DeepCopyInto"
  unfolding MetalStackClusterInitializationStatus_layout_def
  by (rule deep_copies_struct [where f = "copy_pointer (BoolCell False)"
       and put = "\<lambda>s a. s\<lparr>Provisioned_p := a\<rparr>"],
      (intro part_copies; simp))
    (simp_all add: MetalStackClusterInitializationStatus_DeepCopyInto_def copy_unfolds case_prod_beta)

definition MetalStackClusterSpec_layout :: "('x cell, MetalStackClusterSpec_mem, MetalStackClusterSpec)
    layout" where
  "MetalStackClusterSpec_layout = struct (\<lambda>s. (mcs_NodeNetworkID s, mcs_ControlPlaneIP s,
      mcs_FirewallDeploymentRef s))
     (\<lambda>s (a, b, c). \<lparr>ControlPlaneEndpoint = mcs_ControlPlaneEndpoint s, ProjectID = mcs_ProjectID s,
       NodeNetworkID = a, ControlPlaneIP = b, Partition = mcs_Partition s, FirewallDeploymentRef =
           c\<rparr>)
     (both (pointer string_in) (both (pointer string_in) (pointer deployment_ref_in)))"

lemma MetalStackClusterSpec_deep:
  "deep_copies MetalStackClusterSpec_layout MetalStackClusterSpec_DeepCopyInto"
  unfolding MetalStackClusterSpec_layout_def
  by (rule deep_copies_struct [where f = "copy_both (copy_pointer (StringCell [])) (copy_both (copy_pointer
      (StringCell [])) (copy_pointer (DeploymentRefCell \<lparr>fdrName = []\<rparr>)))"
       and put = "\<lambda>s (a, b, c). s\<lparr>mcs_NodeNetworkID := a, mcs_ControlPlaneIP := b,
           mcs_FirewallDeploymentRef := c\<rparr>"],
      (intro part_copies; simp))
    (simp_all add: MetalStackClusterSpec_DeepCopyInto_def copy_unfolds case_prod_beta)

definition MetalStackClusterStatus_layout :: "('x cell, MetalStackClusterStatus_mem,
    MetalStackClusterStatus) layout" where
  "MetalStackClusterStatus_layout = struct (\<lambda>s. (mct_Initialization s, mct_FailureReason s,
      mct_FailureMessage s, mct_Conditions s))
     (\<lambda>s (a, b, c, d). \<lparr>mscs_Ready = mct_Ready s, mscs_Initialization = a, mscs_FailureReason = b,
       mscs_FailureMessage = c, mscs_Conditions = items_of d\<rparr>)
     (both MetalStackClusterInitializationStatus_layout (both (pointer string_in) (both (pointer string_in)
         conditions_layout)))"

lemma MetalStackClusterStatus_deep:
  "foreign_laws F \<Longrightarrow> deep_copies MetalStackClusterStatus_layout
      (MetalStackClusterStatus_DeepCopyInto F)"
  unfolding MetalStackClusterStatus_layout_def
  by (rule deep_copies_struct [where f = "copy_both MetalStackClusterInitializationStatus_DeepCopyInto
      (copy_both (copy_pointer (StringCell [])) (copy_both (copy_pointer (StringCell [])) (copy_conditions
      F)))"
       and put = "\<lambda>s (a, b, c, d). s\<lparr>mct_Initialization := a, mct_FailureReason := b,
           mct_FailureMessage := c, mct_Conditions := d\<rparr>"],
      (intro part_copies MetalStackClusterInitializationStatus_deep; simp))
    (simp_all add: MetalStackClusterStatus_DeepCopyInto_def copy_unfolds case_prod_beta)

definition MetalStackCluster_layout :: "'x foreign \<Rightarrow> ('x cell, 'x MetalStackCluster_mem,
    TypeMeta \<times> MetalStackCluster) layout" where
  "MetalStackCluster_layout F = struct (\<lambda>s. (mc_ObjectMeta s, mc_Spec s, mc_Status s))
     (\<lambda>s (a, b, c). (mc_TypeMeta s, \<lparr>msc_ObjectMeta = a, msc_Spec = b, msc_Status = c\<rparr>))
     (both (ObjectMeta_layout F) (both MetalStackClusterSpec_layout MetalStackClusterStatus_layout))"

lemma MetalStackCluster_deep:
  "foreign_laws F \<Longrightarrow> deep_copies (MetalStackCluster_layout F) (MetalStackCluster_DeepCopyInto
      F)"
  unfolding MetalStackCluster_layout_def
  by (rule deep_copies_struct [where f = "copy_both (ObjectMeta_DeepCopyInto F) (copy_both
      MetalStackClusterSpec_DeepCopyInto (MetalStackClusterStatus_DeepCopyInto F))"
       and put = "\<lambda>s (a, b, c). s\<lparr>mc_ObjectMeta := a, mc_Spec := b, mc_Status := c\<rparr>"],
      (intro part_copies MetalStackClusterSpec_deep MetalStackClusterStatus_deep; simp))
    (simp_all add: MetalStackCluster_DeepCopyInto_def copy_unfolds case_prod_beta)

definition MetalStackClusterList_layout :: "'x foreign \<Rightarrow> ('x cell, 'x MetalStackClusterList_mem,
    TypeMeta \<times> ListMeta \<times> (TypeMeta \<times> MetalStackCluster) list option) layout" where
  "MetalStackClusterList_layout F = struct (\<lambda>s. (mcl_ListMeta s, mcl_Items s))
     (\<lambda>s (a, b). (mcl_TypeMeta s, a, b))
     (both (ListMeta_layout F) (slice clusters_in (MetalStackCluster_layout F)))"

lemma MetalStackClusterList_deep:
  "foreign_laws F \<Longrightarrow> deep_copies (MetalStackClusterList_layout F)
      (MetalStackClusterList_DeepCopyInto F)"
  unfolding MetalStackClusterList_layout_def
  by (rule deep_copies_struct [where f = "copy_both (ListMeta_DeepCopyInto F) (copy_slice clusters_in
      ClustersCell (MetalStackCluster_zero F) (MetalStackCluster_DeepCopyInto F))"
       and put = "\<lambda>s (a, b). s\<lparr>mcl_ListMeta := a, mcl_Items := b\<rparr>"],
      (intro part_copies MetalStackCluster_deep deep_copies_slice; simp))
    (simp_all add: MetalStackClusterList_DeepCopyInto_def copy_unfolds case_prod_beta)

definition MetalStackMachineInitializationStatus_layout :: "('x cell,
    MetalStackMachineInitializationStatus_mem, MetalStackMachineInitializationStatus) layout" where
  "MetalStackMachineInitializationStatus_layout = struct (\<lambda>s. Provisioned_m s)
     (\<lambda>s a. \<lparr>msmi_Provisioned = a\<rparr>)
     (pointer bool_in)"

lemma MetalStackMachineInitializationStatus_deep:
  "deep_copies MetalStackMachineInitializationStatus_layout
      MetalStackMachineInitializationStatus_DeepCopyInto"
  unfolding MetalStackMachineInitializationStatus_layout_def
  by (rule deep_copies_struct [where f = "copy_pointer (BoolCell False)"
       and put = "\<lambda>s a. s\<lparr>Provisioned_m := a\<rparr>"],
      (intro part_copies; simp))
    (simp_all add: MetalStackMachineInitializationStatus_DeepCopyInto_def copy_unfolds case_prod_beta)

definition MetalStackMachineStatus_layout :: "('x cell, MetalStackMachineStatus_mem,
    MetalStackMachineStatus) layout" where
  "MetalStackMachineStatus_layout = struct (\<lambda>s. (mmt_Initialization s, mmt_FailureReason s,
      mmt_FailureMessage s, mmt_Conditions s, mmt_Addresses s))
     (\<lambda>s (a, b, c, d, e). \<lparr>msms_Ready = mmt_Ready s, msms_Initialization = a,
         msms_FailureReason = b,
       msms_FailureMessage = c, msms_Conditions = items_of d, msms_Addresses = items_of e\<rparr>)
     (both MetalStackMachineInitializationStatus_layout (both (pointer string_in) (both (pointer string_in)
         (both conditions_layout (slice addresses_in plain)))))"

lemma MetalStackMachineStatus_deep:
  "foreign_laws F \<Longrightarrow> deep_copies MetalStackMachineStatus_layout
      (MetalStackMachineStatus_DeepCopyInto F)"
  unfolding MetalStackMachineStatus_layout_def
  by (rule deep_copies_struct [where f = "copy_both MetalStackMachineInitializationStatus_DeepCopyInto
      (copy_both (copy_pointer (StringCell [])) (copy_both (copy_pointer (StringCell [])) (copy_both
      (copy_conditions F) (copy_array addresses_in AddressesCell no_address))))"
       and put = "\<lambda>s (a, b, c, d, e). s\<lparr>mmt_Initialization := a, mmt_FailureReason := b,
           mmt_FailureMessage := c, mmt_Conditions := d, mmt_Addresses := e\<rparr>"],
      (intro part_copies MetalStackMachineInitializationStatus_deep deep_copies_array; simp))
    (simp_all add: MetalStackMachineStatus_DeepCopyInto_def copy_unfolds case_prod_beta)

definition MetalStackMachine_layout :: "'x foreign \<Rightarrow> ('x cell, 'x MetalStackMachine_mem,
    TypeMeta \<times> MetalStackMachine) layout" where
  "MetalStackMachine_layout F = struct (\<lambda>s. (mm_ObjectMeta s, mm_Status s))
     (\<lambda>s (a, b). (mm_TypeMeta s, \<lparr>msm_ObjectMeta = a, msm_Spec = mm_Spec s, msm_Status = b\<rparr>))
     (both (ObjectMeta_layout F) MetalStackMachineStatus_layout)"

lemma MetalStackMachine_deep:
  "foreign_laws F \<Longrightarrow> deep_copies (MetalStackMachine_layout F) (MetalStackMachine_DeepCopyInto
      F)"
  unfolding MetalStackMachine_layout_def
  by (rule deep_copies_struct [where f = "copy_both (ObjectMeta_DeepCopyInto F)
      (MetalStackMachineStatus_DeepCopyInto F)"
       and put = "\<lambda>s (a, b). s\<lparr>mm_ObjectMeta := a, mm_Status := b\<rparr>"],
      (intro part_copies MetalStackMachineStatus_deep; simp))
    (simp_all add: MetalStackMachine_DeepCopyInto_def copy_unfolds case_prod_beta)

definition MetalStackMachineList_layout :: "'x foreign \<Rightarrow> ('x cell, 'x MetalStackMachineList_mem,
    TypeMeta \<times> ListMeta \<times> (TypeMeta \<times> MetalStackMachine) list option) layout" where
  "MetalStackMachineList_layout F = struct (\<lambda>s. (mml_ListMeta s, mml_Items s))
     (\<lambda>s (a, b). (mml_TypeMeta s, a, b))
     (both (ListMeta_layout F) (slice machines_in (MetalStackMachine_layout F)))"

lemma MetalStackMachineList_deep:
  "foreign_laws F \<Longrightarrow> deep_copies (MetalStackMachineList_layout F)
      (MetalStackMachineList_DeepCopyInto F)"
  unfolding MetalStackMachineList_layout_def
  by (rule deep_copies_struct [where f = "copy_both (ListMeta_DeepCopyInto F) (copy_slice machines_in
      MachinesCell (MetalStackMachine_zero F) (MetalStackMachine_DeepCopyInto F))"
       and put = "\<lambda>s (a, b). s\<lparr>mml_ListMeta := a, mml_Items := b\<rparr>"],
      (intro part_copies MetalStackMachine_deep deep_copies_slice; simp))
    (simp_all add: MetalStackMachineList_DeepCopyInto_def copy_unfolds case_prod_beta)

definition MetalStackMachineTemplateSpec_layout :: "'x foreign \<Rightarrow> ('x cell, 'x
    MetalStackMachineTemplateSpec_mem, TypeMeta \<times> MetalStackMachine) layout" where
  "MetalStackMachineTemplateSpec_layout F = struct (\<lambda>s. mts_Template s)
     (\<lambda>s a. a)
     (MetalStackMachine_layout F)"

lemma MetalStackMachineTemplateSpec_deep:
  "foreign_laws F \<Longrightarrow> deep_copies (MetalStackMachineTemplateSpec_layout F)
      (MetalStackMachineTemplateSpec_DeepCopyInto F)"
  unfolding MetalStackMachineTemplateSpec_layout_def
  by (rule deep_copies_struct [where f = "MetalStackMachine_DeepCopyInto F"
       and put = "\<lambda>s a. s\<lparr>mts_Template := a\<rparr>"],
      (intro part_copies MetalStackMachine_deep; simp))
    (simp_all add: MetalStackMachineTemplateSpec_DeepCopyInto_def copy_unfolds case_prod_beta)

definition MetalStackMachineTemplate_layout :: "'x foreign \<Rightarrow> ('x cell, 'x
    MetalStackMachineTemplate_mem, TypeMeta \<times> ObjectMeta \<times> TypeMeta \<times>
    MetalStackMachine) layout" where
  "MetalStackMachineTemplate_layout F = struct (\<lambda>s. (mmtp_ObjectMeta s, mmtp_Spec s))
     (\<lambda>s (a, b). (mmtp_TypeMeta s, a, b))
     (both (ObjectMeta_layout F) (MetalStackMachineTemplateSpec_layout F))"

lemma MetalStackMachineTemplate_deep:
  "foreign_laws F \<Longrightarrow> deep_copies (MetalStackMachineTemplate_layout F)
      (MetalStackMachineTemplate_DeepCopyInto F)"
  unfolding MetalStackMachineTemplate_layout_def
  by (rule deep_copies_struct [where f = "copy_both (ObjectMeta_DeepCopyInto F)
      (MetalStackMachineTemplateSpec_DeepCopyInto F)"
       and put = "\<lambda>s (a, b). s\<lparr>mmtp_ObjectMeta := a, mmtp_Spec := b\<rparr>"],
      (intro part_copies MetalStackMachineTemplateSpec_deep; simp))
    (simp_all add: MetalStackMachineTemplate_DeepCopyInto_def copy_unfolds case_prod_beta)

definition MetalStackMachineTemplateList_layout :: "'x foreign \<Rightarrow> ('x cell, 'x
    MetalStackMachineTemplateList_mem, TypeMeta \<times> ListMeta \<times> (TypeMeta \<times> ObjectMeta
    \<times> TypeMeta \<times> MetalStackMachine) list option) layout" where
  "MetalStackMachineTemplateList_layout F = struct (\<lambda>s. (mmtl_ListMeta s, mmtl_Items s))
     (\<lambda>s (a, b). (mmtl_TypeMeta s, a, b))
     (both (ListMeta_layout F) (slice machine_templates_in (MetalStackMachineTemplate_layout F)))"

lemma MetalStackMachineTemplateList_deep:
  "foreign_laws F \<Longrightarrow> deep_copies (MetalStackMachineTemplateList_layout F)
      (MetalStackMachineTemplateList_DeepCopyInto F)"
  unfolding MetalStackMachineTemplateList_layout_def
  by (rule deep_copies_struct [where f = "copy_both (ListMeta_DeepCopyInto F) (copy_slice
      machine_templates_in MachineTemplatesCell (MetalStackMachineTemplate_zero F)
      (MetalStackMachineTemplate_DeepCopyInto F))"
       and put = "\<lambda>s (a, b). s\<lparr>mmtl_ListMeta := a, mmtl_Items := b\<rparr>"],
      (intro part_copies MetalStackMachineTemplate_deep deep_copies_slice; simp))
    (simp_all add: MetalStackMachineTemplateList_DeepCopyInto_def copy_unfolds case_prod_beta)

definition MetalStackFirewallDeploymentInitializationStatus_layout :: "('x cell,
    MetalStackFirewallDeploymentInitializationStatus_mem, bool option) layout" where
  "MetalStackFirewallDeploymentInitializationStatus_layout = struct (\<lambda>s. Provisioned_d s)
     (\<lambda>s a. a)
     (pointer bool_in)"

lemma MetalStackFirewallDeploymentInitializationStatus_deep:
  "deep_copies MetalStackFirewallDeploymentInitializationStatus_layout
      MetalStackFirewallDeploymentInitializationStatus_DeepCopyInto"
  unfolding MetalStackFirewallDeploymentInitializationStatus_layout_def
  by (rule deep_copies_struct [where f = "copy_pointer (BoolCell False)"
       and put = "\<lambda>s a. s\<lparr>Provisioned_d := a\<rparr>"],
      (intro part_copies; simp))
    (simp_all add: MetalStackFirewallDeploymentInitializationStatus_DeepCopyInto_def copy_unfolds
        case_prod_beta)

definition MetalStackFirewallDeploymentSpec_layout :: "('x cell, MetalStackFirewallDeploymentSpec_mem,
    MetalStackFirewallDeploymentSpec) layout" where
  "MetalStackFirewallDeploymentSpec_layout = struct (\<lambda>s. (mds_ManagedResourceRef s, mds_AutoUpdate
      s))
     (\<lambda>s (a, b). \<lparr>FirewallTemplateRef = mds_FirewallTemplateRef s, ManagedResourceRef = a,
         AutoUpdate = b\<rparr>)
     (both (pointer managed_resource_ref_in) (pointer auto_update_in))"

lemma MetalStackFirewallDeploymentSpec_deep:
  "deep_copies MetalStackFirewallDeploymentSpec_layout MetalStackFirewallDeploymentSpec_DeepCopyInto"
  unfolding MetalStackFirewallDeploymentSpec_layout_def
  by (rule deep_copies_struct [where f = "copy_both (copy_pointer (ManagedResourceRefCell \<lparr>mrrName =
      []\<rparr>)) (copy_pointer (AutoUpdateCell \<lparr>MachineImage = False\<rparr>))"
       and put = "\<lambda>s (a, b). s\<lparr>mds_ManagedResourceRef := a, mds_AutoUpdate := b\<rparr>"],
      (intro part_copies; simp))
    (simp_all add: MetalStackFirewallDeploymentSpec_DeepCopyInto_def copy_unfolds case_prod_beta)

definition MetalStackFirewallDeploymentStatus_layout :: "('x cell, MetalStackFirewallDeploymentStatus_mem,
    MetalStackFirewallDeploymentStatus) layout" where
  "MetalStackFirewallDeploymentStatus_layout = struct (\<lambda>s. (mdt_Initialization s, mdt_Conditions s))
     (\<lambda>s (a, b). \<lparr>msfds_Ready = mdt_Ready s, msfds_Initialization = a, msfds_Conditions =
         items_of b\<rparr>)
     (both MetalStackClusterInitializationStatus_layout conditions_layout)"

lemma MetalStackFirewallDeploymentStatus_deep:
  "foreign_laws F \<Longrightarrow> deep_copies MetalStackFirewallDeploymentStatus_layout
      (MetalStackFirewallDeploymentStatus_DeepCopyInto F)"
  unfolding MetalStackFirewallDeploymentStatus_layout_def
  by (rule deep_copies_struct [where f = "copy_both MetalStackClusterInitializationStatus_DeepCopyInto
      (copy_conditions F)"
       and put = "\<lambda>s (a, b). s\<lparr>mdt_Initialization := a, mdt_Conditions := b\<rparr>"],
      (intro part_copies MetalStackClusterInitializationStatus_deep; simp))
    (simp_all add: MetalStackFirewallDeploymentStatus_DeepCopyInto_def copy_unfolds case_prod_beta)

definition MetalStackFirewallDeployment_layout :: "'x foreign \<Rightarrow> ('x cell, 'x
    MetalStackFirewallDeployment_mem, TypeMeta \<times> MetalStackFirewallDeployment) layout" where
  "MetalStackFirewallDeployment_layout F = struct (\<lambda>s. (md_ObjectMeta s, md_Spec s, md_Status s))
     (\<lambda>s (a, b, c). (md_TypeMeta s, \<lparr>msfd_ObjectMeta = a, msfd_Spec = b, msfd_Status = c\<rparr>))
     (both (ObjectMeta_layout F) (both MetalStackFirewallDeploymentSpec_layout
         MetalStackFirewallDeploymentStatus_layout))"

lemma MetalStackFirewallDeployment_deep:
  "foreign_laws F \<Longrightarrow> deep_copies (MetalStackFirewallDeployment_layout F)
      (MetalStackFirewallDeployment_DeepCopyInto F)"
  unfolding MetalStackFirewallDeployment_layout_def
  by (rule deep_copies_struct [where f = "copy_both (ObjectMeta_DeepCopyInto F) (copy_both
      MetalStackFirewallDeploymentSpec_DeepCopyInto (MetalStackFirewallDeploymentStatus_DeepCopyInto F))"
       and put = "\<lambda>s (a, b, c). s\<lparr>md_ObjectMeta := a, md_Spec := b, md_Status := c\<rparr>"],
      (intro part_copies MetalStackFirewallDeploymentSpec_deep MetalStackFirewallDeploymentStatus_deep;
          simp))
    (simp_all add: MetalStackFirewallDeployment_DeepCopyInto_def copy_unfolds case_prod_beta)

definition MetalStackFirewallDeploymentList_layout :: "'x foreign \<Rightarrow> ('x cell, 'x
    MetalStackFirewallDeploymentList_mem, TypeMeta \<times> ListMeta \<times> (TypeMeta \<times>
    MetalStackFirewallDeployment) list option) layout" where
  "MetalStackFirewallDeploymentList_layout F = struct (\<lambda>s. (mdl_ListMeta s, mdl_Items s))
     (\<lambda>s (a, b). (mdl_TypeMeta s, a, b))
     (both (ListMeta_layout F) (slice deployments_in (MetalStackFirewallDeployment_layout F)))"

lemma MetalStackFirewallDeploymentList_deep:
  "foreign_laws F \<Longrightarrow> deep_copies (MetalStackFirewallDeploymentList_layout F)
      (MetalStackFirewallDeploymentList_DeepCopyInto F)"
  unfolding MetalStackFirewallDeploymentList_layout_def
  by (rule deep_copies_struct [where f = "copy_both (ListMeta_DeepCopyInto F) (copy_slice deployments_in
      DeploymentsCell (MetalStackFirewallDeployment_zero F) (MetalStackFirewallDeployment_DeepCopyInto F))"
       and put = "\<lambda>s (a, b). s\<lparr>mdl_ListMeta := a, mdl_Items := b\<rparr>"],
      (intro part_copies MetalStackFirewallDeployment_deep deep_copies_slice; simp))
    (simp_all add: MetalStackFirewallDeploymentList_DeepCopyInto_def copy_unfolds case_prod_beta)

definition MetalStackFirewallTemplate_layout :: "'x foreign \<Rightarrow> ('x cell, 'x
    MetalStackFirewallTemplate_mem, TypeMeta \<times> MetalStackFirewallTemplate) layout" where
  "MetalStackFirewallTemplate_layout F = struct (\<lambda>s. (mt_ObjectMeta s, mt_Spec s))
     (\<lambda>s (a, b). (mt_TypeMeta s, \<lparr>msft_ObjectMeta = a, msft_Spec = b\<rparr>))
     (both (ObjectMeta_layout F) (FirewallSpec_layout F))"

lemma MetalStackFirewallTemplate_deep:
  "foreign_laws F \<Longrightarrow> deep_copies (MetalStackFirewallTemplate_layout F)
      (MetalStackFirewallTemplate_DeepCopyInto F)"
  unfolding MetalStackFirewallTemplate_layout_def
  by (rule deep_copies_struct [where f = "copy_both (ObjectMeta_DeepCopyInto F) (FirewallSpec_DeepCopyInto
      F)"
       and put = "\<lambda>s (a, b). s\<lparr>mt_ObjectMeta := a, mt_Spec := b\<rparr>"],
      (intro part_copies; simp))
    (simp_all add: MetalStackFirewallTemplate_DeepCopyInto_def copy_unfolds case_prod_beta)

definition MetalStackFirewallTemplateList_layout :: "'x foreign \<Rightarrow> ('x cell, 'x
    MetalStackFirewallTemplateList_mem, TypeMeta \<times> ListMeta \<times> (TypeMeta \<times>
    MetalStackFirewallTemplate) list option) layout" where
  "MetalStackFirewallTemplateList_layout F = struct (\<lambda>s. (mtl_ListMeta s, mtl_Items s))
     (\<lambda>s (a, b). (mtl_TypeMeta s, a, b))
     (both (ListMeta_layout F) (slice templates_in (MetalStackFirewallTemplate_layout F)))"

lemma MetalStackFirewallTemplateList_deep:
  "foreign_laws F \<Longrightarrow> deep_copies (MetalStackFirewallTemplateList_layout F)
      (MetalStackFirewallTemplateList_DeepCopyInto F)"
  unfolding MetalStackFirewallTemplateList_layout_def
  by (rule deep_copies_struct [where f = "copy_both (ListMeta_DeepCopyInto F) (copy_slice templates_in
      TemplatesCell (MetalStackFirewallTemplate_zero F) (MetalStackFirewallTemplate_DeepCopyInto F))"
       and put = "\<lambda>s (a, b). s\<lparr>mtl_ListMeta := a, mtl_Items := b\<rparr>"],
      (intro part_copies MetalStackFirewallTemplate_deep deep_copies_slice; simp))
    (simp_all add: MetalStackFirewallTemplateList_DeepCopyInto_def copy_unfolds case_prod_beta)

section \<open>What a caller of DeepCopy gets\<close>

text \<open>A copy, together with what later writes can do to the two: writes to what was there before the
  call leave the copy alone, and writes to what is new leave the original alone.\<close>

definition apart :: "('c, 'v, 'a) layout \<Rightarrow> 'c heap \<Rightarrow> 'v \<Rightarrow> 'c heap \<Rightarrow> 'v \<Rightarrow> bool" where
  "apart T h v h' w \<longleftrightarrow>
     (\<forall>h2. agrees {..<length h} h' h2 \<longrightarrow> view T h2 v = view T h v) \<and>
     (\<forall>h2. agrees {length h..<length h'} h' h2 \<longrightarrow> view T h2 w = view T h v)"

lemma new_copy_apart:
  assumes "deep_copies T f" and "sound T h v"
  shows "\<exists>w h'. new_copy f (Some v) h = (Some (Some w), h') \<and> prefix h h' \<and> sound T h' w \<and>
    view T h' w = view T h v \<and> apart T h v h' w"
proof -
  have T: "local_layout T" using assms(1) by (simp add: deep_copies_def)
  from assms obtain w h' where f: "f v h = (Some w, h')" and c: "copied T h v h' w" by (rule deep_copiesE)
  from copied_apart [OF T assms(2) c] have "apart T h v h' w" by (simp add: apart_def)
  with f c show ?thesis by (simp add: new_copy_def copied_def exec)
qed

text \<open>C29. Every generated copy is a deep copy, for all ten kinds of objects and lists of objects the API
  registers, where the copies of the libraries' structs are: the copy has a well-typed memory,
  stands for the same value, field by field and item by item, and points only to memory that
  was allocated by the copy.\<close>

theorem deep_copies_all:
  assumes "foreign_laws F"
  shows "deep_copies (MetalStackCluster_layout F) (MetalStackCluster_DeepCopyInto F) \<and>
    deep_copies (MetalStackClusterList_layout F) (MetalStackClusterList_DeepCopyInto F) \<and>
    deep_copies (MetalStackMachine_layout F) (MetalStackMachine_DeepCopyInto F) \<and>
    deep_copies (MetalStackMachineList_layout F) (MetalStackMachineList_DeepCopyInto F) \<and>
    deep_copies (MetalStackMachineTemplate_layout F) (MetalStackMachineTemplate_DeepCopyInto F) \<and>
    deep_copies (MetalStackMachineTemplateList_layout F) (MetalStackMachineTemplateList_DeepCopyInto F) \<and>
    deep_copies (MetalStackFirewallDeployment_layout F) (MetalStackFirewallDeployment_DeepCopyInto F) \<and>
    deep_copies (MetalStackFirewallDeploymentList_layout F) (MetalStackFirewallDeploymentList_DeepCopyInto F) \<and>
    deep_copies (MetalStackFirewallTemplate_layout F) (MetalStackFirewallTemplate_DeepCopyInto F) \<and>
    deep_copies (MetalStackFirewallTemplateList_layout F) (MetalStackFirewallTemplateList_DeepCopyInto F)"
  using assms
  by (intro conjI MetalStackCluster_deep MetalStackClusterList_deep MetalStackMachine_deep
      MetalStackMachineList_deep MetalStackMachineTemplate_deep MetalStackMachineTemplateList_deep
      MetalStackFirewallDeployment_deep MetalStackFirewallDeploymentList_deep
      MetalStackFirewallTemplate_deep MetalStackFirewallTemplateList_deep)

text \<open>Objects of a list are safe to change: \<open>DeepCopyObject\<close> of a list of clusters, which is
  how a cache hands out what it keeps, returns a list of the same clusters, and no write to the
  one through any pointer changes the other. A nil list gives the nil object.\<close>

theorem list_DeepCopyObject_apart:
  assumes "foreign_laws F" and "sound (MetalStackClusterList_layout F) h items"
  shows "(\<exists>copy h'. MetalStackClusterList_DeepCopyObject F (Some items) h =
      (Some (Some (Object_MetalStackClusterList copy)), h') \<and>
      prefix h h' \<and> view (MetalStackClusterList_layout F) h' copy = view (MetalStackClusterList_layout F) h items \<and>
      apart (MetalStackClusterList_layout F) h items h' copy) \<and>
    MetalStackClusterList_DeepCopyObject F None h = (Some None, h)"
proof -
  from new_copy_apart [OF MetalStackClusterList_deep [OF assms(1)] assms(2)] obtain w h' where
    "new_copy (MetalStackClusterList_DeepCopyInto F) (Some items) h = (Some (Some w), h')" "prefix h h'"
    "view (MetalStackClusterList_layout F) h' w = view (MetalStackClusterList_layout F) h items"
    "apart (MetalStackClusterList_layout F) h items h' w" by blast
  then show ?thesis
    by (simp add: MetalStackClusterList_DeepCopyObject_def MetalStackClusterList_DeepCopy_def exec
        as_object_def) (simp add: new_copy_def exec)
qed

section \<open>A memory\<close>

text \<open>Libraries' structs of one pointer to a text.\<close>

definition text_layout :: "(string \<Rightarrow> 'a) \<Rightarrow> ('x cell, addr option, 'a) layout" where
  "text_layout value = struct (\<lambda>s. s) (\<lambda>s a. value (case a of None \<Rightarrow> [] | Some t \<Rightarrow> t)) (pointer string_in)"

definition foreign0 :: "addr option foreign" where
  "foreign0 =
     \<lparr>ObjectMeta_DeepCopyInto = copy_pointer (StringCell []),
      ObjectMeta_layout = text_layout (\<lambda>t. meta0\<lparr>Name := t\<rparr>), ObjectMeta_zero = None,
      ListMeta_DeepCopyInto = copy_pointer (StringCell []),
      ListMeta_layout = text_layout (\<lambda>t. \<lparr>lmResourceVersion = t, lmContinue = [], lmRemainingItemCount = None\<rparr>),
      FirewallSpec_DeepCopyInto = copy_pointer (StringCell []),
      FirewallSpec_layout = text_layout (\<lambda>t. (msft_Spec msft0)\<lparr>fwSize := t\<rparr>), FirewallSpec_zero = None,
      Condition_DeepCopyInto = ret\<rparr>"

lemma text_deep: "deep_copies (text_layout value) (copy_pointer (StringCell []))"
  unfolding text_layout_def
  by (rule deep_copies_struct [where f = "copy_pointer (StringCell [])" and put = "\<lambda>s a. a"],
      rule deep_copies_pointer) (simp_all add: bnd_def ret_def split: prod.split option.split)

lemma foreign0_laws: "foreign_laws foreign0"
  unfolding foreign_laws_def foreign0_def foreign.simps
  by (intro conjI text_deep deep_copies_plain)

definition heap0 :: "addr option cell heap" where
  "heap0 = [StringCell ''c1'', StringCell ''net1'', ConditionsCell [],
     ClustersCell [(MetalStackCluster_zero foreign0)\<lparr>mc_ObjectMeta := Some 0,
       mc_Spec := (mc_Spec (MetalStackCluster_zero foreign0))\<lparr>mcs_NodeNetworkID := Some 1\<rparr>,
       mc_Status := (mc_Status (MetalStackCluster_zero foreign0))\<lparr>mct_Conditions := Some 2\<rparr>\<rparr>]]"

definition list0 :: "addr option MetalStackClusterList_mem" where
  "list0 = \<lparr>mcl_TypeMeta = no_type, mcl_ListMeta = None, mcl_Items = Some 3\<rparr>"

lemmas layout_defs = MetalStackClusterList_layout_def MetalStackCluster_layout_def
  MetalStackClusterSpec_layout_def MetalStackClusterStatus_layout_def
  MetalStackClusterInitializationStatus_layout_def conditions_layout_def struct_def both_def slice_def
  pointer_def plain_def text_layout_def elements_def

lemma list0_sound: "sound (MetalStackClusterList_layout foreign0) heap0 list0"
  by (simp add: layout_defs list0_def heap0_def foreign0_def MetalStackCluster_zero_def)

theorem deep_copies_all_witness:
  "\<exists>w h'. MetalStackClusterList_DeepCopyInto foreign0 list0 heap0 = (Some w, h') \<and>
     copied (MetalStackClusterList_layout foreign0) heap0 list0 h' w"
proof -
  from deep_copies_all [OF foreign0_laws]
  have "deep_copies (MetalStackClusterList_layout foreign0) (MetalStackClusterList_DeepCopyInto foreign0)"
    by blast
  then show ?thesis using list0_sound unfolding deep_copies_def by blast
qed

theorem list_DeepCopyObject_apart_witness:
  "\<exists>copy h' ic. MetalStackClusterList_DeepCopyObject foreign0 (Some list0) heap0 =
       (Some (Some (Object_MetalStackClusterList copy)), h') \<and>
     view (MetalStackClusterList_layout foreign0) h' copy =
       (no_type, \<lparr>lmResourceVersion = [], lmContinue = [], lmRemainingItemCount = None\<rparr>, Some [(no_type, ic)]) \<and>
     NodeNetworkID (msc_Spec ic) = Some ''net1''"
proof -
  have v: "\<exists>ic. view (MetalStackClusterList_layout foreign0) heap0 list0 =
       (no_type, \<lparr>lmResourceVersion = [], lmContinue = [], lmRemainingItemCount = None\<rparr>, Some [(no_type, ic)]) \<and>
     NodeNetworkID (msc_Spec ic) = Some ''net1''"
    by (simp add: layout_defs list0_def heap0_def foreign0_def MetalStackCluster_zero_def)
  from list_DeepCopyObject_apart [OF foreign0_laws list0_sound] obtain copy h' where
    "MetalStackClusterList_DeepCopyObject foreign0 (Some list0) heap0 =
      (Some (Some (Object_MetalStackClusterList copy)), h')"
    "view (MetalStackClusterList_layout foreign0) h' copy = view (MetalStackClusterList_layout foreign0) heap0 list0"
    by blast
  with v show ?thesis by auto
qed

end
