(* ===== verification/Spec2Isabelle.thy ===== *)
theory Spec2Isabelle
  imports ClusterProperties MachineProperties FirewallProperties WatchProperties Lifecycle System
    Progress Bounds Returns ManagerProperties DeepCopyProperties
begin

text \<open>
  A model of \<open>cluster-api-provider-metal-stack\<close>, the Cluster API infrastructure provider for
  metal-stack. All paths are relative to \<open>src/\<close>.

  \<^bold>\<open>The program.\<close> Three controllers watch objects of a Kubernetes API server and call the
  metal-stack API until the two agree.

  \<^item> The \<^emph>\<open>MetalStackCluster\<close> controller
    (\<open>internal/controller/metalstackcluster_controller.go\<close>) acquires the node network and the
    control plane IP of a cluster and takes ownership of its firewall deployment. When the
    cluster is deleted it waits until no machine of the cluster is left, deletes the firewall
    deployment, waits for its end, and releases the IP and the network.
  \<^item> The \<^emph>\<open>MetalStackMachine\<close> controller (\<open>metalstackmachine_controller.go\<close>) allocates one
    machine per object, in the network of the cluster, and remembers it as provider ID. When
    the object is deleted the machine is freed.
  \<^item> The \<^emph>\<open>MetalStackFirewallDeployment\<close> controller
    (\<open>metalstackfirewalldeployment_controller.go\<close>) allocates the firewall of a cluster from a
    MetalStackFirewallTemplate and frees it, found by its tags, when the deployment is deleted.

  The controllers share no memory: they interact through the objects of the API server, each
  reads what the others write (the node network ID and the endpoint of the cluster, the
  reference to the firewall deployment, the machines), and through the metal-stack API.
  Finalizers hold an object until its controller has released what the object stands for.
  \<open>cmd/main.go\<close> parses the flags, builds the client and a manager and registers the three; the
  types of \<open>api/v1alpha1\<close> come with generated deep copies, by which caches hand out objects.

  \<^bold>\<open>The model.\<close> A Go method is a program in the monad of \<open>Prelude\<close>: from a state to a result
  and a state, where the result \<open>None\<close> is a panic (every nil dereference of the source is a
  branch), a returned error is a value, and the state is a history of calls with the receiver
  of the method. The receiver is the reconciler struct of the source with the objects its
  pointers lead to. A deferred patch runs on every way out but a panic. Every call of a
  service is an event of the history with its arguments and its answer. The answer is a
  function of the history, so a theorem quantifies over every server and every other actor.
  What is \<^emph>\<open>in\<close> the history (in which order, how often, guarded by what) is what most
  theorems are about. The start of the process is in the same monad, with the calls of libraries
  as its log and the exit code as its result, and so are the deep copies, with a heap as state.

  \<^bold>\<open>Theories and sources.\<close>

  \<^item> \<open>Prelude\<close>: the Go fragment (nil dereference, early return, \<open>fmt.Errorf\<close>,
    \<open>errors.Join\<close>, \<open>errors.As\<close>, \<open>%q\<close>), the weakest preconditions and their collections
    \<open>exec\<close>, \<open>wp_simps\<close> and \<open>emits_intros\<close>.
  \<^item> \<open>Types\<close>: \<open>api/v1alpha1/*_types.go\<close> as records, one per struct, and the parts of Cluster
    API's and metal-stack's types the program reads or writes.
  \<^item> \<open>External\<close>: the library functions (\<open>lib\<close>), the services (\<open>env\<close>), the calls.
  \<^item> \<open>Owners\<close>: \<open>util/owners.go\<close>.
  \<^item> \<open>ProviderID\<close>: \<open>encodeProviderID\<close>, \<open>decodeProviderID\<close>.
  \<^item> \<open>Reconciler\<close>: \<open>constants.go\<close> and what the three \<open>Reconcile\<close> functions have in common.
  \<^item> \<open>ClusterController\<close>, \<open>MachineController\<close>, \<open>FirewallController\<close>: the three controllers,
    one definition per method with the name of the method (with the component's name in
    front where two controllers have a method of that name, e.g. \<open>cluster_reconcile\<close>), long
    methods cut into the parts between their comments.
  \<^item> \<open>Watches\<close>: the map functions the controllers register and the index of deployments by
    template.
  \<^item> \<open>Manager\<close>: \<open>cmd/main.go\<close>, the \<open>SetupWithManager\<close> methods and the types registered with
    the scheme.
  \<^item> \<open>Memory\<close> and \<open>DeepCopy\<close>: \<open>api/v1alpha1/zz_generated.deepcopy.go\<close>, over a heap, with the
    structs as they lie in memory (\<open><Type>_mem\<close>), type metadata and list types included.
  \<^item> \<open>Lifetime\<close>: whole lives of one object, i.e. sequences of runs, of runs whose patch is lost,
    and of edits by others, with the calls and a log of the edits. \<open>System\<close>: a cluster with its machines and its firewall deployment,
    worked on by the three controllers and by others.
  \<^item> \<open>Examples\<close>: concrete objects and services, only for the witnesses.

  \<^bold>\<open>Contracts.\<close> The locales state what one part relies on, the interpretations discharge it
  for the definitions of the model.

  \<^item> \<open>machines_gate\<close>: the check, of the cluster and of the firewall deployment controller,
    that no machine is left; \<open>switch\<close> and \<open>reconciler\<close>: the decision between skipping,
    deleting, adding the finalizer and reconciling, of all three, and what a whole dispatch
    appends to the history.
  \<^item> \<open>provider_id\<close>: an encoding and its decoder, for provider IDs (\<open>machine_id\<close>) and for the
    managed resource of a deployment (\<open>firewall_id\<close>).
  \<^item> \<open>list_watch\<close>: a map function that lists objects and enqueues one request for each.
  \<^item> \<open>kept\<close> and \<open>accounting\<close>: an invariant of the stored object that only edits can end, and a
    balance between what the object records and what calls and edits acquired and released,
    each lifted from the runs of a controller to lives; \<open>simulation\<close>: an abstract life cycle that
    runs and allowed edits refine.

  \<^bold>\<open>Properties.\<close>

  \<^item> \<open>LifetimeProperties\<close> is about lives. For machines and node networks the books balance over any
    life and any edits: what the object is born with, what was allocated and what others entered
    is what it names in the end, what was freed (for a machine: what was allocated without an ID,
    which nothing can name) and what others took out, up to one more per lost run and with
    equality when no run was lost (\<open>machine_allocation_lost\<close> has a run that is lost). A deployment
    whose managed resource nobody else writes gets at most one firewall. The controller never
    leaves a network without the finalizer; only others do, and the next run repairs it.
  \<^item> \<open>Lifecycle\<close>: each object's life refines an abstract life cycle of a few states. Here others
    leave the facts of the abstract state alone, but for the deletion of a cluster, which has no
    way back and is the only state in which a network is given up; the properties spell out what
    a life can therefore not do. A machine object never changes the machine it stands for.
  \<^item> \<open>System\<close>: the order of deletions across controllers. A network is released only when no
    machine and no firewall deployment of the cluster is left, machines with a provider ID are
    in a cluster with a network, a deployment with a firewall can be deleted. A step of the
    system is one whole run on the stored objects; a list call answers with the stored objects
    that match (\<open>serves\<close>), the labels a machine run writes are not the cluster label
    (\<open>label_laws\<close>), a new cluster has no network, and nobody else writes a cluster's network or
    takes its finalizer off.
  \<^item> \<open>Progress\<close>: where a deletion in such a system moves on and where it is stuck. With services
    that answer truly, 404 for what is gone, and let things be freed (\<open>willing\<close>), one run of the
    right controller takes it to the next stage, but for two nil pointers (a cluster without
    reference to a deployment, a deployment whose cluster has no network) that make every run
    panic. The statement is about the dispatch, i.e. runs whose lookups found the owner, the
    cluster and, for a deployment, the template: without the template a deployment is never
    worked on.
  \<^item> \<open>ClusterProperties\<close>, \<open>MachineProperties\<close>, \<open>FirewallProperties\<close>: for each
    controller what guards its metal-stack calls, what a successful and what a failing run
    leave in the object, what a deletion must have seen and done before it takes the finalizer
    off, and where the code panics or drops an error.
  \<^item> \<open>WatchProperties\<close>: which objects a change enqueues, against a server that answers a list
    call with the objects that match, and the owner lookup.
  \<^item> \<open>Bounds\<close>: how many calls a run can make and when it asks to be repeated. \<open>Returns\<close>: that
    every run returns where the pointers it does not check are set, and exactly which nil
    pointers make a deletion panic.
  \<^item> \<open>ManagerProperties\<close>: the start equals a plan of steps, a manager that runs is complete,
    registrations fit the map functions, what a controller reads triggers it; one watch is dead.
  \<^item> \<open>DeepCopyProperties\<close>: a copy stands for the same value and shares no memory.

  \<^bold>\<open>Assumed of libraries.\<close> Only what a theorem names: \<open>conditions_laws\<close> (setting a
  condition), \<open>finalizer_laws\<close>, \<open>owner_laws\<close> (setting and finding an owner reference),
  \<open>pointer_laws\<close> (the default of a nil pointer), \<open>not_found_laws\<close> (nil is no error),
  \<open>machine_answers\<close> (a lookup by ID answers with that ID), \<open>complete_answers\<close> (what is allocated
  has an ID), \<open>foreign_errors\<close> (no answer of the API is an error variable of the controller), \<open>foreign_laws\<close> (the copies of the libraries' structs are deep copies), and that the
  predicate \<open>ClusterUnpaused\<close> accepts only Clusters. The witnesses satisfy all of them.

  \<^bold>\<open>Loops.\<close> The loops of the source run over lists and are structural recursions, so no fuel
  is needed; every program ends, and \<open>Returns\<close> says when it ends without a panic.

  \<^bold>\<open>Not modelled.\<close> Logging other than the errors of a start, contexts (cancellation is an error
  of a call), resource versions and the staleness of caches (an answer may be any object, but the
  steps of \<open>System\<close> read what is stored), the transition time of conditions, nil elements and nil
  payloads in answers of the API, \<open>%q\<close> beyond printable ASCII. Predicates of Cluster API are
  only named. In \<open>DeepCopy\<close> the struct to fill is never the one that is copied, a slice is one
  cell with its elements, and its capacity is left out. Tests, manifests and lab scripts are left
  aside.

  \<^bold>\<open>Plan.\<close> Still to come: the stages of \<open>Progress\<close> composed to a bound on the runs a whole
  deletion takes; the delivery of events through predicates and queues, with the map functions,
  to runs; the system with runs that are lost or interleaved.
\<close>

end
